(* ===== verification/Prelude.thy ===== *)
theory Prelude
  imports Main "HOL-Library.AList" "HOL-Library.Multiset"
begin

text \<open>
  The vocabulary shared by every theory of the development: Go error values and their
  chains, Go maps as association lists, integer wrap-around, and the generic list lemmas
  the component proofs use.

  A Go error is a value of type \<^typ>\<open>'a\<close> only through its chain: \<open>errors.Is\<close> asks whether
  a sentinel occurs in the chain that \<open>%w\<close> builds, and \<open>Error()\<close> renders the text.
\<close>

section \<open>Collections of facts\<close>

named_theorems status_simps \<open>distinctness of the status, type and decision constants\<close>
named_theorems io_simps \<open>unfolding of the state and error monad\<close>
named_theorems db_defs \<open>definitions of the repository operations\<close>
named_theorems guard_defs \<open>definitions of guards and small helpers\<close>

section \<open>Error values\<close>

text \<open>
  The sentinel errors of the program: the six of \<open>internal/workflow/model.go\<close>, those of
  the packages it calls that the program itself tests for, and \<open>sql.ErrNoRows\<close>.
\<close>

datatype sentinel =
    ErrInvalid
  | ErrActorRequired
  | ErrNotFound
  | ErrConflict
  | ErrVersionConflict
  | ErrForbidden
  | ErrNotGranted
  | ErrUnavailable
  | ErrNoRows
  | ErrCanceled
  | ErrDeadlineExceeded

text \<open>
  \<open>Opaque m\<close> is an error of any other origin with message \<open>m\<close>; \<open>Wrapf pre e post\<close> is
  \<open>fmt.Errorf(pre + "%w" + post, e)\<close>. \<open>AppErr m t\<close> is Temporal's non-retryable application
  error with message \<open>m\<close> and type \<open>t\<close>; its text is taken to be the message, to which the library adds
  the type.
\<close>

datatype goerr =
    Sentinel sentinel
  | Opaque string
  | AppErr string string
  | Wrapf string goerr string

primrec sentinelText :: "sentinel \<Rightarrow> string" where
  "sentinelText ErrInvalid = ''invalid workflow request''"
| "sentinelText ErrActorRequired = ''authenticated actor is required''"
| "sentinelText ErrNotFound = ''workflow resource not found''"
| "sentinelText ErrConflict = ''workflow resource conflict''"
| "sentinelText ErrVersionConflict = ''workflow resource version conflict''"
| "sentinelText ErrForbidden = ''workflow operation is forbidden''"
| "sentinelText ErrNotGranted = ''application access is not granted''"
| "sentinelText ErrUnavailable = ''application access is unavailable''"
| "sentinelText ErrNoRows = ''sql: no rows in result set''"
| "sentinelText ErrCanceled = ''context canceled''"
| "sentinelText ErrDeadlineExceeded = ''context deadline exceeded''"

primrec errorText :: "goerr \<Rightarrow> string" where
  "errorText (Sentinel s) = sentinelText s"
| "errorText (Opaque m) = m"
| "errorText (AppErr m t) = m"
| "errorText (Wrapf pre e post) = pre @ errorText e @ post"

primrec errorsIs :: "goerr \<Rightarrow> sentinel \<Rightarrow> bool" where
  "errorsIs (Sentinel s) t = (s = t)"
| "errorsIs (Opaque m) t = False"
| "errorsIs (AppErr m k) t = False"
| "errorsIs (Wrapf pre e post) t = errorsIs e t"

text \<open>An error chain of this program holds at most one sentinel.\<close>

lemma errorsIs_unique: "errorsIs e s \<Longrightarrow> errorsIs e t \<Longrightarrow> s = t"
  by (induction e) auto

type_synonym 'a result = "goerr + 'a"

definition isOk :: "'a result \<Rightarrow> bool" where
  "isOk r = (case r of Inl e \<Rightarrow> False | Inr x \<Rightarrow> True)"

lemma isOk_simps [simp]: "\<not> isOk (Inl e)" "isOk (Inr x)"
  by (simp_all add: isOk_def)

lemma isOk_iff: "isOk r \<longleftrightarrow> (\<exists>x. r = Inr x)"
  by (cases r) auto

text \<open>\<open>if err != nil { return err }\<close>: continue with the value, or return the error.\<close>

definition bindR :: "'a result \<Rightarrow> ('a \<Rightarrow> 'b result) \<Rightarrow> 'b result" where
  "bindR r k = (case r of Inl e \<Rightarrow> Inl e | Inr x \<Rightarrow> k x)"

lemma bindR_simps [simp]: "bindR (Inl e) k = Inl e" "bindR (Inr x) k = k x"
  by (simp_all add: bindR_def)

lemma bindR_Inr_iff: "bindR r k = Inr y \<longleftrightarrow> (\<exists>x. r = Inr x \<and> k x = Inr y)"
  by (cases r) auto

text \<open>\<open>if cond { return err }\<close>.\<close>

definition failIf :: "bool \<Rightarrow> goerr \<Rightarrow> unit result" where
  "failIf b e = (if b then Inl e else Inr ())"

lemma failIf_Inr_iff [simp]: "failIf b e = Inr u \<longleftrightarrow> \<not> b"
  by (simp add: failIf_def)

lemma unit_result_cases: "(r :: unit result) = Inr () \<or> (\<exists>e. r = Inl e)"
  by (cases r) auto

section \<open>Go maps\<close>

text \<open>
  A Go map is an association list with distinct keys; assigning a key overwrites it in
  place or appends it. Go leaves the order of \<open>range\<close> over a map open: the model ranges in
  insertion order, and what is proved of such a loop does not depend on the order.
\<close>

type_synonym ('k, 'v) gomap = "('k \<times> 'v) list"

definition mapGet :: "('k, 'v) gomap \<Rightarrow> 'k \<Rightarrow> 'v option" where
  "mapGet m k = map_of m k"

definition mapGetD :: "'v \<Rightarrow> ('k, 'v) gomap \<Rightarrow> 'k \<Rightarrow> 'v" where
  "mapGetD d m k = (case map_of m k of None \<Rightarrow> d | Some v \<Rightarrow> v)"

definition mapSet :: "'k \<Rightarrow> 'v \<Rightarrow> ('k, 'v) gomap \<Rightarrow> ('k, 'v) gomap" where
  "mapSet k v m = AList.update k v m"

definition mapKeys :: "('k, 'v) gomap \<Rightarrow> 'k list" where
  "mapKeys m = map fst m"

lemma mapGet_simps [simp]:
  "mapGet [] k = None"
  "mapGet ((k', v) # m) k = (if k = k' then Some v else mapGet m k)"
  by (auto simp: mapGet_def)

lemma mapGet_mapSet: "mapGet (mapSet k v m) k' = (if k' = k then Some v else mapGet m k')"
  by (simp add: mapGet_def mapSet_def update_conv)

lemma mapGet_mapSet_same [simp]: "mapGet (mapSet k v m) k = Some v"
  by (simp add: mapGet_mapSet)

lemma mapGet_mapSet_other [simp]: "k' \<noteq> k \<Longrightarrow> mapGet (mapSet k v m) k' = mapGet m k'"
  by (simp add: mapGet_mapSet)

lemma mapGetD_mapSet: "mapGetD d (mapSet k v m) k' = (if k' = k then v else mapGetD d m k')"
  by (simp add: mapGetD_def mapSet_def update_conv)

lemma mapGetD_Nil [simp]: "mapGetD d [] k = d"
  by (simp add: mapGetD_def)

lemma mapSet_fresh: "k \<notin> set (mapKeys m) \<Longrightarrow> mapSet k v m = m @ [(k, v)]"
  by (induction m) (auto simp: mapSet_def mapKeys_def)

lemma distinct_mapSet: "distinct (mapKeys m) \<Longrightarrow> distinct (mapKeys (mapSet k v m))"
  unfolding mapKeys_def mapSet_def by (rule distinct_update)

lemma set_mapKeys_mapSet: "set (mapKeys (mapSet k v m)) = insert k (set (mapKeys m))"
  by (simp add: mapKeys_def mapSet_def dom_update)

lemma mapGet_None_iff: "mapGet m k = None \<longleftrightarrow> k \<notin> set (mapKeys m)"
  by (simp add: mapGet_def mapKeys_def map_of_eq_None_iff)

lemma mapGet_Some_iff:
  "distinct (mapKeys m) \<Longrightarrow> mapGet m k = Some v \<longleftrightarrow> (k, v) \<in> set m"
  by (simp add: mapGet_def mapKeys_def map_of_eq_Some_iff)

section \<open>Machine integers\<close>

text \<open>Go's \<open>int\<close> and \<open>int64\<close> wrap around modulo \<open>2^64\<close> into the signed range.\<close>

definition wrap64 :: "int \<Rightarrow> int" where
  "wrap64 x = (x + 2 ^ 63) mod 2 ^ 64 - 2 ^ 63"

lemma wrap64_id: "- (2 ^ 63) \<le> x \<Longrightarrow> x < 2 ^ 63 \<Longrightarrow> wrap64 x = x"
  by (simp add: wrap64_def mod_pos_pos_trivial)

lemma wrap64_range: "- (2 ^ 63) \<le> wrap64 x \<and> wrap64 x < 2 ^ 63"
  by (simp add: wrap64_def)

section \<open>Lists\<close>

text \<open>SQL's \<open>UPDATE\<close>: the rows with \<open>P\<close> are changed by \<open>f\<close>.\<close>

definition updateWhere :: "('r \<Rightarrow> bool) \<Rightarrow> ('r \<Rightarrow> 'r) \<Rightarrow> 'r list \<Rightarrow> 'r list" where
  "updateWhere P f rs = map (\<lambda>r. if P r then f r else r) rs"

lemma length_updateWhere [simp]: "length (updateWhere P f rs) = length rs"
  by (simp add: updateWhere_def)

lemma updateWhere_key:
  "(\<And>r. key (f r) = key r) \<Longrightarrow> map key (updateWhere P f rs) = map key rs"
  by (simp add: updateWhere_def)

lemma updateWhere_none: "(\<And>r. r \<in> set rs \<Longrightarrow> \<not> P r) \<Longrightarrow> updateWhere P f rs = rs"
  by (simp add: updateWhere_def map_idI)

lemma set_updateWhere: "set (updateWhere P f rs) = (\<lambda>r. if P r then f r else r) ` set rs"
  by (simp add: updateWhere_def)

lemma filter_unique:
  assumes "distinct (map key rs)" and "r \<in> set rs" and "P r"
    and eq: "\<And>s. s \<in> set rs \<Longrightarrow> P s \<Longrightarrow> key s = key r"
  shows "filter P rs = [r]"
proof -
  obtain xs ys where rs: "rs = xs @ r # ys" using assms(2) by (meson split_list)
  have "\<not> P s" if "s \<in> set xs \<union> set ys" for s
  proof
    assume "P s"
    with that rs eq have "key s = key r" by auto
    then have "key r \<in> key ` (set xs \<union> set ys)" using that by (metis imageI)
    with assms(1) rs show False by auto
  qed
  then have "filter P xs = []" and "filter P ys = []"
    by (simp_all add: filter_empty_conv)
  with rs assms(3) show ?thesis by simp
qed

lemma find_Some_in: "find P rs = Some r \<Longrightarrow> r \<in> set rs \<and> P r"
  by (auto simp: find_Some_iff)

lemma find_map_update:
  assumes "find P rs = Some r" and "\<And>s. P (f s) = P s"
  shows "find P (updateWhere Q f rs) = Some (if Q r then f r else r)"
  using assms by (induction rs) (auto simp: updateWhere_def split: if_splits)

lemma find_unique:
  assumes "distinct (map key rs)" and "r \<in> set rs" and "P r"
    and "\<And>s. s \<in> set rs \<Longrightarrow> P s \<Longrightarrow> key s = key r"
  shows "find P rs = Some r"
proof -
  obtain r' where r': "find P rs = Some r'"
    using assms(2,3) by (metis find_None_iff not_None_eq)
  then have "r' \<in> set rs" "P r'" by (auto dest: find_Some_in)
  with assms have "r' = r" by (meson distinct_map inj_onD)
  with r' show ?thesis by simp
qed

end
