(* ===== verification/Go_Strings.thy ===== *)
theory Go_Strings
  imports Prelude
begin

text \<open>
  What the sources use of Go's \<open>strings\<close>, \<open>regexp\<close> and \<open>strconv\<close>. A Go string is a
  sequence of bytes, as \<^typ>\<open>string\<close> is a list of 8-bit characters. The regular expressions
  of the sources are anchored character-class patterns, so each is a predicate on the bytes.
\<close>

section \<open>Character classes\<close>

definition byte :: "char \<Rightarrow> nat" where
  "byte c = of_char c"

definition isLower :: "char \<Rightarrow> bool" where
  "isLower c \<longleftrightarrow> 97 \<le> byte c \<and> byte c \<le> 122"

definition isUpper :: "char \<Rightarrow> bool" where
  "isUpper c \<longleftrightarrow> 65 \<le> byte c \<and> byte c \<le> 90"

definition isDigit :: "char \<Rightarrow> bool" where
  "isDigit c \<longleftrightarrow> 48 \<le> byte c \<and> byte c \<le> 57"

definition isAlpha :: "char \<Rightarrow> bool" where
  "isAlpha c \<longleftrightarrow> isLower c \<or> isUpper c"

lemmas char_class_defs = byte_def isLower_def isUpper_def isDigit_def isAlpha_def

section \<open>Patterns of the sources\<close>

text \<open>\<open>identifierPattern\<close>, \<^verbatim>\<open>^[a-z][a-z0-9_.-]{0,127}$\<close>, of \<open>graph.go\<close>.\<close>

definition identChar :: "char \<Rightarrow> bool" where
  "identChar c \<longleftrightarrow> isLower c \<or> isDigit c \<or> c \<in> {CHR ''_'', CHR ''.'', CHR ''-''}"

definition identifierPattern :: "string \<Rightarrow> bool" where
  "identifierPattern s =
     (case s of [] \<Rightarrow> False
      | c # cs \<Rightarrow> isLower c \<and> length cs \<le> 127 \<and> list_all identChar cs)"

text \<open>
  \<open>fullMethodPattern\<close>, \<^verbatim>\<open>^/[A-Za-z][A-Za-z0-9_.]*/[A-Za-z][A-Za-z0-9_]*$\<close>: the slash is in
  neither class, so the second slash is the first byte after the service name.
\<close>

definition serviceChar :: "char \<Rightarrow> bool" where
  "serviceChar c \<longleftrightarrow> isAlpha c \<or> isDigit c \<or> c \<in> {CHR ''_'', CHR ''.''}"

definition rpcChar :: "char \<Rightarrow> bool" where
  "rpcChar c \<longleftrightarrow> isAlpha c \<or> isDigit c \<or> c = CHR ''_''"

definition rpcName :: "string \<Rightarrow> bool" where
  "rpcName s = (case s of [] \<Rightarrow> False | c # cs \<Rightarrow> isAlpha c \<and> list_all rpcChar cs)"

definition fullMethodPattern :: "string \<Rightarrow> bool" where
  "fullMethodPattern s =
     (case s of c # d # r \<Rightarrow>
        c = CHR ''/'' \<and> isAlpha d \<and>
        (case dropWhile serviceChar r of
           e # m \<Rightarrow> e = CHR ''/'' \<and> rpcName m
         | [] \<Rightarrow> False)
      | _ \<Rightarrow> False)"

text \<open>\<open>idempotencyPattern\<close>, \<^verbatim>\<open>^[A-Za-z0-9._:-]{8,128}$\<close>, of \<open>service.go\<close>.\<close>

definition idempotencyChar :: "char \<Rightarrow> bool" where
  "idempotencyChar c \<longleftrightarrow>
     isAlpha c \<or> isDigit c \<or> c \<in> {CHR ''.'', CHR ''_'', CHR '':'', CHR ''-''}"

definition idempotencyPattern :: "string \<Rightarrow> bool" where
  "idempotencyPattern s \<longleftrightarrow> 8 \<le> length s \<and> length s \<le> 128 \<and> list_all idempotencyChar s"

lemmas pattern_defs =
  char_class_defs identChar_def identifierPattern_def serviceChar_def rpcChar_def
  rpcName_def fullMethodPattern_def idempotencyChar_def idempotencyPattern_def

lemma identifierPattern_nonempty: "identifierPattern s \<Longrightarrow> s \<noteq> []"
  by (auto simp: identifierPattern_def)

lemma identifierPattern_chars:
  "identifierPattern s \<Longrightarrow> c \<in> set s \<Longrightarrow> identChar c"
  by (auto simp: identifierPattern_def identChar_def list_all_iff split: list.splits)

lemma identChar_printable: "identChar c \<Longrightarrow> 45 \<le> byte c \<and> byte c < 123"
  by (auto simp: identChar_def char_class_defs)

lemma identifierPattern_length: "identifierPattern s \<Longrightarrow> length s \<le> 128"
  by (auto simp: identifierPattern_def split: list.splits)

section \<open>Trimming\<close>

text \<open>
  \<open>strings.TrimSpace\<close> removes leading and trailing Unicode white space. \<open>spacePrefix s\<close> is
  the number of bytes of the white-space rune at the start of \<open>s\<close>, 0 when there is none:
  the ASCII ones, U+0085 and U+00A0 (two bytes), and the three-byte ones U+1680, U+2000 to
  U+200A, U+2028, U+2029, U+202F, U+205F and U+3000.
\<close>

definition asciiSpace :: "char \<Rightarrow> bool" where
  "asciiSpace c \<longleftrightarrow> byte c = 32 \<or> (9 \<le> byte c \<and> byte c \<le> 13)"

definition twoByteSpace :: "char \<Rightarrow> char \<Rightarrow> bool" where
  "twoByteSpace a b \<longleftrightarrow> byte a = 194 \<and> (byte b = 133 \<or> byte b = 160)"

definition threeByteSpace :: "char \<Rightarrow> char \<Rightarrow> char \<Rightarrow> bool" where
  "threeByteSpace a b c \<longleftrightarrow>
     (byte a = 225 \<and> byte b = 154 \<and> byte c = 128) \<or>
     (byte a = 226 \<and> byte b = 128 \<and>
        ((128 \<le> byte c \<and> byte c \<le> 138) \<or> byte c \<in> {168, 169, 175})) \<or>
     (byte a = 226 \<and> byte b = 129 \<and> byte c = 159) \<or>
     (byte a = 227 \<and> byte b = 128 \<and> byte c = 128)"

fun spacePrefix :: "string \<Rightarrow> nat" where
  "spacePrefix [] = 0"
| "spacePrefix [a] = (if asciiSpace a then 1 else 0)"
| "spacePrefix [a, b] = (if asciiSpace a then 1 else if twoByteSpace a b then 2 else 0)"
| "spacePrefix (a # b # c # r) =
     (if asciiSpace a then 1 else if twoByteSpace a b then 2
      else if threeByteSpace a b c then 3 else 0)"

text \<open>The same test at the end of a string, on the reversed bytes.\<close>

fun spaceSuffix :: "string \<Rightarrow> nat" where
  "spaceSuffix [] = 0"
| "spaceSuffix [a] = (if asciiSpace a then 1 else 0)"
| "spaceSuffix [b, a] = (if asciiSpace b then 1 else if twoByteSpace a b then 2 else 0)"
| "spaceSuffix (c # b # a # r) =
     (if asciiSpace c then 1 else if twoByteSpace b c then 2
      else if threeByteSpace a b c then 3 else 0)"

function trimLeft :: "string \<Rightarrow> string" where
  "trimLeft s = (if spacePrefix s = 0 then s else trimLeft (drop (spacePrefix s) s))"
  by pat_completeness auto
termination
proof (relation "measure length")
  fix s :: string
  assume "spacePrefix s \<noteq> 0"
  then have "s \<noteq> []" by auto
  with \<open>spacePrefix s \<noteq> 0\<close>
  show "(drop (spacePrefix s) s, s) \<in> measure length" by simp
qed simp

function trimRightRev :: "string \<Rightarrow> string" where
  "trimRightRev s = (if spaceSuffix s = 0 then s else trimRightRev (drop (spaceSuffix s) s))"
  by pat_completeness auto
termination
proof (relation "measure length")
  fix s :: string
  assume "spaceSuffix s \<noteq> 0"
  then have "s \<noteq> []" by auto
  with \<open>spaceSuffix s \<noteq> 0\<close>
  show "(drop (spaceSuffix s) s, s) \<in> measure length" by simp
qed simp

declare trimLeft.simps [simp del] trimRightRev.simps [simp del]

definition TrimSpace :: "string \<Rightarrow> string" where
  "TrimSpace s = rev (trimRightRev (rev (trimLeft s)))"

lemma trimLeft_id: "spacePrefix s = 0 \<Longrightarrow> trimLeft s = s"
  by (simp add: trimLeft.simps [of s])

lemma trimRightRev_id: "spaceSuffix s = 0 \<Longrightarrow> trimRightRev s = s"
  by (simp add: trimRightRev.simps [of s])

lemma spacePrefix_trimLeft: "spacePrefix (trimLeft s) = 0"
proof (induction s rule: trimLeft.induct)
  case (1 s)
  then show ?case by (cases "spacePrefix s = 0") (simp_all add: trimLeft.simps [of s])
qed

lemma spaceSuffix_trimRightRev: "spaceSuffix (trimRightRev s) = 0"
proof (induction s rule: trimRightRev.induct)
  case (1 s)
  then show ?case by (cases "spaceSuffix s = 0") (simp_all add: trimRightRev.simps [of s])
qed

lemma trimRightRev_suffix: "\<exists>p. s = p @ trimRightRev s"
proof (induction s rule: trimRightRev.induct)
  case (1 s)
  show ?case
  proof (cases "spaceSuffix s = 0")
    case True
    then show ?thesis by (simp add: trimRightRev_id)
  next
    case False
    with 1 obtain p where "drop (spaceSuffix s) s = p @ trimRightRev (drop (spaceSuffix s) s)"
      by blast
    then have "s = (take (spaceSuffix s) s @ p) @ trimRightRev (drop (spaceSuffix s) s)"
      by (metis append.assoc append_take_drop_id)
    with False show ?thesis by (metis trimRightRev.simps)
  qed
qed

lemma spacePrefix_append: "spacePrefix p \<noteq> 0 \<Longrightarrow> spacePrefix (p @ q) \<noteq> 0"
  by (cases p rule: spacePrefix.cases; cases q rule: spacePrefix.cases)
    (auto split: if_splits)

lemma TrimSpace_prefix: "\<exists>p. trimLeft s = TrimSpace s @ p"
proof -
  obtain p where "rev (trimLeft s) = p @ trimRightRev (rev (trimLeft s))"
    using trimRightRev_suffix by blast
  then have "trimLeft s = TrimSpace s @ rev p"
    by (metis TrimSpace_def rev_append rev_rev_ident)
  then show ?thesis by blast
qed

lemma spacePrefix_TrimSpace: "spacePrefix (TrimSpace s) = 0"
  by (metis TrimSpace_prefix spacePrefix_append spacePrefix_trimLeft)

lemma TrimSpace_idem [simp]: "TrimSpace (TrimSpace s) = TrimSpace s"
proof -
  have "trimLeft (TrimSpace s) = TrimSpace s"
    by (rule trimLeft_id [OF spacePrefix_TrimSpace])
  moreover have "trimRightRev (rev (TrimSpace s)) = rev (TrimSpace s)"
    by (simp add: TrimSpace_def trimRightRev_id spaceSuffix_trimRightRev)
  ultimately show ?thesis by (simp add: TrimSpace_def [of "TrimSpace s"])
qed

lemma TrimSpace_Nil [simp]: "TrimSpace [] = []"
  by (simp add: TrimSpace_def trimLeft_id trimRightRev_id)

section \<open>Quoting\<close>

text \<open>
  \<open>%q\<close> quotes with \<open>strconv.Quote\<close>: quote and backslash are escaped, control characters are
  written as escapes. A byte above ASCII is kept, as \<open>strconv.Quote\<close> keeps printable runes.
\<close>

definition hexDigit :: "nat \<Rightarrow> char" where
  "hexDigit n = (if n < 10 then char_of (48 + n) else char_of (87 + n))"

definition quoteChar :: "char \<Rightarrow> string" where
  "quoteChar c =
     (if c = CHR 0x22 then [CHR 0x5C, CHR 0x22]
      else if c = CHR 0x5C then [CHR 0x5C, CHR 0x5C]
      else if byte c = 7 then [CHR 0x5C, CHR ''a'']
      else if byte c = 8 then [CHR 0x5C, CHR ''b'']
      else if byte c = 9 then [CHR 0x5C, CHR ''t'']
      else if byte c = 10 then [CHR 0x5C, CHR ''n'']
      else if byte c = 11 then [CHR 0x5C, CHR ''v'']
      else if byte c = 12 then [CHR 0x5C, CHR ''f'']
      else if byte c = 13 then [CHR 0x5C, CHR ''r'']
      else if byte c < 32 \<or> byte c = 127
        then [CHR 0x5C, CHR ''x'', hexDigit (byte c div 16), hexDigit (byte c mod 16)]
      else [c])"

definition goQuote :: "string \<Rightarrow> string" where
  "goQuote s = [CHR 0x22] @ concat (map quoteChar s) @ [CHR 0x22]"

lemma quoteChar_ident: "identChar c \<Longrightarrow> quoteChar c = [c]"
  using identChar_printable [of c]
  by (auto simp: quoteChar_def identChar_def char_class_defs)

lemma concat_quoteChar: "(\<And>c. c \<in> set s \<Longrightarrow> quoteChar c = [c]) \<Longrightarrow> concat (map quoteChar s) = s"
  by (induction s) auto

lemma goQuote_identifier: "identifierPattern s \<Longrightarrow> goQuote s = [CHR 0x22] @ s @ [CHR 0x22]"
  by (simp add: goQuote_def concat_quoteChar quoteChar_ident identifierPattern_chars)

section \<open>Membership\<close>

text \<open>\<open>oneOf\<close> of \<open>graph.go\<close>: the loop over the candidates.\<close>

fun oneOf :: "string \<Rightarrow> string list \<Rightarrow> bool" where
  "oneOf v [] = False"
| "oneOf v (c # cs) = (if v = c then True else oneOf v cs)"

lemma oneOf_iff: "oneOf v cs \<longleftrightarrow> v \<in> set cs"
  by (induction cs) auto

end
