(* ===== verification/Go_Json.thy ===== *)
theory Go_Json
  imports Go_Strings
begin

text \<open>
  What the sources use of \<open>encoding/json\<close> to read: the scanner (RFC 8259 with Go's nesting
  limit), the unquoting of strings with its replacement of malformed UTF-8 and of lone
  surrogates, and \<open>Unmarshal\<close> into a \<open>map[string]any\<close>, with \<open>validJSONObject\<close> of
  \<open>graph.go\<close> as its client.
\<close>

section \<open>Values\<close>

text \<open>A number keeps its literal, as \<open>Unmarshal\<close> converts it only when its target is known.\<close>

datatype json =
    JNull
  | JBool bool
  | JNum string
  | JStr string
  | JArr "json list"
  | JObj "(string \<times> json) list"

section \<open>UTF-8\<close>

definition isCont :: "char \<Rightarrow> bool" where
  "isCont c \<longleftrightarrow> 128 \<le> byte c \<and> byte c \<le> 191"

text \<open>
  \<open>utf8Len s\<close> is the size of the well-formed rune at the start of \<open>s\<close>, and 0 when
  \<open>utf8.DecodeRune\<close> would return \<open>RuneError\<close> with size 1: overlong forms, surrogates and
  values above U+10FFFF are malformed.
\<close>

fun utf8Len :: "string \<Rightarrow> nat" where
  "utf8Len [] = 0"
| "utf8Len (a # s) =
     (if byte a < 128 then 1
      else if 194 \<le> byte a \<and> byte a \<le> 223 then
        (case s of b # _ \<Rightarrow> if isCont b then 2 else 0 | [] \<Rightarrow> 0)
      else if 224 \<le> byte a \<and> byte a \<le> 239 then
        (case s of b # c # _ \<Rightarrow>
           if isCont b \<and> isCont c \<and> (byte a = 224 \<longrightarrow> 160 \<le> byte b)
              \<and> (byte a = 237 \<longrightarrow> byte b \<le> 159) then 3 else 0
         | _ \<Rightarrow> 0)
      else if 240 \<le> byte a \<and> byte a \<le> 244 then
        (case s of b # c # d # _ \<Rightarrow>
           if isCont b \<and> isCont c \<and> isCont d \<and> (byte a = 240 \<longrightarrow> 144 \<le> byte b)
              \<and> (byte a = 244 \<longrightarrow> byte b \<le> 143) then 4 else 0
         | _ \<Rightarrow> 0)
      else 0)"

text \<open>\<open>utf8.EncodeRune\<close> for the code points the unquoting produces.\<close>

definition encodeRune :: "nat \<Rightarrow> string" where
  "encodeRune n =
     (if n < 128 then [char_of n]
      else if n < 2048 then [char_of (192 + n div 64), char_of (128 + n mod 64)]
      else if n < 65536 then
        [char_of (224 + n div 4096), char_of (128 + n div 64 mod 64), char_of (128 + n mod 64)]
      else
        [char_of (240 + n div 262144), char_of (128 + n div 4096 mod 64),
         char_of (128 + n div 64 mod 64), char_of (128 + n mod 64)])"

definition replacementRune :: string where
  "replacementRune = [CHR 0xEF, CHR 0xBF, CHR 0xBD]"

section \<open>Strings\<close>

definition hexVal :: "char \<Rightarrow> nat option" where
  "hexVal c =
     (if isDigit c then Some (byte c - 48)
      else if 97 \<le> byte c \<and> byte c \<le> 102 then Some (byte c - 87)
      else if 65 \<le> byte c \<and> byte c \<le> 70 then Some (byte c - 55)
      else None)"

text \<open>\<open>getu4\<close>: four hexadecimal digits after \<^verbatim>\<open>\u\<close>.\<close>

fun hex4 :: "string \<Rightarrow> (nat \<times> string) option" where
  "hex4 (a # b # c # d # r) =
     (case (hexVal a, hexVal b, hexVal c, hexVal d) of
        (Some w, Some x, Some y, Some z) \<Rightarrow> Some (w * 4096 + x * 256 + y * 16 + z, r)
      | _ \<Rightarrow> None)"
| "hex4 _ = None"

definition isHighSurrogate :: "nat \<Rightarrow> bool" where
  "isHighSurrogate n \<longleftrightarrow> 55296 \<le> n \<and> n < 56320"

definition isLowSurrogate :: "nat \<Rightarrow> bool" where
  "isLowSurrogate n \<longleftrightarrow> 56320 \<le> n \<and> n < 57344"

text \<open>
  The rune after \<^verbatim>\<open>\u\<close>: a high surrogate joins an escaped low surrogate that follows it, any
  other surrogate becomes U+FFFD and consumes only its own escape.
\<close>

definition unicodeEscape :: "string \<Rightarrow> (string \<times> string) option" where
  "unicodeEscape s =
     (case hex4 s of
        None \<Rightarrow> None
      | Some (n, r) \<Rightarrow>
          if isHighSurrogate n then
            (case r of
               a # b # r' \<Rightarrow>
                 if a = CHR 0x5C \<and> b = CHR ''u'' then
                   (case hex4 r' of
                      Some (m, r'') \<Rightarrow>
                        if isLowSurrogate m
                        then Some (encodeRune (65536 + (n - 55296) * 1024 + (m - 56320)), r'')
                        else Some (replacementRune, r)
                    | None \<Rightarrow> Some (replacementRune, r))
                 else Some (replacementRune, r)
             | _ \<Rightarrow> Some (replacementRune, r))
          else if isLowSurrogate n then Some (replacementRune, r)
          else Some (encodeRune n, r))"

definition simpleEscapes :: "(char \<times> char) list" where
  "simpleEscapes =
     [(CHR 0x22, CHR 0x22), (CHR 0x5C, CHR 0x5C), (CHR ''/'', CHR ''/''),
      (CHR ''b'', CHR 0x08), (CHR ''f'', CHR 0x0C), (CHR ''n'', CHR 0x0A),
      (CHR ''r'', CHR 0x0D), (CHR ''t'', CHR 0x09)]"

definition escapeUnit :: "string \<Rightarrow> (string \<times> string) option" where
  "escapeUnit s =
     (case s of
        [] \<Rightarrow> None
      | c # r \<Rightarrow>
          if c = CHR ''u'' then unicodeEscape r
          else (case map_of simpleEscapes c of None \<Rightarrow> None | Some d \<Rightarrow> Some ([d], r)))"

text \<open>One element of a string literal other than the closing quote: its value and the rest.\<close>

definition strUnit :: "string \<Rightarrow> (string \<times> string) option" where
  "strUnit s =
     (case s of
        [] \<Rightarrow> None
      | c # r \<Rightarrow>
          if c = CHR 0x5C then escapeUnit r
          else if byte c < 32 then None
          else if utf8Len s = 0 then Some (replacementRune, r)
          else Some (take (utf8Len s) s, drop (utf8Len s) s))"

lemma hex4_length: "hex4 s = Some (n, r) \<Longrightarrow> length s = length r + 4"
  by (cases s rule: hex4.cases) (auto split: option.splits)

lemma unicodeEscape_length: "unicodeEscape s = Some (u, r) \<Longrightarrow> length r < length s"
  by (auto simp: unicodeEscape_def split: option.splits if_splits list.splits dest!: hex4_length)

lemma strUnit_length: "strUnit s = Some (u, r) \<Longrightarrow> length r < length s"
  by (auto simp: strUnit_def escapeUnit_def split: list.splits if_splits option.splits
      dest!: unicodeEscape_length simp del: utf8Len.simps)

function parseStr :: "string \<Rightarrow> (string \<times> string) option" where
  "parseStr s =
     (case s of
        [] \<Rightarrow> None
      | c # r \<Rightarrow>
          if c = CHR 0x22 then Some ([], r)
          else (case strUnit s of
                  None \<Rightarrow> None
                | Some (u, q) \<Rightarrow>
                    (case parseStr q of
                       None \<Rightarrow> None
                     | Some (t, p) \<Rightarrow> Some (u @ t, p))))"
  by pat_completeness auto
termination
  by (relation "measure length") (auto dest: strUnit_length)

declare parseStr.simps [simp del]

lemma parseStr_quote [simp]: "parseStr (CHR 0x22 # r) = Some ([], r)"
  by (simp add: parseStr.simps)

lemma parseStr_Nil [simp]: "parseStr [] = None"
  by (simp add: parseStr.simps)

lemma parseStr_unit:
  assumes "s \<noteq> []" and "hd s \<noteq> CHR 0x22" and "strUnit s = Some (u, q)"
  shows "parseStr s = map_option (\<lambda>(t, p). (u @ t, p)) (parseStr q)"
  using assms by (subst parseStr.simps) (auto split: list.splits option.splits)

lemma parseStr_stuck:
  assumes "s \<noteq> []" and "hd s \<noteq> CHR 0x22" and "strUnit s = None"
  shows "parseStr s = None"
  using assms by (subst parseStr.simps) (auto split: list.splits)

lemma parseStr_length: "parseStr s = Some (t, r) \<Longrightarrow> length r < length s"
proof (induction s arbitrary: t r rule: length_induct)
  case (1 s)
  show ?case
  proof (cases "s = [] \<or> hd s = CHR 0x22")
    case True
    with 1(2) show ?thesis by (cases s) auto
  next
    case False
    then have s: "s \<noteq> []" "hd s \<noteq> CHR 0x22" by auto
    then obtain u q where q: "strUnit s = Some (u, q)"
      using 1(2) parseStr_stuck by (cases "strUnit s") auto
    with s 1(2) obtain t' where "parseStr q = Some (t', r)"
      by (auto simp: parseStr_unit)
    with 1(1) strUnit_length [OF q] show ?thesis by fastforce
  qed
qed

section \<open>Numbers\<close>

text \<open>Integer part, fraction and exponent of a number literal, each with what follows it.\<close>

definition numInt :: "string \<Rightarrow> (string \<times> string) option" where
  "numInt s =
     (case s of
        [] \<Rightarrow> None
      | c # r \<Rightarrow>
          if c = CHR ''0'' then Some ([c], r)
          else if isDigit c then Some (takeWhile isDigit s, dropWhile isDigit s)
          else None)"

definition numFrac :: "string \<Rightarrow> (string \<times> string) option" where
  "numFrac s =
     (case s of
        c # r \<Rightarrow>
          if c = CHR ''.'' then
            (if takeWhile isDigit r = [] then None
             else Some (takeWhile isDigit r, dropWhile isDigit r))
          else Some ([], s)
      | [] \<Rightarrow> Some ([], s))"

text \<open>The exponent: whether it is negative, and its digits.\<close>

definition numExp :: "string \<Rightarrow> (bool \<times> string \<times> string) option" where
  "numExp s =
     (case s of
        c # r \<Rightarrow>
          if c = CHR ''e'' \<or> c = CHR ''E'' then
            (let neg = (r \<noteq> [] \<and> hd r = CHR ''-'');
                 ds = (if r \<noteq> [] \<and> (hd r = CHR ''-'' \<or> hd r = CHR ''+'') then tl r else r)
             in if takeWhile isDigit ds = [] then None
                else Some (neg, takeWhile isDigit ds, dropWhile isDigit ds))
          else Some (False, [], s)
      | [] \<Rightarrow> Some (False, [], s))"

record numLit =
  litNeg :: bool
  litInt :: string
  litFrac :: string
  litExpNeg :: bool
  litExp :: string

definition scanNum :: "string \<Rightarrow> (numLit \<times> string) option" where
  "scanNum s =
     (let neg = (s \<noteq> [] \<and> hd s = CHR ''-'') in
      case numInt (if neg then tl s else s) of
        None \<Rightarrow> None
      | Some (i, r) \<Rightarrow>
          (case numFrac r of
             None \<Rightarrow> None
           | Some (f, q) \<Rightarrow>
               (case numExp q of
                  None \<Rightarrow> None
                | Some (en, e, p) \<Rightarrow>
                    Some (\<lparr>litNeg = neg, litInt = i, litFrac = f, litExpNeg = en, litExp = e\<rparr>, p))))"

definition parseNum :: "string \<Rightarrow> (string \<times> string) option" where
  "parseNum s =
     (case scanNum s of
        None \<Rightarrow> None
      | Some (l, r) \<Rightarrow> Some (take (length s - length r) s, r))"

definition digitsVal :: "string \<Rightarrow> nat" where
  "digitsVal ds = foldl (\<lambda>n c. 10 * n + (byte c - 48)) 0 ds"

text \<open>
  \<open>strconv.ParseFloat\<close> reports \<open>ErrRange\<close> when the literal rounds to infinity: at or above
  the midpoint \<open>2^1024 - 2^970\<close> between the largest finite \<open>float64\<close> and \<open>2^1024\<close>.
\<close>

definition floatLimit :: nat where
  "floatLimit = 2 ^ 1024 - 2 ^ 970"

definition numOverflows :: "string \<Rightarrow> bool" where
  "numOverflows lit =
     (case scanNum lit of
        None \<Rightarrow> False
      | Some (l, _) \<Rightarrow>
          (let m = digitsVal (litInt l @ litFrac l);
               e = (if litExpNeg l then - int (digitsVal (litExp l)) else int (digitsVal (litExp l)))
                   - int (length (litFrac l))
           in if m = 0 then False
              else if 0 \<le> e then floatLimit \<le> m * 10 ^ nat e
              else floatLimit * 10 ^ nat (- e) \<le> m))"

lemma numInt_length: "numInt s = Some (t, r) \<Longrightarrow> length r < length s"
  by (auto simp: numInt_def split: list.splits if_splits)
    (metis le_imp_less_Suc length_dropWhile_le)

lemma numFrac_length: "numFrac s = Some (t, r) \<Longrightarrow> length r \<le> length s"
  by (auto simp: numFrac_def split: list.splits if_splits)
    (metis le_SucI length_dropWhile_le)

lemma numExp_length: "numExp s = Some (b, t, r) \<Longrightarrow> length r \<le> length s"
proof -
  assume *: "numExp s = Some (b, t, r)"
  have d: "length (dropWhile isDigit xs) \<le> length xs" for xs by (rule length_dropWhile_le)
  from * show ?thesis
    using d [of "tl s"] d [of "tl (tl s)"]
    by (auto simp: numExp_def Let_def split: list.splits if_splits)
qed

lemma scanNum_length: "scanNum s = Some (l, r) \<Longrightarrow> length r < length s"
proof -
  assume *: "scanNum s = Some (l, r)"
  define s' where "s' = (if s \<noteq> [] \<and> hd s = CHR ''-'' then tl s else s)"
  have "length s' \<le> length s" by (simp add: s'_def)
  with * show ?thesis
    unfolding scanNum_def Let_def s'_def [symmetric]
    by (auto split: option.splits dest!: numInt_length numFrac_length numExp_length)
qed

lemma parseNum_length: "parseNum s = Some (t, r) \<Longrightarrow> length r < length s"
  by (auto simp: parseNum_def split: option.splits dest: scanNum_length)

section \<open>Documents\<close>

definition isJsonSpace :: "char \<Rightarrow> bool" where
  "isJsonSpace c \<longleftrightarrow> byte c \<in> {32, 9, 10, 13}"

definition skipWs :: "string \<Rightarrow> string" where
  "skipWs s = dropWhile isJsonSpace s"

definition maxNestingDepth :: nat where
  "maxNestingDepth = 10000"

definition stripPrefix :: "string \<Rightarrow> string \<Rightarrow> string option" where
  "stripPrefix p s = (if take (length p) s = p then Some (drop (length p) s) else None)"

definition parseScalar :: "string \<Rightarrow> (json \<times> string) option" where
  "parseScalar s =
     (if s \<noteq> [] \<and> hd s = CHR 0x22 then map_option (\<lambda>(t, r). (JStr t, r)) (parseStr (tl s))
      else (case stripPrefix ''true'' s of Some r \<Rightarrow> Some (JBool True, r)
      | None \<Rightarrow> (case stripPrefix ''false'' s of Some r \<Rightarrow> Some (JBool False, r)
      | None \<Rightarrow> (case stripPrefix ''null'' s of Some r \<Rightarrow> Some (JNull, r)
      | None \<Rightarrow> map_option (\<lambda>(t, r). (JNum t, r)) (parseNum s)))))"

text \<open>
  The three productions with fuel: a value, the elements of an array after its opening
  bracket, and the members of an object after its opening brace. \<open>d\<close> counts the arrays and
  objects that are open; Go refuses to open the 10001st.
\<close>

fun parseValue :: "nat \<Rightarrow> nat \<Rightarrow> string \<Rightarrow> (json \<times> string) option"
and parseElems :: "nat \<Rightarrow> nat \<Rightarrow> string \<Rightarrow> (json list \<times> string) option"
and parseMembers :: "nat \<Rightarrow> nat \<Rightarrow> string \<Rightarrow> ((string \<times> json) list \<times> string) option" where
  "parseValue 0 d s = None"
| "parseValue (Suc n) d s =
     (case skipWs s of
        [] \<Rightarrow> None
      | c # r \<Rightarrow>
          if c = CHR ''['' then
            (if d < maxNestingDepth then
               (case skipWs r of
                  [] \<Rightarrow> None
                | e # q \<Rightarrow>
                    if e = CHR '']'' then Some (JArr [], q)
                    else map_option (\<lambda>(vs, p). (JArr vs, p)) (parseElems n (Suc d) r))
             else None)
          else if c = CHR ''{'' then
            (if d < maxNestingDepth then
               (case skipWs r of
                  [] \<Rightarrow> None
                | e # q \<Rightarrow>
                    if e = CHR ''}'' then Some (JObj [], q)
                    else map_option (\<lambda>(ms, p). (JObj ms, p)) (parseMembers n (Suc d) r))
             else None)
          else parseScalar (c # r))"
| "parseElems 0 d s = None"
| "parseElems (Suc n) d s =
     (case parseValue n d s of
        None \<Rightarrow> None
      | Some (v, r) \<Rightarrow>
          (case skipWs r of
             [] \<Rightarrow> None
           | e # q \<Rightarrow>
               if e = CHR '']'' then Some ([v], q)
               else if e = CHR '','' then
                 map_option (\<lambda>(vs, p). (v # vs, p)) (parseElems n d q)
               else None))"
| "parseMembers 0 d s = None"
| "parseMembers (Suc n) d s =
     (case skipWs s of
        [] \<Rightarrow> None
      | c # r \<Rightarrow>
          if c = CHR 0x22 then
            (case parseStr r of
               None \<Rightarrow> None
             | Some (k, q) \<Rightarrow>
                 (case skipWs q of
                    [] \<Rightarrow> None
                  | e # q' \<Rightarrow>
                      if e = CHR '':'' then
                        (case parseValue n d q' of
                           None \<Rightarrow> None
                         | Some (v, p) \<Rightarrow>
                             (case skipWs p of
                                [] \<Rightarrow> None
                              | g # p' \<Rightarrow>
                                  if g = CHR ''}'' then Some ([(k, v)], p')
                                  else if g = CHR '','' then
                                    map_option (\<lambda>(ms, t). ((k, v) # ms, t)) (parseMembers n d p')
                                  else None))
                      else None))
          else None)"

text \<open>
  The whole document: one value surrounded by white space. Each call of the three
  productions consumes a byte before it comes back to the same production, so twice the
  length of the input, and two, is enough fuel (\<open>parse_fuel\<close> below).
\<close>

definition jsonParse :: "string \<Rightarrow> json option" where
  "jsonParse s =
     (case parseValue (2 * length s + 2) 0 s of
        None \<Rightarrow> None
      | Some (v, r) \<Rightarrow> if skipWs r = [] then Some v else None)"

lemma length_skipWs: "length (skipWs s) \<le> length s"
  by (simp add: skipWs_def length_dropWhile_le)

lemma skipWs_Cons_length: "skipWs s = c # r \<Longrightarrow> length r < length s"
  by (metis Suc_le_lessD length_Cons length_skipWs)

lemma stripPrefix_length: "stripPrefix p s = Some r \<Longrightarrow> length r + length p \<le> length s"
proof -
  assume "stripPrefix p s = Some r"
  then have "take (length p) s = p" "r = drop (length p) s"
    by (auto simp: stripPrefix_def split: if_splits)
  moreover from this(1) have "length p \<le> length s" by (metis length_take min.absorb_iff2 min.commute)
  ultimately show ?thesis by simp
qed

lemma parseScalar_length: "parseScalar s = Some (v, r) \<Longrightarrow> length r < length s"
  by (auto simp: parseScalar_def split: if_splits option.splits
      dest!: stripPrefix_length parseStr_length parseNum_length)

lemma parse_length:
  "(\<forall>d s v r. parseValue n d s = Some (v, r) \<longrightarrow> length r < length s) \<and>
   (\<forall>d s vs r. parseElems n d s = Some (vs, r) \<longrightarrow> length r < length s) \<and>
   (\<forall>d s ms r. parseMembers n d s = Some (ms, r) \<longrightarrow> length r < length s)"
proof (induction n)
  case (Suc n)
  note trans = less_trans Suc_lessD skipWs_Cons_length
  have v: "length r < length s" if "parseValue (Suc n) d s = Some (v, r)" for d s v r
  proof (cases "skipWs s")
    case (Cons c q)
    note sq = skipWs_Cons_length [OF Cons]
    have *: "length (c # q) \<le> length s" using length_skipWs [of s] Cons by simp
    have "length r < length (c # q)"
      using that Cons Suc.IH skipWs_Cons_length [of q]
      by (auto split: if_splits list.splits dest!: parseScalar_length) (metis less_SucI)+
    with * show ?thesis by simp
  qed (use that in simp)
  have e: "length r < length s" if "parseElems (Suc n) d s = Some (vs, r)" for d s vs r
  proof -
    from that obtain w q c q' where *: "parseValue n d s = Some (w, q)" "skipWs q = c # q'"
      and r: "q' = r \<or> (\<exists>ws. parseElems n d q' = Some (ws, r))"
      by (auto split: option.splits list.splits if_splits)
    from r Suc.IH have "length r \<le> length q'" by (meson less_imp_le order_refl)
    with * Suc.IH skipWs_Cons_length show ?thesis by (meson le_less_trans less_trans)
  qed
  have m: "length r < length s" if "parseMembers (Suc n) d s = Some (ms, r)" for d s ms r
  proof -
    from that obtain c0 r0 k q e q' w p g p' where *: "skipWs s = c0 # r0"
      "parseStr r0 = Some (k, q)" "skipWs q = e # q'" "parseValue n d q' = Some (w, p)"
      "skipWs p = g # p'" and r: "p' = r \<or> (\<exists>ws. parseMembers n d p' = Some (ws, r))"
      by (auto split: option.splits list.splits if_splits)
    from r Suc.IH have "length r \<le> length p'" by (meson less_imp_le order_refl)
    moreover have "length p < length q'" using Suc.IH *(4) by blast
    ultimately show ?thesis
      using skipWs_Cons_length [OF *(1)] parseStr_length [OF *(2)] skipWs_Cons_length [OF *(3)]
        skipWs_Cons_length [OF *(5)] by linarith
  qed
  show ?case using v e m by blast
qed simp

lemmas parseValue_length = parse_length [THEN conjunct1, rule_format]
lemmas parseElems_length = parse_length [THEN conjunct2, THEN conjunct1, rule_format]

text \<open>More fuel than the bound changes nothing, so the bound is enough.\<close>

lemma parse_fuel:
  "(\<forall>d s m. 2 * length s + 2 \<le> n \<longrightarrow> n \<le> m \<longrightarrow> parseValue m d s = parseValue n d s) \<and>
   (\<forall>d s m. 2 * length s + 3 \<le> n \<longrightarrow> n \<le> m \<longrightarrow> parseElems m d s = parseElems n d s) \<and>
   (\<forall>d s m. 2 * length s + 3 \<le> n \<longrightarrow> n \<le> m \<longrightarrow> parseMembers m d s = parseMembers n d s)"
proof (induction n)
  case (Suc n)
  note ihv = Suc.IH [THEN conjunct1, rule_format]
  note ihe = Suc.IH [THEN conjunct2, THEN conjunct1, rule_format]
  note ihm = Suc.IH [THEN conjunct2, THEN conjunct2, rule_format]
  have v: "parseValue (Suc m) d s = parseValue (Suc n) d s"
    if "2 * length s + 2 \<le> Suc n" "n \<le> m" for m d s
  proof (cases "skipWs s")
    case (Cons c q)
    then have "2 * length q + 3 \<le> n" using skipWs_Cons_length [OF Cons] that(1) by simp
    with that(2) have "parseElems m (Suc d) q = parseElems n (Suc d) q"
      and "parseMembers m (Suc d) q = parseMembers n (Suc d) q" by (blast intro: ihe ihm)+
    with Cons show ?thesis by (simp split: list.splits)
  qed simp
  have e: "parseElems (Suc m) d s = parseElems (Suc n) d s"
    if le: "2 * length s + 3 \<le> Suc n" "n \<le> m" for m d s
  proof -
    have eq: "parseValue m d s = parseValue n d s" by (rule ihv) (use le in simp_all)
    show ?thesis
    proof (cases "parseValue n d s")
      case (Some vr)
      obtain w r where vr: "vr = (w, r)" by (cases vr)
      have r: "length r < length s" using Some vr parseValue_length by simp
      show ?thesis
      proof (cases "skipWs r")
        case (Cons c q)
        have "parseElems m d q = parseElems n d q"
          by (rule ihe) (use le r skipWs_Cons_length [OF Cons] in simp_all)
        with eq Some vr Cons show ?thesis by simp
      qed (use eq Some vr in simp)
    qed (use eq in simp)
  qed
  have m: "parseMembers (Suc m) d s = parseMembers (Suc n) d s"
    if le: "2 * length s + 3 \<le> Suc n" "n \<le> m" for m d s
  proof (cases "\<exists>c r k q e q'. skipWs s = c # r \<and> parseStr r = Some (k, q) \<and> skipWs q = e # q'")
    case True
    then obtain c r k q e q' where *: "skipWs s = c # r" "parseStr r = Some (k, q)"
      "skipWs q = e # q'" by blast
    have q': "length q' < length s"
      using skipWs_Cons_length [OF *(1)] parseStr_length [OF *(2)] skipWs_Cons_length [OF *(3)]
      by linarith
    have eq: "parseValue m d q' = parseValue n d q'" by (rule ihv) (use le q' in simp_all)
    show ?thesis
    proof (cases "parseValue n d q'")
      case (Some wp)
      obtain w p where wp: "wp = (w, p)" by (cases wp)
      have p: "length p < length q'" using Some wp parseValue_length by simp
      show ?thesis
      proof (cases "skipWs p")
        case (Cons g p')
        have "parseMembers m d p' = parseMembers n d p'"
          by (rule ihm) (use le q' p skipWs_Cons_length [OF Cons] in simp_all)
        with eq Some wp Cons * show ?thesis by simp
      qed (use eq Some wp * in simp)
    qed (use eq * in simp)
  next
    case False
    have "parseMembers (Suc k) d s = None" for k
    proof (cases "skipWs s")
      case (Cons c r)
      with False show ?thesis
        by (cases "parseStr r") (auto split: list.split)
    qed simp
    then show ?thesis by (simp only:)
  qed
  show ?case
  proof (intro conjI allI impI)
    fix d and s :: string and k
    assume "2 * length s + 2 \<le> Suc n" and "Suc n \<le> k"
    then show "parseValue k d s = parseValue (Suc n) d s" by (metis v Suc_le_D Suc_le_mono)
  next
    fix d and s :: string and k
    assume "2 * length s + 3 \<le> Suc n" and "Suc n \<le> k"
    then show "parseElems k d s = parseElems (Suc n) d s" by (metis e Suc_le_D Suc_le_mono)
  next
    fix d and s :: string and k
    assume "2 * length s + 3 \<le> Suc n" and "Suc n \<le> k"
    then show "parseMembers k d s = parseMembers (Suc n) d s" by (metis m Suc_le_D Suc_le_mono)
  qed
qed simp

lemma parseValue_fuel:
  "2 * length s + 2 \<le> m \<Longrightarrow> parseValue m d s = parseValue (2 * length s + 2) d s"
  using parse_fuel [of "2 * length s + 2"] by blast

section \<open>Unmarshal into a map\<close>

text \<open>
  Every number below a \<open>map[string]any\<close> is converted to \<open>float64\<close>; one out of range is an
  error of the whole call, reported at the end.
\<close>

fun jsonNumsOk :: "json \<Rightarrow> bool" where
  "jsonNumsOk (JNum l) = (\<not> numOverflows l)"
| "jsonNumsOk (JArr vs) = list_all jsonNumsOk vs"
| "jsonNumsOk (JObj ms) = list_all (\<lambda>(k, v). jsonNumsOk v) ms"
| "jsonNumsOk _ = True"

definition jsonError :: goerr where
  "jsonError = Opaque ''json: the document cannot be decoded''"

text \<open>
  \<open>json.Unmarshal\<close> into a \<open>map[string]any\<close>: the object's members, and for \<open>null\<close> the nil map
  without an error. Which message an error carries is not modelled.
\<close>

definition unmarshalMap :: "string \<Rightarrow> (string \<times> json) list result" where
  "unmarshalMap s =
     (case jsonParse s of
        Some (JObj ms) \<Rightarrow> if jsonNumsOk (JObj ms) then Inr ms else Inl jsonError
      | Some JNull \<Rightarrow> Inr []
      | _ \<Rightarrow> Inl jsonError)"

definition validJSONObject :: "string \<Rightarrow> unit result" where
  "validJSONObject v =
     (case unmarshalMap (if v = [] then ''{}'' else v) of
        Inl e \<Rightarrow> Inl e
      | Inr ms \<Rightarrow> Inr ())"

end
