(* ===== verification/Model.thy ===== *)
theory Model
  imports Go_Json "HOL-Library.Word"
begin

text \<open>
  The data of \<open>internal/workflow/model.go\<close>: the status, node type, assignee type and
  decision constants, and the structs as records. A field carries its struct's prefix
  (\<open>node\<close>, \<open>edge\<close>, \<open>def\<close>, \<open>inst\<close>, \<open>task\<close>, \<open>hist\<close>). A \<open>time.Time\<close> is a number of nanoseconds
  since Go's zero time (an \<^typ>\<open>int\<close>, 0 the zero time), a \<open>*time.Time\<close> an option of one, a \<open>uint32\<close> a \<^typ>\<open>32 word\<close>; a version
  is a database \<open>BIGINT\<close> and stays an \<^typ>\<open>int\<close>.
\<close>

section \<open>Constants\<close>

definition DefinitionDraft :: string where
  "DefinitionDraft = ''draft''"

definition DefinitionPublished :: string where
  "DefinitionPublished = ''published''"

definition DefinitionDisabled :: string where
  "DefinitionDisabled = ''disabled''"

definition NodeStart :: string where
  "NodeStart = ''start''"

definition NodeApproval :: string where
  "NodeApproval = ''approval''"

definition NodeServiceTask :: string where
  "NodeServiceTask = ''service_task''"

definition NodeTimer :: string where
  "NodeTimer = ''timer''"

definition NodeEnd :: string where
  "NodeEnd = ''end''"

definition AssigneeUser :: string where
  "AssigneeUser = ''user''"

definition AssigneeRole :: string where
  "AssigneeRole = ''role''"

definition AssigneeStarter :: string where
  "AssigneeStarter = ''starter''"

definition AssigneeExpression :: string where
  "AssigneeExpression = ''expression''"

definition InstanceRunning :: string where
  "InstanceRunning = ''running''"

definition InstanceCompleted :: string where
  "InstanceCompleted = ''completed''"

definition InstanceRejected :: string where
  "InstanceRejected = ''rejected''"

definition InstanceCancelled :: string where
  "InstanceCancelled = ''cancelled''"

definition InstanceFailed :: string where
  "InstanceFailed = ''failed''"

definition TaskPending :: string where
  "TaskPending = ''pending''"

definition TaskClaimed :: string where
  "TaskClaimed = ''claimed''"

definition TaskApproved :: string where
  "TaskApproved = ''approved''"

definition TaskRejected :: string where
  "TaskRejected = ''rejected''"

definition TaskCancelled :: string where
  "TaskCancelled = ''cancelled''"

definition TaskExpired :: string where
  "TaskExpired = ''expired''"

definition DecisionApprove :: string where
  "DecisionApprove = ''approve''"

definition DecisionReject :: string where
  "DecisionReject = ''reject''"

lemmas constant_defs [status_simps] =
  DefinitionDraft_def DefinitionPublished_def DefinitionDisabled_def NodeStart_def
  NodeApproval_def NodeServiceTask_def NodeTimer_def NodeEnd_def AssigneeUser_def
  AssigneeRole_def AssigneeStarter_def AssigneeExpression_def InstanceRunning_def
  InstanceCompleted_def InstanceRejected_def InstanceCancelled_def InstanceFailed_def
  TaskPending_def TaskClaimed_def TaskApproved_def TaskRejected_def TaskCancelled_def
  TaskExpired_def DecisionApprove_def DecisionReject_def

section \<open>Structs\<close>

type_synonym time = int

record Node =
  nodeID :: string
  nodeName :: string
  nodeType :: string
  nodeAssigneeType :: string
  nodeAssignee :: string
  nodeTimeoutSeconds :: "32 word"
  nodeTargetService :: string
  nodeFullMethod :: string
  nodeRequestTemplateJSON :: string
  nodeCompensationMethod :: string
  nodeTimerSeconds :: "32 word"
  nodeConfigJSON :: string

text \<open>\<open>Priority\<close> is an \<open>int32\<close>: its values lie in the signed 32-bit range.\<close>

record Edge =
  edgeFromNodeID :: string
  edgeToNodeID :: string
  edgeConditionExpression :: string
  edgePriority :: int

record Definition =
  defID :: string
  defTenantID :: string
  defApplicationID :: string
  defKey :: string
  defName :: string
  defDescription :: string
  defStatus :: string
  defPublishedRevision :: "32 word"
  defNodesJSON :: string
  defEdgesJSON :: string
  defVersion :: int
  defCreatedAt :: time
  defUpdatedAt :: time
  defCreatedBy :: string
  defUpdatedBy :: string
  defNodes :: "Node list"
  defEdges :: "Edge list"

text \<open>A \<open>DefinitionRevision\<close> embeds a \<open>Definition\<close>.\<close>

record DefinitionRevision = Definition +
  revRevision :: "32 word"
  revPublishedAt :: time

record Instance =
  instID :: string
  instTenantID :: string
  instApplicationID :: string
  instDefinitionID :: string
  instDefinitionRevision :: "32 word"
  instBusinessKey :: string
  instIdempotencyKey :: string
  instTitle :: string
  instStarterID :: string
  instStatus :: string
  instCurrentNodeID :: string
  instVariablesJSON :: string
  instResultJSON :: string
  instErrorCode :: string
  instErrorMessage :: string
  instTemporalWorkflowID :: string
  instTemporalRunID :: string
  instStartedAt :: time
  instFinishedAt :: "time option"
  instVersion :: int
  instCreatedAt :: time
  instUpdatedAt :: time
  instCreatedBy :: string
  instUpdatedBy :: string

record Task =
  taskID :: string
  taskTenantID :: string
  taskApplicationID :: string
  taskInstanceID :: string
  taskNodeID :: string
  taskName :: string
  taskAssigneeType :: string
  taskAssignee :: string
  taskClaimedBy :: string
  taskStatus :: string
  taskDecision :: string
  taskComment :: string
  taskInputJSON :: string
  taskOutputJSON :: string
  taskDueAt :: "time option"
  taskCompletedAt :: "time option"
  taskVersion :: int
  taskCreatedAt :: time
  taskUpdatedAt :: time
  taskCreatedBy :: string
  taskUpdatedBy :: string

record TaskHistory =
  histID :: string
  histTenantID :: string
  histApplicationID :: string
  histTaskID :: string
  histInstanceID :: string
  histAction :: string
  histActorID :: string
  histFromStatus :: string
  histToStatus :: string
  histDetailJSON :: string
  histVersion :: int
  histCreatedAt :: time
  histUpdatedAt :: time
  histCreatedBy :: string
  histUpdatedBy :: string

record 'a Page =
  pageItems :: "'a list"
  pageTotal :: int
  pagePage :: int
  pageSize :: int

record DefinitionFilter =
  dfTenantID :: string
  dfApplicationID :: string
  dfStatus :: string
  dfSearch :: string
  dfPage :: int
  dfPageSize :: int

record DefinitionCandidate =
  dcID :: string
  dcKey :: string
  dcName :: string
  dcStatus :: string
  dcPublishedRevision :: "32 word"

record InstanceFilter =
  ifTenantID :: string
  ifApplicationID :: string
  ifDefinitionID :: string
  ifStatus :: string
  ifStarterID :: string
  ifSearch :: string
  ifStartedFrom :: "time option"
  ifStartedUntil :: "time option"
  ifPage :: int
  ifPageSize :: int

record TaskFilter =
  tfTenantID :: string
  tfApplicationID :: string
  tfInstanceID :: string
  tfStatus :: string
  tfAssigneeUserID :: string
  tfSearch :: string
  tfRoleIDs :: "string list"
  tfIncludeUnclaimed :: bool
  tfPage :: int
  tfPageSize :: int

record TaskInstanceCandidate =
  tcID :: string
  tcTitle :: string
  tcBusinessKey :: string
  tcStatus :: string

record TaskInstanceCandidateFilter =
  tcfTenantID :: string
  tcfApplicationID :: string
  tcfSearch :: string
  tcfAssigneeUserID :: string
  tcfRoleIDs :: "string list"
  tcfIncludeUnclaimed :: bool
  tcfPage :: int
  tcfPageSize :: int

record TaskHistoryFilter =
  hfTenantID :: string
  hfApplicationID :: string
  hfTaskID :: string
  hfInstanceID :: string
  hfPage :: int
  hfPageSize :: int

section \<open>Zero values and status sets\<close>

definition zeroNode :: Node where
  "zeroNode = \<lparr>nodeID = [], nodeName = [], nodeType = [], nodeAssigneeType = [],
     nodeAssignee = [], nodeTimeoutSeconds = 0, nodeTargetService = [], nodeFullMethod = [],
     nodeRequestTemplateJSON = [], nodeCompensationMethod = [], nodeTimerSeconds = 0,
     nodeConfigJSON = []\<rparr>"

definition zeroEdge :: Edge where
  "zeroEdge = \<lparr>edgeFromNodeID = [], edgeToNodeID = [], edgeConditionExpression = [],
     edgePriority = 0\<rparr>"

text \<open>The statuses after which an instance, or a task, does not change any more.\<close>

definition terminalStatuses :: "string list" where
  "terminalStatuses = [InstanceCompleted, InstanceRejected, InstanceCancelled, InstanceFailed]"

definition openTaskStatuses :: "string list" where
  "openTaskStatuses = [TaskPending, TaskClaimed]"

lemma running_not_terminal: "InstanceRunning \<notin> set terminalStatuses"
  by (simp add: terminalStatuses_def constant_defs)

end
