(* ===== verification/Traversal.thy ===== *)
theory Traversal
  imports Graph
begin

text \<open>
  The correctness of the traversal at the end of \<open>validateEdges\<close>, on any set \<open>N\<close> of nodes
  and list \<open>E\<close> of edges: it visits every node exactly when the graph has no cycle, and every
  node it visits is reachable from the start node.
\<close>

section \<open>The inner loop\<close>

lemma relax_degree:
  "relax ts m q = (m', q') \<Longrightarrow> mapGetD 0 m' k = mapGetD 0 m k - int (count_list ts k)"
  by (induction ts arbitrary: m q) (auto simp: Let_def mapGetD_mapSet split: if_splits)

lemma relax_queue:
  assumes "relax ts m q = (m', q')" and "\<And>t. t \<in> set ts \<Longrightarrow> int (count_list ts t) \<le> mapGetD 0 m t"
  shows "\<exists>new. q' = q @ new \<and> distinct new \<and>
           set new = {t \<in> set ts. mapGetD 0 m t = int (count_list ts t)}"
  using assms
proof (induction ts arbitrary: m q)
  case (Cons t ts)
  let ?d = "mapGetD 0 m t - 1"
  let ?m = "mapSet t ?d m"
  have rec: "relax ts ?m (if ?d = 0 then q @ [t] else q) = (m', q')"
    using Cons.prems(1) by (simp add: Let_def)
  have le: "int (count_list ts s) \<le> mapGetD 0 ?m s" if "s \<in> set ts" for s
    using Cons.prems(2) [of s] that by (auto simp: mapGetD_mapSet split: if_splits)
  from Cons.IH [OF rec le] obtain new where
    q': "q' = (if ?d = 0 then q @ [t] else q) @ new" and new: "distinct new"
    "set new = {s \<in> set ts. mapGetD 0 ?m s = int (count_list ts s)}" by auto
  have new_iff: "s \<in> set new \<longleftrightarrow> s \<in> set (t # ts) \<and> mapGetD 0 m s = int (count_list (t # ts) s)"
    if "s \<noteq> t \<or> t \<in> set ts" for s
    using that by (auto simp: new(2) mapGetD_mapSet)
  show ?case
  proof (cases "t \<in> set ts")
    case True
    then have "0 < count_list ts t" by (metis count_list_0_iff neq0_conv)
    with le [OF True] have "?d \<noteq> 0" by (simp add: mapGetD_mapSet)
    then have "q' = q @ new" using q' by (simp only: if_False)
    moreover have "set new = {s \<in> set (t # ts). mapGetD 0 m s = int (count_list (t # ts) s)}"
      using new_iff True by blast
    ultimately show ?thesis using new(1) by blast
  next
    case False
    then have "t \<notin> set new" using new(2) by blast
    have *: "mapGetD 0 m t = int (count_list (t # ts) t) \<longleftrightarrow> ?d = 0" using False by simp
    have "set (if ?d = 0 then t # new else new)
        = {s \<in> set (t # ts). mapGetD 0 m s = int (count_list (t # ts) s)}"
    proof (intro set_eqI)
      fix s
      show "s \<in> set (if ?d = 0 then t # new else new) \<longleftrightarrow>
          s \<in> {s \<in> set (t # ts). mapGetD 0 m s = int (count_list (t # ts) s)}"
      proof (cases "s = t")
        case True
        with \<open>t \<notin> set new\<close> * show ?thesis by simp
      next
        case False
        then have "s \<in> set (if ?d = 0 then t # new else new) \<longleftrightarrow> s \<in> set new" by simp
        with new_iff [of s] False show ?thesis by blast
      qed
    qed
    moreover have "q' = q @ (if ?d = 0 then t # new else new)" using q' by (cases "?d = 0") auto
    moreover have "distinct (if ?d = 0 then t # new else new)" using new(1) \<open>t \<notin> set new\<close> by simp
    ultimately show ?thesis by blast
  qed
qed simp

section \<open>The invariant of the outer loop\<close>

text \<open>The edges into \<open>k\<close> whose source is not among \<open>P\<close>.\<close>

definition pendingEdges :: "(string \<times> string) list \<Rightarrow> string set \<Rightarrow> string \<Rightarrow> (string \<times> string) list" where
  "pendingEdges E P k = filter (\<lambda>(f, t). t = k \<and> f \<notin> P) E"

text \<open>
  \<open>P\<close> are the visited nodes in order, \<open>Q\<close> is the queue: a node is in one of them exactly
  when it has no pending edge, its predecessors come before it, and a path leads to it.
\<close>

definition kahnInv :: "string set \<Rightarrow> (string \<times> string) list \<Rightarrow> string \<Rightarrow> string list \<Rightarrow> string list \<Rightarrow>
    (string, int) gomap \<Rightarrow> bool" where
  "kahnInv N E start P Q ind \<longleftrightarrow>
     distinct (P @ Q) \<and> set (P @ Q) \<subseteq> N \<and>
     (\<forall>k\<in>N. mapGetD 0 ind k = int (length (pendingEdges E (set P) k))) \<and>
     (\<forall>k\<in>N. k \<in> set (P @ Q) \<longleftrightarrow> mapGetD 0 ind k = 0) \<and>
     (\<forall>xs t ys f. P = xs @ t # ys \<longrightarrow> (f, t) \<in> set E \<longrightarrow> f \<in> set xs) \<and>
     (\<forall>k\<in>set (P @ Q). (start, k) \<in> (set E)\<^sup>*)"

definition outgoingOf :: "(string \<times> string) list \<Rightarrow> (string, string list) gomap \<Rightarrow> string \<Rightarrow> bool" where
  "outgoingOf E out k \<longleftrightarrow> mset (mapGetD [] out k) = mset (map snd (filter (\<lambda>(f, t). f = k) E))"

lemma count_list_mset: "count_list xs x = count (mset xs) x"
  by (induction xs) auto

lemma outgoingOf_count:
  "outgoingOf E out h \<Longrightarrow> count_list (mapGetD [] out h) k = length (filter (\<lambda>(f, t). f = h \<and> t = k) E)"
proof -
  assume "outgoingOf E out h"
  then have "count_list (mapGetD [] out h) k = count_list (map snd (filter (\<lambda>(f, t). f = h) E)) k"
    by (simp add: outgoingOf_def count_list_mset)
  also have "\<dots> = length (filter (\<lambda>(f, t). f = h \<and> t = k) E)"
    by (induction E) auto
  finally show ?thesis .
qed

lemma outgoingOf_set: "outgoingOf E out h \<Longrightarrow> t \<in> set (mapGetD [] out h) \<longleftrightarrow> (h, t) \<in> set E"
proof -
  assume "outgoingOf E out h"
  then have "set (mapGetD [] out h) = set (map snd (filter (\<lambda>(f, t). f = h) E))"
    by (metis outgoingOf_def set_mset_mset)
  then show ?thesis by force
qed

lemma pendingEdges_visit:
  "h \<notin> P \<Longrightarrow> length (pendingEdges E (insert h P) k) + length (filter (\<lambda>(f, t). f = h \<and> t = k) E)
     = length (pendingEdges E P k)"
  unfolding pendingEdges_def by (induction E) auto

lemma pendingEdges_empty_iff: "pendingEdges E P k = [] \<longleftrightarrow> (\<forall>f. (f, k) \<in> set E \<longrightarrow> f \<in> P)"
  by (auto simp: pendingEdges_def filter_empty_conv)

lemma kahnInv_step:
  assumes inv: "kahnInv N E start P (h # Q) ind"
    and E: "set E \<subseteq> N \<times> N" and out: "outgoingOf E out h"
    and relax: "relax (mapGetD [] out h) ind Q = (ind', Q')"
  shows "kahnInv N E start (P @ [h]) Q' ind'"
proof -
  let ?ts = "mapGetD [] out h"
  from inv have h: "h \<in> N" "h \<notin> set P" and dist: "distinct (P @ [h] @ Q)"
    and sub: "set (P @ [h] @ Q) \<subseteq> N"
    and deg: "\<And>k. k \<in> N \<Longrightarrow> mapGetD 0 ind k = int (length (pendingEdges E (set P) k))"
    and mem: "\<And>k. k \<in> N \<Longrightarrow> k \<in> set (P @ h # Q) \<longleftrightarrow> mapGetD 0 ind k = 0"
    and topo: "\<And>xs t ys f. P = xs @ t # ys \<Longrightarrow> (f, t) \<in> set E \<Longrightarrow> f \<in> set xs"
    and reach: "\<And>k. k \<in> set (P @ h # Q) \<Longrightarrow> (start, k) \<in> (set E)\<^sup>*"
    unfolding kahnInv_def by auto
  have cnt: "int (count_list ?ts k) = mapGetD 0 ind k - int (length (pendingEdges E (insert h (set P)) k))"
    if "k \<in> N" for k
    using pendingEdges_visit [OF h(2), of E k] deg [OF that] outgoingOf_count [OF out, of k] by simp
  have tsN: "t \<in> N" if "t \<in> set ?ts" for t
    using that E outgoingOf_set [OF out] by blast
  have le: "int (count_list ?ts t) \<le> mapGetD 0 ind t" if "t \<in> N" for t
    using cnt [OF that] by simp
  have deg': "mapGetD 0 ind' k = int (length (pendingEdges E (set (P @ [h])) k))" if "k \<in> N" for k
    using relax_degree [OF relax, of k] cnt [OF that] by simp
  obtain new where Q': "Q' = Q @ new" and new: "distinct new"
    "set new = {t \<in> set ?ts. mapGetD 0 ind t = int (count_list ?ts t)}"
    using relax_queue [OF relax] le tsN by blast
  have pos: "mapGetD 0 ind t \<noteq> 0" if "t \<in> set new" for t
    using that new(2) by (auto simp: count_list_0_iff)
  have disj: "set new \<inter> set (P @ h # Q) = {}" using pos mem tsN new(2) by blast
  have mem': "k \<in> set ((P @ [h]) @ Q') \<longleftrightarrow> mapGetD 0 ind' k = 0" if k: "k \<in> N" for k
  proof -
    have "mapGetD 0 ind' k = mapGetD 0 ind k - int (count_list ?ts k)"
      by (rule relax_degree [OF relax])
    then have "mapGetD 0 ind' k = 0 \<longleftrightarrow> mapGetD 0 ind k = 0 \<or> k \<in> set new"
      using le [OF k] count_list_0_iff [of ?ts k] unfolding new(2) by auto
    with mem [OF k] Q' show ?thesis by auto
  qed
  have topo': "f \<in> set xs" if "P @ [h] = xs @ t # ys" "(f, t) \<in> set E" for xs t ys f
  proof (cases ys rule: rev_cases)
    case Nil
    then have "t = h" "xs = P" using that(1) by auto
    moreover have "pendingEdges E (set P) h = []" using deg [OF h(1)] mem [OF h(1)] by simp
    ultimately show ?thesis using that(2) by (simp add: pendingEdges_empty_iff)
  next
    case (snoc zs z)
    with that topo show ?thesis by simp
  qed
  have reach': "(start, k) \<in> (set E)\<^sup>*" if "k \<in> set new" for k
  proof -
    have "(h, k) \<in> set E" using that new(2) outgoingOf_set [OF out] by blast
    moreover have "(start, h) \<in> (set E)\<^sup>*" by (rule reach) simp
    ultimately show ?thesis by (rule rtrancl.rtrancl_into_rtrancl [rotated])
  qed
  show ?thesis
    unfolding kahnInv_def
    using dist disj new(1) sub tsN new(2) deg' mem' topo' reach reach' Q' by auto
qed

section \<open>The outer loop\<close>

lemma kahn_visits:
  assumes "kahnInv N E start P Q ind" and "set E \<subseteq> N \<times> N"
    and "\<And>k. k \<in> N \<Longrightarrow> outgoingOf E out k"
  shows "\<exists>P' ind'. kahn out Q ind (length P) = length P' \<and> kahnInv N E start P' [] ind'"
  using assms
proof (induction out Q ind "length P" arbitrary: P rule: kahn.induct)
  case (1 out ind)
  then show ?case by (metis kahn.simps(1))
next
  case (2 out h Q ind)
  obtain ind' Q' where r: "relax (mapGetD [] out h) ind Q = (ind', Q')" by fastforce
  have "h \<in> N" using 2(2) by (auto simp: kahnInv_def)
  then have "kahnInv N E start (P @ [h]) Q' ind'"
    using 2(2-4) r kahnInv_step by blast
  from 2(1) [OF r [symmetric] _ this 2(3,4)] r show ?case by auto
qed

lemma acyclic_rank:
  fixes rank :: "'a \<Rightarrow> nat"
  assumes "\<And>a b. (a, b) \<in> R \<Longrightarrow> rank a < rank b"
  shows "acyclic R"
proof -
  have "R \<subseteq> measure rank" using assms by auto
  then show ?thesis by (meson acyclic_subset wf_acyclic wf_measure)
qed

lemma topological_acyclic:
  assumes topo: "\<And>xs t ys f. P = xs @ t # ys \<Longrightarrow> (f, t) \<in> R \<Longrightarrow> f \<in> set xs"
    and "distinct P" and "R \<subseteq> set P \<times> set P"
  shows "acyclic R"
proof (rule acyclic_rank)
  fix f t
  assume ft: "(f, t) \<in> R"
  then obtain xs ys where P: "P = xs @ t # ys" using assms(3) by (meson mem_Sigma_iff split_list subsetD)
  with \<open>distinct P\<close> have t: "takeWhile (\<lambda>x. x \<noteq> t) P = xs" by (simp add: takeWhile_tail) (metis takeWhile_eq_all_conv)
  from topo [OF P ft] obtain us vs where xs: "xs = us @ f # vs" by (meson split_list)
  with P \<open>distinct P\<close> have "takeWhile (\<lambda>x. x \<noteq> f) P = us"
    by (simp add: takeWhile_tail) (metis takeWhile_eq_all_conv)
  with t xs show "length (takeWhile (\<lambda>x. x \<noteq> f) P) < length (takeWhile (\<lambda>x. x \<noteq> t) P)" by simp
qed

lemma kahnInv_acyclic_iff:
  assumes inv: "kahnInv N E start P [] ind" and E: "set E \<subseteq> N \<times> N" and "finite N"
  shows "length P = card N \<longleftrightarrow> acyclic (set E)"
proof
  assume "length P = card N"
  moreover have P: "distinct P" "set P \<subseteq> N" using inv by (auto simp: kahnInv_def)
  ultimately have "set P = N" by (metis \<open>finite N\<close> card_subset_eq distinct_card)
  moreover have "\<And>xs t ys f. P = xs @ t # ys \<Longrightarrow> (f, t) \<in> set E \<Longrightarrow> f \<in> set xs"
    using inv unfolding kahnInv_def by blast
  ultimately show "acyclic (set E)" using topological_acyclic [of P "set E"] P(1) E by blast
next
  assume "acyclic (set E)"
  then have wf: "wf (set E)" by (simp add: finite_acyclic_wf)
  have "k \<in> set P" if "k \<in> N" for k
    using wf that
  proof (induction k rule: wf_induct_rule)
    case (less k)
    then have "pendingEdges E (set P) k = []"
      using E unfolding pendingEdges_empty_iff by blast
    with less.prems inv show ?case by (simp add: kahnInv_def)
  qed
  with inv have "set P = N" "distinct P" by (auto simp: kahnInv_def)
  then show "length P = card N" by (metis distinct_card)
qed

theorem kahn_correct:
  assumes "finite N" and "set E \<subseteq> N \<times> N" and "start \<in> N"
    and "\<And>k. k \<in> N \<Longrightarrow> outgoingOf E out k"
    and "\<And>k. k \<in> N \<Longrightarrow> mapGetD 0 ind k = int (length (filter (\<lambda>(f, t). t = k) E))"
    and "\<And>k. k \<in> N \<Longrightarrow> mapGetD 0 ind k = 0 \<longleftrightarrow> k = start"
  shows kahn_acyclic_iff: "kahn out [start] ind 0 = card N \<longleftrightarrow> acyclic (set E)"
    and kahn_reachable: "kahn out [start] ind 0 = card N \<Longrightarrow> k \<in> N \<Longrightarrow> (start, k) \<in> (set E)\<^sup>*"
proof -
  have "kahnInv N E start [] [start] ind"
    using assms by (auto simp: kahnInv_def pendingEdges_def)
  from kahn_visits [OF this assms(2,4)] obtain P ind'
    where P: "kahn out [start] ind 0 = length P" "kahnInv N E start P [] ind'" by auto
  with kahnInv_acyclic_iff assms(1,2)
  show "kahn out [start] ind 0 = card N \<longleftrightarrow> acyclic (set E)" by metis
  assume "kahn out [start] ind 0 = card N" and "k \<in> N"
  with P have "length P = card N" "distinct P" "set P \<subseteq> N" by (auto simp: kahnInv_def)
  then have "k \<in> set P" using \<open>k \<in> N\<close> by (metis assms(1) card_subset_eq distinct_card)
  with P(2) show "(start, k) \<in> (set E)\<^sup>*" by (simp add: kahnInv_def)
qed

end
