(* ===== verification/Graph_Spec.thy ===== *)
theory Graph_Spec
  imports Traversal
begin

text \<open>
  What \<open>ValidateDefinition\<close> accepts, stated without its loops and maps, and the proof that
  the code accepts exactly that: the node rules, the edge rules, one start node with one
  outgoing edge, no cycle, every node on a path from the start.
\<close>

section \<open>The specification\<close>

definition jsonObjectOk :: "string \<Rightarrow> bool" where
  "jsonObjectOk v \<longleftrightarrow> isOk (validJSONObject v)"

definition nodeTypeOk :: "Node \<Rightarrow> bool" where
  "nodeTypeOk n \<longleftrightarrow>
     nodeType n \<in> {NodeStart, NodeEnd} \<or>
     nodeType n = NodeApproval \<and>
       (nodeAssigneeType n = AssigneeStarter \<or>
        nodeAssigneeType n \<in> {AssigneeUser, AssigneeRole, AssigneeExpression}
          \<and> TrimSpace (nodeAssignee n) \<noteq> []) \<or>
     nodeType n = NodeServiceTask \<and> identifierPattern (nodeTargetService n) \<and>
       fullMethodPattern (nodeFullMethod n) \<and>
       (nodeCompensationMethod n = [] \<or> fullMethodPattern (nodeCompensationMethod n)) \<and>
       jsonObjectOk (nodeRequestTemplateJSON n) \<or>
     nodeType n = NodeTimer \<and> 1 \<le> unat (nodeTimerSeconds n) \<and> unat (nodeTimerSeconds n) \<le> 31536000"

definition nodeOk :: "Node \<Rightarrow> bool" where
  "nodeOk n \<longleftrightarrow> identifierPattern (nodeID n) \<and> TrimSpace (nodeName n) \<noteq> [] \<and> nodeTypeOk n \<and>
     (nodeConfigJSON n = [] \<or> jsonObjectOk (nodeConfigJSON n))"

definition edgePair :: "Edge \<Rightarrow> string \<times> string" where
  "edgePair e = (edgeFromNodeID e, edgeToNodeID e)"

definition edgeRel :: "Edge list \<Rightarrow> (string \<times> string) set" where
  "edgeRel edges = edgePair ` set edges"

definition edgeOk :: "Node list \<Rightarrow> Edge \<Rightarrow> bool" where
  "edgeOk nodes e \<longleftrightarrow>
     (\<exists>n\<in>set nodes. nodeID n = edgeFromNodeID e \<and> nodeType n \<noteq> NodeEnd) \<and>
     (\<exists>n\<in>set nodes. nodeID n = edgeToNodeID e \<and> nodeType n \<noteq> NodeStart) \<and>
     edgeFromNodeID e \<noteq> edgeToNodeID e \<and> length (edgeConditionExpression e) \<le> 1000"

definition outDegree :: "Edge list \<Rightarrow> string \<Rightarrow> nat" where
  "outDegree edges k = length (filter (\<lambda>e. edgeFromNodeID e = k) edges)"

definition inDegree :: "Edge list \<Rightarrow> string \<Rightarrow> nat" where
  "inDegree edges k = length (filter (\<lambda>e. edgeToNodeID e = k) edges)"

definition wellFormedGraph :: "Node list \<Rightarrow> Edge list \<Rightarrow> bool" where
  "wellFormedGraph nodes edges \<longleftrightarrow>
     list_all nodeOk nodes \<and> distinct (map nodeID nodes) \<and>
     length (filter (\<lambda>n. nodeType n = NodeStart) nodes) = 1 \<and>
     list_ex (\<lambda>n. nodeType n = NodeEnd) nodes \<and>
     list_all (edgeOk nodes) edges \<and>
     distinct (map (\<lambda>e. (edgeFromNodeID e, edgeToNodeID e, edgeConditionExpression e)) edges) \<and>
     list_all (\<lambda>n. if nodeType n = NodeStart then outDegree edges (nodeID n) = 1
                   else inDegree edges (nodeID n) > 0) nodes \<and>
     list_all (\<lambda>n. nodeType n \<noteq> NodeEnd \<longrightarrow> outDegree edges (nodeID n) > 0) nodes \<and>
     acyclic (edgeRel edges)"

definition wellFormedDefinition :: "string \<Rightarrow> string \<Rightarrow> Node list \<Rightarrow> Edge list \<Rightarrow> bool" where
  "wellFormedDefinition key name nodes edges \<longleftrightarrow>
     identifierPattern key \<and> TrimSpace name \<noteq> [] \<and> 2 \<le> length nodes \<and> length nodes \<le> 200 \<and>
     length edges \<le> 500 \<and> wellFormedGraph nodes edges"

section \<open>Nodes\<close>

lemma jsonObjectOk_iff: "jsonObjectOk v \<longleftrightarrow> validJSONObject v = Inr ()"
  by (auto simp: jsonObjectOk_def isOk_iff)

lemma year_word: "(x :: 32 word) = 0 \<or> x > 365 * 24 * 60 * 60 \<longleftrightarrow> \<not> (1 \<le> unat x \<and> unat x \<le> 31536000)"
  by (auto simp: word_less_nat_alt unat_eq_zero Suc_le_eq unat_gt_0)

lemma validateNodeType_iff: "validateNodeType n = Inr () \<longleftrightarrow> nodeTypeOk n"
proof -
  consider "nodeType n \<in> {NodeStart, NodeEnd}" | "nodeType n = NodeApproval"
    | "nodeType n = NodeServiceTask" | "nodeType n = NodeTimer"
    | "nodeType n \<notin> {NodeStart, NodeEnd, NodeApproval, NodeServiceTask, NodeTimer}" by blast
  then show ?thesis
  proof cases
    case 2
    then show ?thesis
      by (auto simp: validateNodeType_def nodeTypeOk_def oneOf_iff constant_defs split: if_splits)
  next
    case 3
    then show ?thesis
      by (auto simp: validateNodeType_def nodeTypeOk_def jsonObjectOk_iff validFullMethod_def
          constant_defs split: if_splits sum.splits)
  next
    case 4
    then show ?thesis
      unfolding validateNodeType_def nodeTypeOk_def year_word by (auto simp: constant_defs)
  qed (auto simp: validateNodeType_def nodeTypeOk_def constant_defs split: if_splits)
qed

lemma validateNode_iff: "validateNode n = Inr () \<longleftrightarrow> nodeOk n"
  unfolding validateNode_def nodeOk_def validateNodeType_iff [symmetric]
  by (auto simp: jsonObjectOk_iff bindR_Inr_iff split: sum.splits)

definition byIDOf :: "Node list \<Rightarrow> (string, Node) gomap" where
  "byIDOf nodes = map (\<lambda>n. (nodeID n, n)) nodes"

lemma mapKeys_byIDOf [simp]: "mapKeys (byIDOf nodes) = map nodeID nodes"
  by (simp add: mapKeys_def byIDOf_def comp_def)

lemma validateNodes_Inr_iff:
  "validateNodes nodes byID sc ec = Inr r \<longleftrightarrow>
     list_all nodeOk nodes \<and> distinct (map nodeID nodes) \<and>
     set (map nodeID nodes) \<inter> set (mapKeys byID) = {} \<and>
     r = (byID @ byIDOf nodes,
          sc + length (filter (\<lambda>n. nodeType n = NodeStart) nodes),
          ec + length (filter (\<lambda>n. nodeType n = NodeEnd) nodes))"
proof (induction nodes arbitrary: byID sc ec)
  case Nil
  then show ?case by (auto simp: byIDOf_def)
next
  case (Cons n nodes)
  show ?case
  proof (cases "nodeOk n \<and> nodeID n \<notin> set (mapKeys byID)")
    case True
    then have "validateNode n = Inr ()" and "mapGet byID (nodeID n) = None"
      by (simp_all add: validateNode_iff mapGet_None_iff)
    with True show ?thesis
      by (simp add: Cons.IH mapSet_fresh) (auto simp: mapKeys_def byIDOf_def)
  next
    case False
    then have "validateNode n \<noteq> Inr () \<or> mapGet byID (nodeID n) \<noteq> None"
      by (auto simp: validateNode_iff mapGet_None_iff)
    then have "validateNodes (n # nodes) byID sc ec \<noteq> Inr r"
      by (auto simp: bindR_Inr_iff split: if_splits)
    with False show ?thesis by auto
  qed
qed

section \<open>Edges\<close>

lemma mapGet_byIDOf:
  "distinct (map nodeID nodes) \<Longrightarrow> mapGet (byIDOf nodes) k = Some n \<longleftrightarrow> n \<in> set nodes \<and> nodeID n = k"
  proof -
  assume "distinct (map nodeID nodes)"
  then have "mapGet (byIDOf nodes) k = Some n \<longleftrightarrow> (k, n) \<in> set (byIDOf nodes)"
    by (simp add: mapGet_Some_iff)
  then show ?thesis by (auto simp: byIDOf_def)
qed

lemma edgeInvalid_iff:
  assumes "distinct (map nodeID nodes)"
  shows "\<not> edgeInvalid (byIDOf nodes) e \<and> length (edgeConditionExpression e) \<le> 1000 \<longleftrightarrow> edgeOk nodes e"
  using mapGet_byIDOf [OF assms]
  unfolding edgeInvalid_def edgeOk_def
  by (auto split: option.splits) (metis option.sel option.discI)+

lemma initDegrees_degree:
  "(\<And>k. mapGetD 0 ind k = 0) \<Longrightarrow> mapGetD 0 (fst (initDegrees m ind s)) k = 0"
proof (induction m ind s rule: initDegrees.induct)
  case (2 nid node rest ind s)
  have "mapGetD 0 (mapSet nid 0 ind) j = 0" for j using 2(2) by (simp add: mapGetD_mapSet)
  with 2(1) show ?case by simp
qed simp

lemma initDegrees_start:
  "snd (initDegrees (byIDOf nodes) ind s) =
     (case filter (\<lambda>n. nodeType n = NodeStart) nodes of [] \<Rightarrow> s | ns \<Rightarrow> nodeID (last ns))"
  by (induction nodes arbitrary: ind s) (auto simp: byIDOf_def split: list.splits)

lemma edgeLoop_ok_iff:
  "isOk (edgeLoop m edges (ind, out, seen)) \<longleftrightarrow>
     (\<forall>e\<in>set edges. \<not> edgeInvalid m e \<and> length (edgeConditionExpression e) \<le> 1000) \<and>
     distinct (map edgeKey edges) \<and> set (map edgeKey edges) \<inter> set (mapKeys seen) = {}"
proof (induction edges arbitrary: ind out seen)
  case (Cons e edges)
  show ?case
    by (auto simp: Cons.IH set_mapKeys_mapSet mapGet_None_iff)
qed simp

lemma edgeLoop_state:
  assumes "edgeLoop m edges (ind, out, seen) = Inr (ind', out', seen')"
  shows "mapGetD 0 ind' k = mapGetD 0 ind k + int (inDegree edges k)"
    and "mapGetD [] out' k = mapGetD [] out k @ map edgeToNodeID (filter (\<lambda>e. edgeFromNodeID e = k) edges)"
proof -
  have "mapGetD 0 ind' k = mapGetD 0 ind k + int (inDegree edges k) \<and>
    mapGetD [] out' k = mapGetD [] out k @ map edgeToNodeID (filter (\<lambda>e. edgeFromNodeID e = k) edges)"
    using assms
  proof (induction edges arbitrary: ind out seen)
    case (Cons e edges)
    let ?ind = "mapSet (edgeToNodeID e) (mapGetD 0 ind (edgeToNodeID e) + 1) ind"
    let ?out = "mapSet (edgeFromNodeID e) (mapGetD [] out (edgeFromNodeID e) @ [edgeToNodeID e]) out"
    have "edgeLoop m edges (?ind, ?out, mapSet (edgeKey e) () seen) = Inr (ind', out', seen')"
      using Cons.prems by (simp split: if_splits)
    from Cons.IH [OF this] show ?case by (auto simp: mapGetD_mapSet inDegree_def)
  qed (simp add: inDegree_def)
  then show "mapGetD 0 ind' k = mapGetD 0 ind k + int (inDegree edges k)"
    and "mapGetD [] out' k = mapGetD [] out k @ map edgeToNodeID (filter (\<lambda>e. edgeFromNodeID e = k) edges)"
    by auto
qed

definition degreesOk :: "(string, Node) gomap \<Rightarrow> string \<Rightarrow> (string, int) gomap \<Rightarrow> (string, string list) gomap \<Rightarrow> bool" where
  "degreesOk m s ind out \<longleftrightarrow>
     (\<forall>(nid, n)\<in>set m. (nid = s \<or> mapGetD 0 ind nid \<noteq> 0) \<and> (nodeType n = NodeEnd \<or> mapGetD [] out nid \<noteq> []))"

lemma degreeLoop_spec:
  "(degreesOk m s ind out \<longrightarrow>
      (\<exists>out'. degreeLoop m s ind out = Inr out' \<and> (\<forall>k. mset (mapGetD [] out' k) = mset (mapGetD [] out k)))) \<and>
   (\<not> degreesOk m s ind out \<longrightarrow> (\<exists>e. degreeLoop m s ind out = Inl e))"
proof (induction m arbitrary: out)
  case Nil
  then show ?case by (simp add: degreesOk_def)
next
  case (Cons p m)
  obtain nid n where p: "p = (nid, n)" by (cases p)
  let ?out = "case mapGet out nid of None \<Rightarrow> out | Some ts \<Rightarrow> mapSet nid (sort ts) out"
  have same: "mset (mapGetD [] ?out k) = mset (mapGetD [] out k)" for k
  proof (cases "mapGet out nid")
    case (Some ts)
    then show ?thesis by (simp add: mapGetD_mapSet) (simp add: mapGetD_def mapGet_def)
  qed simp
  then have nil: "mapGetD [] ?out k = [] \<longleftrightarrow> mapGetD [] out k = []" for k
    by (metis mset_zero_iff)
  then have "degreesOk m s ind ?out = degreesOk m s ind out"
    unfolding degreesOk_def by auto
  with Cons.IH [of ?out] same show ?case
    by (auto simp: p degreesOk_def)
qed

lemma append_sep_eq:
  "c \<notin> set xs \<Longrightarrow> c \<notin> set ys \<Longrightarrow> xs @ c # us = ys @ c # vs \<longleftrightarrow> xs = ys \<and> us = vs"
proof (induction xs arbitrary: ys)
  case Nil
  then show ?case by (cases ys) auto
next
  case (Cons x xs)
  then show ?case by (cases ys) auto
qed

lemma identifier_no_nul: "identifierPattern s \<Longrightarrow> CHR 0x00 \<notin> set s"
  using identifierPattern_chars identChar_printable by (fastforce simp: byte_def)

lemma edgeKey_eq_iff:
  assumes "list_all nodeOk nodes" and "edgeOk nodes e" and "edgeOk nodes e'"
  shows "edgeKey e = edgeKey e' \<longleftrightarrow>
    edgeFromNodeID e = edgeFromNodeID e' \<and> edgeToNodeID e = edgeToNodeID e' \<and>
    edgeConditionExpression e = edgeConditionExpression e'"
proof -
  have "identifierPattern (edgeFromNodeID x) \<and> identifierPattern (edgeToNodeID x)" if "edgeOk nodes x" for x
    using that assms(1) by (fastforce simp: edgeOk_def list_all_iff nodeOk_def)
  then have "CHR 0x00 \<notin> set (edgeFromNodeID x) \<and> CHR 0x00 \<notin> set (edgeToNodeID x)" if "edgeOk nodes x" for x
    using that identifier_no_nul by blast
  with assms(2,3) show ?thesis by (simp add: edgeKey_def append_sep_eq)
qed

lemma distinct_map_cong_inj:
  assumes "\<And>x y. x \<in> set xs \<Longrightarrow> y \<in> set xs \<Longrightarrow> f x = f y \<longleftrightarrow> g x = g y"
  shows "distinct (map f xs) \<longleftrightarrow> distinct (map g xs)"
  using assms by (auto simp: distinct_map inj_on_def)

section \<open>The whole validation\<close>

lemma edgePair_filters:
  "length (filter (\<lambda>(f, t). t = k) (map edgePair edges)) = inDegree edges k"
  "map snd (filter (\<lambda>(f, t). f = k) (map edgePair edges)) =
     map edgeToNodeID (filter (\<lambda>e. edgeFromNodeID e = k) edges)"
  by (induction edges) (auto simp: edgePair_def inDegree_def)

text \<open>What is known when \<open>validateEdges\<close> runs: distinct valid nodes, one of them the start node.\<close>

definition nodesReady :: "Node list \<Rightarrow> Node \<Rightarrow> bool" where
  "nodesReady nodes st \<longleftrightarrow> list_all nodeOk nodes \<and> distinct (map nodeID nodes) \<and>
     filter (\<lambda>n. nodeType n = NodeStart) nodes = [st]"

lemma nodesReady_start:
  assumes "nodesReady nodes st"
  shows "st \<in> set nodes" "nodeType st = NodeStart"
    and "n \<in> set nodes \<Longrightarrow> nodeType n = NodeStart \<longleftrightarrow> nodeID n = nodeID st"
proof -
  have *: "x \<in> set nodes \<and> nodeType x = NodeStart \<longleftrightarrow> x = st" for x
  proof -
    have "set (filter (\<lambda>n. nodeType n = NodeStart) nodes) = {st}" using assms by (simp add: nodesReady_def)
    then show ?thesis by auto
  qed
  then show "st \<in> set nodes" "nodeType st = NodeStart" by blast+
  assume "n \<in> set nodes"
  with * assms show "nodeType n = NodeStart \<longleftrightarrow> nodeID n = nodeID st"
    by (metis distinct_map inj_onD nodesReady_def)
qed

lemma kahn_of_edges:
  assumes ready: "nodesReady nodes st" and ok: "list_all (edgeOk nodes) edges"
    and deg: "\<And>k. mapGetD 0 ind k = int (inDegree edges k)"
    and out: "\<And>k. mset (mapGetD [] out k) = mset (map edgeToNodeID (filter (\<lambda>e. edgeFromNodeID e = k) edges))"
    and reach: "\<And>n. n \<in> set nodes \<Longrightarrow> nodeID n \<noteq> nodeID st \<Longrightarrow> inDegree edges (nodeID n) \<noteq> 0"
  shows "kahn out [nodeID st] ind 0 = length nodes \<longleftrightarrow> acyclic (edgeRel edges)"
    and "kahn out [nodeID st] ind 0 = length nodes \<Longrightarrow> n \<in> set nodes
      \<Longrightarrow> (nodeID st, nodeID n) \<in> (edgeRel edges)\<^sup>*"
proof -
  let ?N = "nodeID ` set nodes" and ?E = "map edgePair edges"
  have E: "set ?E \<subseteq> ?N \<times> ?N"
  proof
    fix p assume "p \<in> set ?E"
    then obtain e where e: "e \<in> set edges" "p = edgePair e" by auto
    with ok show "p \<in> ?N \<times> ?N"
      by (auto simp: list_all_iff edgeOk_def edgePair_def) (metis imageI)+
  qed
  have N: "card ?N = length nodes"
    using ready unfolding nodesReady_def by (metis card_set distinct_card length_map list.set_map)
  have rel: "set ?E = edgeRel edges" by (simp add: edgeRel_def)
  have st0: "inDegree edges (nodeID st) = 0"
    using ok nodesReady_start [OF ready]
    by (auto simp: inDegree_def list_all_iff edgeOk_def filter_empty_conv)
  have zero: "mapGetD 0 ind k = 0 \<longleftrightarrow> k = nodeID st" if "k \<in> ?N" for k
    using that deg st0 reach by fastforce
  have outs: "outgoingOf ?E out k" for k
    unfolding outgoingOf_def edgePair_filters using out by simp
  have degs: "mapGetD 0 ind k = int (length (filter (\<lambda>(f, t). t = k) ?E))" for k
    unfolding edgePair_filters using deg .
  have "nodeID st \<in> ?N" using nodesReady_start(1) [OF ready] by simp
  note kc = kahn_acyclic_iff [OF _ E this outs degs zero] kahn_reachable [OF _ E this outs degs zero]
  show "kahn out [nodeID st] ind 0 = length nodes \<longleftrightarrow> acyclic (edgeRel edges)"
    using kc(1) N rel by simp
  show "kahn out [nodeID st] ind 0 = length nodes \<Longrightarrow> n \<in> set nodes
      \<Longrightarrow> (nodeID st, nodeID n) \<in> (edgeRel edges)\<^sup>*"
    using kc(2) N rel by simp
qed

definition edgesWellFormed :: "Node list \<Rightarrow> Edge list \<Rightarrow> bool" where
  "edgesWellFormed nodes edges \<longleftrightarrow>
     list_all (edgeOk nodes) edges \<and>
     distinct (map (\<lambda>e. (edgeFromNodeID e, edgeToNodeID e, edgeConditionExpression e)) edges) \<and>
     list_all (\<lambda>n. if nodeType n = NodeStart then outDegree edges (nodeID n) = 1
                   else inDegree edges (nodeID n) > 0) nodes \<and>
     list_all (\<lambda>n. nodeType n \<noteq> NodeEnd \<longrightarrow> outDegree edges (nodeID n) > 0) nodes \<and>
     acyclic (edgeRel edges)"

lemma edgeLoop_accepts_iff:
  assumes "nodesReady nodes st"
  shows "isOk (edgeLoop (byIDOf nodes) edges (ind, out, [])) \<longleftrightarrow>
    list_all (edgeOk nodes) edges \<and>
    distinct (map (\<lambda>e. (edgeFromNodeID e, edgeToNodeID e, edgeConditionExpression e)) edges)"
proof -
  have nodes: "list_all nodeOk nodes" "distinct (map nodeID nodes)"
    using assms by (auto simp: nodesReady_def)
  have "distinct (map edgeKey edges) \<longleftrightarrow>
      distinct (map (\<lambda>e. (edgeFromNodeID e, edgeToNodeID e, edgeConditionExpression e)) edges)"
    if "list_all (edgeOk nodes) edges"
    using that edgeKey_eq_iff [OF nodes(1)]
    by (intro distinct_map_cong_inj) (auto simp: list_all_iff)
  then show ?thesis
    by (auto simp: edgeLoop_ok_iff edgeInvalid_iff [OF nodes(2)] list_all_iff mapKeys_def)
qed

lemma degreesOk_byIDOf:
  assumes "nodesReady nodes st"
    and "\<And>k. mapGetD 0 ind k = int (inDegree edges k)"
    and "\<And>k. mapGetD [] out k = map edgeToNodeID (filter (\<lambda>e. edgeFromNodeID e = k) edges)"
  shows "degreesOk (byIDOf nodes) (nodeID st) ind out \<longleftrightarrow>
    list_all (\<lambda>n. nodeType n \<noteq> NodeStart \<longrightarrow> inDegree edges (nodeID n) > 0) nodes \<and>
    list_all (\<lambda>n. nodeType n \<noteq> NodeEnd \<longrightarrow> outDegree edges (nodeID n) > 0) nodes"
  using nodesReady_start(3) [OF assms(1)]
  by (auto simp: degreesOk_def byIDOf_def list_all_iff assms(2,3) outDegree_def)

lemma validateEdges_iff:
  assumes ready: "nodesReady nodes st"
  shows "validateEdges (byIDOf nodes) edges = Inr () \<longleftrightarrow> edgesWellFormed nodes edges"
proof -
  obtain ind0 s where init: "initDegrees (byIDOf nodes) [] [] = (ind0, s)" by fastforce
  have s: "s = nodeID st"
    using initDegrees_start [of nodes "[]" "[]"] init ready by (simp add: nodesReady_def)
  have ind0: "mapGetD 0 ind0 k = 0" for k
    using initDegrees_degree [of "[]" "byIDOf nodes" "[]" k] init by simp
  note accepts = edgeLoop_accepts_iff [OF ready, of edges ind0 "[]"]
  show ?thesis
  proof (cases "edgeLoop (byIDOf nodes) edges (ind0, [], [])")
    case (Inl e)
    with accepts init show ?thesis by (auto simp: validateEdges_def edgesWellFormed_def)
  next
    case (Inr st')
    obtain ind out seen where st': "st' = (ind, out, seen)" by (cases st')
    have ok: "list_all (edgeOk nodes) edges"
      "distinct (map (\<lambda>e. (edgeFromNodeID e, edgeToNodeID e, edgeConditionExpression e)) edges)"
      using accepts Inr by simp_all
    have deg: "mapGetD 0 ind k = int (inDegree edges k)" for k
      using edgeLoop_state(1) [OF Inr [unfolded st'], of k] ind0 by simp
    have out: "mapGetD [] out k = map edgeToNodeID (filter (\<lambda>e. edgeFromNodeID e = k) edges)" for k
      using edgeLoop_state(2) [OF Inr [unfolded st'], of k] by simp
    have one: "length (mapGetD [] out (nodeID st)) = outDegree edges (nodeID st)"
      by (simp add: out outDegree_def)
    have start: "list_all (\<lambda>n. if nodeType n = NodeStart then outDegree edges (nodeID n) = 1
          else inDegree edges (nodeID n) > 0) nodes \<longleftrightarrow> outDegree edges (nodeID st) = 1 \<and>
        list_all (\<lambda>n. nodeType n \<noteq> NodeStart \<longrightarrow> inDegree edges (nodeID n) > 0) nodes"
      using nodesReady_start [OF ready] unfolding list_all_iff by auto
    show ?thesis
    proof (cases "degreesOk (byIDOf nodes) (nodeID st) ind out")
      case True
      with degreeLoop_spec [of "byIDOf nodes" "nodeID st" ind out] obtain out'
        where out': "degreeLoop (byIDOf nodes) (nodeID st) ind out = Inr out'"
          "\<And>k. mset (mapGetD [] out' k) = mset (mapGetD [] out k)" by blast
      have degs: "list_all (\<lambda>n. nodeType n \<noteq> NodeStart \<longrightarrow> inDegree edges (nodeID n) > 0) nodes"
        "list_all (\<lambda>n. nodeType n \<noteq> NodeEnd \<longrightarrow> outDegree edges (nodeID n) > 0) nodes"
        using True degreesOk_byIDOf [OF ready deg out] by auto
      have "kahn out' [nodeID st] ind 0 = length nodes \<longleftrightarrow> acyclic (edgeRel edges)"
      proof (rule kahn_of_edges(1) [OF ready ok(1) deg])
        fix n assume "n \<in> set nodes" "nodeID n \<noteq> nodeID st"
        with degs(1) nodesReady_start(3) [OF ready] show "inDegree edges (nodeID n) \<noteq> 0"
          by (auto simp: list_all_iff)
      qed (simp add: out'(2) out)
      with init s Inr st' out' one ok degs start show ?thesis
        by (auto simp: validateEdges_def edgesWellFormed_def byIDOf_def)
    next
      case False
      with degreeLoop_spec [of "byIDOf nodes" "nodeID st" ind out] obtain e
        where "degreeLoop (byIDOf nodes) (nodeID st) ind out = Inl e" by blast
      moreover have "\<not> edgesWellFormed nodes edges"
        using False start degreesOk_byIDOf [OF ready deg out] by (auto simp: edgesWellFormed_def)
      ultimately show ?thesis using init s Inr st' by (simp add: validateEdges_def)
    qed
  qed
qed

lemma wellFormedGraph_alt:
  "wellFormedGraph nodes edges \<longleftrightarrow>
     (\<exists>st. nodesReady nodes st) \<and> list_ex (\<lambda>n. nodeType n = NodeEnd) nodes \<and> edgesWellFormed nodes edges"
  unfolding wellFormedGraph_def nodesReady_def edgesWellFormed_def
  by (auto simp: length_Suc_conv)

text \<open>An accepted definition is well formed, and a well-formed definition is accepted.\<close>

lemma validate_accepts_iff:
  "ValidateDefinition key name nodes edges = Inr () \<longleftrightarrow> wellFormedDefinition key name nodes edges"
proof (cases "list_all nodeOk nodes \<and> distinct (map nodeID nodes)")
  case False
  then have "validateNodes nodes [] 0 0 \<noteq> Inr r" for r by (auto simp: validateNodes_Inr_iff)
  with False show ?thesis
    by (auto simp: ValidateDefinition_def wellFormedDefinition_def wellFormedGraph_def bindR_Inr_iff)
next
  case True
  let ?starts = "filter (\<lambda>n. nodeType n = NodeStart) nodes"
  let ?ends = "filter (\<lambda>n. nodeType n = NodeEnd) nodes"
  have v: "validateNodes nodes [] 0 0 = Inr (byIDOf nodes, length ?starts, length ?ends)"
    using True by (subst validateNodes_Inr_iff) (simp add: mapKeys_def)
  have ends: "length ?ends = 0 \<longleftrightarrow> \<not> list_ex (\<lambda>n. nodeType n = NodeEnd) nodes"
    by (auto simp: filter_empty_conv list_ex_iff)
  show ?thesis
  proof (cases "\<exists>st. nodesReady nodes st")
    case ready: True
    then obtain st where st: "nodesReady nodes st" by blast
    then have "length ?starts = 1" by (simp add: nodesReady_def)
    with v ends validateEdges_iff [OF st] ready show ?thesis
      unfolding ValidateDefinition_def wellFormedDefinition_def wellFormedGraph_alt
      by (auto simp del: length_0_conv)
  next
    case False
    with True have "length ?starts \<noteq> 1" by (auto simp: nodesReady_def length_Suc_conv)
    with v False show ?thesis
      unfolding ValidateDefinition_def wellFormedDefinition_def wellFormedGraph_alt by auto
  qed
qed

lemma edgesWellFormed_reachable:
  assumes ready: "nodesReady nodes st" and wf: "edgesWellFormed nodes edges" and "n \<in> set nodes"
  shows "(nodeID st, nodeID n) \<in> (edgeRel edges)\<^sup>*"
proof -
  have ok: "list_all (edgeOk nodes) edges" and acyc: "acyclic (edgeRel edges)"
    and deg: "list_all (\<lambda>n. if nodeType n = NodeStart then outDegree edges (nodeID n) = 1
          else inDegree edges (nodeID n) > 0) nodes"
    using wf by (simp_all add: edgesWellFormed_def)
  have "wf (edgeRel edges)" using acyc by (simp add: edgeRel_def finite_acyclic_wf)
  then show ?thesis using \<open>n \<in> set nodes\<close>
  proof (induction "nodeID n" arbitrary: n rule: wf_induct_rule)
    case (less n)
    show ?case
    proof (cases "nodeType n = NodeStart")
      case True
      with nodesReady_start(3) [OF ready less.prems] show ?thesis by simp
    next
      case False
      with deg less.prems have "inDegree edges (nodeID n) > 0" by (auto simp: list_all_iff)
      then obtain e where e: "e \<in> set edges" "edgeToNodeID e = nodeID n"
        by (auto simp: inDegree_def filter_empty_conv)
      then obtain m where m: "m \<in> set nodes" "nodeID m = edgeFromNodeID e"
        using ok by (auto simp: list_all_iff edgeOk_def)
      with e have "(nodeID m, nodeID n) \<in> edgeRel edges"
        by (auto simp: edgeRel_def edgePair_def image_iff intro!: bexI [of _ e])
      with less.hyps [OF _ m(1)] show ?thesis by (meson rtrancl.rtrancl_into_rtrancl)
    qed
  qed
qed

lemma wellFormedGraph_start:
  assumes "wellFormedGraph nodes edges"
  obtains st where "nodesReady nodes st"
    and "\<And>n. n \<in> set nodes \<Longrightarrow> (nodeID st, nodeID n) \<in> (edgeRel edges)\<^sup>*"
  using assms edgesWellFormed_reachable unfolding wellFormedGraph_alt by blast

end
