(* ===== verification/Graph_Props.thy ===== *)
theory Graph_Props
  imports Graph_Spec
begin

text \<open>
  The properties of the graph validation and a sample definition on which they are
  evaluated: a start node, an approval and an end node in a line.
\<close>

section \<open>A sample definition\<close>

definition sampleNodes :: "Node list" where
  "sampleNodes =
     [zeroNode\<lparr>nodeID := ''begin'', nodeName := ''Begin'', nodeType := NodeStart\<rparr>,
      zeroNode\<lparr>nodeID := ''review'', nodeName := ''Review'', nodeType := NodeApproval,
        nodeAssigneeType := AssigneeRole, nodeAssignee := ''managers''\<rparr>,
      zeroNode\<lparr>nodeID := ''finish'', nodeName := ''Finish'', nodeType := NodeEnd\<rparr>]"

definition sampleEdges :: "Edge list" where
  "sampleEdges =
     [\<lparr>edgeFromNodeID = ''begin'', edgeToNodeID = ''review'', edgeConditionExpression = [], edgePriority = 0\<rparr>,
      \<lparr>edgeFromNodeID = ''review'', edgeToNodeID = ''finish'', edgeConditionExpression = [], edgePriority = 0\<rparr>]"

lemma sample_accepted: "ValidateDefinition ''expense'' ''Expense'' sampleNodes sampleEdges = Inr ()"
  by code_simp

section \<open>Errors\<close>

lemma invalid_is: "errorsIs (invalid m) s \<longleftrightarrow> s = ErrInvalid"
  by (auto simp: invalid_def)

lemma validateNode_error: "validateNode n = Inl e \<Longrightarrow> errorsIs e ErrInvalid"
  by (auto simp: validateNode_def validateNodeType_def bindR_def invalid_is split: if_splits sum.splits)

lemma validateNodes_error: "validateNodes ns m a b = Inl e \<Longrightarrow> errorsIs e ErrInvalid"
proof (induction ns arbitrary: m a b)
  case (Cons n ns)
  show ?case
  proof (cases "validateNode n")
    case (Inl e')
    with Cons.prems validateNode_error show ?thesis by simp
  next
    case (Inr u)
    with Cons show ?thesis by (auto simp: invalid_is split: if_splits)
  qed
qed simp

lemma edgeLoop_error: "edgeLoop m es st = Inl e \<Longrightarrow> errorsIs e ErrInvalid"
  by (induction m es st rule: edgeLoop.induct) (auto simp: invalid_is split: if_splits)

lemma degreeLoop_error: "degreeLoop m s ind out = Inl e \<Longrightarrow> errorsIs e ErrInvalid"
  by (induction m s ind out rule: degreeLoop.induct) (auto simp: invalid_is split: if_splits)

lemma validateEdges_error: "validateEdges m es = Inl e \<Longrightarrow> errorsIs e ErrInvalid"
  by (auto simp: validateEdges_def bindR_def invalid_is split: prod.splits sum.splits if_splits
      dest: edgeLoop_error degreeLoop_error)

lemma validate_error: "ValidateDefinition k n ns es = Inl e \<Longrightarrow> errorsIs e ErrInvalid"
  by (auto simp: ValidateDefinition_def bindR_def invalid_is split: prod.splits sum.splits if_splits
      dest: validateNodes_error validateEdges_error)

section \<open>Paths to an end node\<close>

lemma wellFormedGraph_to_end:
  assumes wf: "wellFormedGraph nodes edges" and "n \<in> set nodes"
  shows "\<exists>m\<in>set nodes. nodeType m = NodeEnd \<and> (nodeID n, nodeID m) \<in> (edgeRel edges)\<^sup>*"
proof -
  have acyc: "acyclic ((edgeRel edges)\<inverse>)" and fin: "finite ((edgeRel edges)\<inverse>)"
    using wf by (simp_all add: wellFormedGraph_def edgeRel_def acyclic_converse)
  from finite_acyclic_wf [OF fin acyc] show ?thesis using assms(2)
  proof (induction "nodeID n" arbitrary: n rule: wf_induct_rule)
    case (less n)
    show ?case
    proof (cases "nodeType n = NodeEnd")
      case False
      with wf less.prems have "outDegree edges (nodeID n) > 0"
        by (auto simp: wellFormedGraph_def list_all_iff)
      then obtain e where e: "e \<in> set edges" "edgeFromNodeID e = nodeID n"
        by (auto simp: outDegree_def filter_empty_conv)
      then obtain m where m: "m \<in> set nodes" "nodeID m = edgeToNodeID e"
        using wf by (auto simp: wellFormedGraph_def list_all_iff edgeOk_def)
      with e have nm: "(nodeID n, nodeID m) \<in> edgeRel edges"
        by (auto simp: edgeRel_def edgePair_def image_iff intro!: bexI [of _ e])
      then have "(nodeID m, nodeID n) \<in> (edgeRel edges)\<inverse>" by simp
      from less.hyps [OF this m(1)] nm show ?thesis by (meson converse_rtrancl_into_rtrancl)
    qed (use less.prems in blast)
  qed
qed

section \<open>Properties\<close>

text \<open>
  C1: \<open>ValidateDefinition\<close> accepts exactly the well-formed definitions: a valid key and a
  non-blank name, 2 to 200 valid nodes with distinct identifiers, one start node with one
  outgoing edge, an end node, at most 500 distinct edges between existing nodes that neither
  leave an end node nor enter the start node, an incoming edge for every other node, an
  outgoing edge for every node that is not an end node, and no cycle.
\<close>

theorem ValidateDefinition_iff:
  "ValidateDefinition key name nodes edges = Inr () \<longleftrightarrow> wellFormedDefinition key name nodes edges"
  by (rule validate_accepts_iff)

text \<open>
  C26: in an accepted graph there is a start node from which a path leads to every node, and
  from every node a path leads to an end node.
\<close>

theorem accepted_graph_connected:
  assumes "ValidateDefinition key name nodes edges = Inr ()"
  shows "\<exists>st\<in>set nodes. nodeType st = NodeStart \<and>
    (\<forall>n\<in>set nodes. (nodeID st, nodeID n) \<in> (edgeRel edges)\<^sup>* \<and>
       (\<exists>m\<in>set nodes. nodeType m = NodeEnd \<and> (nodeID n, nodeID m) \<in> (edgeRel edges)\<^sup>*))"
proof -
  have wf: "wellFormedGraph nodes edges"
    using assms by (simp add: validate_accepts_iff wellFormedDefinition_def)
  then obtain st where st: "nodesReady nodes st"
    and reach: "\<And>n. n \<in> set nodes \<Longrightarrow> (nodeID st, nodeID n) \<in> (edgeRel edges)\<^sup>*"
    by (rule wellFormedGraph_start) auto
  with nodesReady_start [OF st] wellFormedGraph_to_end [OF wf] show ?thesis by blast
qed

theorem accepted_graph_connected_witness:
  "\<exists>st\<in>set sampleNodes. nodeType st = NodeStart \<and>
    (\<forall>n\<in>set sampleNodes. (nodeID st, nodeID n) \<in> (edgeRel sampleEdges)\<^sup>* \<and>
       (\<exists>m\<in>set sampleNodes. nodeType m = NodeEnd \<and> (nodeID n, nodeID m) \<in> (edgeRel sampleEdges)\<^sup>*))"
  by (rule accepted_graph_connected [OF sample_accepted])

text \<open>
  Every error of \<open>ValidateDefinition\<close> is an \<open>ErrInvalid\<close> and no other sentinel, so that
  the transports answer a rejected graph with their invalid-argument code.
\<close>

theorem ValidateDefinition_error_invalid:
  assumes "ValidateDefinition key name nodes edges = Inl e"
  shows "errorsIs e s \<longleftrightarrow> s = ErrInvalid"
  using validate_error [OF assms] errorsIs_unique by blast

theorem ValidateDefinition_error_invalid_witness:
  "errorsIs (invalid ''workflow graph must be acyclic'') ErrInvalid"
proof -
  let ?mid = "\<lambda>i. zeroNode\<lparr>nodeID := i, nodeName := i, nodeType := NodeApproval, nodeAssigneeType := AssigneeStarter\<rparr>"
  let ?e = "\<lambda>a b. \<lparr>edgeFromNodeID = a, edgeToNodeID = b, edgeConditionExpression = [], edgePriority = 0\<rparr>"
  have "ValidateDefinition ''k'' ''n''
      [zeroNode\<lparr>nodeID := ''s'', nodeName := ''s'', nodeType := NodeStart\<rparr>, ?mid ''a'', ?mid ''b'',
       zeroNode\<lparr>nodeID := ''f'', nodeName := ''f'', nodeType := NodeEnd\<rparr>]
      [?e ''s'' ''a'', ?e ''a'' ''b'', ?e ''b'' ''a'', ?e ''b'' ''f'']
    = Inl (invalid ''workflow graph must be acyclic'')" by code_simp
  from ValidateDefinition_error_invalid [OF this, of ErrInvalid] show ?thesis by simp
qed

end
