(* ===== verification/Protocol.thy ===== *)
theory Protocol
  imports Model
begin

text \<open>
  The messages the service exchanges: the protobuf enums and messages of the workflow API, as
  the sources build and read them, and the conversions of \<open>internal/workflowevent/factory.go\<close>
  and \<open>internal/workflowruntime/commands.go\<close>. A message is the record of the fields the
  sources set, an enum the datatype of the constants they name and the zero value; a pointer
  that may be nil is an option. A conversion is a Go map literal indexed by its argument, so a
  value that is not among its keys gives the zero value.
\<close>

section \<open>Enums\<close>

datatype DefinitionStatus =
    DEFINITION_STATUS_UNSPECIFIED
  | DEFINITION_STATUS_DRAFT
  | DEFINITION_STATUS_PUBLISHED
  | DEFINITION_STATUS_DISABLED

datatype NodeType =
    NODE_TYPE_UNSPECIFIED
  | NODE_TYPE_START
  | NODE_TYPE_APPROVAL
  | NODE_TYPE_SERVICE_TASK
  | NODE_TYPE_TIMER
  | NODE_TYPE_END

datatype AssigneeType =
    ASSIGNEE_TYPE_UNSPECIFIED
  | ASSIGNEE_TYPE_USER
  | ASSIGNEE_TYPE_ROLE
  | ASSIGNEE_TYPE_STARTER
  | ASSIGNEE_TYPE_EXPRESSION

datatype InstanceStatus =
    INSTANCE_STATUS_UNSPECIFIED
  | INSTANCE_STATUS_RUNNING
  | INSTANCE_STATUS_COMPLETED
  | INSTANCE_STATUS_REJECTED
  | INSTANCE_STATUS_CANCELLED
  | INSTANCE_STATUS_FAILED

datatype TaskStatus =
    TASK_STATUS_UNSPECIFIED
  | TASK_STATUS_PENDING
  | TASK_STATUS_CLAIMED
  | TASK_STATUS_APPROVED
  | TASK_STATUS_REJECTED
  | TASK_STATUS_CANCELLED
  | TASK_STATUS_EXPIRED

datatype TaskDecision =
    TASK_DECISION_UNSPECIFIED
  | TASK_DECISION_APPROVE
  | TASK_DECISION_REJECT

section \<open>Messages\<close>

record WorkflowNode =
  pnId :: string
  pnName :: string
  pnType :: NodeType
  pnAssigneeType :: AssigneeType
  pnAssignee :: string
  pnTimeoutSeconds :: "32 word"
  pnTargetService :: string
  pnFullMethod :: string
  pnRequestTemplateJson :: string
  pnCompensationMethod :: string
  pnTimerSeconds :: "32 word"
  pnConfigJson :: string

record WorkflowEdge =
  peFromNodeId :: string
  peToNodeId :: string
  peConditionExpression :: string
  pePriority :: int

record WorkflowDefinition =
  pdId :: string
  pdTenantId :: string
  pdApplicationId :: string
  pdKey :: string
  pdName :: string
  pdDescription :: string
  pdStatus :: DefinitionStatus
  pdPublishedRevision :: "32 word"
  pdNodes :: "WorkflowNode option list"
  pdEdges :: "WorkflowEdge option list"
  pdVersion :: int
  pdCreatedAt :: "time option"
  pdUpdatedAt :: "time option"
  pdCreatedBy :: string
  pdUpdatedBy :: string

record WorkflowInstance =
  piId :: string
  piTenantId :: string
  piApplicationId :: string
  piDefinitionId :: string
  piDefinitionRevision :: "32 word"
  piBusinessKey :: string
  piTitle :: string
  piStarterId :: string
  piStatus :: InstanceStatus
  piCurrentNodeId :: string
  piVariablesJson :: string
  piResultJson :: string
  piErrorCode :: string
  piErrorMessage :: string
  piStartedAt :: "time option"
  piFinishedAt :: "time option"
  piVersion :: int
  piCreatedAt :: "time option"
  piUpdatedAt :: "time option"
  piCreatedBy :: string
  piUpdatedBy :: string

record WorkflowTask =
  ptId :: string
  ptTenantId :: string
  ptApplicationId :: string
  ptInstanceId :: string
  ptNodeId :: string
  ptName :: string
  ptAssigneeType :: AssigneeType
  ptAssignee :: string
  ptClaimedBy :: string
  ptStatus :: TaskStatus
  ptDecision :: TaskDecision
  ptComment :: string
  ptInputJson :: string
  ptOutputJson :: string
  ptDueAt :: "time option"
  ptCompletedAt :: "time option"
  ptVersion :: int
  ptCreatedAt :: "time option"
  ptUpdatedAt :: "time option"
  ptCreatedBy :: string
  ptUpdatedBy :: string

text \<open>The payloads of the six events of the factory.\<close>

datatype Payload =
    DefinitionPublishedEvent WorkflowDefinition
  | InstanceStartRequestedEvent "WorkflowInstance option" "WorkflowDefinition option"
  | InstanceCancellationRequestedEvent "WorkflowInstance option" string
  | InstanceStatusChangedEvent WorkflowInstance InstanceStatus
  | TaskCreatedEvent WorkflowTask
  | TaskCompletedEvent "WorkflowTask option"

record Metadata =
  metaEventID :: string
  metaEventType :: string
  metaAggregateID :: string
  metaAggregateType :: string
  metaTenantID :: string
  metaApplicationID :: string
  metaSchemaVersion :: int
  metaRequestID :: string
  metaTraceID :: string
  metaActorID :: string
  metaActorType :: string
  metaOccurredAt :: time

text \<open>
  An event envelope: what \<open>eventbus.NewEnvelope\<close> packs and \<open>eventbus.DecodePayload\<close> unpacks.
  The two functions are parameters of the definitions that call them.
\<close>

record EventEnvelope =
  envEventId :: string
  envEventType :: string
  envMetadata :: Metadata
  envPayload :: Payload

record OutboxEvent =
  evID :: string
  evSubject :: string
  evEnvelope :: EventEnvelope

section \<open>Conversions of the event factory\<close>

definition definitionStatus :: "string \<Rightarrow> DefinitionStatus" where
  "definitionStatus v = mapGetD DEFINITION_STATUS_UNSPECIFIED
     [(DefinitionDraft, DEFINITION_STATUS_DRAFT),
      (DefinitionPublished, DEFINITION_STATUS_PUBLISHED),
      (DefinitionDisabled, DEFINITION_STATUS_DISABLED)] v"

definition nodeTypeOf :: "string \<Rightarrow> NodeType" where
  "nodeTypeOf v = mapGetD NODE_TYPE_UNSPECIFIED
     [(NodeStart, NODE_TYPE_START),
      (NodeApproval, NODE_TYPE_APPROVAL),
      (NodeServiceTask, NODE_TYPE_SERVICE_TASK),
      (NodeTimer, NODE_TYPE_TIMER),
      (NodeEnd, NODE_TYPE_END)] v"

definition assigneeTypeOf :: "string \<Rightarrow> AssigneeType" where
  "assigneeTypeOf v = mapGetD ASSIGNEE_TYPE_UNSPECIFIED
     [(AssigneeUser, ASSIGNEE_TYPE_USER),
      (AssigneeRole, ASSIGNEE_TYPE_ROLE),
      (AssigneeStarter, ASSIGNEE_TYPE_STARTER),
      (AssigneeExpression, ASSIGNEE_TYPE_EXPRESSION)] v"

definition instanceStatus :: "string \<Rightarrow> InstanceStatus" where
  "instanceStatus v = mapGetD INSTANCE_STATUS_UNSPECIFIED
     [(InstanceRunning, INSTANCE_STATUS_RUNNING),
      (InstanceCompleted, INSTANCE_STATUS_COMPLETED),
      (InstanceRejected, INSTANCE_STATUS_REJECTED),
      (InstanceCancelled, INSTANCE_STATUS_CANCELLED),
      (InstanceFailed, INSTANCE_STATUS_FAILED)] v"

definition taskStatusOf :: "string \<Rightarrow> TaskStatus" where
  "taskStatusOf v = mapGetD TASK_STATUS_UNSPECIFIED
     [(TaskPending, TASK_STATUS_PENDING),
      (TaskClaimed, TASK_STATUS_CLAIMED),
      (TaskApproved, TASK_STATUS_APPROVED),
      (TaskRejected, TASK_STATUS_REJECTED),
      (TaskCancelled, TASK_STATUS_CANCELLED),
      (TaskExpired, TASK_STATUS_EXPIRED)] v"

definition taskDecisionOf :: "string \<Rightarrow> TaskDecision" where
  "taskDecisionOf v = mapGetD TASK_DECISION_UNSPECIFIED
     [(DecisionApprove, TASK_DECISION_APPROVE),
      (DecisionReject, TASK_DECISION_REJECT)] v"

text \<open>\<open>timestamp\<close> drops the zero time; \<open>timestamppb.New\<close> keeps the instant.\<close>

definition timestamp :: "time \<Rightarrow> time option" where
  "timestamp v = (if v = 0 then None else Some v)"

definition optionalTimestamp :: "time option \<Rightarrow> time option" where
  "optionalTimestamp v = (case v of None \<Rightarrow> None | Some t \<Rightarrow> timestamp t)"

definition nodeProto :: "Node \<Rightarrow> WorkflowNode" where
  "nodeProto node = \<lparr>pnId = nodeID node, pnName = nodeName node, pnType = nodeTypeOf (nodeType node),
     pnAssigneeType = assigneeTypeOf (nodeAssigneeType node), pnAssignee = nodeAssignee node,
     pnTimeoutSeconds = nodeTimeoutSeconds node, pnTargetService = nodeTargetService node,
     pnFullMethod = nodeFullMethod node, pnRequestTemplateJson = nodeRequestTemplateJSON node,
     pnCompensationMethod = nodeCompensationMethod node, pnTimerSeconds = nodeTimerSeconds node,
     pnConfigJson = nodeConfigJSON node\<rparr>"

definition edgeProto :: "Edge \<Rightarrow> WorkflowEdge" where
  "edgeProto edge = \<lparr>peFromNodeId = edgeFromNodeID edge, peToNodeId = edgeToNodeID edge,
     peConditionExpression = edgeConditionExpression edge, pePriority = edgePriority edge\<rparr>"

definition definitionProto :: "Definition \<Rightarrow> WorkflowDefinition" where
  "definitionProto v = \<lparr>pdId = defID v, pdTenantId = defTenantID v, pdApplicationId = defApplicationID v,
     pdKey = defKey v, pdName = defName v, pdDescription = defDescription v,
     pdStatus = definitionStatus (defStatus v), pdPublishedRevision = defPublishedRevision v,
     pdNodes = map (\<lambda>n. Some (nodeProto n)) (defNodes v),
     pdEdges = map (\<lambda>e. Some (edgeProto e)) (defEdges v), pdVersion = defVersion v,
     pdCreatedAt = timestamp (defCreatedAt v), pdUpdatedAt = timestamp (defUpdatedAt v),
     pdCreatedBy = defCreatedBy v, pdUpdatedBy = defUpdatedBy v\<rparr>"

definition instanceProto :: "Instance \<Rightarrow> WorkflowInstance" where
  "instanceProto v = \<lparr>piId = instID v, piTenantId = instTenantID v, piApplicationId = instApplicationID v,
     piDefinitionId = instDefinitionID v, piDefinitionRevision = instDefinitionRevision v,
     piBusinessKey = instBusinessKey v, piTitle = instTitle v, piStarterId = instStarterID v,
     piStatus = instanceStatus (instStatus v), piCurrentNodeId = instCurrentNodeID v,
     piVariablesJson = instVariablesJSON v, piResultJson = instResultJSON v,
     piErrorCode = instErrorCode v, piErrorMessage = instErrorMessage v,
     piStartedAt = timestamp (instStartedAt v), piFinishedAt = optionalTimestamp (instFinishedAt v),
     piVersion = instVersion v, piCreatedAt = timestamp (instCreatedAt v),
     piUpdatedAt = timestamp (instUpdatedAt v), piCreatedBy = instCreatedBy v,
     piUpdatedBy = instUpdatedBy v\<rparr>"

definition taskProto :: "Task \<Rightarrow> WorkflowTask" where
  "taskProto v = \<lparr>ptId = taskID v, ptTenantId = taskTenantID v, ptApplicationId = taskApplicationID v,
     ptInstanceId = taskInstanceID v, ptNodeId = taskNodeID v, ptName = taskName v,
     ptAssigneeType = assigneeTypeOf (taskAssigneeType v), ptAssignee = taskAssignee v,
     ptClaimedBy = taskClaimedBy v, ptStatus = taskStatusOf (taskStatus v),
     ptDecision = taskDecisionOf (taskDecision v), ptComment = taskComment v,
     ptInputJson = taskInputJSON v, ptOutputJson = taskOutputJSON v,
     ptDueAt = optionalTimestamp (taskDueAt v), ptCompletedAt = optionalTimestamp (taskCompletedAt v),
     ptVersion = taskVersion v, ptCreatedAt = timestamp (taskCreatedAt v),
     ptUpdatedAt = timestamp (taskUpdatedAt v), ptCreatedBy = taskCreatedBy v,
     ptUpdatedBy = taskUpdatedBy v\<rparr>"

section \<open>Conversions of the command handler\<close>

definition nodeTypeFromProto :: "NodeType \<Rightarrow> string" where
  "nodeTypeFromProto v = mapGetD []
     [(NODE_TYPE_START, NodeStart),
      (NODE_TYPE_APPROVAL, NodeApproval),
      (NODE_TYPE_SERVICE_TASK, NodeServiceTask),
      (NODE_TYPE_TIMER, NodeTimer),
      (NODE_TYPE_END, NodeEnd)] v"

definition assigneeTypeFromProto :: "AssigneeType \<Rightarrow> string" where
  "assigneeTypeFromProto v = mapGetD []
     [(ASSIGNEE_TYPE_USER, AssigneeUser),
      (ASSIGNEE_TYPE_ROLE, AssigneeRole),
      (ASSIGNEE_TYPE_STARTER, AssigneeStarter),
      (ASSIGNEE_TYPE_EXPRESSION, AssigneeExpression)] v"

definition decisionFromProto :: "TaskDecision \<Rightarrow> string" where
  "decisionFromProto v = mapGetD []
     [(TASK_DECISION_APPROVE, DecisionApprove),
      (TASK_DECISION_REJECT, DecisionReject)] v"

definition nodeFromProto :: "WorkflowNode \<Rightarrow> Node" where
  "nodeFromProto v = \<lparr>nodeID = pnId v, nodeName = pnName v, nodeType = nodeTypeFromProto (pnType v),
     nodeAssigneeType = assigneeTypeFromProto (pnAssigneeType v), nodeAssignee = pnAssignee v,
     nodeTimeoutSeconds = pnTimeoutSeconds v, nodeTargetService = pnTargetService v,
     nodeFullMethod = pnFullMethod v, nodeRequestTemplateJSON = pnRequestTemplateJson v,
     nodeCompensationMethod = pnCompensationMethod v, nodeTimerSeconds = pnTimerSeconds v,
     nodeConfigJSON = pnConfigJson v\<rparr>"

definition edgeFromProto :: "WorkflowEdge \<Rightarrow> Edge" where
  "edgeFromProto v = \<lparr>edgeFromNodeID = peFromNodeId v, edgeToNodeID = peToNodeId v,
     edgeConditionExpression = peConditionExpression v, edgePriority = pePriority v\<rparr>"

fun nodesFromProto :: "WorkflowNode option list \<Rightarrow> Node list" where
  "nodesFromProto [] = []"
| "nodesFromProto (None # vs) = nodesFromProto vs"
| "nodesFromProto (Some v # vs) = nodeFromProto v # nodesFromProto vs"

fun edgesFromProto :: "WorkflowEdge option list \<Rightarrow> Edge list" where
  "edgesFromProto [] = []"
| "edgesFromProto (None # vs) = edgesFromProto vs"
| "edgesFromProto (Some v # vs) = edgeFromProto v # edgesFromProto vs"

section \<open>Round trips\<close>

lemmas proto_maps =
  definitionStatus_def nodeTypeOf_def assigneeTypeOf_def instanceStatus_def taskStatusOf_def
  taskDecisionOf_def nodeTypeFromProto_def assigneeTypeFromProto_def decisionFromProto_def

lemma nodeType_roundtrip:
  "t \<in> {NodeStart, NodeApproval, NodeServiceTask, NodeTimer, NodeEnd} \<Longrightarrow> nodeTypeFromProto (nodeTypeOf t) = t"
  by (auto simp: proto_maps mapGetD_def constant_defs)

lemma assigneeType_roundtrip:
  "t \<in> {[], AssigneeUser, AssigneeRole, AssigneeStarter, AssigneeExpression}
   \<Longrightarrow> assigneeTypeFromProto (assigneeTypeOf t) = t"
  by (auto simp: proto_maps mapGetD_def constant_defs)

lemma decision_roundtrip:
  "d \<in> {[], DecisionApprove, DecisionReject} \<Longrightarrow> decisionFromProto (taskDecisionOf d) = d"
  by (auto simp: proto_maps mapGetD_def constant_defs)

definition protoSafe :: "Node \<Rightarrow> bool" where
  "protoSafe n \<longleftrightarrow>
     nodeType n \<in> {NodeStart, NodeApproval, NodeServiceTask, NodeTimer, NodeEnd} \<and>
     nodeAssigneeType n \<in> {[], AssigneeUser, AssigneeRole, AssigneeStarter, AssigneeExpression}"

lemma node_roundtrip: "protoSafe n \<Longrightarrow> nodeFromProto (nodeProto n) = n"
  by (simp add: protoSafe_def nodeFromProto_def nodeProto_def nodeType_roundtrip assigneeType_roundtrip)

lemma nodes_roundtrip: "list_all protoSafe ns \<Longrightarrow> nodesFromProto (map (\<lambda>n. Some (nodeProto n)) ns) = ns"
  by (induction ns) (simp_all add: node_roundtrip)

lemma edges_roundtrip: "edgesFromProto (map (\<lambda>e. Some (edgeProto e)) es) = es"
  by (induction es) (simp_all add: edgeFromProto_def edgeProto_def)

end
