(* ===== verification/World.thy ===== *)
theory World
  imports Protocol
begin

text \<open>
  The state the service works on and the monad its code is written in: the database with its
  five tables and the outbox, the clock, the source of identifiers and the outcome of every
  call to the database, each of which may fail. A computation maps a world to a result and the
  next world. Requests run one after the other; inside a request a transaction is a snapshot
  that \<open>defer tx.Rollback()\<close> restores unless the commit succeeded.
\<close>

section \<open>The request context\<close>

text \<open>\<open>platformprincipal.Principal\<close>, the fields the sources read.\<close>

record Principal =
  prID :: string
  prTenantID :: string
  prMembershipID :: string
  prType :: string

record Context =
  ctxPrincipal :: "Principal option"
  ctxRequestID :: string
  ctxTraceID :: string

section \<open>The database\<close>

text \<open>
  A row of \<open>workflow_definitions\<close> is a \<^typ>\<open>Definition\<close> whose \<open>Nodes\<close> and \<open>Edges\<close>, which are
  no columns, are empty. A row of the outbox is the event and the actor that enqueued it.
\<close>

record database =
  dbDefinitions :: "Definition list"
  dbRevisions :: "DefinitionRevision list"
  dbInstances :: "Instance list"
  dbTasks :: "Task list"
  dbHistory :: "TaskHistory list"
  dbOutbox :: "(OutboxEvent \<times> string) list"

definition emptyDatabase :: database where
  "emptyDatabase = \<lparr>dbDefinitions = [], dbRevisions = [], dbInstances = [], dbTasks = [],
     dbHistory = [], dbOutbox = []\<rparr>"

text \<open>
  \<open>wFaults n\<close> is the error of the \<open>n\<close>-th call to the database driver, if it fails: a lost
  connection, a cancelled context, a full disk, a value the column cannot hold.
\<close>

record world =
  wDb :: database
  wCommitted :: bool
  wFaults :: "nat \<Rightarrow> goerr option"
  wCalls :: nat
  wClock :: "nat \<Rightarrow> time"
  wTicks :: nat
  wIds :: "nat \<Rightarrow> string"
  wFresh :: nat
  wRemote :: nat

text \<open>A computation on a state; the service's run on the world.\<close>

type_synonym ('s, 'a) stm = "'s \<Rightarrow> 'a result \<times> 's"

type_synonym 'a io = "(world, 'a) stm"

section \<open>Code that is not part of the repository\<close>

text \<open>
  The functions of other modules the service calls, as one record of parameters:
  \<open>eventbus.NewEnvelope\<close> and \<open>eventbus.DecodePayload\<close>, the transactional outbox's \<open>AddTx\<close>, the
  database's \<open>LOWER(column) LIKE pattern\<close> on a lower-cased search text and its collation, and
  \<open>appaccess.Verifier\<close>. What a theorem assumes of them it states as a hypothesis.
\<close>

record deps =
  depNewEnvelope :: "Metadata \<Rightarrow> Payload \<Rightarrow> EventEnvelope result"
  depDecodePayload :: "EventEnvelope \<Rightarrow> Payload result"
  depAddTx :: "OutboxEvent \<Rightarrow> string \<Rightarrow> (OutboxEvent \<times> string) list \<Rightarrow> (OutboxEvent \<times> string) list result"
  depSearchMatches :: "string \<Rightarrow> string \<Rightarrow> bool"
  depCollate :: "string \<Rightarrow> string \<Rightarrow> bool"
  depVerify :: "nat \<Rightarrow> Context \<Rightarrow> string \<Rightarrow> string \<Rightarrow> unit result"

text \<open>What \<open>NewEnvelope\<close> and \<open>AddTx\<close> document: the envelope carries its arguments, the row is added.\<close>

definition envelopeLaw :: "deps \<Rightarrow> bool" where
  "envelopeLaw d \<longleftrightarrow> (\<forall>m p e. depNewEnvelope d m p = Inr e \<longrightarrow>
     envEventId e = metaEventID m \<and> envEventType e = metaEventType m \<and> envMetadata e = m \<and> envPayload e = p)"

definition outboxLaw :: "deps \<Rightarrow> bool" where
  "outboxLaw d \<longleftrightarrow> (\<forall>ev actor rows rows'. depAddTx d ev actor rows = Inr rows' \<longrightarrow> rows' = rows @ [(ev, actor)])"

section \<open>Computations\<close>

definition ret :: "'a \<Rightarrow> ('s, 'a) stm" where
  "ret x w = (Inr x, w)"

definition fail :: "goerr \<Rightarrow> ('s, 'a) stm" where
  "fail e w = (Inl e, w)"

definition bindE :: "('s, 'a) stm \<Rightarrow> ('a \<Rightarrow> ('s, 'b) stm) \<Rightarrow> ('s, 'b) stm" where
  "bindE m k w = (case m w of (Inl e, w') \<Rightarrow> (Inl e, w') | (Inr x, w') \<Rightarrow> k x w')"

text \<open>\<open>if err != nil { return ..., f(err) }\<close>.\<close>

definition mapErr :: "(goerr \<Rightarrow> goerr) \<Rightarrow> ('s, 'a) stm \<Rightarrow> ('s, 'a) stm" where
  "mapErr f m w = (case m w of (Inl e, w') \<Rightarrow> (Inl (f e), w') | (Inr x, w') \<Rightarrow> (Inr x, w'))"

text \<open>\<open>fmt.Errorf("msg: %w", err)\<close>.\<close>

definition wrapE :: "string \<Rightarrow> ('s, 'a) stm \<Rightarrow> ('s, 'a) stm" where
  "wrapE msg = mapErr (\<lambda>e. Wrapf (msg @ '': '') e [])"

definition liftR :: "'a result \<Rightarrow> ('s, 'a) stm" where
  "liftR r w = (r, w)"

definition guardE :: "bool \<Rightarrow> goerr \<Rightarrow> ('s, unit) stm" where
  "guardE b e = (if b then fail e else ret ())"

definition now :: "time io" where
  "now w = (Inr (wClock w (wTicks w)), w\<lparr>wTicks := wTicks w + 1\<rparr>)"

definition newID :: "string io" where
  "newID w = (Inr (wIds w (wFresh w)), w\<lparr>wFresh := wFresh w + 1\<rparr>)"

text \<open>A call to another service: the answer depends on how many came before it.\<close>

definition remote :: "(nat \<Rightarrow> 'a result) \<Rightarrow> 'a io" where
  "remote f w = (f (wRemote w), w\<lparr>wRemote := wRemote w + 1\<rparr>)"

text \<open>A call to the driver: it fails as the world decides, or runs the statement.\<close>

definition dbCall :: "(database \<Rightarrow> 'a result \<times> database) \<Rightarrow> 'a io" where
  "dbCall f w =
     (let w' = w\<lparr>wCalls := wCalls w + 1\<rparr> in
      case wFaults w (wCalls w) of
        Some e \<Rightarrow> (Inl e, w')
      | None \<Rightarrow> (case f (wDb w) of (r, db) \<Rightarrow> (r, w'\<lparr>wDb := db\<rparr>)))"

text \<open>A query changes nothing.\<close>

definition query :: "(database \<Rightarrow> 'a result) \<Rightarrow> 'a io" where
  "query q = dbCall (\<lambda>db. (q db, db))"

text \<open>\<open>tx.Commit()\<close>, and a transaction: \<open>BeginTxx\<close>, the body, the deferred rollback.\<close>

definition commitTx :: "unit io" where
  "commitTx w =
     (case dbCall (\<lambda>db. (Inr (), db)) w of
        (Inl e, w') \<Rightarrow> (Inl e, w')
      | (Inr u, w') \<Rightarrow> (Inr u, w'\<lparr>wCommitted := True\<rparr>))"

definition beginTx :: "unit io" where
  "beginTx = dbCall (\<lambda>db. (Inr (), db))"

definition rollbackTo :: "database \<Rightarrow> world \<Rightarrow> world" where
  "rollbackTo db w = (if wCommitted w then w else w\<lparr>wDb := db\<rparr>)"

definition inTx :: "string \<Rightarrow> 'a io \<Rightarrow> 'a io" where
  "inTx what body =
     bindE (wrapE (''begin '' @ what) beginTx) (\<lambda>_ w.
       case body (w\<lparr>wCommitted := False\<rparr>) of
         (r, w') \<Rightarrow> (r, rollbackTo (wDb w) w'))"

section \<open>Laws\<close>

lemma io_basic [io_simps]:
  "ret x w = (Inr x, w)" "fail e w = (Inl e, w)" "liftR r w = (r, w)"
  by (simp_all add: ret_def fail_def liftR_def)

lemma guardE_simps [io_simps]: "guardE b e w = (if b then (Inl e, w) else (Inr (), w))"
  by (simp add: guardE_def io_simps)

text \<open>Inversion rules: what a computation that ended in \<open>(r, w')\<close> did.\<close>

lemma bindE_cases:
  assumes "bindE m k w = (r, w')"
  obtains (err) e where "m w = (Inl e, w')" "r = Inl e"
  | (ok) x w1 where "m w = (Inr x, w1)" "k x w1 = (r, w')"
  using assms by (auto simp: bindE_def split: prod.splits sum.splits)

lemma bindE_Inr: "bindE m k w = (Inr y, w') \<longleftrightarrow> (\<exists>x w1. m w = (Inr x, w1) \<and> k x w1 = (Inr y, w'))"
  by (auto simp: bindE_def split: prod.splits sum.splits)

lemma wrapE_Inr: "wrapE msg m w = (Inr x, w') \<longleftrightarrow> m w = (Inr x, w')"
  by (auto simp: wrapE_def mapErr_def split: prod.splits sum.splits)

lemma mapErr_Inr: "mapErr f m w = (Inr x, w') \<longleftrightarrow> m w = (Inr x, w')"
  by (auto simp: mapErr_def split: prod.splits sum.splits)

lemma wrapE_Inl: "wrapE msg m w = (Inl e, w') \<longleftrightarrow> (\<exists>e0. m w = (Inl e0, w') \<and> e = Wrapf (msg @ '': '') e0 [])"
  by (auto simp: wrapE_def mapErr_def split: prod.splits sum.splits)

text \<open>What stays the same: a computation only reads the oracles of the world.\<close>

definition sameDb :: "world \<Rightarrow> world \<Rightarrow> bool" where
  "sameDb w w' \<longleftrightarrow> wDb w' = wDb w"

lemma dbCall_cases:
  assumes "dbCall f w = (r, w')"
  obtains (fault) e where "r = Inl e" "wDb w' = wDb w" "wCommitted w' = wCommitted w"
  | (ok) "f (wDb w) = (r, wDb w')" "wCommitted w' = wCommitted w"
  using assms by (auto simp: dbCall_def Let_def split: option.splits prod.splits)

lemma dbCall_Inr:
  "dbCall f w = (Inr x, w') \<longleftrightarrow>
     wFaults w (wCalls w) = None \<and> (\<exists>db. f (wDb w) = (Inr x, db) \<and> w' = w\<lparr>wCalls := wCalls w + 1, wDb := db\<rparr>)"
  by (auto simp: dbCall_def Let_def split: option.splits prod.splits)

lemma query_Inr:
  "query q w = (Inr x, w') \<longleftrightarrow>
     wFaults w (wCalls w) = None \<and> q (wDb w) = Inr x \<and> w' = w\<lparr>wCalls := wCalls w + 1\<rparr>"
  by (auto simp: query_def dbCall_Inr)

section \<open>Relations every computation keeps\<close>

text \<open>
  A computation keeps a relation when the database before and after it are related, however it
  ended. For a reflexive and transitive relation this composes; an invariant \<open>I\<close> is the relation
  that \<open>I\<close> before implies \<open>I\<close> after.
\<close>

definition keeps :: "(database \<Rightarrow> database \<Rightarrow> bool) \<Rightarrow> 'a io \<Rightarrow> bool" where
  "keeps R m \<longleftrightarrow> (\<forall>w. R (wDb w) (wDb (snd (m w))))"

lemma keepsI: "(\<And>w r w'. m w = (r, w') \<Longrightarrow> R (wDb w) (wDb w')) \<Longrightarrow> keeps R m"
  unfolding keeps_def by (metis prod.collapse)

lemma keepsD: "keeps R m \<Longrightarrow> m w = (r, w') \<Longrightarrow> R (wDb w) (wDb w')"
  unfolding keeps_def by (metis snd_conv)

locale db_order =
  fixes R :: "database \<Rightarrow> database \<Rightarrow> bool"
  assumes refl_R: "R db db"
    and trans_R: "R a b \<Longrightarrow> R b c \<Longrightarrow> R a c"
begin

lemma keeps_pure:
  "keeps R (ret x)" "keeps R (fail e)" "keeps R (liftR r)" "keeps R (guardE b e)"
  "keeps R now" "keeps R newID" "keeps R (remote f)"
  by (auto simp: keeps_def io_simps now_def newID_def remote_def refl_R)

lemma keeps_bind: "keeps R m \<Longrightarrow> (\<And>x. keeps R (k x)) \<Longrightarrow> keeps R (bindE m k)"
  by (rule keepsI, erule bindE_cases) (auto dest: keepsD intro: trans_R)

lemma keeps_mapErr: "keeps R m \<Longrightarrow> keeps R (mapErr f m)"
  by (rule keepsI) (auto simp: mapErr_def split: prod.splits sum.splits dest: keepsD)

lemma keeps_wrap: "keeps R m \<Longrightarrow> keeps R (wrapE msg m)"
  by (simp add: wrapE_def keeps_mapErr)

lemma keeps_dbCall: "(\<And>db. R db (snd (f db))) \<Longrightarrow> keeps R (dbCall f)"
  by (rule keepsI, erule dbCall_cases) (simp add: refl_R, metis snd_conv)

lemma keeps_query: "keeps R (query q)"
  unfolding query_def by (rule keeps_dbCall) (simp add: refl_R)

lemma keeps_commit: "keeps R commitTx"
  by (rule keepsI)
    (auto simp: commitTx_def dbCall_def Let_def refl_R split: prod.splits sum.splits option.splits)

lemma keeps_begin: "keeps R beginTx"
  unfolding beginTx_def by (rule keeps_dbCall) (simp add: refl_R)

lemma keeps_inTx:
  assumes "keeps R body"
  shows "keeps R (inTx what body)"
  unfolding inTx_def
proof (rule keeps_bind [OF keeps_wrap [OF keeps_begin]], rule keepsI)
  fix u w r w'
  assume "(case body (w\<lparr>wCommitted := False\<rparr>) of (r, w') \<Rightarrow> (r, rollbackTo (wDb w) w')) = (r, w')"
  then obtain w1 where "body (w\<lparr>wCommitted := False\<rparr>) = (r, w1)" "w' = rollbackTo (wDb w) w1"
    by (auto split: prod.splits)
  with assms show "R (wDb w) (wDb w')" by (auto simp: rollbackTo_def refl_R dest: keepsD)
qed

lemmas keeps_intros =
  keeps_pure keeps_bind keeps_mapErr keeps_wrap keeps_query keeps_commit keeps_inTx

end

lemma inTx_cases:
  assumes "inTx what body w = (r, w')"
  obtains (unopened) e where "r = Inl (Wrapf (''begin '' @ what @ '': '') e [])" "wDb w' = wDb w"
  | (rolled) w0 w1 where "body w0 = (r, w1)" "wDb w0 = wDb w" "\<not> wCommitted w0" "\<not> wCommitted w1" "wDb w' = wDb w"
  | (committed) w0 where "body w0 = (r, w')" "wDb w0 = wDb w" "\<not> wCommitted w0" "wCommitted w'"
  using assms unfolding inTx_def
proof (elim bindE_cases)
  fix e assume *: "wrapE (''begin '' @ what) beginTx w = (Inl e, w')" "r = Inl e"
  then show thesis
    by (intro unopened [of "case e of Wrapf _ e' _ \<Rightarrow> e'"])
      (auto simp: wrapE_Inl beginTx_def dbCall_def Let_def split: option.splits prod.splits)
next
  fix x w1
  assume b: "wrapE (''begin '' @ what) beginTx w = (Inr x, w1)"
    and c: "(case body (w1\<lparr>wCommitted := False\<rparr>) of (r, w') \<Rightarrow> (r, rollbackTo (wDb w1) w')) = (r, w')"
  from b have db: "wDb w1 = wDb w" by (auto simp: wrapE_Inr beginTx_def dbCall_Inr)
  from c obtain w2 where w2: "body (w1\<lparr>wCommitted := False\<rparr>) = (r, w2)" "w' = rollbackTo (wDb w1) w2"
    by (auto split: prod.splits)
  with db show thesis
    by (cases "wCommitted w2") (auto simp: rollbackTo_def intro: rolled committed)
qed

section \<open>What a committed transaction did\<close>

text \<open>
  A computation is quiet when it leaves the commit flag alone. A transaction body that ended
  with a commit or with a value has run each quiet step to a value, up to the commit.
\<close>

definition quiet :: "'a io \<Rightarrow> bool" where
  "quiet m \<longleftrightarrow> (\<forall>w. wCommitted (snd (m w)) = wCommitted w)"

definition live :: "'a result \<Rightarrow> world \<Rightarrow> bool" where
  "live r w \<longleftrightarrow> wCommitted w \<or> isOk r"

lemma quietD: "quiet m \<Longrightarrow> m w = (r, w') \<Longrightarrow> wCommitted w' = wCommitted w"
  unfolding quiet_def by (metis snd_conv)

lemma quiet_dbCall: "quiet (dbCall f)"
  by (auto simp: quiet_def dbCall_def Let_def split: option.splits prod.splits)

lemma quietI: "(\<And>w r w'. m w = (r, w') \<Longrightarrow> wCommitted w' = wCommitted w) \<Longrightarrow> quiet m"
  unfolding quiet_def by (metis prod.collapse)

lemma quiet_mapErr: "quiet m \<Longrightarrow> quiet (mapErr f m)"
  by (rule quietI) (auto simp: mapErr_def split: prod.splits sum.splits dest: quietD)

lemma quiet_bind: "quiet m \<Longrightarrow> (\<And>x. quiet (k x)) \<Longrightarrow> quiet (bindE m k)"
  by (rule quietI, erule bindE_cases) (auto dest: quietD)

lemma quiet_wrap: "quiet m \<Longrightarrow> quiet (wrapE msg m)"
  unfolding wrapE_def by (rule quiet_mapErr)

lemma quiet_query: "quiet (query q)"
  unfolding query_def by (rule quiet_dbCall)

lemma quiet_basic:
  "quiet (ret x)" "quiet (fail e)" "quiet (liftR r)" "quiet (guardE b e)" "quiet now" "quiet newID"
  "quiet (remote f)"
  by (auto simp: quiet_def io_simps now_def newID_def remote_def)

lemmas quiet_intros = quiet_basic quiet_dbCall quiet_query quiet_wrap quiet_mapErr quiet_bind

lemma step_bind:
  assumes "bindE m k w = (r, w')" and "\<not> wCommitted w" and "live r w'" and "quiet m"
  shows "\<exists>x w1. m w = (Inr x, w1) \<and> \<not> wCommitted w1 \<and> k x w1 = (r, w')"
  using assms(1)
proof (cases rule: bindE_cases)
  case (err e)
  with assms(2-4) quietD [OF assms(4) err(1)] show ?thesis by (simp add: live_def)
next
  case (ok x w1)
  with assms(2) quietD [OF assms(4) ok(1)] show ?thesis by blast
qed

lemma step_commit:
  assumes "bindE (wrapE msg commitTx) k w = (r, w')" and "\<not> wCommitted w" and "live r w'"
  shows "\<exists>w1. wDb w1 = wDb w \<and> wCommitted w1 \<and> k () w1 = (r, w')"
  using assms(1)
proof (cases rule: bindE_cases)
  case (err e)
  with assms show ?thesis
    by (auto simp: wrapE_Inl commitTx_def live_def dbCall_def Let_def
        split: prod.splits sum.splits option.splits)
next
  case (ok x w1)
  then show ?thesis
    by (intro exI [of _ w1])
      (auto simp: wrapE_Inr commitTx_def dbCall_def Let_def split: prod.splits sum.splits option.splits)
qed

lemma inTx_live:
  assumes "inTx what body w = (r, w')"
  obtains (aborted) "wDb w' = wDb w" "\<not> isOk r"
  | (unchanged) w0 w1 where "body w0 = (r, w1)" "wDb w0 = wDb w" "\<not> wCommitted w0" "live r w1"
      "\<not> wCommitted w1" "wDb w' = wDb w"
  | (committed) w0 where "body w0 = (r, w')" "wDb w0 = wDb w" "\<not> wCommitted w0" "live r w'" "wCommitted w'"
  using assms
proof (cases rule: inTx_cases)
  case (rolled w0 w1)
  then show ?thesis using aborted unchanged by (cases "isOk r") (auto simp: live_def)
qed (use aborted committed in \<open>auto simp: live_def\<close>)

end
