(* ===== verification/Runtime.thy ===== *)
theory Runtime
  imports Graph_Props World
begin

text \<open>
  The workflow, \<open>internal/workflowruntime/workflow.go\<close>. It runs on the durable execution engine,
  which is not part of the repository: an engine is a record of the answers it gives, each a
  function of the commands issued so far and of the command. A run is a computation on the
  commands issued, the service tasks completed and the last output.
\<close>

section \<open>Inputs\<close>

record Input =
  inInstanceID :: string
  inTenantID :: string
  inApplicationID :: string
  inStarterID :: string
  inVariablesJSON :: string
  inNodes :: "Node list"
  inEdges :: "Edge list"

record Result =
  resStatus :: string
  resResultJSON :: string

record ApprovalTaskInput =
  atInstanceID :: string
  atTenantID :: string
  atApplicationID :: string
  atStarterID :: string
  atVariablesJSON :: string
  atNode :: Node

record TaskSignal =
  sigTaskID :: string
  sigNodeID :: string
  sigDecision :: string
  sigOutputJSON :: string

record ServiceTaskInput =
  stInstanceID :: string
  stTenantID :: string
  stApplicationID :: string
  stVariablesJSON :: string
  stNode :: Node

record ServiceTaskResult =
  strOutputJSON :: string

record ConditionInput =
  ciExpression :: string
  ciVariablesJSON :: string
  ciLastOutputJSON :: string

record FinishInput =
  fiInstanceID :: string
  fiTenantID :: string
  fiApplicationID :: string
  fiStatus :: string
  fiResultJSON :: string
  fiErrorMessage :: string

section \<open>The engine\<close>

text \<open>A \<open>time.Duration\<close> is a number of nanoseconds.\<close>

definition secondNs :: int where
  "secondNs = 1000000000"

record ActivityOptions =
  aoStartToCloseTimeout :: int
  aoInitialInterval :: int
  aoBackoffCoefficient :: int
  aoMaximumInterval :: int
  aoMaximumAttempts :: int

text \<open>The name of the signal that a task was completed.\<close>

definition TaskCompletedSignal :: string where
  "TaskCompletedSignal = ''platform.workflow.task.completed.v1''"

text \<open>
  What a workflow asks of the engine: the five activities, a wait of limited time for a signal of a name
  and for a node, a sleep.
\<close>

datatype Command =
    CreateApprovalTaskCmd ActivityOptions ApprovalTaskInput
  | AwaitCmd int string string
  | InvokeServiceTaskCmd ActivityOptions ServiceTaskInput
  | CompensateServiceTaskCmd ActivityOptions ServiceTaskInput
  | EvaluateConditionCmd ActivityOptions ConditionInput
  | FinishInstanceCmd ActivityOptions FinishInput
  | SleepCmd int

text \<open>
  An engine. \<open>engAwait\<close> is what the evaluations of an \<open>AwaitWithTimeout\<close> condition get from the
  signal channel, in order, and how the wait ends when none of them holds: with an error (the
  workflow was cancelled) or by the timeout. \<open>engSort\<close> is \<open>sort.Slice\<close> by priority, which leaves the
  order of equal elements open.
\<close>

record engine =
  engUnit :: "Command list \<Rightarrow> Command \<Rightarrow> unit result"
  engService :: "Command list \<Rightarrow> Command \<Rightarrow> ServiceTaskResult result"
  engCondition :: "Command list \<Rightarrow> Command \<Rightarrow> bool result"
  engAwait :: "Command list \<Rightarrow> Command \<Rightarrow> TaskSignal option list \<times> goerr option"
  engSort :: "Edge list \<Rightarrow> Edge list"

record run =
  runLog :: "Command list"
  runServices :: "ServiceTaskInput list"
  runLastOutput :: string

type_synonym 'a wf = "(run, 'a) stm"

definition issue :: "(Command list \<Rightarrow> Command \<Rightarrow> 'a result) \<Rightarrow> Command \<Rightarrow> 'a wf" where
  "issue f c s = (f (runLog s) c, s\<lparr>runLog := runLog s @ [c]\<rparr>)"

definition setLastOutput :: "string \<Rightarrow> unit wf" where
  "setLastOutput out s = (Inr (), s\<lparr>runLastOutput := out\<rparr>)"

definition lastOutput :: "string wf" where
  "lastOutput s = (Inr (runLastOutput s), s)"

definition pushService :: "ServiceTaskInput \<Rightarrow> unit wf" where
  "pushService x s = (Inr (), s\<lparr>runServices := runServices s @ [x]\<rparr>)"

section \<open>Helpers\<close>

definition withNodeTimeout :: "ActivityOptions \<Rightarrow> 32 word \<Rightarrow> ActivityOptions" where
  "withNodeTimeout options seconds =
     (if seconds = 0 then options
      else options\<lparr>aoStartToCloseTimeout := wrap64 (int (unat seconds) * secondNs)\<rparr>)"

definition durationOrDefault :: "32 word \<Rightarrow> int \<Rightarrow> int" where
  "durationOrDefault seconds fallback =
     (if seconds = 0 then fallback else wrap64 (int (unat seconds) * secondNs))"

definition defaultJSON :: "string \<Rightarrow> string" where
  "defaultJSON v = (if v = [] then ''{}'' else v)"

definition activityOptions :: ActivityOptions where
  "activityOptions = \<lparr>aoStartToCloseTimeout = 30 * secondNs, aoInitialInterval = secondNs,
     aoBackoffCoefficient = 2, aoMaximumInterval = 60 * secondNs, aoMaximumAttempts = 5\<rparr>"

text \<open>The options of the deferred function; a field the literal leaves out is zero.\<close>

definition disconnectedOptions :: ActivityOptions where
  "disconnectedOptions = \<lparr>aoStartToCloseTimeout = 30 * secondNs, aoInitialInterval = 0,
     aoBackoffCoefficient = 0, aoMaximumInterval = 0, aoMaximumAttempts = 3\<rparr>"

definition finishInput :: "Input \<Rightarrow> string \<Rightarrow> string \<Rightarrow> string \<Rightarrow> FinishInput" where
  "finishInput input status resultJSON message =
     \<lparr>fiInstanceID = inInstanceID input, fiTenantID = inTenantID input,
      fiApplicationID = inApplicationID input, fiStatus = status, fiResultJSON = resultJSON,
      fiErrorMessage = message\<rparr>"

definition finish :: "engine \<Rightarrow> ActivityOptions \<Rightarrow> Input \<Rightarrow> string \<Rightarrow> string \<Rightarrow> string \<Rightarrow> unit wf" where
  "finish e options input status resultJSON message =
     wrapE ''finish workflow instance''
       (issue (engUnit e) (FinishInstanceCmd options (finishInput input status resultJSON message)))"

text \<open>The loop of \<open>selectNext\<close> over the sorted candidates.\<close>

fun firstMatch :: "engine \<Rightarrow> ActivityOptions \<Rightarrow> string \<Rightarrow> string \<Rightarrow> Edge list \<Rightarrow> string \<Rightarrow> string wf" where
  "firstMatch e options variablesJSON outputJSON [] defaultTarget =
     (if defaultTarget \<noteq> [] then ret defaultTarget
      else fail (AppErr ''no workflow edge matched'' ''NO_MATCHING_EDGE''))"
| "firstMatch e options variablesJSON outputJSON (edge # rest) defaultTarget =
     (if edgeConditionExpression edge = [] then
        firstMatch e options variablesJSON outputJSON rest
          (if defaultTarget = [] then edgeToNodeID edge else defaultTarget)
      else
        bindE (wrapE ''evaluate workflow edge condition'' (issue (engCondition e)
          (EvaluateConditionCmd options \<lparr>ciExpression = edgeConditionExpression edge,
             ciVariablesJSON = variablesJSON, ciLastOutputJSON = outputJSON\<rparr>))) (\<lambda>matched.
          if matched then ret (edgeToNodeID edge)
          else firstMatch e options variablesJSON outputJSON rest defaultTarget))"

definition selectNext :: "engine \<Rightarrow> ActivityOptions \<Rightarrow> string \<Rightarrow> Edge list \<Rightarrow> string \<Rightarrow> string \<Rightarrow> string wf" where
  "selectNext e options node edges variablesJSON outputJSON =
     firstMatch e options variablesJSON outputJSON
       (engSort e (filter (\<lambda>edge. edgeFromNodeID edge = node) edges)) []"

text \<open>
  The wait for a signal. Each evaluation of the condition takes the next signal off the channel,
  if there is one; a signal for another node is lost.
\<close>

fun awaitSignal :: "string \<Rightarrow> TaskSignal option list \<Rightarrow> TaskSignal option" where
  "awaitSignal node [] = None"
| "awaitSignal node (None # polls) = awaitSignal node polls"
| "awaitSignal node (Some s # polls) = (if sigNodeID s = node then Some s else awaitSignal node polls)"

definition awaitOutcome :: "string \<Rightarrow> TaskSignal option list \<times> goerr option \<Rightarrow> TaskSignal option result" where
  "awaitOutcome node answer =
     (case answer of (polls, ending) \<Rightarrow>
        (case awaitSignal node polls of
           Some s \<Rightarrow> Inr (Some s)
         | None \<Rightarrow> (case ending of Some err \<Rightarrow> Inl err | None \<Rightarrow> Inr None)))"

section \<open>The node step\<close>

text \<open>What one iteration does before it picks an edge: go on, or return a result.\<close>

definition approvalStep :: "engine \<Rightarrow> Input \<Rightarrow> Node \<Rightarrow> Result option wf" where
  "approvalStep e input current =
     bindE (wrapE (''create approval task '' @ goQuote (nodeID current))
       (issue (engUnit e) (CreateApprovalTaskCmd (withNodeTimeout activityOptions (nodeTimeoutSeconds current))
          \<lparr>atInstanceID = inInstanceID input, atTenantID = inTenantID input,
           atApplicationID = inApplicationID input, atStarterID = inStarterID input,
           atVariablesJSON = inVariablesJSON input, atNode = current\<rparr>))) (\<lambda>_.
     bindE (wrapE (''await approval task '' @ goQuote (nodeID current))
       (issue (\<lambda>log c. awaitOutcome (nodeID current) (engAwait e log c))
          (AwaitCmd (durationOrDefault (nodeTimeoutSeconds current) (24 * 3600 * secondNs)) TaskCompletedSignal (nodeID current)))) (\<lambda>answer.
       (case answer of
          None \<Rightarrow> fail (AppErr ''approval task timed out'' ''APPROVAL_TIMEOUT'')
        | Some signal \<Rightarrow>
            bindE (setLastOutput (defaultJSON (sigOutputJSON signal))) (\<lambda>_.
            if sigDecision signal = DecisionReject then
              bindE lastOutput (\<lambda>out.
              bindE (finish e activityOptions input InstanceRejected out []) (\<lambda>_.
                ret (Some \<lparr>resStatus = InstanceRejected, resResultJSON = out\<rparr>)))
            else if sigDecision signal \<noteq> DecisionApprove then
              fail (AppErr ''unknown approval decision'' ''INVALID_DECISION'')
            else ret None))))"

definition serviceStep :: "engine \<Rightarrow> Input \<Rightarrow> Node \<Rightarrow> Result option wf" where
  "serviceStep e input current =
     (let activityInput = \<lparr>stInstanceID = inInstanceID input, stTenantID = inTenantID input,
        stApplicationID = inApplicationID input, stVariablesJSON = inVariablesJSON input, stNode = current\<rparr> in
      bindE (wrapE (''invoke service task '' @ goQuote (nodeID current))
        (issue (engService e)
          (InvokeServiceTaskCmd (withNodeTimeout activityOptions (nodeTimeoutSeconds current)) activityInput))) (\<lambda>serviceResult.
      bindE (setLastOutput (defaultJSON (strOutputJSON serviceResult))) (\<lambda>_.
      bindE (pushService activityInput) (\<lambda>_. ret None))))"

definition nodeStep :: "engine \<Rightarrow> Input \<Rightarrow> Node \<Rightarrow> Result option wf" where
  "nodeStep e input current =
     (if nodeType current = NodeStart then ret None
      else if nodeType current = NodeApproval then approvalStep e input current
      else if nodeType current = NodeServiceTask then serviceStep e input current
      else if nodeType current = NodeTimer then
        bindE (wrapE (''wait timer node '' @ goQuote (nodeID current))
          (issue (engUnit e) (SleepCmd (wrap64 (int (unat (nodeTimerSeconds current)) * secondNs))))) (\<lambda>_. ret None)
      else if nodeType current = NodeEnd then
        bindE lastOutput (\<lambda>out.
        bindE (finish e activityOptions input InstanceCompleted out []) (\<lambda>_.
          ret (Some \<lparr>resStatus = InstanceCompleted, resResultJSON = out\<rparr>)))
      else fail (AppErr ''unknown workflow node type'' ''INVALID_NODE''))"

section \<open>The loop and the workflow\<close>

text \<open>The loop body runs at most \<open>len(nodes) + 1\<close> times; the first argument is what remains.\<close>

fun stepLoop :: "nat \<Rightarrow> engine \<Rightarrow> Input \<Rightarrow> (string, Node) gomap \<Rightarrow> Node \<Rightarrow> Result wf" where
  "stepLoop 0 e input nodes current =
     fail (AppErr ''workflow exceeded graph step limit'' ''INVALID_GRAPH'')"
| "stepLoop (Suc k) e input nodes current =
     bindE (nodeStep e input current) (\<lambda>done.
       case done of
         Some result \<Rightarrow> ret result
       | None \<Rightarrow>
           bindE lastOutput (\<lambda>out.
           bindE (selectNext e activityOptions (nodeID current) (inEdges input) (inVariablesJSON input) out) (\<lambda>nextID.
             case mapGet nodes nextID of
               None \<Rightarrow> fail (AppErr ''workflow edge points to an unknown node'' ''INVALID_EDGE'')
             | Some next \<Rightarrow> stepLoop k e input nodes next)))"

text \<open>The deferred function: compensate in reverse order, then record the failure; errors are dropped.\<close>

fun compensate :: "engine \<Rightarrow> ServiceTaskInput list \<Rightarrow> run \<Rightarrow> run" where
  "compensate e [] s = s"
| "compensate e (x # xs) s =
     compensate e xs
       (if nodeCompensationMethod (stNode x) = [] then s
        else snd (issue (engUnit e) (CompensateServiceTaskCmd disconnectedOptions x) s))"

definition onError :: "engine \<Rightarrow> Input \<Rightarrow> goerr \<Rightarrow> run \<Rightarrow> run" where
  "onError e input err s =
     snd (issue (engUnit e) (FinishInstanceCmd disconnectedOptions
            (finishInput input InstanceFailed (runLastOutput s) (errorText err)))
          (compensate e (rev (runServices s)) s))"

definition indexNodes :: "Node list \<Rightarrow> (string, Node) gomap \<times> Node" where
  "indexNodes ns =
     fold (\<lambda>n (m, current). (mapSet (nodeID n) n m, if nodeType n = NodeStart then n else current))
       ns ([], zeroNode)"

definition newRun :: run where
  "newRun = \<lparr>runLog = [], runServices = [], runLastOutput = ''{}''\<rparr>"

definition Execute :: "engine \<Rightarrow> Input \<Rightarrow> Result result \<times> Command list" where
  "Execute e input =
     (if inInstanceID input = [] \<or> inTenantID input = [] \<or> inApplicationID input = []
      then (Inl (AppErr ''workflow identity is required'' ''INVALID_WORKFLOW''), [])
      else case indexNodes (inNodes input) of (nodes, current) \<Rightarrow>
        if nodeID current = [] then (Inl (AppErr ''start node is required'' ''INVALID_WORKFLOW''), [])
        else (case stepLoop (Suc (length nodes)) e input nodes current newRun of
                (Inr result, s) \<Rightarrow> (Inr result, runLog s)
              | (Inl err, s) \<Rightarrow> (Inl err, runLog (onError e input err s))))"

end
