(* ===== verification/Runtime_Props.thy ===== *)
theory Runtime_Props
  imports Runtime
begin

text \<open>
  What a run of the workflow does, whatever the engine answers: the edge it follows, the order of
  compensation, that a validated graph never drives it into a structural error.
\<close>

section \<open>Sorting by priority\<close>

text \<open>What the documentation of \<open>sort.Slice\<close> promises of the candidates.\<close>

locale priority_sorter =
  fixes srt :: "Edge list \<Rightarrow> Edge list"
  assumes perm: "mset (srt es) = mset es"
    and ordered: "sorted (map edgePriority (srt es))"
begin

lemma same_edges: "set (srt es) = set es"
  by (metis perm set_mset_mset)

lemma first_is_least:
  assumes "filter P (srt es) = x # xs"
  shows "x \<in> set es \<and> P x \<and> (\<forall>y\<in>set es. P y \<longrightarrow> edgePriority x \<le> edgePriority y)"
proof -
  have "sorted (map edgePriority (filter P (srt es)))" using ordered by (rule sorted_filter)
  moreover have "set (filter P (srt es)) = {y \<in> set es. P y}" using same_edges by auto
  ultimately show ?thesis using assms by auto
qed

end

text \<open>The insertion sort that \<open>sort.Slice\<close> runs on up to twelve elements.\<close>

fun insertEdge :: "Edge \<Rightarrow> Edge list \<Rightarrow> Edge list" where
  "insertEdge x [] = [x]"
| "insertEdge x (y # ys) = (if edgePriority x \<le> edgePriority y then x # y # ys else y # insertEdge x ys)"

definition sortSlice :: "Edge list \<Rightarrow> Edge list" where
  "sortSlice es = foldr insertEdge es []"

lemma mset_insertEdge: "mset (insertEdge x ys) = add_mset x (mset ys)"
  by (induction ys) auto

lemma sorted_insertEdge: "sorted (map edgePriority ys) \<Longrightarrow> sorted (map edgePriority (insertEdge x ys))"
proof (induction ys)
  case (Cons y ys)
  have "set (insertEdge x ys) = insert x (set ys)"
    by (metis mset_insertEdge set_mset_add_mset_insert set_mset_mset)
  with Cons show ?case by auto
qed simp

interpretation slice: priority_sorter sortSlice
proof
  show "mset (sortSlice es) = mset es" for es
    unfolding sortSlice_def by (induction es) (simp_all add: mset_insertEdge)
  show "sorted (map edgePriority (sortSlice es))" for es
    unfolding sortSlice_def by (induction es) (simp_all add: sorted_insertEdge)
qed

section \<open>Edges\<close>

lemma firstMatch_target:
  "firstMatch e opt v out es dflt s = (Inr t, s') \<Longrightarrow> t \<in> edgeToNodeID ` set es \<or> t = dflt \<and> dflt \<noteq> []"
proof (induction e opt v out es dflt arbitrary: s rule: firstMatch.induct)
  case (1 e opt v out dflt)
  then show ?case by (auto simp: io_simps split: if_splits)
next
  case (2 e opt v out edge rest dflt)
  show ?case
  proof (cases "edgeConditionExpression edge = []")
    case True
    with 2(1) [OF True, of s] 2(3) show ?thesis by (auto split: if_splits)
  next
    case False
    with 2(3) obtain b s1 where
      "(if b then ret (edgeToNodeID edge) else firstMatch e opt v out rest dflt) s1 = (Inr t, s')"
      by (auto simp: bindE_Inr)
    with 2(2) [OF False, of b s1] show ?thesis by (cases b) (auto simp: io_simps)
  qed
qed

lemma firstMatch_error:
  "firstMatch e opt v out es dflt s = (Inl err, s')
   \<Longrightarrow> err = AppErr ''no workflow edge matched'' ''NO_MATCHING_EDGE'' \<or> (\<exists>p e0 q. err = Wrapf p e0 q)"
proof (induction e opt v out es dflt arbitrary: s rule: firstMatch.induct)
  case (1 e opt v out dflt)
  then show ?case by (auto simp: io_simps split: if_splits)
next
  case (2 e opt v out edge rest dflt)
  show ?case
  proof (cases "edgeConditionExpression edge = []")
    case True
    with 2 show ?thesis by simp
  next
    case False
    from 2(3) False show ?thesis
      by (auto elim!: bindE_cases simp: wrapE_Inl io_simps split: if_splits dest: 2(2) [OF False])
  qed
qed

text \<open>The question a run asks the engine about an edge, and edges that all got the answer no, one after the other.\<close>

definition conditionOf :: "ActivityOptions \<Rightarrow> string \<Rightarrow> string \<Rightarrow> Edge \<Rightarrow> Command" where
  "conditionOf opt v lastOut edge =
     EvaluateConditionCmd opt \<lparr>ciExpression = edgeConditionExpression edge, ciVariablesJSON = v, ciLastOutputJSON = lastOut\<rparr>"

primrec denied :: "engine \<Rightarrow> (Edge \<Rightarrow> Command) \<Rightarrow> Command list \<Rightarrow> Edge list \<Rightarrow> bool" where
  "denied e c log [] = True"
| "denied e c log (x # xs) = (engCondition e log (c x) = Inr False \<and> denied e c (log @ [c x]) xs)"

definition unconditional :: "Edge \<Rightarrow> bool" where
  "unconditional edge \<longleftrightarrow> edgeConditionExpression edge = []"

text \<open>How the loop ended after it asked about \<open>asked\<close>: at the last of these, or with the default.\<close>

definition decidedBy :: "engine \<Rightarrow> (Edge \<Rightarrow> Command) \<Rightarrow> Command list \<Rightarrow> Edge list \<Rightarrow> string result \<Rightarrow> bool" where
  "decidedBy e c log asked res \<longleftrightarrow>
     (\<exists>pre x. asked = pre @ [x] \<and> denied e c log pre
        \<and> (engCondition e (log @ map c pre) (c x) = Inr True \<and> res = Inr (edgeToNodeID x)
           \<or> (\<exists>err. engCondition e (log @ map c pre) (c x) = Inl err \<and> res = Inl (Wrapf ''evaluate workflow edge condition: '' err []))))"

definition defaultOf :: "Edge list \<Rightarrow> string \<Rightarrow> string result" where
  "defaultOf es dflt =
     (if dflt \<noteq> [] then Inr dflt
      else case filter unconditional es of edge # _ \<Rightarrow> Inr (edgeToNodeID edge) | [] \<Rightarrow> Inl (AppErr ''no workflow edge matched'' ''NO_MATCHING_EDGE''))"

lemma decidedBy_Cons: "engCondition e log (c x) = Inr False \<Longrightarrow> decidedBy e c (log @ [c x]) asked res \<Longrightarrow> decidedBy e c log (x # asked) res"
  unfolding decidedBy_def by (elim exE conjE) (rule exI [of _ "x # _"], auto)

lemma decidedBy_single: "engCondition e log (c x) = Inr True \<Longrightarrow> decidedBy e c log [x] (Inr (edgeToNodeID x))"
  "engCondition e log (c x) = Inl err \<Longrightarrow> decidedBy e c log [x] (Inl (Wrapf ''evaluate workflow edge condition: '' err []))"
  by (simp_all add: decidedBy_def)

lemma firstMatch_asked:
  assumes "firstMatch e opt v out es dflt s = (res, s')" and "\<And>x. x \<in> set es \<Longrightarrow> edgeToNodeID x \<noteq> []"
  shows "\<exists>asked rest. filter (\<lambda>x. \<not> unconditional x) es = asked @ rest \<and> runLog s' = runLog s @ map (conditionOf opt v out) asked
    \<and> (decidedBy e (conditionOf opt v out) (runLog s) asked res
       \<or> rest = [] \<and> denied e (conditionOf opt v out) (runLog s) asked \<and> res = defaultOf es dflt)"
  using assms
proof (induction es arbitrary: dflt s)
  case Nil
  then show ?case by (auto simp: defaultOf_def io_simps split: if_splits)
next
  case (Cons edge rest)
  let ?c = "conditionOf opt v out"
  show ?case
  proof (cases "edgeConditionExpression edge = []")
    case True
    then have "defaultOf (edge # rest) dflt = defaultOf rest (if dflt = [] then edgeToNodeID edge else dflt)"
      using Cons.prems(2) [of edge] by (simp add: defaultOf_def unconditional_def)
    with True Cons.IH [of "if dflt = [] then edgeToNodeID edge else dflt" s] Cons.prems show ?thesis by (simp add: unconditional_def)
  next
    case False
    then have u: "\<not> unconditional edge" "defaultOf (edge # rest) dflt = defaultOf rest dflt" by (simp_all add: unconditional_def defaultOf_def)
    let ?s = "s\<lparr>runLog := runLog s @ [?c edge]\<rparr>"
    have run: "firstMatch e opt v out (edge # rest) dflt s = (case engCondition e (runLog s) (?c edge) of
        Inl err \<Rightarrow> (Inl (Wrapf ''evaluate workflow edge condition: '' err []), ?s)
      | Inr b \<Rightarrow> if b then (Inr (edgeToNodeID edge), ?s) else firstMatch e opt v out rest dflt ?s)"
      using False by (simp add: bindE_def wrapE_def mapErr_def issue_def conditionOf_def ret_def split: sum.splits)
    consider (yes) "engCondition e (runLog s) (?c edge) = Inr True" | (no) "engCondition e (runLog s) (?c edge) = Inr False"
      | (err) err where "engCondition e (runLog s) (?c edge) = Inl err" by (metis (full_types) sumE)
    then show ?thesis
    proof cases
      case no
      then have "firstMatch e opt v out rest dflt ?s = (res, s')" using Cons.prems(1) run by simp
      with Cons.IH [of dflt ?s] Cons.prems(2) obtain asked more where
        "filter (\<lambda>x. \<not> unconditional x) rest = asked @ more" "runLog s' = runLog s @ ?c edge # map ?c asked"
        "decidedBy e ?c (runLog s @ [?c edge]) asked res \<or> more = [] \<and> denied e ?c (runLog s @ [?c edge]) asked \<and> res = defaultOf rest dflt"
        by auto
      with no u show ?thesis by (intro exI [of _ "edge # asked"] exI [of _ more]) (auto intro: decidedBy_Cons)
    next
      case yes
      then have "res = Inr (edgeToNodeID edge)" "s' = ?s" using Cons.prems(1) run by simp_all
      with decidedBy_single(1) [of e "runLog s" ?c, OF yes] u show ?thesis by (intro exI [of _ "[edge]"] exI) simp
    next
      case (err err)
      then have "res = Inl (Wrapf ''evaluate workflow edge condition: '' err [])" "s' = ?s" using Cons.prems(1) run by simp_all
      with decidedBy_single(2) [of e "runLog s" ?c, OF err] u show ?thesis by (intro exI [of _ "[edge]"] exI) simp
    qed
  qed
qed

section \<open>The log of a run\<close>

text \<open>The service tasks a log shows as completed: the invocations the engine answered with a result.\<close>

fun completedIn :: "engine \<Rightarrow> Command list \<Rightarrow> Command list \<Rightarrow> ServiceTaskInput list" where
  "completedIn e log [] = []"
| "completedIn e log (c # cs) =
     (case c of
        InvokeServiceTaskCmd opt x \<Rightarrow> (if isOk (engService e log c) then [x] else [])
      | _ \<Rightarrow> []) @ completedIn e (log @ [c]) cs"

definition isCompensation :: "Command \<Rightarrow> bool" where
  "isCompensation c \<longleftrightarrow> (case c of CompensateServiceTaskCmd opt x \<Rightarrow> True | _ \<Rightarrow> False)"

definition isFinish :: "Command \<Rightarrow> bool" where
  "isFinish c \<longleftrightarrow> (case c of FinishInstanceCmd opt x \<Rightarrow> True | _ \<Rightarrow> False)"

lemma completedIn_append: "completedIn e log (xs @ ys) = completedIn e log xs @ completedIn e (log @ xs) ys"
  by (induction xs arbitrary: log) auto

definition runInv :: "engine \<Rightarrow> run \<Rightarrow> bool" where
  "runInv e s \<longleftrightarrow> runServices s = completedIn e [] (runLog s) \<and> list_all (\<lambda>c. \<not> isCompensation c) (runLog s)"

text \<open>
  A computation is orderly when it keeps the invariant, and when it returned a value that is not
  the end of the run it issued no finish command.
\<close>

definition orderly :: "engine \<Rightarrow> 'a wf \<Rightarrow> bool" where
  "orderly e m \<longleftrightarrow> (\<forall>s r s'. m s = (r, s') \<longrightarrow> runInv e s \<longrightarrow> runInv e s')"

definition noFinish :: "'a wf \<Rightarrow> bool" where
  "noFinish m \<longleftrightarrow> (\<forall>s r s'. m s = (r, s') \<longrightarrow> list_all (\<lambda>c. \<not> isFinish c) (runLog s)
     \<longrightarrow> list_all (\<lambda>c. \<not> isFinish c) (runLog s'))"

lemma orderly_basic: "orderly e (ret x)" "orderly e (fail err)" "orderly e (setLastOutput out)" "orderly e lastOutput"
  by (auto simp: orderly_def io_simps setLastOutput_def lastOutput_def runInv_def)

lemma noFinish_basic:
  "noFinish (ret x)" "noFinish (fail err)" "noFinish (setLastOutput out)" "noFinish lastOutput" "noFinish (pushService y)"
  by (auto simp: noFinish_def io_simps setLastOutput_def lastOutput_def pushService_def)

lemma orderly_bind: "orderly e m \<Longrightarrow> (\<And>x. orderly e (k x)) \<Longrightarrow> orderly e (bindE m k)"
  unfolding orderly_def by (blast elim: bindE_cases)

lemma noFinish_bind: "noFinish m \<Longrightarrow> (\<And>x. noFinish (k x)) \<Longrightarrow> noFinish (bindE m k)"
  unfolding noFinish_def by (blast elim: bindE_cases)

lemma wrapE_state: "snd (wrapE msg m s) = snd (m s)"
  by (auto simp: wrapE_def mapErr_def split: prod.splits sum.splits)

lemma orderly_wrap: "orderly e m \<Longrightarrow> orderly e (wrapE msg m)"
  unfolding orderly_def by (metis prod.collapse snd_conv wrapE_state)

lemma noFinish_wrap: "noFinish m \<Longrightarrow> noFinish (wrapE msg m)"
  unfolding noFinish_def by (metis prod.collapse snd_conv wrapE_state)

lemma orderly_issue:
  "\<not> isCompensation c \<Longrightarrow> (\<And>opt x. c \<noteq> InvokeServiceTaskCmd opt x) \<Longrightarrow> orderly e (issue f c)"
  by (cases c) (auto simp: orderly_def issue_def runInv_def completedIn_append)

lemma noFinish_issue: "\<not> isFinish c \<Longrightarrow> noFinish (issue f c)"
  by (auto simp: noFinish_def issue_def)

lemma orderly_finish: "orderly e (finish e' opt input st out msg)"
  unfolding finish_def by (auto intro!: orderly_wrap orderly_issue simp: isCompensation_def)

lemma orderly_firstMatch: "orderly e (firstMatch e' opt v out es dflt)"
  by (induction e' opt v out es dflt rule: firstMatch.induct)
    (auto intro!: orderly_basic orderly_bind orderly_wrap orderly_issue simp: isCompensation_def)

lemma noFinish_firstMatch: "noFinish (firstMatch e opt v out es dflt)"
  by (induction e opt v out es dflt rule: firstMatch.induct)
    (auto intro!: noFinish_basic noFinish_bind noFinish_wrap noFinish_issue simp: isFinish_def)

lemma orderly_approvalStep: "orderly e (approvalStep e' input current)"
  unfolding approvalStep_def
  by (auto intro!: orderly_basic orderly_bind orderly_wrap orderly_issue orderly_finish split: option.splits
      simp: isCompensation_def)

text \<open>The command of a service node.\<close>

definition serviceCmd :: "Input \<Rightarrow> Node \<Rightarrow> ServiceTaskInput" where
  "serviceCmd input current = \<lparr>stInstanceID = inInstanceID input, stTenantID = inTenantID input,
     stApplicationID = inApplicationID input, stVariablesJSON = inVariablesJSON input, stNode = current\<rparr>"

lemma serviceStep_run:
  assumes "serviceStep e input current s = (r, s')"
  defines "c \<equiv> InvokeServiceTaskCmd (withNodeTimeout activityOptions (nodeTimeoutSeconds current)) (serviceCmd input current)"
  shows "runLog s' = runLog s @ [c]"
    and "runServices s' = runServices s @ (if isOk (engService e (runLog s) c) then [serviceCmd input current] else [])"
  using assms(1) unfolding serviceStep_def Let_def serviceCmd_def [symmetric] c_def [symmetric]
  by (auto elim!: bindE_cases simp: wrapE_Inl wrapE_Inr issue_def setLastOutput_def pushService_def io_simps)

lemma orderly_serviceStep: "orderly e (serviceStep e input current)"
  unfolding orderly_def runInv_def
  by (auto simp: serviceStep_run completedIn_append isCompensation_def)

lemma orderly_nodeStep: "orderly e (nodeStep e input current)"
  unfolding nodeStep_def
  by (auto intro!: orderly_basic orderly_bind orderly_wrap orderly_issue orderly_finish orderly_approvalStep
      orderly_serviceStep simp: isCompensation_def)

lemma orderly_stepLoop: "orderly e (stepLoop k e input nodes current)"
  by (induction k arbitrary: current)
    (auto intro!: orderly_basic orderly_bind orderly_nodeStep orderly_firstMatch simp: selectNext_def split: option.splits)

text \<open>The deferred function appends the compensations in reverse order and the failure.\<close>

definition compensations :: "ServiceTaskInput list \<Rightarrow> Command list" where
  "compensations xs =
     map (CompensateServiceTaskCmd disconnectedOptions)
       (filter (\<lambda>x. nodeCompensationMethod (stNode x) \<noteq> []) (rev xs))"

lemma compensate_log:
  "runLog (compensate e xs s) = runLog s @ map (CompensateServiceTaskCmd disconnectedOptions)
     (filter (\<lambda>x. nodeCompensationMethod (stNode x) \<noteq> []) xs)"
  "runLastOutput (compensate e xs s) = runLastOutput s"
  by (induction e xs s rule: compensate.induct) (auto simp: issue_def)

lemma onError_log:
  "runLog (onError e input err s) = runLog s @ compensations (runServices s) @
     [FinishInstanceCmd disconnectedOptions (finishInput input InstanceFailed (runLastOutput s) (errorText err))]"
  by (simp add: onError_def issue_def compensate_log compensations_def)

lemma newRun_inv: "runInv e newRun"
  by (simp add: runInv_def newRun_def)

section \<open>The end of a run\<close>

text \<open>A run that returns a result ended with the finish command for it, and issued no other.\<close>

lemma finish_last:
  assumes "finish e opt input st out [] s = (Inr u, s')"
  shows "runLog s' = runLog s @ [FinishInstanceCmd opt (finishInput input st out [])]
    \<and> engUnit e (runLog s) (FinishInstanceCmd opt (finishInput input st out [])) = Inr ()"
  using assms by (auto simp: finish_def wrapE_Inr issue_def)

definition endsWith :: "engine \<Rightarrow> Input \<Rightarrow> Result \<Rightarrow> Command list \<Rightarrow> bool" where
  "endsWith e input res log \<longleftrightarrow> resStatus res \<in> {InstanceCompleted, InstanceRejected} \<and>
     (\<exists>pre. log = pre @ [FinishInstanceCmd activityOptions (finishInput input (resStatus res) (resResultJSON res) [])]
        \<and> engUnit e pre (FinishInstanceCmd activityOptions (finishInput input (resStatus res) (resResultJSON res) [])) = Inr ()
        \<and> list_all (\<lambda>c. \<not> isFinish c) pre)"

lemma noFinishD: "noFinish m \<Longrightarrow> m s = (r, s') \<Longrightarrow> list_all (\<lambda>c. \<not> isFinish c) (runLog s)
    \<Longrightarrow> list_all (\<lambda>c. \<not> isFinish c) (runLog s')"
  unfolding noFinish_def by blast

text \<open>What a node step leaves when it goes on, and when it ends the run.\<close>

definition stepGood :: "engine \<Rightarrow> Input \<Rightarrow> run \<Rightarrow> Result option result \<Rightarrow> run \<Rightarrow> bool" where
  "stepGood e input s r s' \<longleftrightarrow> list_all (\<lambda>c. \<not> isFinish c) (runLog s) \<longrightarrow>
     (case r of
        Inl err \<Rightarrow> True
      | Inr None \<Rightarrow> list_all (\<lambda>c. \<not> isFinish c) (runLog s')
      | Inr (Some res) \<Rightarrow> endsWith e input res (runLog s'))"

lemma finish_ends:
  assumes "bindE (finish e activityOptions input st out []) (\<lambda>_. ret (Some \<lparr>resStatus = st, resResultJSON = out\<rparr>)) s = (r, s')"
    and "st \<in> {InstanceCompleted, InstanceRejected}"
  shows "stepGood e input s r s'"
  using assms
  by (auto elim!: bindE_cases dest!: finish_last simp: io_simps stepGood_def endsWith_def)

lemma approvalStep_good: "approvalStep e input current s = (r, s') \<Longrightarrow> stepGood e input s r s'"
  unfolding approvalStep_def
  by (auto elim!: bindE_cases dest!: finish_last simp: io_simps wrapE_Inr issue_def isFinish_def setLastOutput_def lastOutput_def
      stepGood_def endsWith_def split: option.splits if_splits)

lemma serviceStep_good: "serviceStep e input current s = (r, s') \<Longrightarrow> stepGood e input s r s'"
  unfolding serviceStep_def Let_def
  by (auto elim!: bindE_cases simp: io_simps wrapE_Inr issue_def isFinish_def setLastOutput_def pushService_def stepGood_def)

lemma nodeStep_good:
  assumes "nodeStep e input current s = (r, s')"
  shows "stepGood e input s r s'"
proof -
  have timer: "stepGood e input s r s'"
    if "bindE (wrapE msg (issue (engUnit e) (SleepCmd n))) (\<lambda>_. ret None) s = (r, s')" for msg n
    using that by (auto elim!: bindE_cases simp: io_simps wrapE_Inr issue_def isFinish_def stepGood_def)
  have "stepGood e input s r s'" if "nodeType current = NodeEnd" "nodeType current \<notin> {NodeStart, NodeApproval, NodeServiceTask, NodeTimer}"
  proof -
    from that assms have "bindE (finish e activityOptions input InstanceCompleted (runLastOutput s) [])
        (\<lambda>_. ret (Some \<lparr>resStatus = InstanceCompleted, resResultJSON = runLastOutput s\<rparr>)) s = (r, s')"
      by (simp add: nodeStep_def bindE_def lastOutput_def)
    then show ?thesis by (rule finish_ends) simp
  qed
  with assms approvalStep_good serviceStep_good timer show ?thesis
    unfolding nodeStep_def by (auto simp: io_simps stepGood_def split: if_splits)
qed

lemma stepLoop_ends:
  "stepLoop k e input nodes current s = (Inr res, s') \<Longrightarrow> list_all (\<lambda>c. \<not> isFinish c) (runLog s)
   \<Longrightarrow> endsWith e input res (runLog s')"
proof (induction k arbitrary: current s)
  case 0
  then show ?case by (simp add: io_simps)
next
  case (Suc k)
  from Suc.prems(1) obtain r1 s1 where n: "nodeStep e input current s = (Inr r1, s1)"
    and rest: "(case r1 of Some result \<Rightarrow> ret result
       | None \<Rightarrow> bindE lastOutput (\<lambda>out.
           bindE (selectNext e activityOptions (nodeID current) (inEdges input) (inVariablesJSON input) out) (\<lambda>nextID.
             case mapGet nodes nextID of
               None \<Rightarrow> fail (AppErr ''workflow edge points to an unknown node'' ''INVALID_EDGE'')
             | Some next \<Rightarrow> stepLoop k e input nodes next))) s1 = (Inr res, s')"
    by (auto simp: bindE_Inr)
  note good = nodeStep_good [OF n, unfolded stepGood_def, rule_format, OF Suc.prems(2)]
  show ?case
  proof (cases r1)
    case (Some a)
    with good rest show ?thesis by (simp add: io_simps)
  next
    case None
    with rest obtain nextID s2 next' where
      sel: "selectNext e activityOptions (nodeID current) (inEdges input) (inVariablesJSON input) (runLastOutput s1) s1 = (Inr nextID, s2)"
      and step: "stepLoop k e input nodes next' s2 = (Inr res, s')"
      by (auto simp: bindE_Inr lastOutput_def io_simps split: option.splits)
    from sel None good have "list_all (\<lambda>c. \<not> isFinish c) (runLog s2)"
      unfolding selectNext_def by (auto intro: noFinishD [OF noFinish_firstMatch])
    with step show ?thesis by (rule Suc.IH)
  qed
qed

section \<open>Validated graphs\<close>

lemma indexNodes_map:
  assumes "distinct (map nodeID ns)"
  shows "fst (indexNodes ns) = map (\<lambda>n. (nodeID n, n)) ns"
    and "snd (indexNodes ns) = (case rev (filter (\<lambda>n. nodeType n = NodeStart) ns) of [] \<Rightarrow> zeroNode | n # _ \<Rightarrow> n)"
proof -
  let ?f = "\<lambda>n (m, current). (mapSet (nodeID n) n m, if nodeType n = NodeStart then n else current)"
  have map: "fst (fold ?f ns (m, c)) = m @ map (\<lambda>n. (nodeID n, n)) ns"
    if "distinct (map fst m @ map nodeID ns)" for m c
    using that
  proof (induction ns arbitrary: m c)
    case (Cons n ns)
    then have "mapSet (nodeID n) n m = m @ [(nodeID n, n)]" by (intro mapSet_fresh) (auto simp: mapKeys_def)
    with Cons show ?case by auto
  qed simp
  show "fst (indexNodes ns) = map (\<lambda>n. (nodeID n, n)) ns"
    using map [of "[]" zeroNode] assms by (simp add: indexNodes_def)
  have start: "snd (fold ?f ns (m, c)) = (case rev (filter (\<lambda>n. nodeType n = NodeStart) ns) of [] \<Rightarrow> c | n # _ \<Rightarrow> n)"
    for m c by (induction ns arbitrary: m c) (auto split: list.splits)
  show "snd (indexNodes ns) = (case rev (filter (\<lambda>n. nodeType n = NodeStart) ns) of [] \<Rightarrow> zeroNode | n # _ \<Rightarrow> n)"
    unfolding indexNodes_def by (rule start)
qed

lemma mapGet_index: "distinct (map nodeID ns) \<Longrightarrow> mapGet (map (\<lambda>n. (nodeID n, n)) ns) k = Some n \<longleftrightarrow> n \<in> set ns \<and> nodeID n = k"
  by (induction ns) (auto simp: rev_image_eqI)

text \<open>The nodes ahead of a node; following an edge leaves strictly fewer.\<close>

definition ahead :: "Edge list \<Rightarrow> string \<Rightarrow> string set" where
  "ahead edges x = {y. (x, y) \<in> (edgeRel edges)\<^sup>+}"

lemma finite_ahead: "finite (ahead edges x)"
proof -
  have "ahead edges x \<subseteq> Range (edgeRel edges)"
    unfolding ahead_def by (auto simp: Range.simps elim: tranclE)
  moreover have "finite (Range (edgeRel edges))" by (simp add: edgeRel_def finite_Range)
  ultimately show ?thesis by (rule finite_subset)
qed

lemma ahead_step:
  assumes "acyclic (edgeRel edges)" and "(x, y) \<in> edgeRel edges"
  shows "card (ahead edges y) < card (ahead edges x)"
proof (rule psubset_card_mono [OF finite_ahead])
  have "y \<in> ahead edges x" "y \<notin> ahead edges y"
    using assms by (auto simp: ahead_def acyclic_def)
  moreover have "ahead edges y \<subseteq> ahead edges x"
    using assms(2) by (auto simp: ahead_def intro: trancl_into_trancl2)
  ultimately show "ahead edges y \<subset> ahead edges x" by blast
qed

lemma ahead_bound:
  assumes "list_all (edgeOk nodes) edges"
  shows "card (ahead edges x) \<le> length nodes"
proof -
  have "ahead edges x \<subseteq> nodeID ` set nodes"
  proof
    fix y assume "y \<in> ahead edges x"
    then obtain z where "(z, y) \<in> edgeRel edges" by (auto simp: ahead_def elim: tranclE)
    with assms show "y \<in> nodeID ` set nodes"
      by (force simp: edgeRel_def edgePair_def edgeOk_def list_all_iff)
  qed
  then have "card (ahead edges x) \<le> card (nodeID ` set nodes)" by (simp add: card_mono)
  also have "\<dots> \<le> length nodes" using card_image_le [of "set nodes" nodeID] card_length [of nodes] by simp
  finally show ?thesis .
qed

text \<open>The errors of a run on a validated graph: the engine's, wrapped, or three of its own.\<close>

definition engineOrOwn :: "goerr \<Rightarrow> bool" where
  "engineOrOwn err \<longleftrightarrow> (\<exists>p e0 q. err = Wrapf p e0 q) \<or>
     (\<exists>m t. err = AppErr m t \<and> t \<in> {''APPROVAL_TIMEOUT'', ''INVALID_DECISION'', ''NO_MATCHING_EDGE''})"

lemma wrapE_engine: "wrapE msg m s = (Inl err, s') \<Longrightarrow> engineOrOwn err"
  by (auto simp: wrapE_Inl engineOrOwn_def)

lemma own_errors:
  "engineOrOwn (AppErr m ''APPROVAL_TIMEOUT'')" "engineOrOwn (AppErr m ''INVALID_DECISION'')"
  "engineOrOwn (AppErr m ''NO_MATCHING_EDGE'')"
  by (simp_all add: engineOrOwn_def)

lemma selectNext_error: "selectNext e opt x edges v out s = (Inl err, s') \<Longrightarrow> engineOrOwn err"
  unfolding selectNext_def by (drule firstMatch_error) (auto simp: engineOrOwn_def)

lemma state_not_Inl: "setLastOutput out s \<noteq> (Inl err, s')" "lastOutput s \<noteq> (Inl err, s')" "pushService x s \<noteq> (Inl err, s')"
  by (simp_all add: setLastOutput_def lastOutput_def pushService_def)

lemma approvalStep_error: "approvalStep e input current s = (Inl err, s') \<Longrightarrow> engineOrOwn err"
  unfolding approvalStep_def finish_def
  by (auto elim!: bindE_cases dest!: wrapE_engine simp: io_simps own_errors state_not_Inl split: option.splits if_splits)

lemma nodeStep_error:
  "nodeStep e input current s = (Inl err, s') \<Longrightarrow> nodeTypeOk current \<Longrightarrow> engineOrOwn err"
  unfolding nodeStep_def serviceStep_def Let_def finish_def
  by (auto elim!: bindE_cases dest!: wrapE_engine approvalStep_error simp: io_simps nodeTypeOk_def state_not_Inl split: if_splits)

lemma nodeStep_end: "nodeStep e input current s = (Inr None, s') \<Longrightarrow> nodeType current \<noteq> NodeEnd"
  by (auto simp: nodeStep_def bindE_Inr io_simps constant_defs)

lemma stepLoop_error:
  assumes wf: "wellFormedGraph (inNodes input) (inEdges input)" and srt: "priority_sorter (engSort e)"
    and "stepLoop k e input (map (\<lambda>n. (nodeID n, n)) (inNodes input)) current s = (Inl err, s')"
    and "current \<in> set (inNodes input)" and "card (ahead (inEdges input) (nodeID current)) < k"
  shows "engineOrOwn err"
  using assms(3-5)
proof (induction k arbitrary: current s)
  case (Suc k)
  let ?nodes = "inNodes input" and ?edges = "inEdges input"
  have dist: "distinct (map nodeID ?nodes)" and acyc: "acyclic (edgeRel ?edges)"
    and ok: "list_all (edgeOk ?nodes) ?edges" and nodes: "list_all nodeOk ?nodes"
    using wf by (simp_all add: wellFormedGraph_def)
  have type: "nodeTypeOk current" using nodes Suc.prems(2) by (auto simp: list_all_iff nodeOk_def)
  from Suc.prems(1) show ?case unfolding stepLoop.simps
  proof (cases rule: bindE_cases)
    case (err e0)
    then show ?thesis using nodeStep_error [OF err(1) type] by simp
  next
    case (ok r1 s1)
    then have "r1 = None" by (auto simp: io_simps split: option.splits)
    with ok(2) obtain r2 s2 where
      sel: "selectNext e activityOptions (nodeID current) ?edges (inVariablesJSON input) (runLastOutput s1) s1 = (r2, s2)"
      and rest: "(case r2 of Inl e0 \<Rightarrow> (Inl e0, s2)
          | Inr x \<Rightarrow> (case mapGet (map (\<lambda>n. (nodeID n, n)) ?nodes) x of
               None \<Rightarrow> fail (AppErr ''workflow edge points to an unknown node'' ''INVALID_EDGE'')
             | Some nxt \<Rightarrow> stepLoop k e input (map (\<lambda>n. (nodeID n, n)) ?nodes) nxt) s2) = (Inl err, s')"
      by (auto simp: bindE_def lastOutput_def split: prod.splits)
    show ?thesis
    proof (cases r2)
      case (Inl e0)
      with rest selectNext_error sel show ?thesis by auto
    next
      case (Inr x)
      then obtain edge where edge: "edge \<in> set ?edges" "edgeFromNodeID edge = nodeID current" "edgeToNodeID edge = x"
        using firstMatch_target [OF sel [unfolded Inr selectNext_def]] priority_sorter.same_edges [OF srt]
        by fastforce
      then obtain nxt where nxt: "nxt \<in> set ?nodes" "nodeID nxt = x"
        using \<open>list_all (edgeOk ?nodes) ?edges\<close> by (auto simp: list_all_iff edgeOk_def)
      with dist have "mapGet (map (\<lambda>n. (nodeID n, n)) ?nodes) x = Some nxt" by (simp add: mapGet_index)
      with rest Inr have loop: "stepLoop k e input (map (\<lambda>n. (nodeID n, n)) ?nodes) nxt s2 = (Inl err, s')" by simp
      have "(nodeID current, nodeID nxt) \<in> edgeRel ?edges"
        using edge nxt by (auto simp: edgeRel_def edgePair_def image_iff intro!: bexI [of _ edge])
      from ahead_step [OF acyc this] Suc.prems(3) Suc.IH [OF loop nxt(1)] show ?thesis by simp
    qed
  qed
qed simp

lemma validated_start:
  assumes "wellFormedGraph nodes edges"
  shows "fst (indexNodes nodes) = map (\<lambda>n. (nodeID n, n)) nodes"
    and "snd (indexNodes nodes) \<in> set nodes" and "nodeType (snd (indexNodes nodes)) = NodeStart"
    and "nodeID (snd (indexNodes nodes)) \<noteq> []"
proof -
  have dist: "distinct (map nodeID nodes)" and nodes: "list_all nodeOk nodes" using assms by (simp_all add: wellFormedGraph_def)
  obtain st where st: "filter (\<lambda>n. nodeType n = NodeStart) nodes = [st]"
    using assms by (auto simp: wellFormedGraph_def length_Suc_conv)
  show "fst (indexNodes nodes) = map (\<lambda>n. (nodeID n, n)) nodes" by (rule indexNodes_map(1) [OF dist])
  have "snd (indexNodes nodes) = st" using indexNodes_map(2) [OF dist] st by simp
  moreover have "st \<in> set nodes" "nodeType st = NodeStart" using arg_cong [OF st, of set] by auto
  ultimately show "snd (indexNodes nodes) \<in> set nodes" "nodeType (snd (indexNodes nodes)) = NodeStart"
    "nodeID (snd (indexNodes nodes)) \<noteq> []"
    using nodes identifierPattern_nonempty by (auto simp: list_all_iff nodeOk_def)
qed

section \<open>A sample run\<close>

text \<open>
  Two service tasks, the second with a compensation method and the first without, and a third
  one that the engine refuses.
\<close>

definition serviceNode :: "string \<Rightarrow> string \<Rightarrow> Node" where
  "serviceNode i undo = zeroNode\<lparr>nodeID := i, nodeName := i, nodeType := NodeServiceTask,
     nodeTargetService := ''ledger'', nodeFullMethod := ''/ledger.v1.Ledger/Book'',
     nodeCompensationMethod := undo, nodeRequestTemplateJSON := ''{}''\<rparr>"

definition plainEdge :: "string \<Rightarrow> string \<Rightarrow> Edge" where
  "plainEdge a b = \<lparr>edgeFromNodeID = a, edgeToNodeID = b, edgeConditionExpression = [], edgePriority = 0\<rparr>"

definition sampleInput :: Input where
  "sampleInput = \<lparr>inInstanceID = ''i1'', inTenantID = ''t1'', inApplicationID = ''a1'', inStarterID = ''u1'',
     inVariablesJSON = ''{}'',
     inNodes = [zeroNode\<lparr>nodeID := ''s'', nodeName := ''s'', nodeType := NodeStart\<rparr>, serviceNode ''x'' ''/ledger.v1.Ledger/Undo'',
       serviceNode ''y'' ''/ledger.v1.Ledger/Undo'', serviceNode ''z'' [],
       zeroNode\<lparr>nodeID := ''f'', nodeName := ''f'', nodeType := NodeEnd\<rparr>],
     inEdges = [plainEdge ''s'' ''x'', plainEdge ''x'' ''y'', plainEdge ''y'' ''z'', plainEdge ''z'' ''f'']\<rparr>"

text \<open>An engine that answers everything, and one whose service calls fail at a given node.\<close>

definition sampleEngine :: "string \<Rightarrow> engine" where
  "sampleEngine broken =
     \<lparr>engUnit = (\<lambda>log c. Inr ()),
      engService = (\<lambda>log c. case c of
         InvokeServiceTaskCmd opt x \<Rightarrow> if nodeID (stNode x) = broken then Inl (Opaque ''refused'') else Inr \<lparr>strOutputJSON = ''{}''\<rparr>
       | _ \<Rightarrow> Inl (Opaque ''no service'')),
      engCondition = (\<lambda>log c. Inr True),
      engAwait = (\<lambda>log c. ([], None)),
      engSort = sortSlice\<rparr>"

lemma sampleInput_valid: "ValidateDefinition ''k'' ''n'' (inNodes sampleInput) (inEdges sampleInput) = Inr ()"
  by code_simp

section \<open>Properties\<close>

lemma run_error_kinds:
  assumes "ValidateDefinition key name (inNodes input) (inEdges input) = Inr ()"
    and "inInstanceID input \<noteq> []" and "inTenantID input \<noteq> []" and "inApplicationID input \<noteq> []"
    and "priority_sorter (engSort e)"
    and "Execute e input = (Inl (AppErr m t), log)"
  shows "t \<in> {''APPROVAL_TIMEOUT'', ''INVALID_DECISION'', ''NO_MATCHING_EDGE''}"
proof -
  have wf: "wellFormedGraph (inNodes input) (inEdges input)"
    using assms(1) by (simp add: validate_accepts_iff wellFormedDefinition_def)
  obtain nodes current where idx: "indexNodes (inNodes input) = (nodes, current)" by fastforce
  note start = validated_start [OF wf, unfolded idx, simplified]
  from assms idx start(4) obtain s where
    loop: "stepLoop (Suc (length nodes)) e input nodes current newRun = (Inl (AppErr m t), s)"
    by (auto simp: Execute_def simp del: stepLoop.simps split: prod.splits sum.splits)
  have "card (ahead (inEdges input) (nodeID current)) \<le> length (inNodes input)"
    using wf by (intro ahead_bound) (simp add: wellFormedGraph_def)
  then have "engineOrOwn (AppErr m t)"
    using stepLoop_error [OF wf assms(5), of "Suc (length nodes)" current newRun] loop start by simp
  then show ?thesis by (simp add: engineOrOwn_def)
qed

text \<open>
  C2: a workflow whose definition passed validation never ends with one of the errors that say
  its graph is broken: whatever the engine answers, an error of its own is an approval that timed
  out, an unknown decision or no matching edge; the step limit is never reached.
\<close>

theorem validated_run_structural:
  assumes "ValidateDefinition key name (inNodes input) (inEdges input) = Inr ()"
    and "inInstanceID input \<noteq> []" and "inTenantID input \<noteq> []" and "inApplicationID input \<noteq> []"
    and "priority_sorter (engSort e)"
    and "Execute e input = (Inl (AppErr m t), log)"
  shows "t \<in> {''APPROVAL_TIMEOUT'', ''INVALID_DECISION'', ''NO_MATCHING_EDGE''}"
  using assms by (rule run_error_kinds)

definition timeoutInput :: Input where
  "timeoutInput = sampleInput\<lparr>inNodes := sampleNodes, inEdges := sampleEdges\<rparr>"

theorem validated_run_structural_witness:
  "fst (Execute (sampleEngine []) timeoutInput) = Inl (AppErr ''approval task timed out'' ''APPROVAL_TIMEOUT'')
   \<and> ''APPROVAL_TIMEOUT'' \<in> {''APPROVAL_TIMEOUT'', ''INVALID_DECISION'', ''NO_MATCHING_EDGE'' :: string}"
proof (rule conjI)
  show out: "fst (Execute (sampleEngine []) timeoutInput)
      = Inl (AppErr ''approval task timed out'' ''APPROVAL_TIMEOUT'')" by code_simp
  from out obtain log where run: "Execute (sampleEngine []) timeoutInput
      = (Inl (AppErr ''approval task timed out'' ''APPROVAL_TIMEOUT''), log)" by (metis prod.collapse)
  have "ValidateDefinition ''expense'' ''Expense'' (inNodes timeoutInput) (inEdges timeoutInput) = Inr ()"
    by (simp add: timeoutInput_def sample_accepted)
  then show "''APPROVAL_TIMEOUT'' \<in> {''APPROVAL_TIMEOUT'', ''INVALID_DECISION'', ''NO_MATCHING_EDGE'' :: string}"
    by (rule validated_run_structural [OF _ _ _ _ _ run])
      (simp_all add: timeoutInput_def sampleInput_def sampleEngine_def slice.priority_sorter_axioms)
qed

text \<open>
  C5: when a run fails, the commands it issued end with the compensation of exactly the service
  tasks that had completed and have a compensation method, last completed first, followed by one
  command that records the failure with the error's text; none was compensated before.
\<close>

theorem failed_run_compensates:
  assumes "inInstanceID input \<noteq> []" and "inTenantID input \<noteq> []" and "inApplicationID input \<noteq> []"
    and "nodeID (snd (indexNodes (inNodes input))) \<noteq> []"
    and "Execute e input = (Inl err, log)"
  shows "\<exists>pre out. list_all (\<lambda>c. \<not> isCompensation c) pre \<and>
    log = pre @ compensations (completedIn e [] pre) @
      [FinishInstanceCmd disconnectedOptions (finishInput input InstanceFailed out (errorText err))]"
proof -
  obtain nodes current where idx: "indexNodes (inNodes input) = (nodes, current)" by fastforce
  from assms idx obtain s where
    loop: "stepLoop (Suc (length nodes)) e input nodes current newRun = (Inl err, s)"
    and log: "log = runLog (onError e input err s)"
    by (auto simp: Execute_def simp del: stepLoop.simps split: prod.splits sum.splits)
  have "runInv e s" using orderly_stepLoop loop newRun_inv unfolding orderly_def by blast
  then show ?thesis
    by (intro exI [of _ "runLog s"] exI [of _ "runLastOutput s"]) (simp add: log onError_log runInv_def)
qed

theorem failed_run_compensates_witness:
  "\<exists>err pre out. fst (Execute (sampleEngine ''z'') sampleInput) = Inl err \<and>
    map (\<lambda>x. nodeID (stNode x)) (completedIn (sampleEngine ''z'') [] pre) = [''x'', ''y''] \<and>
    list_all (\<lambda>c. \<not> isCompensation c) pre \<and>
    snd (Execute (sampleEngine ''z'') sampleInput) = pre @ compensations (completedIn (sampleEngine ''z'') [] pre) @
      [FinishInstanceCmd disconnectedOptions (finishInput sampleInput InstanceFailed out (errorText err))]"
proof -
  let ?e = "sampleEngine ''z''"
  have bad: "\<not> isOk (fst (Execute ?e sampleInput))" by code_simp
  then obtain err log where run: "Execute ?e sampleInput = (Inl err, log)"
    by (metis isOk_iff old.sum.exhaust prod.collapse)
  have ids: "inInstanceID sampleInput \<noteq> []" "inTenantID sampleInput \<noteq> []" "inApplicationID sampleInput \<noteq> []"
    "nodeID (snd (indexNodes (inNodes sampleInput))) \<noteq> []" by code_simp+
  obtain pre out where pre: "list_all (\<lambda>c. \<not> isCompensation c) pre" "log = pre @ compensations (completedIn ?e [] pre) @
      [FinishInstanceCmd disconnectedOptions (finishInput sampleInput InstanceFailed out (errorText err))]"
    using failed_run_compensates [OF ids run] by blast
  have "map (\<lambda>x. nodeID (stNode x)) (completedIn ?e [] (takeWhile (\<lambda>c. \<not> isCompensation c)
      (snd (Execute ?e sampleInput)))) = [''x'', ''y'']" by code_simp
  moreover have "takeWhile (\<lambda>c. \<not> isCompensation c) log = pre @ takeWhile (\<lambda>c. \<not> isCompensation c)
      (compensations (completedIn ?e [] pre) @
        [FinishInstanceCmd disconnectedOptions (finishInput sampleInput InstanceFailed out (errorText err))])"
    using pre by (simp add: list_all_iff takeWhile_append)
  moreover have "completedIn ?e [] (pre @ takeWhile (\<lambda>c. \<not> isCompensation c) (compensations (completedIn ?e [] pre) @
        [FinishInstanceCmd disconnectedOptions (finishInput sampleInput InstanceFailed out (errorText err))]))
      = completedIn ?e [] pre"
    by (cases "filter (\<lambda>x. nodeCompensationMethod (stNode x) \<noteq> []) (rev (completedIn ?e [] pre))")
      (simp_all add: completedIn_append compensations_def isCompensation_def)
  ultimately show ?thesis using pre run by (intro exI [of _ err] exI [of _ pre] exI [of _ out]) simp
qed

lemma Execute_Inr_loop:
  assumes "Execute e input = (Inr result, log)"
  obtains nodes current s where "indexNodes (inNodes input) = (nodes, current)"
    "stepLoop (Suc (length nodes)) e input nodes current newRun = (Inr result, s)" "log = runLog s"
proof -
  obtain nodes current where idx: "indexNodes (inNodes input) = (nodes, current)" by fastforce
  from assms idx obtain s where "stepLoop (Suc (length nodes)) e input nodes current newRun = (Inr result, s)" "log = runLog s"
    by (auto simp: Execute_def simp del: stepLoop.simps split: prod.splits sum.splits if_splits)
  with idx that show thesis by blast
qed

lemma Execute_ends: "Execute e input = (Inr result, log) \<Longrightarrow> endsWith e input result log"
proof (elim Execute_Inr_loop)
  fix nodes current s
  assume "stepLoop (Suc (length nodes)) e input nodes current newRun = (Inr result, s)" and "log = runLog s"
  from stepLoop_ends [OF this(1)] this(2) show "endsWith e input result log" by (simp add: newRun_def)
qed

text \<open>
  A run that returns a result ended with the one finish command it issued, for the status and
  the output it returns, which is completed or rejected, after the engine answered that command
  without an error, and it compensated nothing.
\<close>

theorem successful_run_finishes:
  assumes "Execute e input = (Inr result, log)"
  shows "resStatus result \<in> {InstanceCompleted, InstanceRejected} \<and>
    (\<exists>pre. log = pre @ [FinishInstanceCmd activityOptions
           (finishInput input (resStatus result) (resResultJSON result) [])]
         \<and> engUnit e pre (FinishInstanceCmd activityOptions (finishInput input (resStatus result) (resResultJSON result) [])) = Inr ()
         \<and> list_all (\<lambda>c. \<not> isFinish c) pre) \<and>
    list_all (\<lambda>c. \<not> isCompensation c) log"
proof -
  from assms obtain nodes current s where
    loop: "stepLoop (Suc (length nodes)) e input nodes current newRun = (Inr result, s)" and log: "log = runLog s"
    by (rule Execute_Inr_loop)
  have "runInv e s" using orderly_stepLoop loop newRun_inv unfolding orderly_def by blast
  then have "list_all (\<lambda>c. \<not> isCompensation c) log" by (simp add: log runInv_def)
  moreover have "endsWith e input result log" using assms by (rule Execute_ends)
  ultimately show ?thesis by (simp add: endsWith_def)
qed

theorem successful_run_finishes_witness:
  "list_all (\<lambda>c. \<not> isCompensation c) (snd (Execute (sampleEngine []) sampleInput))"
proof -
  have "isOk (fst (Execute (sampleEngine []) sampleInput))" by code_simp
  then obtain result log where run: "Execute (sampleEngine []) sampleInput = (Inr result, log)"
    by (metis isOk_iff prod.collapse)
  from successful_run_finishes [OF run] run show ?thesis by simp
qed

definition outEdges :: "Edge list \<Rightarrow> string \<Rightarrow> Edge set" where
  "outEdges edges node = {x \<in> set edges. edgeFromNodeID x = node}"

lemma defaultOf_least:
  assumes "priority_sorter srt"
  shows "if \<exists>x\<in>set es. edgeConditionExpression x = []
      then \<exists>x\<in>set es. edgeConditionExpression x = [] \<and> defaultOf (srt es) [] = Inr (edgeToNodeID x)
        \<and> (\<forall>y\<in>set es. edgeConditionExpression y = [] \<longrightarrow> edgePriority x \<le> edgePriority y)
      else defaultOf (srt es) [] = Inl (AppErr ''no workflow edge matched'' ''NO_MATCHING_EDGE'')"
proof (cases "filter unconditional (srt es)")
  case (Cons x xs)
  then have "defaultOf (srt es) [] = Inr (edgeToNodeID x)" by (simp add: defaultOf_def)
  with priority_sorter.first_is_least [OF assms Cons] show ?thesis by (auto simp: unconditional_def)
next
  case Nil
  then have "\<not> (\<exists>x\<in>set es. edgeConditionExpression x = [])"
    using priority_sorter.same_edges [OF assms] by (auto simp: filter_empty_conv unconditional_def)
  with Nil show ?thesis by (simp add: defaultOf_def)
qed

text \<open>
  C27: the edge a run follows, whatever the engine answers, errors included. \<open>selectNext\<close> asks the engine
  about edges of the node with a condition, each at most once, with the variables and the last output of
  the run, in the order of their priority and leaving out none that comes before one it asked about. It
  stops at the first that matches and follows it, or at the first whose evaluation fails and fails with
  that error. When it asked about all of them and none matched, it follows an edge without condition of
  least priority, and fails when there is none. This is for graphs whose edges name a target, as every
  accepted one does, and for a \<open>sort.Slice\<close> that sorts.
\<close>

theorem selectNext_least_priority:
  assumes "priority_sorter (engSort e)" and "\<forall>x\<in>set edges. edgeToNodeID x \<noteq> []"
    and "selectNext e opt node edges v lastOut s = (res, s')"
  shows "\<exists>asked. mset asked \<subseteq># mset (filter (\<lambda>x. edgeFromNodeID x = node \<and> edgeConditionExpression x \<noteq> []) edges)
    \<and> sorted (map edgePriority asked)
    \<and> (\<forall>y\<in>outEdges edges node. edgeConditionExpression y \<noteq> [] \<and> y \<notin> set asked \<longrightarrow> (\<forall>x\<in>set asked. edgePriority x \<le> edgePriority y))
    \<and> runLog s' = runLog s @ map (conditionOf opt v lastOut) asked
    \<and> (decidedBy e (conditionOf opt v lastOut) (runLog s) asked res
       \<or> denied e (conditionOf opt v lastOut) (runLog s) asked \<and> {y \<in> outEdges edges node. edgeConditionExpression y \<noteq> []} \<subseteq> set asked
         \<and> (if \<exists>x\<in>outEdges edges node. edgeConditionExpression x = []
            then \<exists>x\<in>outEdges edges node. edgeConditionExpression x = [] \<and> res = Inr (edgeToNodeID x)
              \<and> (\<forall>y\<in>outEdges edges node. edgeConditionExpression y = [] \<longrightarrow> edgePriority x \<le> edgePriority y)
            else res = Inl (AppErr ''no workflow edge matched'' ''NO_MATCHING_EDGE'')))"
proof -
  let ?cand = "filter (\<lambda>x. edgeFromNodeID x = node) edges" and ?c = "conditionOf opt v lastOut" and ?cond = "\<lambda>x. \<not> unconditional x"
  let ?es = "engSort e ?cand"
  have cand: "set ?cand = outEdges edges node" by (auto simp: outEdges_def)
  have es: "set ?es = outEdges edges node" using priority_sorter.same_edges [OF assms(1), of ?cand] cand by simp
  have m: "mset ?es = mset ?cand" and srt: "sorted (map edgePriority ?es)" using assms(1) by (simp_all add: priority_sorter_def)
  have "firstMatch e opt v lastOut ?es [] s = (res, s')" using assms(3) by (simp add: selectNext_def)
  then obtain asked rest where asked: "filter ?cond ?es = asked @ rest" "runLog s' = runLog s @ map ?c asked"
      "decidedBy e ?c (runLog s) asked res \<or> rest = [] \<and> denied e ?c (runLog s) asked \<and> res = defaultOf ?es []"
    using firstMatch_asked [of e opt v lastOut ?es "[]" s res s'] assms(2) es by (auto simp: outEdges_def)
  have "mset (asked @ rest) = filter_mset ?cond (mset ?cand)" unfolding asked(1) [symmetric] mset_filter m ..
  then have sub: "mset asked \<subseteq># mset (filter (\<lambda>x. edgeFromNodeID x = node \<and> edgeConditionExpression x \<noteq> []) edges)"
    by (simp add: unconditional_def filter_filter_mset conj_commute) (metis mset_subset_eq_add_left)
  have sorted: "sorted (map edgePriority (asked @ rest))" using sorted_filter [OF srt, of ?cond] asked(1) by simp
  have conds: "set asked \<union> set rest = {y \<in> outEdges edges node. edgeConditionExpression y \<noteq> []}"
    using arg_cong [OF asked(1), of set] es by (auto simp: unconditional_def)
  have dflt: "if \<exists>x\<in>outEdges edges node. edgeConditionExpression x = []
      then \<exists>x\<in>outEdges edges node. edgeConditionExpression x = [] \<and> defaultOf ?es [] = Inr (edgeToNodeID x)
        \<and> (\<forall>y\<in>outEdges edges node. edgeConditionExpression y = [] \<longrightarrow> edgePriority x \<le> edgePriority y)
      else defaultOf ?es [] = Inl (AppErr ''no workflow edge matched'' ''NO_MATCHING_EDGE'')"
    using defaultOf_least [OF assms(1), of ?cand] unfolding cand .
  have order: "\<forall>y\<in>outEdges edges node. edgeConditionExpression y \<noteq> [] \<and> y \<notin> set asked \<longrightarrow> (\<forall>x\<in>set asked. edgePriority x \<le> edgePriority y)"
    using conds sorted by (auto simp: sorted_append)
  have done_all: "rest = [] \<Longrightarrow> {y \<in> outEdges edges node. edgeConditionExpression y \<noteq> []} \<subseteq> set asked" using conds by auto
  have "sorted (map edgePriority asked)" using sorted by (simp add: sorted_append)
  with sub order asked(2,3) done_all dflt show ?thesis by (intro exI [of _ asked] conjI) (assumption | blast)+
qed

definition conditionEngine :: engine where
  "conditionEngine = (sampleEngine [])\<lparr>engCondition := (\<lambda>log c. case c of
     EvaluateConditionCmd opt ci \<Rightarrow> Inr (ciExpression ci = ''amount > 10'' \<and> ciVariablesJSON ci = ''20'') | _ \<Rightarrow> Inl (Opaque ''no condition''))\<rparr>"

definition branches :: "Edge list" where
  "branches = [plainEdge ''x'' ''small'',
     (plainEdge ''x'' ''large'')\<lparr>edgeConditionExpression := ''amount > 10'', edgePriority := 2\<rparr>,
     (plainEdge ''x'' ''huge'')\<lparr>edgeConditionExpression := ''amount > 1000'', edgePriority := 1\<rparr>]"

theorem selectNext_least_priority_witness:
  "\<exists>asked res s'. selectNext conditionEngine activityOptions ''x'' branches ''20'' ''{}'' newRun = (res, s')
     \<and> runLog s' = map (conditionOf activityOptions ''20'' ''{}'') asked \<and> sorted (map edgePriority asked)
     \<and> decidedBy conditionEngine (conditionOf activityOptions ''20'' ''{}'') [] asked res \<and> res = Inr ''large''"
proof -
  obtain res s' where run: "selectNext conditionEngine activityOptions ''x'' branches ''20'' ''{}'' newRun = (res, s')" by fastforce
  have "fst (selectNext conditionEngine activityOptions ''x'' branches ''20'' ''{}'' newRun) = Inr ''large''" by code_simp
  then have res: "res = Inr ''large''" using run by simp
  have srt: "priority_sorter (engSort conditionEngine)" by (simp add: conditionEngine_def sampleEngine_def slice.priority_sorter_axioms)
  have targets: "\<forall>x\<in>set branches. edgeToNodeID x \<noteq> []" by code_simp
  have "x \<in> outEdges branches ''x'' \<Longrightarrow> edgeConditionExpression x = [] \<Longrightarrow> edgeToNodeID x = ''small''" for x
    by (auto simp: outEdges_def branches_def plainEdge_def)
  with selectNext_least_priority [OF srt targets run] run res show ?thesis by (auto simp: newRun_def split: if_splits)
qed

end
