(* ===== verification/Events.thy ===== *)
theory Events
  imports World
begin

text \<open>
  The event factory, \<open>internal/workflowevent/factory.go\<close>: one constructor per event, all
  through \<open>build\<close>, which stamps the event with a fresh identifier, the request's principal,
  its request and trace identifiers and the time.
\<close>

definition DefinitionPublishedSubject :: string where
  "DefinitionPublishedSubject = ''platform.workflow.definition.published.v1''"

definition InstanceStartRequestedSubject :: string where
  "InstanceStartRequestedSubject = ''platform.workflow.instance.start-requested.v1''"

definition InstanceCancellationRequestedSubject :: string where
  "InstanceCancellationRequestedSubject = ''platform.workflow.instance.cancellation-requested.v1''"

definition TaskCompletedSubject :: string where
  "TaskCompletedSubject = ''platform.workflow.task.completed.v1''"

text \<open>\<open>requestid.FromContext\<close>: the identifier of the request, empty when there is none.\<close>

definition requestIDFromContext :: "Context \<Rightarrow> string \<times> bool" where
  "requestIDFromContext ctx = (ctxRequestID ctx, ctxRequestID ctx \<noteq> [])"

definition build :: "deps \<Rightarrow> Context \<Rightarrow> string \<Rightarrow> string \<Rightarrow> string \<Rightarrow> string \<Rightarrow> string \<Rightarrow> Payload \<Rightarrow> OutboxEvent io" where
  "build d ctx subject aggregateID aggregateType tenantID applicationID payload =
     (case ctxPrincipal ctx of
        None \<Rightarrow> fail (Opaque ''authenticated principal is required for workflow event'')
      | Some pr \<Rightarrow>
          bindE newID (\<lambda>eventID.
          bindE now (\<lambda>occurredAt.
          bindE (liftR (depNewEnvelope d
              \<lparr>metaEventID = eventID, metaEventType = subject, metaAggregateID = aggregateID,
               metaAggregateType = aggregateType, metaTenantID = tenantID,
               metaApplicationID = applicationID, metaSchemaVersion = 1,
               metaRequestID = fst (requestIDFromContext ctx), metaTraceID = ctxTraceID ctx,
               metaActorID = prID pr, metaActorType = prType pr,
               metaOccurredAt = occurredAt\<rparr> payload)) (\<lambda>envelope.
            ret \<lparr>evID = envEventId envelope, evSubject = subject, evEnvelope = envelope\<rparr>))))"

definition DefinitionPublishedEv :: "deps \<Rightarrow> Context \<Rightarrow> Definition \<Rightarrow> OutboxEvent io" where
  "DefinitionPublishedEv d ctx v =
     build d ctx DefinitionPublishedSubject (defID v) ''workflow_definition'' (defTenantID v)
       (defApplicationID v) (DefinitionPublishedEvent (definitionProto v))"

definition InstanceStartRequestedEv :: "deps \<Rightarrow> Context \<Rightarrow> Instance \<Rightarrow> Definition \<Rightarrow> OutboxEvent io" where
  "InstanceStartRequestedEv d ctx v dv =
     build d ctx InstanceStartRequestedSubject (instID v) ''workflow_instance'' (instTenantID v)
       (instApplicationID v)
       (InstanceStartRequestedEvent (Some (instanceProto v)) (Some (definitionProto dv)))"

definition InstanceCancellationRequestedEv :: "deps \<Rightarrow> Context \<Rightarrow> Instance \<Rightarrow> string \<Rightarrow> OutboxEvent io" where
  "InstanceCancellationRequestedEv d ctx v reason =
     build d ctx InstanceCancellationRequestedSubject (instID v) ''workflow_instance'' (instTenantID v)
       (instApplicationID v) (InstanceCancellationRequestedEvent (Some (instanceProto v)) reason)"

definition InstanceStatusChangedEv :: "deps \<Rightarrow> Context \<Rightarrow> Instance \<Rightarrow> string \<Rightarrow> OutboxEvent io" where
  "InstanceStatusChangedEv d ctx v previousStatus =
     build d ctx ''platform.workflow.instance.status-changed.v1'' (instID v) ''workflow_instance''
       (instTenantID v) (instApplicationID v)
       (InstanceStatusChangedEvent (instanceProto v) (instanceStatus previousStatus))"

definition TaskCreatedEv :: "deps \<Rightarrow> Context \<Rightarrow> Task \<Rightarrow> OutboxEvent io" where
  "TaskCreatedEv d ctx v =
     build d ctx ''platform.workflow.task.created.v1'' (taskID v) ''workflow_task'' (taskTenantID v)
       (taskApplicationID v) (TaskCreatedEvent (taskProto v))"

definition TaskCompletedEv :: "deps \<Rightarrow> Context \<Rightarrow> Task \<Rightarrow> OutboxEvent io" where
  "TaskCompletedEv d ctx v =
     build d ctx TaskCompletedSubject (taskID v) ''workflow_task'' (taskTenantID v)
       (taskApplicationID v) (TaskCompletedEvent (Some (taskProto v)))"

lemmas event_defs =
  DefinitionPublishedEv_def InstanceStartRequestedEv_def InstanceCancellationRequestedEv_def
  InstanceStatusChangedEv_def TaskCreatedEv_def TaskCompletedEv_def

context db_order
begin

lemma keeps_build: "keeps R (build d ctx s a t tn ap p)"
  unfolding build_def by (cases "ctxPrincipal ctx") (auto intro!: keeps_intros)

end

lemma build_db: "build d ctx s a t tn ap p w = (r, w') \<Longrightarrow> wDb w' = wDb w \<and> wCommitted w' = wCommitted w"
  by (auto simp: build_def io_simps newID_def now_def bindE_def split: option.splits sum.splits)

text \<open>What a built event carries.\<close>

lemma build_event:
  assumes "build d ctx s a t tn ap p w = (Inr ev, w')" and "envelopeLaw d"
  shows "evSubject ev = s" "envEventType (evEnvelope ev) = s" "envPayload (evEnvelope ev) = p"
    and "metaTenantID (envMetadata (evEnvelope ev)) = tn" "evID ev = envEventId (evEnvelope ev)"
    and "metaAggregateID (envMetadata (evEnvelope ev)) = a"
  using assms
  by (auto simp: build_def envelopeLaw_def io_simps newID_def now_def bindE_def fail_def
      split: option.splits sum.splits)

end
