(* ===== verification/Codec.thy ===== *)
theory Codec
  imports Model
begin

text \<open>
  How a definition graph is stored: \<open>encodeGraph\<close> of \<open>service.go\<close> writes the nodes and edges
  with \<open>json.Marshal\<close>, \<open>hydrateDefinition\<close> of \<open>repository.go\<close> reads them back with
  \<open>json.Unmarshal\<close>. The round trip gives the graph back, with malformed UTF-8 in its strings
  replaced by U+FFFD (the strings of a valid request hold none).
\<close>

section \<open>Writing strings\<close>

text \<open>
  \<open>appendString\<close> with HTML escaping, the way \<open>json.Marshal\<close> calls it. One unit of the input
  is an ASCII byte, a well-formed rune or a malformed byte.
\<close>

definition escapeAscii :: "char \<Rightarrow> string" where
  "escapeAscii c =
     (if c = CHR 0x22 \<or> c = CHR 0x5C then [CHR 0x5C, c]
      else if byte c = 8 then [CHR 0x5C, CHR ''b'']
      else if byte c = 12 then [CHR 0x5C, CHR ''f'']
      else if byte c = 10 then [CHR 0x5C, CHR ''n'']
      else if byte c = 13 then [CHR 0x5C, CHR ''r'']
      else if byte c = 9 then [CHR 0x5C, CHR ''t'']
      else if byte c < 32 \<or> c = CHR ''<'' \<or> c = CHR ''>'' \<or> c = CHR ''&'' then
        [CHR 0x5C, CHR ''u'', CHR ''0'', CHR ''0'', hexDigit (byte c div 16), hexDigit (byte c mod 16)]
      else [c])"

definition escapeRune :: "string \<Rightarrow> string" where
  "escapeRune u =
     (if u = [CHR 0xE2, CHR 0x80, CHR 0xA8] then CHR 0x5C # ''u2028''
      else if u = [CHR 0xE2, CHR 0x80, CHR 0xA9] then CHR 0x5C # ''u2029''
      else u)"

definition escapeStep :: "string \<Rightarrow> string" where
  "escapeStep s =
     (if utf8Len s = 0 then CHR 0x5C # ''ufffd''
      else if utf8Len s = 1 then escapeAscii (hd s)
      else escapeRune (take (utf8Len s) s))"

definition validStep :: "string \<Rightarrow> string" where
  "validStep s = (if utf8Len s = 0 then replacementRune else take (utf8Len s) s)"

definition stepRest :: "string \<Rightarrow> string" where
  "stepRest s = drop (max 1 (utf8Len s)) s"

lemma stepRest_length: "s \<noteq> [] \<Longrightarrow> length (stepRest s) < length s"
  by (simp add: stepRest_def)

function escapeStr :: "string \<Rightarrow> string" where
  "escapeStr s = (if s = [] then [] else escapeStep s @ escapeStr (stepRest s))"
  by pat_completeness auto
termination by (relation "measure length") (auto simp: stepRest_length)

text \<open>The string with every malformed byte replaced by U+FFFD, and whether there is none.\<close>

function toValidUTF8 :: "string \<Rightarrow> string" where
  "toValidUTF8 s = (if s = [] then [] else validStep s @ toValidUTF8 (stepRest s))"
  by pat_completeness auto
termination by (relation "measure length") (auto simp: stepRest_length)

function validUTF8 :: "string \<Rightarrow> bool" where
  "validUTF8 s = (if s = [] then True else utf8Len s \<noteq> 0 \<and> validUTF8 (stepRest s))"
  by pat_completeness auto
termination by (relation "measure length") (auto simp: stepRest_length)

declare escapeStr.simps [simp del] toValidUTF8.simps [simp del] validUTF8.simps [simp del]

lemma string_step_induct:
  assumes "P []" and "\<And>s. s \<noteq> [] \<Longrightarrow> P (stepRest s) \<Longrightarrow> P s"
  shows "P s"
proof (induction s rule: length_induct)
  case (1 s)
  then show ?case using assms stepRest_length by (cases "s = []") auto
qed

lemma escapeStr_simps: "escapeStr [] = []" "s \<noteq> [] \<Longrightarrow> escapeStr s = escapeStep s @ escapeStr (stepRest s)"
  by (simp_all add: escapeStr.simps [of s] escapeStr.simps [of "[]"])

lemma toValidUTF8_simps:
  "toValidUTF8 [] = []" "s \<noteq> [] \<Longrightarrow> toValidUTF8 s = validStep s @ toValidUTF8 (stepRest s)"
  by (simp_all add: toValidUTF8.simps [of s] toValidUTF8.simps [of "[]"])

lemma toValidUTF8_valid: "validUTF8 s \<Longrightarrow> toValidUTF8 s = s"
proof (induction s rule: string_step_induct)
  case (2 s)
  have v: "utf8Len s \<noteq> 0" "validUTF8 (stepRest s)"
    using 2 by (simp_all add: validUTF8.simps [of s])
  with 2 have "toValidUTF8 s = take (utf8Len s) s @ stepRest s"
    by (simp add: toValidUTF8_simps validStep_def)
  also have "stepRest s = drop (utf8Len s) s" using v(1) by (simp add: stepRest_def max_def)
  finally show ?case by simp
qed (simp add: toValidUTF8_simps)

lemma toValidUTF8_empty_iff: "toValidUTF8 s = [] \<longleftrightarrow> s = []"
proof (cases "s = []")
  case False
  then have "validStep s \<noteq> []" by (auto simp: validStep_def replacementRune_def)
  with False show ?thesis by (simp add: toValidUTF8_simps)
qed (simp add: toValidUTF8_simps)

section \<open>Reading back a string\<close>

lemma hexVal_hexDigit: "n < 16 \<Longrightarrow> hexVal (hexDigit n) = Some n"
  by (auto simp: hexVal_def hexDigit_def char_class_defs)

lemma byte_less: "byte c < 256"
  by (simp add: byte_def)

lemma char_of_byte [simp]: "char_of (byte c) = c"
  by (simp add: byte_def)

lemma unicodeEscape_byte:
  assumes "byte c < 128"
  shows "unicodeEscape (CHR ''0'' # CHR ''0'' # hexDigit (byte c div 16) # hexDigit (byte c mod 16) # t)
    = Some ([c], t)"
proof -
  have "hex4 (CHR ''0'' # CHR ''0'' # hexDigit (byte c div 16) # hexDigit (byte c mod 16) # t)
      = Some (byte c, t)"
    using assms by (simp add: hexVal_hexDigit) (simp add: hexVal_def char_class_defs)
  with assms show ?thesis
    by (simp add: unicodeEscape_def isHighSurrogate_def isLowSurrogate_def encodeRune_def)
qed

lemma char_of_byte_eq: "byte c = n \<Longrightarrow> c = char_of n"
  by (metis char_of_byte)

lemma strUnit_escape: "strUnit (CHR 0x5C # s) = escapeUnit s"
  by (simp add: strUnit_def)

lemma char_literals:
  "char_of (239 :: nat) = CHR 0xEF" "char_of (191 :: nat) = CHR 0xBF" "char_of (189 :: nat) = CHR 0xBD"
  "char_of (226 :: nat) = CHR 0xE2" "char_of (128 :: nat) = CHR 0x80" "char_of (168 :: nat) = CHR 0xA8"
  "char_of (169 :: nat) = CHR 0xA9"
  "char_of (8 :: nat) = CHR 0x08" "char_of (9 :: nat) = CHR 0x09" "char_of (10 :: nat) = CHR 0x0A"
  "char_of (12 :: nat) = CHR 0x0C" "char_of (13 :: nat) = CHR 0x0D"
  by code_simp+

lemma escapeAscii_controls:
  "escapeAscii (CHR 0x08) = [CHR 0x5C, CHR ''b'']" "escapeAscii (CHR 0x0C) = [CHR 0x5C, CHR ''f'']"
  "escapeAscii (CHR 0x0A) = [CHR 0x5C, CHR ''n'']" "escapeAscii (CHR 0x0D) = [CHR 0x5C, CHR ''r'']"
  "escapeAscii (CHR 0x09) = [CHR 0x5C, CHR ''t'']"
  by code_simp+

lemma strUnit_ascii:
  assumes "byte c < 128"
  shows "strUnit (escapeAscii c @ t) = Some ([c], t)"
proof -
  consider "c = CHR 0x22 \<or> c = CHR 0x5C" | "byte c \<in> {8, 12, 10, 13, 9}"
    | "c \<noteq> CHR 0x22" "c \<noteq> CHR 0x5C" "byte c \<notin> {8, 12, 10, 13, 9}"
      "byte c < 32 \<or> c = CHR ''<'' \<or> c = CHR ''>'' \<or> c = CHR ''&''"
    | "c \<noteq> CHR 0x22" "c \<noteq> CHR 0x5C" "byte c \<notin> {8, 12, 10, 13, 9}"
      "\<not> (byte c < 32 \<or> c = CHR ''<'' \<or> c = CHR ''>'' \<or> c = CHR ''&'')" by blast
  then show ?thesis
  proof cases
    case 1
    then show ?thesis
      by (auto simp: escapeAscii_def strUnit_escape escapeUnit_def simpleEscapes_def)
  next
    case 2
    then consider "c = CHR 0x08" | "c = CHR 0x0C" | "c = CHR 0x0A" | "c = CHR 0x0D" | "c = CHR 0x09"
      by (metis char_literals char_of_byte empty_iff insert_iff)
    then show ?thesis
      by cases (simp_all add: escapeAscii_controls strUnit_escape escapeUnit_def simpleEscapes_def)
  next
    case 3
    then have "escapeAscii c = CHR 0x5C # CHR ''u'' # CHR ''0'' # CHR ''0''
        # [hexDigit (byte c div 16), hexDigit (byte c mod 16)]"
      unfolding escapeAscii_def by auto
    then show ?thesis using unicodeEscape_byte [OF assms] by (simp add: strUnit_escape escapeUnit_def)
  next
    case 4
    then have "escapeAscii c = [c]" unfolding escapeAscii_def by auto
    with 4 assms show ?thesis by (simp add: strUnit_def)
  qed
qed

text \<open>The size of the rune at the start depends only on the bytes of that rune.\<close>

lemma utf8Len_take: "utf8Len s \<noteq> 0 \<Longrightarrow> utf8Len (take (utf8Len s) s @ t) = utf8Len s"
  by (cases s; cases "tl s"; cases "tl (tl s)"; cases "tl (tl (tl s))") (auto split: if_splits)

lemma utf8Len_le: "utf8Len s \<le> length s"
  by (cases s; cases "tl s"; cases "tl (tl s)"; cases "tl (tl (tl s))") (auto split: if_splits)

lemma utf8Len_one_iff: "s \<noteq> [] \<Longrightarrow> utf8Len s = 1 \<longleftrightarrow> byte (hd s) < 128"
  by (cases s) (auto split: list.splits if_splits)

lemma strUnit_rune:
  assumes "1 < utf8Len s"
  shows "strUnit (escapeRune (take (utf8Len s) s) @ t) = Some (take (utf8Len s) s, t)"
proof -
  let ?u = "take (utf8Len s) s"
  have s: "s \<noteq> []" using assms by auto
  then have hd: "128 \<le> byte (hd s)" using assms utf8Len_one_iff [of s] by auto
  obtain c r where u: "?u = c # r" using assms s by (cases s) (auto simp: take_Cons')
  then have c: "128 \<le> byte c" using hd s by (cases s) (auto simp: take_Cons' split: if_splits)
  have len: "length ?u = utf8Len s" using utf8Len_le [of s] by simp
  show ?thesis
  proof (cases "?u = [CHR 0xE2, CHR 0x80, CHR 0xA8] \<or> ?u = [CHR 0xE2, CHR 0x80, CHR 0xA9]")
    case True
    then show ?thesis
      by (elim disjE) (simp_all add: escapeRune_def strUnit_escape escapeUnit_def unicodeEscape_def
          hexVal_def char_class_defs isHighSurrogate_def isLowSurrogate_def encodeRune_def char_literals)
  next
    case False
    then have "escapeRune ?u = ?u" by (simp add: escapeRune_def)
    moreover have "utf8Len (?u @ t) = utf8Len s" using assms utf8Len_take [of s t] by simp
    moreover have "take (utf8Len s) (?u @ t) = ?u" "drop (utf8Len s) (?u @ t) = t"
      using len by simp_all
    moreover have "c \<noteq> CHR 0x5C" "\<not> byte c < 32" using c by (auto simp: byte_def)
    ultimately show ?thesis using assms u by (simp add: strUnit_def del: utf8Len.simps)
  qed
qed

lemma strUnit_malformed: "strUnit (CHR 0x5C # ''ufffd'' @ t) = Some (replacementRune, t)"
  by (simp add: strUnit_escape escapeUnit_def unicodeEscape_def replacementRune_def
      hexVal_def char_class_defs isHighSurrogate_def isLowSurrogate_def encodeRune_def char_literals)

lemma strUnit_step:
  assumes "s \<noteq> []"
  shows "strUnit (escapeStep s @ t) = Some (validStep s, t)"
proof -
  consider "utf8Len s = 0" | "utf8Len s = 1" | "1 < utf8Len s" by linarith
  then show ?thesis
  proof cases
    case 1
    then show ?thesis using strUnit_malformed by (simp add: escapeStep_def validStep_def)
  next
    case 2
    then have "byte (hd s) < 128" using utf8Len_one_iff [OF assms] by simp
    moreover have "take 1 s = [hd s]" using assms by (cases s) auto
    ultimately show ?thesis using 2 by (simp add: escapeStep_def validStep_def strUnit_ascii)
  next
    case 3
    then show ?thesis using strUnit_rune by (simp add: escapeStep_def validStep_def)
  qed
qed

lemma escapeStep_hd:
  assumes "s \<noteq> []"
  shows "escapeStep s \<noteq> []" "hd (escapeStep s @ t) \<noteq> CHR 0x22"
proof -
  have *: "strUnit (escapeStep s @ x) = Some (validStep s, x)" for x by (rule strUnit_step [OF assms])
  show nz: "escapeStep s \<noteq> []" using * [of "[]"] by (auto simp: strUnit_def)
  have a: "hd (escapeAscii c) \<noteq> CHR 0x22" for c by (auto simp: escapeAscii_def)
  have b: "hd (escapeRune (take n s)) \<noteq> CHR 0x22" if "1 < utf8Len s" "n = utf8Len s" for n
  proof -
    have "hd (take n s) = hd s" using that by (cases s) (auto simp: take_Cons')
    moreover have "\<not> byte (hd s) < 128" using that utf8Len_one_iff [OF assms] by simp
    ultimately show ?thesis by (auto simp: escapeRune_def byte_def)
  qed
  have "hd (escapeStep s) \<noteq> CHR 0x22"
    unfolding escapeStep_def using a b by auto
  with nz show "hd (escapeStep s @ t) \<noteq> CHR 0x22" by simp
qed

lemma parseStr_escapeStr: "parseStr (escapeStr s @ CHR 0x22 # r) = Some (toValidUTF8 s, r)"
proof (induction s rule: string_step_induct)
  case (2 s)
  let ?t = "escapeStr (stepRest s) @ CHR 0x22 # r"
  have "parseStr (escapeStep s @ ?t) = map_option (\<lambda>(t, p). (validStep s @ t, p)) (parseStr ?t)"
    using escapeStep_hd [OF 2(1)] strUnit_step [OF 2(1)] by (intro parseStr_unit) simp_all
  with 2 show ?case by (simp add: escapeStr_simps toValidUTF8_simps)
qed (simp add: escapeStr_simps toValidUTF8_simps)

section \<open>Writing and reading documents\<close>

fun joinWith :: "string list \<Rightarrow> string" where
  "joinWith [] = []"
| "joinWith [x] = x"
| "joinWith (x # y # xs) = x @ CHR '','' # joinWith (y # xs)"

definition quoteJson :: "string \<Rightarrow> string" where
  "quoteJson s = CHR 0x22 # escapeStr s @ [CHR 0x22]"

fun printJson :: "json \<Rightarrow> string" where
  "printJson JNull = ''null''"
| "printJson (JBool b) = (if b then ''true'' else ''false'')"
| "printJson (JNum l) = l"
| "printJson (JStr s) = quoteJson s"
| "printJson (JArr vs) = ''['' @ joinWith (map printJson vs) @ '']''"
| "printJson (JObj ms) = ''{'' @ joinWith (map (\<lambda>(k, v). quoteJson k @ CHR '':'' # printJson v) ms) @ ''}''"

definition printMember :: "string \<times> json \<Rightarrow> string" where
  "printMember = (\<lambda>(k, v). quoteJson k @ CHR '':'' # printJson v)"

lemma joinWith_induct [case_names Nil single more]:
  assumes "P []" and "\<And>x. P [x]" and "\<And>x y xs. P (y # xs) \<Longrightarrow> P (x # y # xs)"
  shows "P xs"
  using assms by (induction xs rule: induct_list012) auto

text \<open>Decimal digits, as \<open>strconv\<close> writes an integer.\<close>

fun decimal :: "nat \<Rightarrow> string" where
  "decimal n = (if n < 10 then [char_of (48 + n)] else decimal (n div 10) @ [char_of (48 + n mod 10)])"

declare decimal.simps [simp del]

definition decimalInt :: "int \<Rightarrow> string" where
  "decimalInt i = (if i < 0 then CHR ''-'' # decimal (nat (- i)) else decimal (nat i))"

text \<open>What may follow a value inside a document.\<close>

definition delim :: "string \<Rightarrow> bool" where
  "delim r \<longleftrightarrow> r = [] \<or> hd r \<in> {CHR '','', CHR '']'', CHR ''}''}"

definition numLitOk :: "string \<Rightarrow> bool" where
  "numLitOk l \<longleftrightarrow> l \<noteq> [] \<and> (isDigit (hd l) \<or> hd l = CHR ''-'') \<and>
     (\<forall>r. delim r \<longrightarrow> parseNum (l @ r) = Some (l, r))"

fun numLitsOk :: "json \<Rightarrow> bool" where
  "numLitsOk (JNum l) = numLitOk l"
| "numLitsOk (JArr vs) = list_all numLitsOk vs"
| "numLitsOk (JObj ms) = list_all (\<lambda>(k, v). numLitsOk v) ms"
| "numLitsOk _ = True"

fun jsonDepth :: "json \<Rightarrow> nat" where
  "jsonDepth (JArr vs) = Suc (Max (set (0 # map jsonDepth vs)))"
| "jsonDepth (JObj ms) = Suc (Max (set (0 # map (\<lambda>(k, v). jsonDepth v) ms)))"
| "jsonDepth _ = 0"

fun jsonValid :: "json \<Rightarrow> json" where
  "jsonValid (JStr s) = JStr (toValidUTF8 s)"
| "jsonValid (JArr vs) = JArr (map jsonValid vs)"
| "jsonValid (JObj ms) = JObj (map (\<lambda>(k, v). (toValidUTF8 k, jsonValid v)) ms)"
| "jsonValid v = v"

lemma skipWs_nonspace: "\<not> isJsonSpace c \<Longrightarrow> skipWs (c # r) = c # r"
  by (simp add: skipWs_def)

lemma not_space:
  "\<not> isJsonSpace (CHR 0x22)" "\<not> isJsonSpace (CHR ''['')" "\<not> isJsonSpace (CHR ''{'')"
  "\<not> isJsonSpace (CHR '']'')" "\<not> isJsonSpace (CHR ''}'')" "\<not> isJsonSpace (CHR '','')"
  "\<not> isJsonSpace (CHR '':'')" "\<not> isJsonSpace (CHR ''t'')" "\<not> isJsonSpace (CHR ''f'')"
  "\<not> isJsonSpace (CHR ''n'')" "\<not> isJsonSpace (CHR ''-'')"
  by code_simp+

lemma isDigit_chars: "isDigit c \<Longrightarrow> \<not> isJsonSpace c \<and> c \<notin> set ''[]{},:tfn'' \<and> c \<noteq> CHR 0x22"
  by (auto simp: char_class_defs isJsonSpace_def)

lemma numLit_head:
  assumes "numLitOk l"
  obtains c r where "l = c # r" "\<not> isJsonSpace c" "c \<notin> set ''[]{},:tfn''" "c \<noteq> CHR 0x22"
proof -
  obtain c r where l: "l = c # r" using assms by (cases l) (auto simp: numLitOk_def)
  with assms consider "isDigit c" | "c = CHR ''-''" by (auto simp: numLitOk_def)
  then show ?thesis
  proof cases
    case 1
    with isDigit_chars [OF 1] l that show ?thesis by blast
  next
    case 2
    with not_space(11) l show ?thesis by (intro that) auto
  qed
qed

lemma printJson_head:
  assumes "numLitsOk v"
  obtains c r where "printJson v = c # r" "\<not> isJsonSpace c" "c \<noteq> CHR '']''" "c \<noteq> CHR ''}''"
proof (cases v)
  case (JNum l)
  with assms have "numLitOk l" by simp
  then show ?thesis using that JNum by (elim numLit_head) auto
next
  case (JBool b)
  then show ?thesis using that not_space by (cases b) auto
qed (use that not_space in \<open>auto simp: quoteJson_def\<close>)

lemma stripPrefix_other: "l \<noteq> [] \<Longrightarrow> p \<noteq> [] \<Longrightarrow> hd l \<noteq> hd p \<Longrightarrow> stripPrefix p (l @ r) = None"
  by (cases l; cases p) (auto simp: stripPrefix_def)

lemma parseValue_scalar:
  assumes "\<not> isJsonSpace c" "c \<noteq> CHR ''[''" "c \<noteq> CHR ''{''"
  shows "parseValue (Suc n) d (c # s) = parseScalar (c # s)"
  using assms by (simp add: skipWs_nonspace)

lemma parse_print_scalar:
  assumes "numLitsOk v" and "delim rest" and "\<forall>vs. v \<noteq> JArr vs" and "\<forall>ms. v \<noteq> JObj ms" and "2 \<le> k"
  shows "parseValue k d (printJson v @ rest) = Some (jsonValid v, rest)"
proof -
  obtain n where k: "k = Suc n" using assms(5) by (cases k) auto
  have "parseValue (Suc n) d (printJson v @ rest) = Some (jsonValid v, rest)"
  proof (cases v)
    case JNull
    then show ?thesis using not_space
      by (simp add: parseValue_scalar parseScalar_def stripPrefix_def del: parseValue.simps)
  next
    case (JBool b)
    then show ?thesis using not_space
      by (cases b) (simp_all add: parseValue_scalar parseScalar_def stripPrefix_def del: parseValue.simps)
  next
    case (JStr s)
    then show ?thesis using not_space parseStr_escapeStr [of s rest]
      by (simp add: quoteJson_def parseValue_scalar parseScalar_def del: parseValue.simps)
  next
    case (JNum l)
    with assms(1) have ok: "numLitOk l" by simp
    then obtain c r where l: "l = c # r" "\<not> isJsonSpace c" "c \<notin> set ''[]{},:tfn''" "c \<noteq> CHR 0x22"
      by (rule numLit_head)
    then have "parseScalar (l @ rest) = map_option (\<lambda>(t, r). (JNum t, r)) (parseNum (l @ rest))"
      by (simp add: parseScalar_def stripPrefix_other [of "c # r", simplified])
    with ok assms(2) l JNum show ?thesis
      by (simp add: numLitOk_def parseValue_scalar del: parseValue.simps)
  qed (use assms in auto)
  then show ?thesis by (simp only: k)
qed

lemma parseElems_print:
  assumes "vs \<noteq> []" and "list_all numLitsOk vs"
    and "\<And>v rest n. v \<in> set vs \<Longrightarrow> delim rest \<Longrightarrow> 2 * length (printJson v @ rest) + 2 \<le> n
          \<Longrightarrow> parseValue n d (printJson v @ rest) = Some (jsonValid v, rest)"
    and "2 * length (joinWith (map printJson vs) @ CHR '']'' # rest) + 3 \<le> n"
  shows "parseElems n d (joinWith (map printJson vs) @ CHR '']'' # rest) = Some (map jsonValid vs, rest)"
  using assms
proof (induction vs arbitrary: n rule: joinWith_induct)
  case (single v)
  obtain m where n: "n = Suc m" using single.prems(4) by (cases n) auto
  have "parseValue m d (printJson v @ CHR '']'' # rest) = Some (jsonValid v, CHR '']'' # rest)"
    using single.prems(4) n by (intro single.prems(3)) (auto simp: delim_def)
  with n show ?case by (simp add: skipWs_nonspace not_space)
next
  case (more v w vs)
  let ?t = "joinWith (map printJson (w # vs)) @ CHR '']'' # rest"
  obtain m where n: "n = Suc m" using more.prems(4) by (cases n) auto
  have v: "parseValue m d (printJson v @ CHR '','' # ?t) = Some (jsonValid v, CHR '','' # ?t)"
    using more.prems(4) n by (intro more.prems(3)) (auto simp: delim_def)
  have "parseElems m d ?t = Some (map jsonValid (w # vs), rest)"
    using more.prems n by (intro more.IH) auto
  with v n show ?case by (simp add: skipWs_nonspace not_space)
qed simp

lemma parseMembers_print:
  assumes "ms \<noteq> []" and "list_all (\<lambda>(k, v). numLitsOk v) ms"
    and "\<And>k v rest n. (k, v) \<in> set ms \<Longrightarrow> delim rest \<Longrightarrow> 2 * length (printJson v @ rest) + 2 \<le> n
          \<Longrightarrow> parseValue n d (printJson v @ rest) = Some (jsonValid v, rest)"
    and "2 * length (joinWith (map printMember ms) @ CHR ''}'' # rest) + 3 \<le> n"
  shows "parseMembers n d (joinWith (map printMember ms) @ CHR ''}'' # rest)
    = Some (map (\<lambda>(k, v). (toValidUTF8 k, jsonValid v)) ms, rest)"
  using assms
proof (induction ms arbitrary: n rule: joinWith_induct)
  case (single kv)
  obtain k v where kv: "kv = (k, v)" by (cases kv)
  obtain m where n: "n = Suc m" using single.prems(4) by (cases n) auto
  have "parseValue m d (printJson v @ CHR ''}'' # rest) = Some (jsonValid v, CHR ''}'' # rest)"
    using single.prems(4) n kv by (intro single.prems(3)) (auto simp: delim_def printMember_def)
  with n kv show ?case
    by (simp add: printMember_def quoteJson_def skipWs_nonspace not_space parseStr_escapeStr)
next
  case (more kv w ms)
  let ?t = "joinWith (map printMember (w # ms)) @ CHR ''}'' # rest"
  obtain k v where kv: "kv = (k, v)" by (cases kv)
  obtain m where n: "n = Suc m" using more.prems(4) by (cases n) auto
  have v: "parseValue m d (printJson v @ CHR '','' # ?t) = Some (jsonValid v, CHR '','' # ?t)"
    using more.prems(4) n kv by (intro more.prems(3)) (auto simp: delim_def printMember_def)
  have t: "parseMembers m d ?t = Some (map (\<lambda>(k, v). (toValidUTF8 k, jsonValid v)) (w # ms), rest)"
    using more.prems n by (intro more.IH) auto
  have "joinWith (map printMember (kv # w # ms)) @ CHR ''}'' # rest
      = CHR 0x22 # escapeStr k @ CHR 0x22 # CHR '':'' # printJson v @ CHR '','' # ?t"
    by (simp add: kv printMember_def quoteJson_def)
  with v t n kv show ?case
    by (simp add: skipWs_nonspace not_space parseStr_escapeStr)
qed simp

lemma parse_print:
  assumes "numLitsOk v" and "d + jsonDepth v \<le> maxNestingDepth" and "delim rest"
    and "2 * length (printJson v @ rest) + 2 \<le> n"
  shows "parseValue n d (printJson v @ rest) = Some (jsonValid v, rest)"
  using assms
proof (induction v arbitrary: d rest n rule: printJson.induct)
  case (5 vs)
  obtain m where n: "n = Suc m" using 5 by (cases n) auto
  show ?case
  proof (cases vs)
    case Nil
    with 5 n show ?thesis by (simp add: skipWs_nonspace not_space)
  next
    case (Cons w ws)
    let ?t = "joinWith (map printJson vs) @ CHR '']'' # rest"
    have "parseElems m (Suc d) ?t = Some (map jsonValid vs, rest)"
    proof (rule parseElems_print)
      fix v r k
      assume v: "v \<in> set vs" and "delim r" "2 * length (printJson v @ r) + 2 \<le> k"
      moreover have "jsonDepth v \<in> set (0 # map jsonDepth vs)" using v by simp
      then have "jsonDepth v \<le> Max (set (0 # map jsonDepth vs))" by (simp only: Max_ge finite_set)
      then have "Suc d + jsonDepth v \<le> maxNestingDepth" using 5(3) by simp
      ultimately show "parseValue k (Suc d) (printJson v @ r) = Some (jsonValid v, r)"
        using 5(1,2) by (auto simp: list_all_iff)
    qed (use 5 n Cons in auto)
    moreover obtain c r where "?t = c # r" "\<not> isJsonSpace c" "c \<noteq> CHR '']''"
    proof -
      have "numLitsOk w" using 5(2) Cons by simp
      then obtain c r where "printJson w = c # r" "\<not> isJsonSpace c" "c \<noteq> CHR '']''"
        by (rule printJson_head) auto
      with Cons that show ?thesis by (cases ws) auto
    qed
    ultimately show ?thesis using 5(3) n by (simp add: skipWs_nonspace not_space)
  qed
next
  case (6 ms)
  obtain m where n: "n = Suc m" using 6 by (cases n) auto
  have pm: "printJson (JObj ms) @ rest = CHR ''{'' # joinWith (map printMember ms) @ CHR ''}'' # rest"
    by (simp add: printMember_def)
  show ?case
  proof (cases ms)
    case Nil
    with 6 n show ?thesis by (simp add: skipWs_nonspace not_space)
  next
    case (Cons w ws)
    let ?t = "joinWith (map printMember ms) @ CHR ''}'' # rest"
    have t: "parseMembers m (Suc d) ?t = Some (map (\<lambda>(k, v). (toValidUTF8 k, jsonValid v)) ms, rest)"
    proof (rule parseMembers_print)
      fix k v r j
      assume v: "(k, v) \<in> set ms" and "delim r" "2 * length (printJson v @ r) + 2 \<le> j"
      moreover have "jsonDepth v \<in> set (0 # map (\<lambda>(k, v). jsonDepth v) ms)" using v by force
      then have "jsonDepth v \<le> Max (set (0 # map (\<lambda>(k, v). jsonDepth v) ms))" by (simp only: Max_ge finite_set)
      then have "Suc d + jsonDepth v \<le> maxNestingDepth" using 6(3) by simp
      ultimately show "parseValue j (Suc d) (printJson v @ r) = Some (jsonValid v, r)"
        using 6(1) [OF v refl] 6(2) v by (auto simp: list_all_iff)
    qed (use 6(2,5) pm n Cons in auto)
    moreover obtain r where "?t = CHR 0x22 # r"
      using Cons by (cases w; cases ws) (auto simp: printMember_def quoteJson_def)
    ultimately show ?thesis unfolding pm using 6(3) n by (simp add: skipWs_nonspace not_space)
  qed
qed (rule parse_print_scalar; simp)+

lemma jsonParse_print:
  assumes "numLitsOk v" and "jsonDepth v \<le> maxNestingDepth"
  shows "jsonParse (printJson v) = Some (jsonValid v)"
  using parse_print [of v 0 "[]" "2 * length (printJson v) + 2"] assms
  by (simp add: jsonParse_def delim_def skipWs_def)

section \<open>Integers\<close>

lemma decimal_digits: "list_all isDigit (decimal n) \<and> decimal n \<noteq> []"
proof (induction n rule: decimal.induct)
  case (1 n)
  have d: "isDigit (char_of (48 + m))" if "m < 10" for m :: nat
    using that by (simp add: char_class_defs)
  show ?case
  proof (cases "n < 10")
    case True
    with d show ?thesis by (simp add: decimal.simps [of n])
  next
    case False
    with 1 d [of "n mod 10"] show ?thesis by (simp add: decimal.simps [of n])
  qed
qed

lemma digitsVal_snoc: "digitsVal (ds @ [c]) = 10 * digitsVal ds + (byte c - 48)"
  by (simp add: digitsVal_def)

lemma digitsVal_decimal: "digitsVal (decimal n) = n"
proof (induction n rule: decimal.induct)
  case (1 n)
  have d: "byte (char_of (48 + m)) - 48 = m" if "m < 10" for m :: nat
    using that by (simp add: byte_def)
  show ?case
  proof (cases "n < 10")
    case True
    with d [of n] show ?thesis by (simp add: decimal.simps [of n] digitsVal_def)
  next
    case False
    with 1 d [of "n mod 10"] show ?thesis
      by (simp add: decimal.simps [of n] digitsVal_snoc)
  qed
qed

lemma decimal_zero_head: "hd (decimal n) = CHR ''0'' \<Longrightarrow> decimal n = ''0''"
proof (induction n rule: decimal.induct)
  case (1 n)
  show ?case
  proof (cases "n < 10")
    case True
    with 1(2) show ?thesis by (simp add: decimal.simps [of n])
  next
    case False
    then have "decimal n = decimal (n div 10) @ [char_of (48 + n mod 10)]"
      by (simp add: decimal.simps [of n])
    moreover have "decimal (n div 10) \<noteq> []" by (simp add: decimal_digits)
    ultimately have "decimal (n div 10) = ''0''" using 1 False by simp
    then have "n div 10 = 0"
      using digitsVal_decimal [of "n div 10"] by (simp add: digitsVal_def byte_def)
    with False show ?thesis by simp
  qed
qed

lemma delim_tail:
  assumes "delim r"
  shows "numFrac r = Some ([], r)" "numExp r = Some (False, [], r)"
    and "takeWhile isDigit r = []" "dropWhile isDigit r = r"
  using assms
  by (cases r; auto simp: delim_def numFrac_def numExp_def char_class_defs)+

lemma numInt_decimal:
  assumes "delim r"
  shows "numInt (decimal n @ r) = Some (decimal n, r)"
proof -
  obtain c cs where d: "decimal n = c # cs" using decimal_digits [of n] by (cases "decimal n") auto
  have all: "list_all isDigit (c # cs)" using decimal_digits [of n] d by simp
  have "takeWhile isDigit ((c # cs) @ r) = c # cs" "dropWhile isDigit ((c # cs) @ r) = r"
    using all delim_tail(3,4) [OF assms] by (simp_all add: takeWhile_append2 dropWhile_append2 list_all_iff)
  moreover have "cs = []" if "c = CHR ''0''" using decimal_zero_head [of n] d that by simp
  ultimately show ?thesis using all d by (auto simp: numInt_def)
qed

lemma isDigit_not_minus: "isDigit c \<Longrightarrow> c \<noteq> CHR ''-''"
  by (auto simp: char_class_defs)

lemma parseNum_decimal:
  assumes "delim r"
  shows "parseNum (decimal n @ r) = Some (decimal n, r)"
    and "parseNum (CHR ''-'' # decimal n @ r) = Some (CHR ''-'' # decimal n, r)"
proof -
  obtain c cs where d: "decimal n = c # cs" "isDigit c" using decimal_digits [of n] by (cases "decimal n") auto
  then have "hd (decimal n @ r) \<noteq> CHR ''-''" using isDigit_not_minus by simp
  then show "parseNum (decimal n @ r) = Some (decimal n, r)"
    using numInt_decimal [OF assms, of n] delim_tail [OF assms]
    by (auto simp: parseNum_def scanNum_def Let_def)
  show "parseNum (CHR ''-'' # decimal n @ r) = Some (CHR ''-'' # decimal n, r)"
    using numInt_decimal [OF assms, of n] delim_tail [OF assms]
    by (auto simp: parseNum_def scanNum_def Let_def)
qed

lemma numLitOk_decimal: "numLitOk (decimal n)" "numLitOk (decimalInt i)"
proof -
  have d: "decimal k \<noteq> [] \<and> isDigit (hd (decimal k))" for k
    using decimal_digits [of k] by (cases "decimal k") auto
  show "numLitOk (decimal n)" using d parseNum_decimal by (simp add: numLitOk_def)
  show "numLitOk (decimalInt i)" using d parseNum_decimal by (simp add: numLitOk_def decimalInt_def)
qed

section \<open>Nodes and edges as JSON objects\<close>

text \<open>The members of a struct: \<open>omitempty\<close> leaves out an empty string and a zero number.\<close>

definition strField :: "string \<Rightarrow> string \<Rightarrow> (string \<times> json) list" where
  "strField k v = [(k, JStr v)]"

definition strFieldOmit :: "string \<Rightarrow> string \<Rightarrow> (string \<times> json) list" where
  "strFieldOmit k v = (if v = [] then [] else [(k, JStr v)])"

definition uintFieldOmit :: "string \<Rightarrow> 32 word \<Rightarrow> (string \<times> json) list" where
  "uintFieldOmit k v = (if v = 0 then [] else [(k, JNum (decimal (unat v)))])"

definition nodeToJson :: "Node \<Rightarrow> json" where
  "nodeToJson n = JObj
     (strField ''id'' (nodeID n) @ strField ''name'' (nodeName n) @ strField ''type'' (nodeType n) @
      strFieldOmit ''assignee_type'' (nodeAssigneeType n) @
      strFieldOmit ''assignee'' (nodeAssignee n) @
      uintFieldOmit ''timeout_seconds'' (nodeTimeoutSeconds n) @
      strFieldOmit ''target_service'' (nodeTargetService n) @
      strFieldOmit ''full_method'' (nodeFullMethod n) @
      strFieldOmit ''request_template_json'' (nodeRequestTemplateJSON n) @
      strFieldOmit ''compensation_method'' (nodeCompensationMethod n) @
      uintFieldOmit ''timer_seconds'' (nodeTimerSeconds n) @
      strFieldOmit ''config_json'' (nodeConfigJSON n))"

definition edgeToJson :: "Edge \<Rightarrow> json" where
  "edgeToJson e = JObj
     (strField ''from_node_id'' (edgeFromNodeID e) @ strField ''to_node_id'' (edgeToNodeID e) @
      strFieldOmit ''condition_expression'' (edgeConditionExpression e) @
      [(''priority'', JNum (decimalInt (edgePriority e)))])"

text \<open>
  \<open>encodeGraph\<close>. Marshalling strings and integers cannot fail, so its two error branches are
  never taken. Both lists are non-empty where it is called, after \<open>ValidateDefinition\<close>, so
  that no nil slice is written as \<open>null\<close>.
\<close>

definition marshalNodes :: "Node list \<Rightarrow> string" where
  "marshalNodes ns = printJson (JArr (map nodeToJson ns))"

definition marshalEdges :: "Edge list \<Rightarrow> string" where
  "marshalEdges es = printJson (JArr (map edgeToJson es))"

definition encodeGraph :: "Node list \<Rightarrow> Edge list \<Rightarrow> (string \<times> string) result" where
  "encodeGraph nodes edges = Inr (marshalNodes nodes, marshalEdges edges)"

text \<open>\<open>json.Marshal\<close> of a \<open>map[string]string\<close>, whose keys are given in sorted order.\<close>

definition marshalStringMap :: "(string \<times> string) list \<Rightarrow> string" where
  "marshalStringMap kvs = printJson (JObj (map (\<lambda>(k, v). (k, JStr v)) kvs))"

section \<open>Reading nodes and edges\<close>

text \<open>
  A member's key selects the field whose name it equals, else the one whose name it equals
  under simple case folding: ASCII letters, U+017F for s and U+212A for k.
\<close>

definition upperAscii :: "char \<Rightarrow> char" where
  "upperAscii c = (if isLower c then char_of (byte c - 32) else c)"

fun foldName :: "string \<Rightarrow> string" where
  "foldName [] = []"
| "foldName [a] = [upperAscii a]"
| "foldName [a, b] =
     (if a = CHR 0xC5 \<and> b = CHR 0xBF then [CHR ''S''] else [upperAscii a, upperAscii b])"
| "foldName (a # b # c # r) =
     (if a = CHR 0xC5 \<and> b = CHR 0xBF then CHR ''S'' # foldName (c # r)
      else if a = CHR 0xE2 \<and> b = CHR 0x84 \<and> c = CHR 0xAA then CHR ''K'' # foldName r
      else upperAscii a # foldName (b # c # r))"

definition fieldFor :: "string list \<Rightarrow> string \<Rightarrow> string option" where
  "fieldFor names k =
     (if k \<in> set names then Some k else find (\<lambda>n. foldName n = foldName k) names)"

text \<open>\<open>null\<close> leaves a field as it is; a value of another kind is an error of the whole call.\<close>

definition setStr :: "(string \<Rightarrow> 'a \<Rightarrow> 'a) \<Rightarrow> json \<Rightarrow> 'a \<Rightarrow> 'a option" where
  "setStr upd v x = (case v of JStr s \<Rightarrow> Some (upd s x) | JNull \<Rightarrow> Some x | _ \<Rightarrow> None)"

definition setUint32 :: "(32 word \<Rightarrow> 'a \<Rightarrow> 'a) \<Rightarrow> json \<Rightarrow> 'a \<Rightarrow> 'a option" where
  "setUint32 upd v x =
     (case v of
        JNum l \<Rightarrow> if l \<noteq> [] \<and> list_all isDigit l \<and> digitsVal l < 2 ^ 32
                  then Some (upd (word_of_nat (digitsVal l)) x) else None
      | JNull \<Rightarrow> Some x | _ \<Rightarrow> None)"

definition parseInt :: "string \<Rightarrow> int option" where
  "parseInt l =
     (let neg = (l \<noteq> [] \<and> hd l = CHR ''-''); ds = (if neg then tl l else l)
      in if ds \<noteq> [] \<and> list_all isDigit ds
         then Some (if neg then - int (digitsVal ds) else int (digitsVal ds)) else None)"

definition setInt32 :: "(int \<Rightarrow> 'a \<Rightarrow> 'a) \<Rightarrow> json \<Rightarrow> 'a \<Rightarrow> 'a option" where
  "setInt32 upd v x =
     (case v of
        JNum l \<Rightarrow>
          (case parseInt l of
             Some i \<Rightarrow> if - (2 ^ 31) \<le> i \<and> i < 2 ^ 31 then Some (upd i x) else None
           | None \<Rightarrow> None)
      | JNull \<Rightarrow> Some x | _ \<Rightarrow> None)"

definition nodeSetters :: "(string \<times> (json \<Rightarrow> Node \<Rightarrow> Node option)) list" where
  "nodeSetters =
     [(''id'', setStr (\<lambda>s n. n\<lparr>nodeID := s\<rparr>)),
      (''name'', setStr (\<lambda>s n. n\<lparr>nodeName := s\<rparr>)),
      (''type'', setStr (\<lambda>s n. n\<lparr>nodeType := s\<rparr>)),
      (''assignee_type'', setStr (\<lambda>s n. n\<lparr>nodeAssigneeType := s\<rparr>)),
      (''assignee'', setStr (\<lambda>s n. n\<lparr>nodeAssignee := s\<rparr>)),
      (''timeout_seconds'', setUint32 (\<lambda>w n. n\<lparr>nodeTimeoutSeconds := w\<rparr>)),
      (''target_service'', setStr (\<lambda>s n. n\<lparr>nodeTargetService := s\<rparr>)),
      (''full_method'', setStr (\<lambda>s n. n\<lparr>nodeFullMethod := s\<rparr>)),
      (''request_template_json'', setStr (\<lambda>s n. n\<lparr>nodeRequestTemplateJSON := s\<rparr>)),
      (''compensation_method'', setStr (\<lambda>s n. n\<lparr>nodeCompensationMethod := s\<rparr>)),
      (''timer_seconds'', setUint32 (\<lambda>w n. n\<lparr>nodeTimerSeconds := w\<rparr>)),
      (''config_json'', setStr (\<lambda>s n. n\<lparr>nodeConfigJSON := s\<rparr>))]"

definition edgeSetters :: "(string \<times> (json \<Rightarrow> Edge \<Rightarrow> Edge option)) list" where
  "edgeSetters =
     [(''from_node_id'', setStr (\<lambda>s e. e\<lparr>edgeFromNodeID := s\<rparr>)),
      (''to_node_id'', setStr (\<lambda>s e. e\<lparr>edgeToNodeID := s\<rparr>)),
      (''condition_expression'', setStr (\<lambda>s e. e\<lparr>edgeConditionExpression := s\<rparr>)),
      (''priority'', setInt32 (\<lambda>i e. e\<lparr>edgePriority := i\<rparr>))]"

text \<open>An object into a struct: the members in order, unknown keys ignored.\<close>

fun setMembers :: "(string \<times> (json \<Rightarrow> 'a \<Rightarrow> 'a option)) list \<Rightarrow> (string \<times> json) list \<Rightarrow> 'a \<Rightarrow> 'a option" where
  "setMembers setters [] x = Some x"
| "setMembers setters ((k, v) # ms) x =
     (case fieldFor (map fst setters) k of
        None \<Rightarrow> setMembers setters ms x
      | Some f \<Rightarrow>
          (case map_of setters f of
             None \<Rightarrow> setMembers setters ms x
           | Some setter \<Rightarrow>
               (case setter v x of None \<Rightarrow> None | Some y \<Rightarrow> setMembers setters ms y)))"

definition decodeStruct :: "(string \<times> (json \<Rightarrow> 'a \<Rightarrow> 'a option)) list \<Rightarrow> 'a \<Rightarrow> json \<Rightarrow> 'a option" where
  "decodeStruct setters zero v =
     (case v of JObj ms \<Rightarrow> setMembers setters ms zero | JNull \<Rightarrow> Some zero | _ \<Rightarrow> None)"

fun decodeAll :: "(json \<Rightarrow> 'a option) \<Rightarrow> json list \<Rightarrow> 'a list option" where
  "decodeAll f [] = Some []"
| "decodeAll f (v # vs) =
     (case f v of None \<Rightarrow> None
      | Some x \<Rightarrow> (case decodeAll f vs of None \<Rightarrow> None | Some xs \<Rightarrow> Some (x # xs)))"

definition unmarshalList :: "(json \<Rightarrow> 'a option) \<Rightarrow> string \<Rightarrow> 'a list result" where
  "unmarshalList f s =
     (case jsonParse s of
        Some (JArr vs) \<Rightarrow> (case decodeAll f vs of None \<Rightarrow> Inl jsonError | Some xs \<Rightarrow> Inr xs)
      | Some JNull \<Rightarrow> Inr []
      | _ \<Rightarrow> Inl jsonError)"

definition unmarshalNodes :: "string \<Rightarrow> Node list result" where
  "unmarshalNodes = unmarshalList (decodeStruct nodeSetters zeroNode)"

definition unmarshalEdges :: "string \<Rightarrow> Edge list result" where
  "unmarshalEdges = unmarshalList (decodeStruct edgeSetters zeroEdge)"

definition hydrateDefinition :: "Definition \<Rightarrow> Definition result" where
  "hydrateDefinition d =
     (case unmarshalNodes (defNodesJSON d) of
        Inl e \<Rightarrow> Inl (Wrapf ''decode workflow definition nodes: '' e [])
      | Inr ns \<Rightarrow>
          (case unmarshalEdges (defEdgesJSON d) of
             Inl e \<Rightarrow> Inl (Wrapf ''decode workflow definition edges: '' e [])
           | Inr es \<Rightarrow> Inr (d\<lparr>defNodes := ns, defEdges := es\<rparr>)))"

section \<open>The round trip\<close>

definition validNodeStrings :: "Node \<Rightarrow> Node" where
  "validNodeStrings n =
     n\<lparr>nodeID := toValidUTF8 (nodeID n), nodeName := toValidUTF8 (nodeName n),
       nodeType := toValidUTF8 (nodeType n), nodeAssigneeType := toValidUTF8 (nodeAssigneeType n),
       nodeAssignee := toValidUTF8 (nodeAssignee n), nodeTargetService := toValidUTF8 (nodeTargetService n),
       nodeFullMethod := toValidUTF8 (nodeFullMethod n),
       nodeRequestTemplateJSON := toValidUTF8 (nodeRequestTemplateJSON n),
       nodeCompensationMethod := toValidUTF8 (nodeCompensationMethod n),
       nodeConfigJSON := toValidUTF8 (nodeConfigJSON n)\<rparr>"

definition validEdgeStrings :: "Edge \<Rightarrow> Edge" where
  "validEdgeStrings e =
     e\<lparr>edgeFromNodeID := toValidUTF8 (edgeFromNodeID e), edgeToNodeID := toValidUTF8 (edgeToNodeID e),
       edgeConditionExpression := toValidUTF8 (edgeConditionExpression e)\<rparr>"

definition priorityInRange :: "Edge \<Rightarrow> bool" where
  "priorityInRange e \<longleftrightarrow> - (2 ^ 31) \<le> edgePriority e \<and> edgePriority e < 2 ^ 31"

definition validMember :: "string \<times> json \<Rightarrow> string \<times> json" where
  "validMember = (\<lambda>(k, v). (toValidUTF8 k, jsonValid v))"

lemma setMembers_append:
  "setMembers st (xs @ ys) x = (case setMembers st xs x of None \<Rightarrow> None | Some y \<Rightarrow> setMembers st ys y)"
  by (induction st xs x rule: setMembers.induct) (auto split: option.splits)

lemma setMembers_known:
  assumes "validUTF8 k" and "map_of st k = Some f"
  shows "setMembers st [(toValidUTF8 k, v)] x = f v x"
proof -
  have "k \<in> fst ` set st" using assms(2) by (metis map_of_eq_None_iff option.distinct(1))
  then have "fieldFor (map fst st) k = Some k" by (simp add: fieldFor_def)
  with assms show ?thesis by (simp add: toValidUTF8_valid split: option.splits)
qed

lemma setMembers_str:
  assumes "validUTF8 k" and "map_of st k = Some (setStr upd)"
  shows "setMembers st (map validMember (strField k v)) x = Some (upd (toValidUTF8 v) x)"
  using setMembers_known [OF assms] by (simp add: strField_def validMember_def setStr_def)

lemma setMembers_strOmit:
  assumes "validUTF8 k" and "map_of st k = Some (setStr upd)" and "upd [] x = x"
  shows "setMembers st (map validMember (strFieldOmit k v)) x = Some (upd (toValidUTF8 v) x)"
  using setMembers_known [OF assms(1,2)] assms(3)
  by (simp add: strFieldOmit_def validMember_def setStr_def toValidUTF8_simps)

lemma setMembers_uintOmit:
  assumes "validUTF8 k" and "map_of st k = Some (setUint32 upd)" and "upd 0 x = x"
  shows "setMembers st (map validMember (uintFieldOmit k v)) x = Some (upd v x)"
proof -
  have "unat v < 2 ^ 32" using unsigned_less [where ?'a = nat, of v] by simp
  then show ?thesis
    using setMembers_known [OF assms(1,2)] assms(3) decimal_digits [of "unat v"]
    by (simp add: uintFieldOmit_def validMember_def setUint32_def digitsVal_decimal)
qed

lemma parseInt_decimal: "parseInt (decimalInt i) = Some i"
proof -
  have "decimal k \<noteq> [] \<and> hd (decimal k) \<noteq> CHR ''-''" for k
    using decimal_digits [of k] isDigit_not_minus by (cases "decimal k") auto
  then show ?thesis
    using decimal_digits by (simp add: parseInt_def decimalInt_def digitsVal_decimal Let_def)
qed

lemma setMembers_int:
  assumes "validUTF8 k" and "map_of st k = Some (setInt32 upd)" and "- (2 ^ 31) \<le> i" and "i < 2 ^ 31"
  shows "setMembers st (map validMember [(k, JNum (decimalInt i))]) x = Some (upd i x)"
  using setMembers_known [OF assms(1,2)] assms(3,4)
  by (simp add: validMember_def setInt32_def parseInt_decimal)

lemma field_names_valid:
  "validUTF8 ''id''" "validUTF8 ''name''" "validUTF8 ''type''" "validUTF8 ''assignee_type''"
  "validUTF8 ''assignee''" "validUTF8 ''timeout_seconds''" "validUTF8 ''target_service''"
  "validUTF8 ''full_method''" "validUTF8 ''request_template_json''" "validUTF8 ''compensation_method''"
  "validUTF8 ''timer_seconds''" "validUTF8 ''config_json''" "validUTF8 ''from_node_id''"
  "validUTF8 ''to_node_id''" "validUTF8 ''condition_expression''" "validUTF8 ''priority''"
  by code_simp+

lemma nodeSetters_of:
  "map_of nodeSetters ''id'' = Some (setStr (\<lambda>s n. n\<lparr>nodeID := s\<rparr>))"
  "map_of nodeSetters ''name'' = Some (setStr (\<lambda>s n. n\<lparr>nodeName := s\<rparr>))"
  "map_of nodeSetters ''type'' = Some (setStr (\<lambda>s n. n\<lparr>nodeType := s\<rparr>))"
  "map_of nodeSetters ''assignee_type'' = Some (setStr (\<lambda>s n. n\<lparr>nodeAssigneeType := s\<rparr>))"
  "map_of nodeSetters ''assignee'' = Some (setStr (\<lambda>s n. n\<lparr>nodeAssignee := s\<rparr>))"
  "map_of nodeSetters ''timeout_seconds'' = Some (setUint32 (\<lambda>w n. n\<lparr>nodeTimeoutSeconds := w\<rparr>))"
  "map_of nodeSetters ''target_service'' = Some (setStr (\<lambda>s n. n\<lparr>nodeTargetService := s\<rparr>))"
  "map_of nodeSetters ''full_method'' = Some (setStr (\<lambda>s n. n\<lparr>nodeFullMethod := s\<rparr>))"
  "map_of nodeSetters ''request_template_json'' = Some (setStr (\<lambda>s n. n\<lparr>nodeRequestTemplateJSON := s\<rparr>))"
  "map_of nodeSetters ''compensation_method'' = Some (setStr (\<lambda>s n. n\<lparr>nodeCompensationMethod := s\<rparr>))"
  "map_of nodeSetters ''timer_seconds'' = Some (setUint32 (\<lambda>w n. n\<lparr>nodeTimerSeconds := w\<rparr>))"
  "map_of nodeSetters ''config_json'' = Some (setStr (\<lambda>s n. n\<lparr>nodeConfigJSON := s\<rparr>))"
  by (simp_all add: nodeSetters_def)

lemma edgeSetters_of:
  "map_of edgeSetters ''from_node_id'' = Some (setStr (\<lambda>s e. e\<lparr>edgeFromNodeID := s\<rparr>))"
  "map_of edgeSetters ''to_node_id'' = Some (setStr (\<lambda>s e. e\<lparr>edgeToNodeID := s\<rparr>))"
  "map_of edgeSetters ''condition_expression'' = Some (setStr (\<lambda>s e. e\<lparr>edgeConditionExpression := s\<rparr>))"
  "map_of edgeSetters ''priority'' = Some (setInt32 (\<lambda>i e. e\<lparr>edgePriority := i\<rparr>))"
  by (simp_all add: edgeSetters_def)

lemma decode_node: "decodeStruct nodeSetters zeroNode (jsonValid (nodeToJson n)) = Some (validNodeStrings n)"
  unfolding nodeToJson_def jsonValid.simps validMember_def [symmetric] decodeStruct_def json.case
    map_append setMembers_append
  by (simp add: setMembers_str [OF field_names_valid(1) nodeSetters_of(1)]
      setMembers_str [OF field_names_valid(2) nodeSetters_of(2)]
      setMembers_str [OF field_names_valid(3) nodeSetters_of(3)]
      setMembers_strOmit [OF field_names_valid(4) nodeSetters_of(4)]
      setMembers_strOmit [OF field_names_valid(5) nodeSetters_of(5)]
      setMembers_uintOmit [OF field_names_valid(6) nodeSetters_of(6)]
      setMembers_strOmit [OF field_names_valid(7) nodeSetters_of(7)]
      setMembers_strOmit [OF field_names_valid(8) nodeSetters_of(8)]
      setMembers_strOmit [OF field_names_valid(9) nodeSetters_of(9)]
      setMembers_strOmit [OF field_names_valid(10) nodeSetters_of(10)]
      setMembers_uintOmit [OF field_names_valid(11) nodeSetters_of(11)]
      setMembers_strOmit [OF field_names_valid(12) nodeSetters_of(12)]
      validNodeStrings_def zeroNode_def)

lemma decode_edge:
  assumes "priorityInRange e"
  shows "decodeStruct edgeSetters zeroEdge (jsonValid (edgeToJson e)) = Some (validEdgeStrings e)"
  unfolding edgeToJson_def jsonValid.simps validMember_def [symmetric] decodeStruct_def json.case
    map_append setMembers_append
  using assms setMembers_int [OF field_names_valid(16) edgeSetters_of(4)]
  by (simp add: priorityInRange_def setMembers_str [OF field_names_valid(13) edgeSetters_of(1)]
      setMembers_str [OF field_names_valid(14) edgeSetters_of(2)]
      setMembers_strOmit [OF field_names_valid(15) edgeSetters_of(3)]
      validEdgeStrings_def zeroEdge_def)

lemma decodeAll_map:
  "(\<And>x. x \<in> set xs \<Longrightarrow> f (g x) = Some (h x)) \<Longrightarrow> decodeAll f (map g xs) = Some (map h xs)"
  by (induction xs) auto

lemma flat_depth: "(\<And>v. v \<in> set vs \<Longrightarrow> jsonDepth v \<le> 1) \<Longrightarrow> jsonDepth (JArr vs) \<le> maxNestingDepth"
  by (fastforce simp: maxNestingDepth_def intro: order_trans)

lemma unmarshal_marshal_list:
  assumes "list_all numLitsOk vs" and "\<And>v. v \<in> set vs \<Longrightarrow> jsonDepth v \<le> 1"
  shows "unmarshalList f (printJson (JArr vs)) =
    (case decodeAll f (map jsonValid vs) of None \<Rightarrow> Inl jsonError | Some xs \<Rightarrow> Inr xs)"
  using jsonParse_print [of "JArr vs"] flat_depth [OF assms(2)] assms(1) by (simp add: unmarshalList_def)

lemma nodeToJson_printable: "numLitsOk (nodeToJson n)" "jsonDepth (nodeToJson n) \<le> 1"
  by (auto simp: nodeToJson_def strField_def strFieldOmit_def uintFieldOmit_def numLitOk_decimal)

lemma edgeToJson_printable: "numLitsOk (edgeToJson e)" "jsonDepth (edgeToJson e) \<le> 1"
  by (auto simp: edgeToJson_def strField_def strFieldOmit_def numLitOk_decimal)

lemma unmarshal_marshalNodes: "unmarshalNodes (marshalNodes ns) = Inr (map validNodeStrings ns)"
proof -
  have "decodeAll (decodeStruct nodeSetters zeroNode) (map (jsonValid \<circ> nodeToJson) ns)
      = Some (map validNodeStrings ns)"
    by (rule decodeAll_map) (simp add: decode_node)
  then show ?thesis
    unfolding unmarshalNodes_def marshalNodes_def
    by (subst unmarshal_marshal_list) (auto simp: list_all_iff nodeToJson_printable [simplified] comp_def)
qed

lemma unmarshal_marshalEdges:
  assumes "list_all priorityInRange es"
  shows "unmarshalEdges (marshalEdges es) = Inr (map validEdgeStrings es)"
proof -
  have "decodeAll (decodeStruct edgeSetters zeroEdge) (map (jsonValid \<circ> edgeToJson) es)
      = Some (map validEdgeStrings es)"
    using assms by (intro decodeAll_map) (auto simp: decode_edge list_all_iff)
  then show ?thesis
    unfolding unmarshalEdges_def marshalEdges_def
    by (subst unmarshal_marshal_list) (auto simp: list_all_iff edgeToJson_printable [simplified] comp_def)
qed

end
