(* ===== verification/Sql.thy ===== *)
theory Sql
  imports Events Codec
begin

text \<open>
  The SQL statements of \<open>internal/workflow/repository.go\<close> as functions on the tables. An
  \<open>INSERT\<close> checks the primary key, unique, foreign key and check constraints of the migrations;
  an \<open>UPDATE\<close> changes the rows its \<open>WHERE\<close> clause selects and counts them.
\<close>

section \<open>Queries\<close>

text \<open>\<open>GetContext\<close> of one row: the first that matches, or \<open>sql.ErrNoRows\<close>.\<close>

definition selectOne :: "('r \<Rightarrow> bool) \<Rightarrow> 'r list \<Rightarrow> 'r result" where
  "selectOne P rs = (case find P rs of None \<Rightarrow> Inl (Sentinel ErrNoRows) | Some r \<Rightarrow> Inr r)"

text \<open>\<open>ORDER BY\<close>: an insertion sort by the given order, and \<open>LIMIT ? OFFSET ?\<close>.\<close>

fun insertBy :: "('r \<Rightarrow> 'r \<Rightarrow> bool) \<Rightarrow> 'r \<Rightarrow> 'r list \<Rightarrow> 'r list" where
  "insertBy le x [] = [x]"
| "insertBy le x (y # ys) = (if le x y then x # y # ys else y # insertBy le x ys)"

definition orderBy :: "('r \<Rightarrow> 'r \<Rightarrow> bool) \<Rightarrow> 'r list \<Rightarrow> 'r list" where
  "orderBy le rs = foldr (insertBy le) rs []"

definition limitOffset :: "int \<Rightarrow> int \<Rightarrow> 'r list \<Rightarrow> 'r list result" where
  "limitOffset limit offset rs =
     (if limit < 0 \<or> offset < 0 then Inl (Opaque ''LIMIT and OFFSET must not be negative'')
      else Inr (take (nat limit) (drop (nat offset) rs)))"

lemma mset_insertBy [simp]: "mset (insertBy le x ys) = add_mset x (mset ys)"
  by (induction ys) auto

lemma mset_orderBy [simp]: "mset (orderBy le rs) = mset rs"
  unfolding orderBy_def by (induction rs) auto

lemma length_orderBy [simp]: "length (orderBy le rs) = length rs"
  by (metis mset_orderBy size_mset)

lemma set_orderBy [simp]: "set (orderBy le rs) = set rs"
  by (metis mset_orderBy set_mset_mset)

section \<open>Inserts\<close>

definition constraintViolation :: "string \<Rightarrow> goerr" where
  "constraintViolation what = Opaque (what @ '' constraint violation'')"

definition insertDefinition :: "Definition \<Rightarrow> database \<Rightarrow> unit result \<times> database" where
  "insertDefinition v db =
     (if list_ex (\<lambda>r. defID r = defID v) (dbDefinitions db)
         \<or> list_ex (\<lambda>r. defTenantID r = defTenantID v \<and> defApplicationID r = defApplicationID v
                        \<and> defKey r = defKey v) (dbDefinitions db)
      then (Inl (constraintViolation ''unique''), db)
      else if \<not> oneOf (defStatus v) [DefinitionDraft, DefinitionPublished, DefinitionDisabled]
      then (Inl (constraintViolation ''check''), db)
      else (Inr (), db\<lparr>dbDefinitions := dbDefinitions db @
              [v\<lparr>defVersion := 1, defNodes := [], defEdges := []\<rparr>]\<rparr>))"

definition insertRevision :: "DefinitionRevision \<Rightarrow> database \<Rightarrow> unit result \<times> database" where
  "insertRevision v db =
     (if list_ex (\<lambda>r. defID r = defID v \<and> revRevision r = revRevision v) (dbRevisions db)
      then (Inl (constraintViolation ''unique''), db)
      else if \<not> list_ex (\<lambda>r. defID r = defID v) (dbDefinitions db)
      then (Inl (constraintViolation ''foreign key''), db)
      else (Inr (), db\<lparr>dbRevisions := dbRevisions db @ [v]\<rparr>))"

definition insertInstance :: "Instance \<Rightarrow> database \<Rightarrow> unit result \<times> database" where
  "insertInstance v db =
     (if list_ex (\<lambda>r. instID r = instID v) (dbInstances db)
         \<or> list_ex (\<lambda>r. instTenantID r = instTenantID v \<and> instApplicationID r = instApplicationID v
                        \<and> instIdempotencyKey r = instIdempotencyKey v) (dbInstances db)
         \<or> list_ex (\<lambda>r. instTenantID r = instTenantID v \<and> instDefinitionID r = instDefinitionID v
                        \<and> instBusinessKey r = instBusinessKey v) (dbInstances db)
      then (Inl (constraintViolation ''unique''), db)
      else if \<not> list_ex (\<lambda>r. defID r = instDefinitionID v) (dbDefinitions db)
      then (Inl (constraintViolation ''foreign key''), db)
      else if \<not> oneOf (instStatus v) (InstanceRunning # terminalStatuses)
      then (Inl (constraintViolation ''check''), db)
      else (Inr (), db\<lparr>dbInstances := dbInstances db @ [v\<lparr>instVersion := 1\<rparr>]\<rparr>))"

definition insertTask :: "Task \<Rightarrow> database \<Rightarrow> unit result \<times> database" where
  "insertTask v db =
     (if list_ex (\<lambda>r. taskID r = taskID v) (dbTasks db)
         \<or> list_ex (\<lambda>r. taskInstanceID r = taskInstanceID v \<and> taskNodeID r = taskNodeID v) (dbTasks db)
      then (Inl (constraintViolation ''unique''), db)
      else if \<not> list_ex (\<lambda>r. instID r = taskInstanceID v) (dbInstances db)
      then (Inl (constraintViolation ''foreign key''), db)
      else if \<not> oneOf (taskAssigneeType v) [AssigneeUser, AssigneeRole, AssigneeStarter, AssigneeExpression]
         \<or> \<not> oneOf (taskStatus v)
              [TaskPending, TaskClaimed, TaskApproved, TaskRejected, TaskCancelled, TaskExpired]
      then (Inl (constraintViolation ''check''), db)
      else (Inr (), db\<lparr>dbTasks := dbTasks db @ [v\<lparr>taskVersion := 1\<rparr>]\<rparr>))"

definition insertHistory :: "TaskHistory \<Rightarrow> database \<Rightarrow> unit result \<times> database" where
  "insertHistory v db =
     (if list_ex (\<lambda>r. histID r = histID v) (dbHistory db)
      then (Inl (constraintViolation ''unique''), db)
      else if \<not> list_ex (\<lambda>r. taskID r = histTaskID v) (dbTasks db)
      then (Inl (constraintViolation ''foreign key''), db)
      else (Inr (), db\<lparr>dbHistory := dbHistory db @ [v\<lparr>histVersion := 1\<rparr>]\<rparr>))"

section \<open>Updates\<close>

definition updateDefinitions :: "(Definition \<Rightarrow> bool) \<Rightarrow> (Definition \<Rightarrow> Definition) \<Rightarrow> database \<Rightarrow> nat result \<times> database" where
  "updateDefinitions P f db =
     (Inr (length (filter P (dbDefinitions db))), db\<lparr>dbDefinitions := updateWhere P f (dbDefinitions db)\<rparr>)"

definition updateInstances :: "(Instance \<Rightarrow> bool) \<Rightarrow> (Instance \<Rightarrow> Instance) \<Rightarrow> database \<Rightarrow> nat result \<times> database" where
  "updateInstances P f db =
     (Inr (length (filter P (dbInstances db))), db\<lparr>dbInstances := updateWhere P f (dbInstances db)\<rparr>)"

definition updateTasks :: "(Task \<Rightarrow> bool) \<Rightarrow> (Task \<Rightarrow> Task) \<Rightarrow> database \<Rightarrow> nat result \<times> database" where
  "updateTasks P f db =
     (Inr (length (filter P (dbTasks db))), db\<lparr>dbTasks := updateWhere P f (dbTasks db)\<rparr>)"

text \<open>The \<open>WHERE\<close> clauses that select a row by its identity.\<close>

definition defIs :: "string \<Rightarrow> string \<Rightarrow> string \<Rightarrow> Definition \<Rightarrow> bool" where
  "defIs tenantID applicationID i r \<longleftrightarrow>
     defID r = i \<and> defTenantID r = tenantID \<and> defApplicationID r = applicationID"

definition instIs :: "string \<Rightarrow> string \<Rightarrow> string \<Rightarrow> Instance \<Rightarrow> bool" where
  "instIs tenantID applicationID i r \<longleftrightarrow>
     instID r = i \<and> instTenantID r = tenantID \<and> instApplicationID r = applicationID"

definition taskIs :: "string \<Rightarrow> string \<Rightarrow> string \<Rightarrow> Task \<Rightarrow> bool" where
  "taskIs tenantID applicationID i r \<longleftrightarrow>
     taskID r = i \<and> taskTenantID r = tenantID \<and> taskApplicationID r = applicationID"

definition updateDraftStmt :: "Definition \<Rightarrow> int \<Rightarrow> string \<Rightarrow> time \<Rightarrow> database \<Rightarrow> nat result \<times> database" where
  "updateDraftStmt v expectedVersion actor t =
     updateDefinitions
       (\<lambda>r. defIs (defTenantID v) (defApplicationID v) (defID v) r \<and> defVersion r = expectedVersion
            \<and> defStatus r = DefinitionDraft)
       (\<lambda>r. r\<lparr>defName := defName v, defDescription := defDescription v, defNodesJSON := defNodesJSON v,
             defEdgesJSON := defEdgesJSON v, defVersion := defVersion r + 1, defUpdatedAt := t,
             defUpdatedBy := actor\<rparr>)"

definition publishStmt :: "string \<Rightarrow> string \<Rightarrow> string \<Rightarrow> int \<Rightarrow> string \<Rightarrow> 32 word \<Rightarrow> time \<Rightarrow> database \<Rightarrow> nat result \<times> database" where
  "publishStmt tenantID applicationID i expectedVersion actor revision t =
     updateDefinitions
       (\<lambda>r. defIs tenantID applicationID i r \<and> defVersion r = expectedVersion \<and> defStatus r = DefinitionDraft)
       (\<lambda>r. r\<lparr>defStatus := DefinitionPublished, defPublishedRevision := revision,
             defVersion := defVersion r + 1, defUpdatedAt := t, defUpdatedBy := actor\<rparr>)"

definition disableStmt :: "string \<Rightarrow> string \<Rightarrow> string \<Rightarrow> int \<Rightarrow> string \<Rightarrow> time \<Rightarrow> database \<Rightarrow> nat result \<times> database" where
  "disableStmt tenantID applicationID i expectedVersion actor t =
     updateDefinitions
       (\<lambda>r. defIs tenantID applicationID i r \<and> defVersion r = expectedVersion \<and> defStatus r = DefinitionPublished)
       (\<lambda>r. r\<lparr>defStatus := DefinitionDisabled, defVersion := defVersion r + 1, defUpdatedAt := t,
             defUpdatedBy := actor\<rparr>)"

definition cancelStmt :: "string \<Rightarrow> string \<Rightarrow> string \<Rightarrow> int \<Rightarrow> string \<Rightarrow> string \<Rightarrow> time \<Rightarrow> database \<Rightarrow> nat result \<times> database" where
  "cancelStmt tenantID applicationID i expectedVersion reason actor t =
     updateInstances
       (\<lambda>r. instIs tenantID applicationID i r \<and> instVersion r = expectedVersion \<and> instStatus r = InstanceRunning)
       (\<lambda>r. r\<lparr>instStatus := InstanceCancelled, instErrorMessage := reason, instFinishedAt := Some t,
             instVersion := instVersion r + 1, instUpdatedAt := t, instUpdatedBy := actor\<rparr>)"

text \<open>The statement of \<open>UpdateInstanceNode\<close>, which \<open>CreateTask\<close> repeats.\<close>

definition advanceStmt :: "string \<Rightarrow> string \<Rightarrow> string \<Rightarrow> string \<Rightarrow> string \<Rightarrow> time \<Rightarrow> database \<Rightarrow> nat result \<times> database" where
  "advanceStmt tenantID applicationID i node actor t =
     updateInstances
       (\<lambda>r. instIs tenantID applicationID i r \<and> instStatus r = InstanceRunning \<and> instCurrentNodeID r \<noteq> node)
       (\<lambda>r. r\<lparr>instCurrentNodeID := node, instVersion := instVersion r + 1, instUpdatedAt := t,
             instUpdatedBy := actor\<rparr>)"

definition finishStmt :: "string \<Rightarrow> string \<Rightarrow> string \<Rightarrow> string \<Rightarrow> string \<Rightarrow> string \<Rightarrow> string \<Rightarrow> time \<Rightarrow> database \<Rightarrow> nat result \<times> database" where
  "finishStmt tenantID applicationID i status resultJSON errorMessage actor t db =
     (if list_ex (\<lambda>r. instIs tenantID applicationID i r \<and> instStatus r = InstanceRunning) (dbInstances db)
         \<and> \<not> oneOf status (InstanceRunning # terminalStatuses)
      then (Inl (constraintViolation ''check''), db)
      else updateInstances
       (\<lambda>r. instIs tenantID applicationID i r \<and> instStatus r = InstanceRunning)
       (\<lambda>r. r\<lparr>instStatus := status, instResultJSON := resultJSON, instErrorMessage := errorMessage,
             instFinishedAt := Some t, instVersion := instVersion r + 1, instUpdatedAt := t,
             instUpdatedBy := actor\<rparr>) db)"

definition claimStmt :: "string \<Rightarrow> string \<Rightarrow> string \<Rightarrow> int \<Rightarrow> string \<Rightarrow> time \<Rightarrow> database \<Rightarrow> nat result \<times> database" where
  "claimStmt tenantID applicationID i expectedVersion actor t =
     updateTasks
       (\<lambda>r. taskIs tenantID applicationID i r \<and> taskVersion r = expectedVersion \<and> taskStatus r = TaskPending)
       (\<lambda>r. r\<lparr>taskStatus := TaskClaimed, taskClaimedBy := actor, taskVersion := taskVersion r + 1,
             taskUpdatedAt := t, taskUpdatedBy := actor\<rparr>)"

text \<open>The rows \<open>CompleteTask\<close> and \<open>DelegateTask\<close> may change.\<close>

definition openFor :: "Task \<Rightarrow> string \<Rightarrow> Task \<Rightarrow> bool" where
  "openFor current actor r \<longleftrightarrow>
     taskID r = taskID current \<and> taskTenantID r = taskTenantID current \<and> taskVersion r = taskVersion current
     \<and> oneOf (taskStatus r) openTaskStatuses \<and> (taskClaimedBy r = [] \<or> taskClaimedBy r = actor)"

definition completeStmt :: "Task \<Rightarrow> string \<Rightarrow> string \<Rightarrow> string \<Rightarrow> string \<Rightarrow> string \<Rightarrow> time \<Rightarrow> database \<Rightarrow> nat result \<times> database" where
  "completeStmt current status decision comment outputJSON actor t =
     updateTasks (openFor current actor)
       (\<lambda>r. r\<lparr>taskStatus := status, taskDecision := decision, taskComment := comment,
             taskOutputJSON := outputJSON, taskCompletedAt := Some t, taskVersion := taskVersion r + 1,
             taskUpdatedAt := t, taskUpdatedBy := actor\<rparr>)"

definition delegateStmt :: "Task \<Rightarrow> string \<Rightarrow> string \<Rightarrow> time \<Rightarrow> database \<Rightarrow> nat result \<times> database" where
  "delegateStmt current delegateTo actor t =
     updateTasks (openFor current actor)
       (\<lambda>r. r\<lparr>taskAssigneeType := AssigneeUser, taskAssignee := delegateTo, taskClaimedBy := [],
             taskStatus := TaskPending, taskVersion := taskVersion r + 1, taskUpdatedAt := t,
             taskUpdatedBy := actor\<rparr>)"

section \<open>The history retention\<close>

text \<open>The join of \<open>DeleteTaskHistoryBefore\<close>: history of instances that ended before a time.\<close>

definition expiredHistory :: "time \<Rightarrow> database \<Rightarrow> TaskHistory \<Rightarrow> bool" where
  "expiredHistory before db h \<longleftrightarrow>
     list_ex (\<lambda>i. instID i = histInstanceID h \<and> instTenantID i = histTenantID h
        \<and> oneOf (instStatus i) terminalStatuses
        \<and> (case instFinishedAt i of None \<Rightarrow> False | Some t \<Rightarrow> t < before)) (dbInstances db)"

definition deleteHistoryStmt :: "string list \<Rightarrow> database \<Rightarrow> nat result \<times> database" where
  "deleteHistoryStmt ids db =
     (Inr (length (filter (\<lambda>h. histID h \<in> set ids) (dbHistory db))),
      db\<lparr>dbHistory := filter (\<lambda>h. histID h \<notin> set ids) (dbHistory db)\<rparr>)"

definition addTxStmt :: "deps \<Rightarrow> OutboxEvent \<Rightarrow> string \<Rightarrow> database \<Rightarrow> unit result \<times> database" where
  "addTxStmt d ev actor db =
     (case depAddTx d ev actor (dbOutbox db) of
        Inl e \<Rightarrow> (Inl e, db)
      | Inr rows \<Rightarrow> (Inr (), db\<lparr>dbOutbox := rows\<rparr>))"

lemmas insert_defs =
  insertDefinition_def insertRevision_def insertInstance_def insertTask_def insertHistory_def

lemmas update_defs =
  updateDraftStmt_def publishStmt_def disableStmt_def cancelStmt_def advanceStmt_def finishStmt_def
  claimStmt_def completeStmt_def delegateStmt_def updateDefinitions_def updateInstances_def
  updateTasks_def

lemmas row_defs = defIs_def instIs_def taskIs_def openFor_def

end
