(* ===== verification/Repository.thy ===== *)
theory Repository
  imports Sql
begin

text \<open>
  The operations of \<open>internal/workflow/repository.go\<close>, statement by statement: reads, single
  updates, and the transactions that change a row and enqueue its event. \<open>d\<close> holds the
  functions of other modules, \<open>ctx\<close> the request context.
\<close>

section \<open>Helpers\<close>

text \<open>\<open>affectedOne\<close>: run the statement, count its rows, require exactly one.\<close>

definition rowsAffected :: "nat \<Rightarrow> nat io" where
  "rowsAffected n = query (\<lambda>db. Inr n)"

definition affectedOne :: "(database \<Rightarrow> nat result \<times> database) \<Rightarrow> string \<Rightarrow> unit io" where
  "affectedOne stmt operation =
     bindE (wrapE operation (dbCall stmt)) (\<lambda>n.
     bindE (wrapE (''count '' @ operation) (rowsAffected n)) (\<lambda>count.
       guardE (count \<noteq> 1) (Sentinel ErrVersionConflict)))"

definition mapNotFound :: "string \<Rightarrow> 'a io \<Rightarrow> 'a io" where
  "mapNotFound operation =
     mapErr (\<lambda>e. if errorsIs e ErrNoRows then Sentinel ErrNotFound else Wrapf (operation @ '': '') e [])"

definition offsetOf :: "int \<Rightarrow> int \<Rightarrow> int" where
  "offsetOf page sz = wrap64 (wrap64 (page - 1) * sz)"

definition getInstanceTx :: "string \<Rightarrow> string \<Rightarrow> string \<Rightarrow> Instance io" where
  "getInstanceTx tenantID applicationID i =
     mapNotFound ''select workflow instance in transaction''
       (query (\<lambda>db. selectOne (instIs tenantID applicationID i) (dbInstances db)))"

definition getTaskTx :: "string \<Rightarrow> string \<Rightarrow> string \<Rightarrow> Task io" where
  "getTaskTx tenantID applicationID i =
     mapNotFound ''select workflow task in transaction''
       (query (\<lambda>db. selectOne (taskIs tenantID applicationID i) (dbTasks db)))"

section \<open>Definitions\<close>

text \<open>A revision row read as a definition: \<open>'published' AS status\<close>, the revision's number.\<close>

definition revisionAsDefinition :: "DefinitionRevision \<Rightarrow> Definition" where
  "revisionAsDefinition r = (Definition.truncate r)\<lparr>defStatus := DefinitionPublished, defPublishedRevision := revRevision r\<rparr>"

definition GetDefinition :: "string \<Rightarrow> string \<Rightarrow> string \<Rightarrow> 32 word \<Rightarrow> Definition io" where
  "GetDefinition tenantID applicationID i revision =
     bindE
       (if revision = 0 then
          mapNotFound ''select workflow definition''
            (query (\<lambda>db. selectOne (defIs tenantID applicationID i) (dbDefinitions db)))
        else
          mapNotFound ''select workflow definition revision''
            (query (\<lambda>db. map_sum (\<lambda>e. e) revisionAsDefinition
               (selectOne (\<lambda>r. defID r = i \<and> defTenantID r = tenantID \<and> defApplicationID r = applicationID
                              \<and> revRevision r = revision) (dbRevisions db)))))
       (\<lambda>v. liftR (hydrateDefinition v))"

definition CreateDefinition :: "Definition \<Rightarrow> Definition io" where
  "CreateDefinition v =
     bindE (wrapE ''insert workflow definition'' (dbCall (insertDefinition v))) (\<lambda>_.
       GetDefinition (defTenantID v) (defApplicationID v) (defID v) 0)"

definition UpdateDefinition :: "Definition \<Rightarrow> int \<Rightarrow> string \<Rightarrow> Definition io" where
  "UpdateDefinition v expectedVersion actor =
     bindE now (\<lambda>t.
     bindE (affectedOne (updateDraftStmt v expectedVersion actor t) ''update workflow definition'') (\<lambda>_.
       GetDefinition (defTenantID v) (defApplicationID v) (defID v) 0))"

text \<open>The row of \<open>workflow_definition_revisions\<close> that \<open>PublishDefinition\<close> inserts.\<close>

definition revisionOf :: "Definition \<Rightarrow> 32 word \<Rightarrow> time \<Rightarrow> string \<Rightarrow> DefinitionRevision" where
  "revisionOf v revision t actor =
     Definition.extend
       (v\<lparr>defStatus := [], defPublishedRevision := 0, defVersion := 1, defCreatedAt := t, defUpdatedAt := t,
          defCreatedBy := actor, defUpdatedBy := actor, defNodes := [], defEdges := []\<rparr>)
       \<lparr>revRevision = revision, revPublishedAt = t\<rparr>"

definition PublishDefinition :: "deps \<Rightarrow> Context \<Rightarrow> string \<Rightarrow> string \<Rightarrow> string \<Rightarrow> int \<Rightarrow> string \<Rightarrow> Definition io" where
  "PublishDefinition d ctx tenantID applicationID i expectedVersion actor =
     inTx ''workflow definition publish'' (
       bindE (mapNotFound ''select workflow definition for publish''
         (query (\<lambda>db. selectOne (defIs tenantID applicationID i) (dbDefinitions db)))) (\<lambda>current.
       bindE (guardE (defVersion current \<noteq> expectedVersion \<or> defStatus current \<noteq> DefinitionDraft)
         (Sentinel ErrVersionConflict)) (\<lambda>_.
       bindE now (\<lambda>t.
       bindE (wrapE ''insert workflow definition revision''
         (dbCall (insertRevision (revisionOf current (defPublishedRevision current + 1) t actor)))) (\<lambda>_.
       bindE (affectedOne (publishStmt tenantID applicationID i expectedVersion actor
         (defPublishedRevision current + 1) t) ''publish workflow definition'') (\<lambda>_.
       bindE (liftR (hydrateDefinition
         (current\<lparr>defStatus := DefinitionPublished, defPublishedRevision := defPublishedRevision current + 1,
            defVersion := defVersion current + 1, defUpdatedAt := t, defUpdatedBy := actor\<rparr>))) (\<lambda>published.
       bindE (wrapE ''build workflow definition published event'' (DefinitionPublishedEv d ctx published)) (\<lambda>event.
       bindE (wrapE ''enqueue workflow definition published event'' (dbCall (addTxStmt d event actor))) (\<lambda>_.
       bindE (wrapE ''commit workflow definition publish'' commitTx) (\<lambda>_.
         ret published))))))))))"

definition DisableDefinition :: "string \<Rightarrow> string \<Rightarrow> string \<Rightarrow> int \<Rightarrow> string \<Rightarrow> Definition io" where
  "DisableDefinition tenantID applicationID i expectedVersion actor =
     bindE now (\<lambda>t.
     bindE (affectedOne (disableStmt tenantID applicationID i expectedVersion actor t)
       ''disable workflow definition'') (\<lambda>_.
       GetDefinition tenantID applicationID i 0))"

definition GetPublishedDefinitionByKey :: "string \<Rightarrow> string \<Rightarrow> string \<Rightarrow> Definition io" where
  "GetPublishedDefinitionByKey tenantID applicationID key =
     bindE (mapNotFound ''select published workflow definition''
       (query (\<lambda>db. selectOne
          (\<lambda>r. defTenantID r = tenantID \<and> defApplicationID r = applicationID \<and> defKey r = key
               \<and> defStatus r = DefinitionPublished) (dbDefinitions db)))) (\<lambda>current.
       GetDefinition tenantID applicationID (defID current) (defPublishedRevision current))"

section \<open>Lists of definitions\<close>

text \<open>The search clause of the list queries over two columns.\<close>

definition searchIn :: "deps \<Rightarrow> string \<Rightarrow> string list \<Rightarrow> bool" where
  "searchIn d search columns \<longleftrightarrow> search = [] \<or> list_ex (depSearchMatches d search) columns"

definition definitionWhere :: "deps \<Rightarrow> DefinitionFilter \<Rightarrow> Definition \<Rightarrow> bool" where
  "definitionWhere d filt r \<longleftrightarrow>
     defTenantID r = dfTenantID filt \<and> defApplicationID r = dfApplicationID filt
     \<and> (dfStatus filt \<noteq> [] \<longrightarrow> defStatus r = dfStatus filt)
     \<and> searchIn d (dfSearch filt) [defName r, defKey r]"

text \<open>A count and a page of the selected rows, the two queries every list runs.\<close>

definition selectPage :: "string \<Rightarrow> (database \<Rightarrow> int) \<Rightarrow> (database \<Rightarrow> 'r list) \<Rightarrow> int \<Rightarrow> int \<Rightarrow> 'r Page io" where
  "selectPage what tot rows page sz =
     bindE (wrapE (''count '' @ what) (query (\<lambda>db. Inr (tot db)))) (\<lambda>n.
     bindE (wrapE (''list '' @ what) (query (\<lambda>db. limitOffset sz (offsetOf page sz) (rows db)))) (\<lambda>items.
       ret \<lparr>pageItems = items, pageTotal = n, pagePage = page, pageSize = sz\<rparr>))"

definition laterThen :: "deps \<Rightarrow> ('r \<Rightarrow> time) \<Rightarrow> ('r \<Rightarrow> string) \<Rightarrow> 'r \<Rightarrow> 'r \<Rightarrow> bool" where
  "laterThen d at key a b \<longleftrightarrow> at b < at a \<or> (at a = at b \<and> depCollate d (key a) (key b))"

fun hydrateAll :: "Definition list \<Rightarrow> Definition list result" where
  "hydrateAll [] = Inr []"
| "hydrateAll (v # vs) =
     bindR (hydrateDefinition v) (\<lambda>x. bindR (hydrateAll vs) (\<lambda>xs. Inr (x # xs)))"

definition ListDefinitions :: "deps \<Rightarrow> DefinitionFilter \<Rightarrow> Definition Page io" where
  "ListDefinitions d filt =
     bindE (selectPage ''workflow definitions''
       (\<lambda>db. int (length (filter (definitionWhere d filt) (dbDefinitions db))))
       (\<lambda>db. orderBy (laterThen d defUpdatedAt defID) (filter (definitionWhere d filt) (dbDefinitions db)))
       (dfPage filt) (dfPageSize filt)) (\<lambda>p.
     bindE (liftR (hydrateAll (pageItems p))) (\<lambda>items. ret (p\<lparr>pageItems := items\<rparr>)))"

definition candidateOf :: "Definition \<Rightarrow> DefinitionCandidate" where
  "candidateOf r = \<lparr>dcID = defID r, dcKey = defKey r, dcName = defName r, dcStatus = defStatus r,
     dcPublishedRevision = defPublishedRevision r\<rparr>"

text \<open>
  \<open>listDefinitionCandidates\<close>: with a prefix the query joins the instances, so it counts and
  selects \<open>DISTINCT\<close>.
\<close>

definition listDefinitionCandidates :: "deps \<Rightarrow> (database \<Rightarrow> Definition list) \<Rightarrow> DefinitionFilter \<Rightarrow> bool \<Rightarrow> DefinitionCandidate Page io" where
  "listDefinitionCandidates d rows filt joined =
     selectPage ''workflow definition candidates''
       (\<lambda>db. int (length ((if joined then remdups else (\<lambda>xs. xs)) (map defID (rows db)))))
       (\<lambda>db. orderBy (\<lambda>a b. depCollate d (dcName a) (dcName b)
                \<and> (depCollate d (dcName b) (dcName a) \<longrightarrow> depCollate d (dcID a) (dcID b)))
              ((if joined then remdups else (\<lambda>xs. xs)) (map candidateOf (rows db))))
       (dfPage filt) (dfPageSize filt)"

definition ListStartDefinitionCandidates :: "deps \<Rightarrow> DefinitionFilter \<Rightarrow> DefinitionCandidate Page io" where
  "ListStartDefinitionCandidates d filt =
     listDefinitionCandidates d
       (\<lambda>db. filter (\<lambda>r. defTenantID r = dfTenantID filt \<and> defApplicationID r = dfApplicationID filt
                       \<and> defStatus r = DefinitionPublished
                       \<and> searchIn d (dfSearch filt) [defName r, defKey r]) (dbDefinitions db))
       filt False"

definition ListInstanceDefinitionCandidates :: "deps \<Rightarrow> DefinitionFilter \<Rightarrow> DefinitionCandidate Page io" where
  "ListInstanceDefinitionCandidates d filt =
     listDefinitionCandidates d
       (\<lambda>db. filter (\<lambda>r. defTenantID r = dfTenantID filt \<and> defApplicationID r = dfApplicationID filt
                       \<and> searchIn d (dfSearch filt) [defName r, defKey r])
              (concat (map (\<lambda>r. map (\<lambda>_. r)
                 (filter (\<lambda>i. instDefinitionID i = defID r \<and> instTenantID i = defTenantID r
                             \<and> instApplicationID i = defApplicationID r) (dbInstances db)))
                 (dbDefinitions db))))
       filt True"

section \<open>Instances\<close>

definition CreateInstance :: "deps \<Rightarrow> Context \<Rightarrow> Instance \<Rightarrow> Definition \<Rightarrow> Instance io" where
  "CreateInstance d ctx v dv =
     inTx ''workflow instance creation'' (
       bindE (wrapE ''insert workflow instance'' (dbCall (insertInstance v))) (\<lambda>_.
       bindE (wrapE ''build workflow instance start event'' (InstanceStartRequestedEv d ctx v dv)) (\<lambda>event.
       bindE (wrapE ''enqueue workflow instance start event'' (dbCall (addTxStmt d event (instCreatedBy v)))) (\<lambda>_.
       bindE (wrapE ''commit workflow instance creation'' commitTx) (\<lambda>_.
         ret v)))))"

definition GetInstance :: "string \<Rightarrow> string \<Rightarrow> string \<Rightarrow> Instance io" where
  "GetInstance tenantID applicationID i =
     mapNotFound ''select workflow instance''
       (query (\<lambda>db. selectOne (instIs tenantID applicationID i) (dbInstances db)))"

definition CancelInstance :: "deps \<Rightarrow> Context \<Rightarrow> string \<Rightarrow> string \<Rightarrow> string \<Rightarrow> int \<Rightarrow> string \<Rightarrow> string \<Rightarrow> Instance io" where
  "CancelInstance d ctx tenantID applicationID i expectedVersion reason actor =
     inTx ''workflow instance cancellation'' (
       bindE now (\<lambda>t.
       bindE (affectedOne (cancelStmt tenantID applicationID i expectedVersion reason actor t)
         ''cancel workflow instance'') (\<lambda>_.
       bindE (getInstanceTx tenantID applicationID i) (\<lambda>inst.
       bindE (wrapE ''build workflow instance cancellation event''
         (InstanceCancellationRequestedEv d ctx inst reason)) (\<lambda>event.
       bindE (wrapE ''enqueue workflow instance cancellation event'' (dbCall (addTxStmt d event actor))) (\<lambda>_.
       bindE (wrapE ''commit workflow instance cancellation'' commitTx) (\<lambda>_.
         ret inst)))))))"

definition instanceWhere :: "deps \<Rightarrow> InstanceFilter \<Rightarrow> Instance \<Rightarrow> bool" where
  "instanceWhere d filt r \<longleftrightarrow>
     instTenantID r = ifTenantID filt \<and> instApplicationID r = ifApplicationID filt
     \<and> (ifDefinitionID filt \<noteq> [] \<longrightarrow> instDefinitionID r = ifDefinitionID filt)
     \<and> (ifStatus filt \<noteq> [] \<longrightarrow> instStatus r = ifStatus filt)
     \<and> (ifStarterID filt \<noteq> [] \<longrightarrow> instStarterID r = ifStarterID filt)
     \<and> searchIn d (ifSearch filt) [instTitle r, instBusinessKey r]
     \<and> (case ifStartedFrom filt of None \<Rightarrow> True | Some t \<Rightarrow> t \<le> instStartedAt r)
     \<and> (case ifStartedUntil filt of None \<Rightarrow> True | Some t \<Rightarrow> instStartedAt r < t)"

definition ListInstances :: "deps \<Rightarrow> InstanceFilter \<Rightarrow> Instance Page io" where
  "ListInstances d filt =
     selectPage ''workflow instances''
       (\<lambda>db. int (length (filter (instanceWhere d filt) (dbInstances db))))
       (\<lambda>db. orderBy (laterThen d instStartedAt instID) (filter (instanceWhere d filt) (dbInstances db)))
       (ifPage filt) (ifPageSize filt)"

definition UpdateInstanceNode :: "string \<Rightarrow> string \<Rightarrow> string \<Rightarrow> string \<Rightarrow> string \<Rightarrow> unit io" where
  "UpdateInstanceNode tenantID applicationID i node actor =
     bindE now (\<lambda>t.
     bindE (wrapE ''advance workflow instance node'' (dbCall (advanceStmt tenantID applicationID i node actor t))) (\<lambda>n.
     bindE (wrapE ''count advance workflow instance node'' (rowsAffected n)) (\<lambda>count.
       if count = 1 then ret ()
       else bindE (GetInstance tenantID applicationID i) (\<lambda>current.
         if instStatus current = InstanceRunning \<and> instCurrentNodeID current = node then ret ()
         else fail (Sentinel ErrConflict)))))"

definition FinishInstance :: "deps \<Rightarrow> Context \<Rightarrow> string \<Rightarrow> string \<Rightarrow> string \<Rightarrow> string \<Rightarrow> string \<Rightarrow> string \<Rightarrow> string \<Rightarrow> Instance io" where
  "FinishInstance d ctx tenantID applicationID i status resultJSON errorMessage actor =
     inTx ''workflow instance finish'' (
       bindE (mapNotFound ''select workflow instance status''
         (query (\<lambda>db. map_sum (\<lambda>e. e) instStatus
            (selectOne (instIs tenantID applicationID i) (dbInstances db))))) (\<lambda>previous.
       if previous = status then getInstanceTx tenantID applicationID i
       else if previous \<noteq> InstanceRunning then fail (Sentinel ErrConflict)
       else
         bindE now (\<lambda>t.
         bindE (affectedOne (finishStmt tenantID applicationID i status resultJSON errorMessage actor t)
           ''finish workflow instance'') (\<lambda>_.
         bindE (getInstanceTx tenantID applicationID i) (\<lambda>inst.
         bindE (wrapE ''build workflow instance status event'' (InstanceStatusChangedEv d ctx inst previous)) (\<lambda>event.
         bindE (wrapE ''enqueue workflow instance status event'' (dbCall (addTxStmt d event actor))) (\<lambda>_.
         bindE (wrapE ''commit workflow instance finish'' commitTx) (\<lambda>_.
           ret inst))))))))"

section \<open>Tasks\<close>

definition GetTask :: "string \<Rightarrow> string \<Rightarrow> string \<Rightarrow> Task io" where
  "GetTask tenantID applicationID i =
     mapNotFound ''select workflow task''
       (query (\<lambda>db. selectOne (taskIs tenantID applicationID i) (dbTasks db)))"

text \<open>The branch of \<open>CreateTask\<close> when no row was advanced.\<close>

definition requireAt :: "string \<Rightarrow> string \<Rightarrow> string \<Rightarrow> string \<Rightarrow> unit io" where
  "requireAt tenantID applicationID i node =
     bindE (mapNotFound ''select workflow instance for task''
       (query (\<lambda>db. selectOne (instIs tenantID applicationID i) (dbInstances db)))) (\<lambda>state.
       guardE (instStatus state \<noteq> InstanceRunning \<or> instCurrentNodeID state \<noteq> node) (Sentinel ErrConflict))"

definition CreateTask :: "deps \<Rightarrow> Context \<Rightarrow> Task \<Rightarrow> Task io" where
  "CreateTask d ctx v =
     inTx ''workflow task creation'' (
       bindE (wrapE ''select existing workflow task'' (query (\<lambda>db. Inr (find
         (\<lambda>r. taskTenantID r = taskTenantID v \<and> taskApplicationID r = taskApplicationID v
              \<and> taskInstanceID r = taskInstanceID v \<and> taskNodeID r = taskNodeID v) (dbTasks db))))) (\<lambda>existing.
       case existing of
         Some e \<Rightarrow> ret e
       | None \<Rightarrow>
           bindE now (\<lambda>t.
           bindE (wrapE ''advance workflow instance for task''
             (dbCall (advanceStmt (taskTenantID v) (taskApplicationID v) (taskInstanceID v) (taskNodeID v)
               (taskCreatedBy v) t))) (\<lambda>n.
           bindE (wrapE ''count workflow instance task advance'' (rowsAffected n)) (\<lambda>count.
           bindE (if count = 0
                  then requireAt (taskTenantID v) (taskApplicationID v) (taskInstanceID v) (taskNodeID v)
                  else ret ()) (\<lambda>_.
           bindE (wrapE ''insert workflow task'' (dbCall (insertTask v))) (\<lambda>_.
           bindE (wrapE ''build workflow task created event'' (TaskCreatedEv d ctx v)) (\<lambda>event.
           bindE (wrapE ''enqueue workflow task created event'' (dbCall (addTxStmt d event (taskCreatedBy v)))) (\<lambda>_.
           bindE (wrapE ''commit workflow task creation'' commitTx) (\<lambda>_.
             ret v))))))))))"

type_synonym jsonText = string

definition historyOf :: "string \<Rightarrow> string \<Rightarrow> string \<Rightarrow> string \<Rightarrow> string \<Rightarrow> string \<Rightarrow> string \<Rightarrow> string \<Rightarrow> string \<Rightarrow> jsonText \<Rightarrow> time \<Rightarrow> TaskHistory" where
  "historyOf hid tenantID applicationID task inst action actor fromStatus toStatus detail t =
     \<lparr>histID = hid, histTenantID = tenantID, histApplicationID = applicationID, histTaskID = task,
      histInstanceID = inst, histAction = action, histActorID = actor, histFromStatus = fromStatus,
      histToStatus = toStatus, histDetailJSON = detail, histVersion = 1, histCreatedAt = t,
      histUpdatedAt = t, histCreatedBy = actor, histUpdatedBy = actor\<rparr>"

definition ClaimTask :: "string \<Rightarrow> string \<Rightarrow> string \<Rightarrow> int \<Rightarrow> string \<Rightarrow> Task io" where
  "ClaimTask tenantID applicationID i expectedVersion actor =
     inTx ''workflow task claim'' (
       bindE now (\<lambda>t.
       bindE (affectedOne (claimStmt tenantID applicationID i expectedVersion actor t) ''claim workflow task'') (\<lambda>_.
       bindE (getTaskTx tenantID applicationID i) (\<lambda>claimed.
       bindE newID (\<lambda>hid.
       bindE (wrapE ''insert workflow task claim history'' (dbCall (insertHistory
         (historyOf hid tenantID applicationID i (taskInstanceID claimed) ''claim'' actor TaskPending TaskClaimed
            ''{}'' t)))) (\<lambda>_.
       bindE (wrapE ''commit workflow task claim'' commitTx) (\<lambda>_.
         ret claimed)))))))"

definition decisionStatus :: "string \<Rightarrow> string" where
  "decisionStatus decision = (if decision = DecisionReject then TaskRejected else TaskApproved)"

definition CompleteTask :: "deps \<Rightarrow> Context \<Rightarrow> Task \<Rightarrow> string \<Rightarrow> string \<Rightarrow> string \<Rightarrow> string \<Rightarrow> Task io" where
  "CompleteTask d ctx current decision comment outputJSON actor =
     inTx ''workflow task completion'' (
       bindE now (\<lambda>t.
       bindE (affectedOne (completeStmt current (decisionStatus decision) decision comment outputJSON actor t)
         ''complete workflow task'') (\<lambda>_.
       bindE newID (\<lambda>hid.
       bindE (wrapE ''insert workflow task history'' (dbCall (insertHistory
         (historyOf hid (taskTenantID current) (taskApplicationID current) (taskID current) (taskInstanceID current)
            ''complete'' actor (taskStatus current) (decisionStatus decision)
            (marshalStringMap [(''comment'', comment), (''decision'', decision)]) t)))) (\<lambda>_.
       bindE (getTaskTx (taskTenantID current) (taskApplicationID current) (taskID current)) (\<lambda>completed.
       bindE (wrapE ''build workflow task completed event'' (TaskCompletedEv d ctx completed)) (\<lambda>event.
       bindE (wrapE ''enqueue workflow task completed event'' (dbCall (addTxStmt d event actor))) (\<lambda>_.
       bindE (wrapE ''commit workflow task completion'' commitTx) (\<lambda>_.
         ret completed)))))))))"

definition DelegateTask :: "Task \<Rightarrow> string \<Rightarrow> string \<Rightarrow> string \<Rightarrow> Task io" where
  "DelegateTask current delegateTo reason actor =
     inTx ''workflow task delegation'' (
       bindE now (\<lambda>t.
       bindE (affectedOne (delegateStmt current delegateTo actor t) ''delegate workflow task'') (\<lambda>_.
       bindE newID (\<lambda>hid.
       bindE (wrapE ''insert workflow task delegation history'' (dbCall (insertHistory
         (historyOf hid (taskTenantID current) (taskApplicationID current) (taskID current) (taskInstanceID current)
            ''delegate'' actor (taskStatus current) TaskPending
            (marshalStringMap [(''delegate_to'', delegateTo), (''reason'', reason)]) t)))) (\<lambda>_.
       bindE (wrapE ''commit workflow task delegation'' commitTx) (\<lambda>_.
         GetTask (taskTenantID current) (taskApplicationID current) (taskID current)))))))"

definition taskWhere :: "deps \<Rightarrow> TaskFilter \<Rightarrow> Task \<Rightarrow> bool" where
  "taskWhere d filt r \<longleftrightarrow>
     taskTenantID r = tfTenantID filt \<and> taskApplicationID r = tfApplicationID filt
     \<and> (tfInstanceID filt \<noteq> [] \<longrightarrow> taskInstanceID r = tfInstanceID filt)
     \<and> (tfStatus filt \<noteq> [] \<longrightarrow> taskStatus r = tfStatus filt)
     \<and> (tfAssigneeUserID filt \<noteq> [] \<longrightarrow>
          (oneOf (taskAssigneeType r) [AssigneeUser, AssigneeStarter] \<and> taskAssignee r = tfAssigneeUserID filt)
          \<or> (tfRoleIDs filt \<noteq> [] \<and> taskAssigneeType r = AssigneeRole \<and> oneOf (taskAssignee r) (tfRoleIDs filt))
          \<or> (tfIncludeUnclaimed filt \<and> taskClaimedBy r = tfAssigneeUserID filt))
     \<and> searchIn d (tfSearch filt) [taskName r]"

definition ListTasks :: "deps \<Rightarrow> TaskFilter \<Rightarrow> Task Page io" where
  "ListTasks d filt =
     selectPage ''workflow tasks''
       (\<lambda>db. int (length (filter (taskWhere d filt) (dbTasks db))))
       (\<lambda>db. orderBy (laterThen d taskCreatedAt taskID) (filter (taskWhere d filt) (dbTasks db)))
       (tfPage filt) (tfPageSize filt)"

definition taskInstanceCandidateOf :: "Instance \<Rightarrow> TaskInstanceCandidate" where
  "taskInstanceCandidateOf r = \<lparr>tcID = instID r, tcTitle = instTitle r, tcBusinessKey = instBusinessKey r,
     tcStatus = instStatus r\<rparr>"

definition candidateTaskFilter :: "TaskInstanceCandidateFilter \<Rightarrow> TaskFilter" where
  "candidateTaskFilter f = \<lparr>tfTenantID = tcfTenantID f, tfApplicationID = tcfApplicationID f, tfInstanceID = [],
     tfStatus = [], tfAssigneeUserID = tcfAssigneeUserID f, tfSearch = [], tfRoleIDs = tcfRoleIDs f,
     tfIncludeUnclaimed = tcfIncludeUnclaimed f, tfPage = 0, tfPageSize = 0\<rparr>"

definition taskInstanceWhere :: "deps \<Rightarrow> TaskInstanceCandidateFilter \<Rightarrow> database \<Rightarrow> Instance \<Rightarrow> bool" where
  "taskInstanceWhere d filt db i \<longleftrightarrow>
     instID i \<in> set (map taskInstanceID (filter (taskWhere d (candidateTaskFilter filt)) (dbTasks db)))
     \<and> searchIn d (tcfSearch filt) [instTitle i, instBusinessKey i]"

definition ListTaskInstanceCandidates :: "deps \<Rightarrow> TaskInstanceCandidateFilter \<Rightarrow> TaskInstanceCandidate Page io" where
  "ListTaskInstanceCandidates d filt =
     selectPage ''workflow task instance candidates''
       (\<lambda>db. int (length (filter (taskInstanceWhere d filt db) (dbInstances db))))
       (\<lambda>db. map taskInstanceCandidateOf (orderBy (laterThen d instUpdatedAt instID)
              (filter (taskInstanceWhere d filt db) (dbInstances db))))
       (tcfPage filt) (tcfPageSize filt)"

section \<open>Task history\<close>

definition historyWhere :: "TaskHistoryFilter \<Rightarrow> TaskHistory \<Rightarrow> bool" where
  "historyWhere filt r \<longleftrightarrow>
     histTenantID r = hfTenantID filt \<and> histApplicationID r = hfApplicationID filt
     \<and> (hfTaskID filt = [] \<or> histTaskID r = hfTaskID filt)
     \<and> (hfInstanceID filt = [] \<or> histInstanceID r = hfInstanceID filt)"

definition ListTaskHistory :: "deps \<Rightarrow> TaskHistoryFilter \<Rightarrow> TaskHistory Page io" where
  "ListTaskHistory d filt =
     selectPage ''workflow task history''
       (\<lambda>db. int (length (filter (historyWhere filt) (dbHistory db))))
       (\<lambda>db. orderBy (\<lambda>a b. histCreatedAt b < histCreatedAt a
              \<or> (histCreatedAt a = histCreatedAt b \<and> depCollate d (histID b) (histID a)))
              (filter (historyWhere filt) (dbHistory db)))
       (hfPage filt) (hfPageSize filt)"

definition DeleteTaskHistoryBefore :: "deps \<Rightarrow> time \<Rightarrow> int \<Rightarrow> int io" where
  "DeleteTaskHistoryBefore d before limit =
     bindE (query (\<lambda>db. limitOffset limit 0 (map histID
       (orderBy (\<lambda>a b. histCreatedAt a < histCreatedAt b
           \<or> (histCreatedAt a = histCreatedAt b \<and> depCollate d (histID a) (histID b)))
         (filter (expiredHistory before db) (dbHistory db)))))) (\<lambda>ids.
       if ids = [] then ret 0
       else bindE (dbCall (deleteHistoryStmt ids)) (\<lambda>n.
         bindE (rowsAffected n) (\<lambda>count. ret (int count))))"

lemmas repository_defs [db_defs] =
  GetDefinition_def CreateDefinition_def UpdateDefinition_def PublishDefinition_def DisableDefinition_def
  GetPublishedDefinitionByKey_def ListDefinitions_def listDefinitionCandidates_def
  ListStartDefinitionCandidates_def ListInstanceDefinitionCandidates_def CreateInstance_def GetInstance_def
  CancelInstance_def ListInstances_def UpdateInstanceNode_def FinishInstance_def GetTask_def requireAt_def
  CreateTask_def ClaimTask_def CompleteTask_def DelegateTask_def ListTasks_def
  ListTaskInstanceCandidates_def ListTaskHistory_def DeleteTaskHistoryBefore_def getInstanceTx_def
  getTaskTx_def affectedOne_def rowsAffected_def mapNotFound_def selectPage_def

end
