(* ===== verification/Store_Order.thy ===== *)
theory Store_Order
  imports Repository
begin

text \<open>
  The interface between the statements and the operations built from them. A relation on
  databases that every single statement respects is kept by every operation of the repository,
  on every path: success, error, rollback. The locale states the laws of the statements; its
  lemmas are proved once and used for every invariant and every ordering of the later theories.
  \<open>ok\<close> restricts the tenants whose rows the statements may touch. \<open>store_base\<close> leaves out the
  two statements of \<open>PublishDefinition\<close>, which some invariants only survive together;
  \<open>store_order\<close> adds them.
\<close>

locale store_base = db_order R for R +
  fixes ok :: "string \<Rightarrow> bool"
  assumes law_insertDefinition: "ok (defTenantID v) \<Longrightarrow> defStatus v = DefinitionDraft \<Longrightarrow> defPublishedRevision v = 0
          \<Longrightarrow> R db (snd (insertDefinition v db))"
    and law_insertInstance: "ok (instTenantID i) \<Longrightarrow> instStatus i = InstanceRunning \<Longrightarrow> instFinishedAt i = None
          \<Longrightarrow> R db (snd (insertInstance i db))"
    and law_insertTask: "ok (taskTenantID v') \<Longrightarrow> taskStatus v' = TaskPending \<Longrightarrow> taskClaimedBy v' = []
          \<Longrightarrow> taskCompletedAt v' = None \<Longrightarrow> R db (snd (insertTask v' db))"
    and law_insertHistory: "ok (histTenantID h) \<Longrightarrow> R db (snd (insertHistory h db))"
    and law_updateDraft: "ok (defTenantID v) \<Longrightarrow> R db (snd (updateDraftStmt v ver actor t db))"
    and law_disable: "ok tn \<Longrightarrow> R db (snd (disableStmt tn ap x ver actor t db))"
    and law_cancel: "ok tn \<Longrightarrow> R db (snd (cancelStmt tn ap x ver reason actor t db))"
    and law_advance: "ok tn \<Longrightarrow> R db (snd (advanceStmt tn ap x node actor t db))"
    and law_finish: "ok tn \<Longrightarrow> status \<in> set terminalStatuses
          \<Longrightarrow> R db (snd (finishStmt tn ap x status res msg actor t db))"
    and law_claim: "ok tn \<Longrightarrow> R db (snd (claimStmt tn ap x ver actor t db))"
    and law_complete: "ok (taskTenantID c) \<Longrightarrow> R db (snd (completeStmt c (decisionStatus dec) dec comment out actor t db))"
    and law_delegate: "ok (taskTenantID c) \<Longrightarrow> R db (snd (delegateStmt c dt actor t db))"
    and law_deleteHistory: "(\<And>tn. ok tn) \<Longrightarrow> R db (snd (deleteHistoryStmt ids db))"
    and law_outbox: "R db (db\<lparr>dbOutbox := rows\<rparr>)"
begin

lemma keeps_addTx: "keeps R (dbCall (addTxStmt d ev actor))"
  by (rule keeps_dbCall) (auto simp: addTxStmt_def refl_R law_outbox split: sum.splits)

lemma keeps_affectedOne: "(\<And>db. R db (snd (f db))) \<Longrightarrow> keeps R (affectedOne f op)"
  unfolding affectedOne_def rowsAffected_def by (intro keeps_intros keeps_dbCall)

lemma keeps_mapNotFound: "keeps R m \<Longrightarrow> keeps R (mapNotFound op m)"
  unfolding mapNotFound_def by (rule keeps_mapErr)

lemma keeps_bind_selected:
  assumes "\<And>x. P x \<Longrightarrow> keeps R (k x)"
  shows "keeps R (bindE (mapNotFound op (query (\<lambda>db. selectOne P (rows db)))) k)"
proof (rule keepsI, erule bindE_cases)
  fix w r w' e assume "mapNotFound op (query (\<lambda>db. selectOne P (rows db))) w = (Inl e, w')"
  then show "R (wDb w) (wDb w')" by (rule keepsD [OF keeps_mapNotFound [OF keeps_query]])
next
  fix w r w' x w1
  assume m: "mapNotFound op (query (\<lambda>db. selectOne P (rows db))) w = (Inr x, w1)" and k: "k x w1 = (r, w')"
  from m have "selectOne P (rows (wDb w)) = Inr x" by (simp add: mapNotFound_def mapErr_Inr query_Inr)
  then have "P x" by (auto simp: selectOne_def split: option.splits dest: find_Some_in)
  then have "R (wDb w1) (wDb w')" using assms k keepsD by blast
  moreover have "R (wDb w) (wDb w1)" using m by (rule keepsD [OF keeps_mapNotFound [OF keeps_query]])
  ultimately show "R (wDb w) (wDb w')" by (rule trans_R [rotated])
qed

lemma keeps_GetDefinition: "keeps R (GetDefinition tn ap x rv)"
  unfolding GetDefinition_def by (auto intro!: keeps_intros keeps_mapNotFound)

lemma keeps_reads:
  "keeps R (GetPublishedDefinitionByKey tn ap key)" "keeps R (ListDefinitions d df)"
  "keeps R (ListStartDefinitionCandidates d df)" "keeps R (ListInstanceDefinitionCandidates d df)"
  "keeps R (GetInstance tn ap x)" "keeps R (ListInstances d fi)" "keeps R (GetTask tn ap x)"
  "keeps R (ListTasks d tf)" "keeps R (ListTaskInstanceCandidates d tcf)" "keeps R (ListTaskHistory d hf)"
  "keeps R (getInstanceTx tn ap x)" "keeps R (getTaskTx tn ap x)" "keeps R (requireAt tn ap x node)"
  by (auto simp: GetPublishedDefinitionByKey_def ListDefinitions_def listDefinitionCandidates_def
      ListStartDefinitionCandidates_def ListInstanceDefinitionCandidates_def GetInstance_def ListInstances_def
      GetTask_def ListTasks_def ListTaskInstanceCandidates_def ListTaskHistory_def getInstanceTx_def
      getTaskTx_def requireAt_def selectPage_def
      intro!: keeps_intros keeps_mapNotFound keeps_GetDefinition)

lemma keeps_events:
  "keeps R (DefinitionPublishedEv d ctx v)" "keeps R (InstanceStartRequestedEv d ctx i v)"
  "keeps R (InstanceCancellationRequestedEv d ctx i m)" "keeps R (InstanceStatusChangedEv d ctx i m)"
  "keeps R (TaskCreatedEv d ctx tk)" "keeps R (TaskCompletedEv d ctx tk)"
  by (simp_all add: event_defs keeps_build)

lemmas keeps_ops = keeps_intros keeps_reads keeps_events keeps_addTx keeps_affectedOne keeps_GetDefinition

lemma keeps_CreateDefinition:
  "ok (defTenantID v) \<Longrightarrow> defStatus v = DefinitionDraft \<Longrightarrow> defPublishedRevision v = 0
   \<Longrightarrow> keeps R (CreateDefinition v)"
  unfolding CreateDefinition_def by (intro keeps_ops keeps_dbCall law_insertDefinition)

lemma keeps_UpdateDefinition: "ok (defTenantID v) \<Longrightarrow> keeps R (UpdateDefinition v ver actor)"
  unfolding UpdateDefinition_def by (intro keeps_ops law_updateDraft)

lemma keeps_DisableDefinition: "ok tn \<Longrightarrow> keeps R (DisableDefinition tn ap x ver actor)"
  unfolding DisableDefinition_def by (intro keeps_ops law_disable)

lemma keeps_CreateInstance:
  "ok (instTenantID i) \<Longrightarrow> instStatus i = InstanceRunning \<Longrightarrow> instFinishedAt i = None
   \<Longrightarrow> keeps R (CreateInstance d ctx i v)"
  unfolding CreateInstance_def by (intro keeps_ops keeps_dbCall law_insertInstance)

lemma keeps_CancelInstance: "ok tn \<Longrightarrow> keeps R (CancelInstance d ctx tn ap x ver reason actor)"
  unfolding CancelInstance_def by (intro keeps_ops law_cancel)

lemma keeps_UpdateInstanceNode: "ok tn \<Longrightarrow> keeps R (UpdateInstanceNode tn ap x node actor)"
  unfolding UpdateInstanceNode_def rowsAffected_def
  by (auto intro!: keeps_ops keeps_dbCall law_advance)

lemma keeps_FinishInstance:
  "ok tn \<Longrightarrow> status \<in> set terminalStatuses \<Longrightarrow> keeps R (FinishInstance d ctx tn ap x status res msg actor)"
  unfolding FinishInstance_def by (auto intro!: keeps_ops keeps_mapNotFound law_finish)

lemma keeps_CreateTask:
  "ok (taskTenantID v) \<Longrightarrow> taskStatus v = TaskPending \<Longrightarrow> taskClaimedBy v = [] \<Longrightarrow> taskCompletedAt v = None
   \<Longrightarrow> keeps R (CreateTask d ctx v)"
  unfolding CreateTask_def rowsAffected_def
  by (auto intro!: keeps_ops keeps_dbCall law_advance law_insertTask split: option.split)

lemma keeps_ClaimTask: "ok tn \<Longrightarrow> keeps R (ClaimTask tn ap x ver actor)"
  unfolding ClaimTask_def
  by (intro keeps_ops keeps_dbCall law_claim law_insertHistory) (simp_all add: historyOf_def)

lemma keeps_CompleteTask: "ok (taskTenantID c) \<Longrightarrow> keeps R (CompleteTask d ctx c dec comment out actor)"
  unfolding CompleteTask_def
  by (intro keeps_ops keeps_dbCall law_complete law_insertHistory) (simp_all add: historyOf_def)

lemma keeps_DelegateTask: "ok (taskTenantID c) \<Longrightarrow> keeps R (DelegateTask c dt reason actor)"
  unfolding DelegateTask_def
  by (intro keeps_ops keeps_dbCall law_delegate law_insertHistory) (simp_all add: historyOf_def)

lemma keeps_DeleteTaskHistoryBefore: "(\<And>tn. ok tn) \<Longrightarrow> keeps R (DeleteTaskHistoryBefore d t limit)"
  unfolding DeleteTaskHistoryBefore_def rowsAffected_def
  by (auto intro!: keeps_ops keeps_dbCall law_deleteHistory)

end

locale store_order = store_base +
  assumes law_insertRevision: "ok (defTenantID cur) \<Longrightarrow> R db (snd (insertRevision (revisionOf cur n t actor) db))"
    and law_publish: "ok tn \<Longrightarrow> R db (snd (publishStmt tn ap x ver actor n t db))"
begin

lemma keeps_PublishDefinition: "ok tn \<Longrightarrow> keeps R (PublishDefinition d ctx tn ap x ver actor)"
  unfolding PublishDefinition_def
  by (intro keeps_inTx keeps_bind_selected keeps_ops keeps_dbCall law_insertRevision law_publish)
    (simp_all add: defIs_def)

end

end
