(* ===== verification/Transactions.thy ===== *)
theory Transactions
  imports Store_Order
begin

text \<open>
  What each transaction of the repository does as a whole: it either leaves the database as it
  was, or it made all of its changes and enqueued its event. The lemmas name the rows read, the
  statements run and the event built, for any fault of the database and any event bus.
\<close>

lemma quiet_affectedOne: "quiet (affectedOne f op)"
  unfolding affectedOne_def rowsAffected_def by (intro quiet_intros)

lemma quiet_mapNotFound: "quiet m \<Longrightarrow> quiet (mapNotFound op m)"
  unfolding mapNotFound_def by (rule quiet_mapErr)

lemma quiet_build: "quiet (build d ctx s a t tn ap p)"
  unfolding build_def by (cases "ctxPrincipal ctx") (auto intro!: quiet_intros)

lemma quiet_events:
  "quiet (DefinitionPublishedEv d ctx v)" "quiet (InstanceStartRequestedEv d ctx i v)"
  "quiet (InstanceCancellationRequestedEv d ctx i m)" "quiet (InstanceStatusChangedEv d ctx i m)"
  "quiet (TaskCreatedEv d ctx tk)" "quiet (TaskCompletedEv d ctx tk)"
  by (simp_all add: event_defs quiet_build)

lemma quiet_selects:
  "quiet (getInstanceTx tn ap x)" "quiet (getTaskTx tn ap x)" "quiet (requireAt tn ap x node)"
  unfolding getInstanceTx_def getTaskTx_def requireAt_def
  by (intro quiet_intros quiet_mapNotFound)+

lemmas quiet_ops = quiet_basic quiet_dbCall quiet_query quiet_wrap quiet_affectedOne quiet_mapNotFound
  quiet_events quiet_selects

text \<open>What a step that returned a value says about the database.\<close>

lemma affectedOne_Inr:
  "affectedOne f op w = (Inr u, w') \<longleftrightarrow>
     (\<exists>db. f (wDb w) = (Inr 1, db) \<and> wFaults w (wCalls w) = None \<and> wFaults w (wCalls w + 1) = None
        \<and> w' = w\<lparr>wDb := db, wCalls := wCalls w + 2\<rparr>)"
  unfolding affectedOne_def rowsAffected_def
  by (auto simp: bindE_Inr wrapE_Inr dbCall_Inr query_Inr io_simps split: if_splits)

lemma mapNotFound_select_Inr:
  "mapNotFound op (query (\<lambda>db. selectOne P (rows db))) w = (Inr x, w') \<longleftrightarrow>
     wFaults w (wCalls w) = None \<and> find P (rows (wDb w)) = Some x \<and> w' = w\<lparr>wCalls := wCalls w + 1\<rparr>"
  by (auto simp: mapNotFound_def mapErr_Inr query_Inr selectOne_def split: option.splits)

lemma getTx_Inr:
  "getInstanceTx tn ap x w = (Inr i, w') \<longleftrightarrow>
     wFaults w (wCalls w) = None \<and> find (instIs tn ap x) (dbInstances (wDb w)) = Some i \<and> w' = w\<lparr>wCalls := wCalls w + 1\<rparr>"
  "getTaskTx tn ap x w = (Inr t, w') \<longleftrightarrow>
     wFaults w (wCalls w) = None \<and> find (taskIs tn ap x) (dbTasks (wDb w)) = Some t \<and> w' = w\<lparr>wCalls := wCalls w + 1\<rparr>"
  unfolding getInstanceTx_def getTaskTx_def by (rule mapNotFound_select_Inr)+

lemma addTxStmt_Inr:
  "addTxStmt d ev actor db = (Inr u, db') \<Longrightarrow> outboxLaw d \<Longrightarrow> db' = db\<lparr>dbOutbox := dbOutbox db @ [(ev, actor)]\<rparr>"
  by (auto simp: addTxStmt_def outboxLaw_def split: sum.splits)

lemma addTxStmt_db: "addTxStmt d ev actor db = (Inr u, db') \<Longrightarrow> \<exists>rows. db' = db\<lparr>dbOutbox := rows\<rparr>"
  by (auto simp: addTxStmt_def split: sum.splits)

lemma now_newID_Inr:
  "now w = (Inr t, w') \<longleftrightarrow> t = wClock w (wTicks w) \<and> w' = w\<lparr>wTicks := wTicks w + 1\<rparr>"
  "newID w = (Inr i, w') \<longleftrightarrow> i = wIds w (wFresh w) \<and> w' = w\<lparr>wFresh := wFresh w + 1\<rparr>"
  by (auto simp: now_def newID_def)

text \<open>An event built for the transaction: the factory returned it in some world.\<close>

definition builtBy :: "OutboxEvent io \<Rightarrow> OutboxEvent \<Rightarrow> bool" where
  "builtBy m ev \<longleftrightarrow> (\<exists>w w'. m w = (Inr ev, w'))"

lemma event_step:
  assumes "m w = (Inr ev, w')" and "m = build d ctx s a t tn ap p"
  shows "builtBy m ev \<and> wDb w' = wDb w"
  using assms build_db unfolding builtBy_def by blast

lemma event_steps:
  "DefinitionPublishedEv d ctx v w = (Inr ev, w') \<Longrightarrow> builtBy (DefinitionPublishedEv d ctx v) ev \<and> wDb w' = wDb w"
  "InstanceStartRequestedEv d ctx i v w = (Inr ev, w') \<Longrightarrow> builtBy (InstanceStartRequestedEv d ctx i v) ev \<and> wDb w' = wDb w"
  "InstanceCancellationRequestedEv d ctx i m w = (Inr ev, w') \<Longrightarrow> builtBy (InstanceCancellationRequestedEv d ctx i m) ev \<and> wDb w' = wDb w"
  "InstanceStatusChangedEv d ctx i m w = (Inr ev, w') \<Longrightarrow> builtBy (InstanceStatusChangedEv d ctx i m) ev \<and> wDb w' = wDb w"
  "TaskCreatedEv d ctx tk w = (Inr ev, w') \<Longrightarrow> builtBy (TaskCreatedEv d ctx tk) ev \<and> wDb w' = wDb w"
  "TaskCompletedEv d ctx tk w = (Inr ev, w') \<Longrightarrow> builtBy (TaskCompletedEv d ctx tk) ev \<and> wDb w' = wDb w"
  by (rule event_step, assumption, simp only: event_defs)+

lemma basic_Inr:
  "guardE b e w = (Inr u, w') \<longleftrightarrow> \<not> b \<and> w' = w" "liftR q w = (Inr y, w') \<longleftrightarrow> q = Inr y \<and> w' = w"
  "ret y w = (r, w') \<longleftrightarrow> r = Inr y \<and> w' = w" "fail e w = (r, w') \<longleftrightarrow> r = Inl e \<and> w' = w"
  by (auto simp: io_simps)

lemmas step_simps = affectedOne_Inr mapNotFound_select_Inr getTx_Inr now_newID_Inr dbCall_Inr query_Inr
  wrapE_Inr basic_Inr

section \<open>Definitions\<close>

lemma PublishDefinition_tx:
  assumes "PublishDefinition d ctx tn ap x ver actor w = (r, w')"
  shows "\<not> isOk r \<and> wDb w' = wDb w \<or>
    (\<exists>t cur pub ev db1 db2. find (defIs tn ap x) (dbDefinitions (wDb w)) = Some cur
       \<and> defVersion cur = ver \<and> defStatus cur = DefinitionDraft
       \<and> insertRevision (revisionOf cur (defPublishedRevision cur + 1) t actor) (wDb w) = (Inr (), db1)
       \<and> publishStmt tn ap x ver actor (defPublishedRevision cur + 1) t db1 = (Inr 1, db2)
       \<and> hydrateDefinition (cur\<lparr>defStatus := DefinitionPublished, defPublishedRevision := defPublishedRevision cur + 1, defVersion := ver + 1, defUpdatedAt := t, defUpdatedBy := actor\<rparr>) = Inr pub
       \<and> builtBy (DefinitionPublishedEv d ctx pub) ev
       \<and> addTxStmt d ev actor db2 = (Inr (), wDb w')
       \<and> r = Inr pub)"
  using assms unfolding PublishDefinition_def
proof (cases rule: inTx_live)
  case (unchanged w0 w1)
  then show ?thesis
    by (auto dest!: step_bind step_commit intro!: quiet_ops simp: step_simps)
next
  case (committed w0)
  then show ?thesis
    by (auto dest!: step_bind step_commit event_steps intro!: quiet_ops simp: step_simps) (blast+)?
qed simp

section \<open>Instances\<close>

lemma CreateInstance_tx:
  assumes "CreateInstance d ctx v dv w = (r, w')"
  shows "\<not> isOk r \<and> wDb w' = wDb w \<or>
    (\<exists>ev db1. insertInstance v (wDb w) = (Inr (), db1)
       \<and> builtBy (InstanceStartRequestedEv d ctx v dv) ev
       \<and> addTxStmt d ev (instCreatedBy v) db1 = (Inr (), wDb w')
       \<and> r = Inr v)"
  using assms unfolding CreateInstance_def
proof (cases rule: inTx_live)
  case (unchanged w0 w1)
  then show ?thesis
    by (auto dest!: step_bind step_commit intro!: quiet_ops simp: step_simps)
next
  case (committed w0)
  then show ?thesis
    by (auto dest!: step_bind step_commit event_steps intro!: quiet_ops simp: step_simps) (blast+)?
qed simp

lemma CancelInstance_tx:
  assumes "CancelInstance d ctx tn ap x ver reason actor w = (r, w')"
  shows "\<not> isOk r \<and> wDb w' = wDb w \<or>
    (\<exists>t inst ev db1. cancelStmt tn ap x ver reason actor t (wDb w) = (Inr 1, db1)
       \<and> find (instIs tn ap x) (dbInstances db1) = Some inst
       \<and> builtBy (InstanceCancellationRequestedEv d ctx inst reason) ev
       \<and> addTxStmt d ev actor db1 = (Inr (), wDb w')
       \<and> r = Inr inst)"
  using assms unfolding CancelInstance_def
proof (cases rule: inTx_live)
  case (unchanged w0 w1)
  then show ?thesis
    by (auto dest!: step_bind step_commit intro!: quiet_ops simp: step_simps)
next
  case (committed w0)
  then show ?thesis
    by (auto dest!: step_bind step_commit event_steps intro!: quiet_ops simp: step_simps) (blast+)?
qed simp

section \<open>Tasks\<close>

lemma ClaimTask_tx:
  assumes "ClaimTask tn ap x ver actor w = (r, w')"
  shows "\<not> isOk r \<and> wDb w' = wDb w \<or>
    (\<exists>t hid claimed db1. claimStmt tn ap x ver actor t (wDb w) = (Inr 1, db1)
       \<and> find (taskIs tn ap x) (dbTasks db1) = Some claimed
       \<and> insertHistory (historyOf hid tn ap x (taskInstanceID claimed) ''claim'' actor TaskPending TaskClaimed ''{}'' t) db1 = (Inr (), wDb w')
       \<and> r = Inr claimed)"
  using assms unfolding ClaimTask_def
proof (cases rule: inTx_live)
  case (unchanged w0 w1)
  then show ?thesis
    by (auto dest!: step_bind step_commit intro!: quiet_ops simp: step_simps)
next
  case (committed w0)
  then show ?thesis
    by (auto dest!: step_bind step_commit event_steps intro!: quiet_ops simp: step_simps) (blast+)?
qed simp

lemma CompleteTask_tx:
  assumes "CompleteTask d ctx cur dec comment out actor w = (r, w')"
  shows "\<not> isOk r \<and> wDb w' = wDb w \<or>
    (\<exists>t hid completed ev db1 db2. completeStmt cur (decisionStatus dec) dec comment out actor t (wDb w) = (Inr 1, db1)
       \<and> insertHistory (historyOf hid (taskTenantID cur) (taskApplicationID cur) (taskID cur) (taskInstanceID cur) ''complete'' actor (taskStatus cur) (decisionStatus dec) (marshalStringMap [(''comment'', comment), (''decision'', dec)]) t) db1 = (Inr (), db2)
       \<and> find (taskIs (taskTenantID cur) (taskApplicationID cur) (taskID cur)) (dbTasks db2) = Some completed
       \<and> builtBy (TaskCompletedEv d ctx completed) ev
       \<and> addTxStmt d ev actor db2 = (Inr (), wDb w')
       \<and> r = Inr completed)"
  using assms unfolding CompleteTask_def
proof (cases rule: inTx_live)
  case (unchanged w0 w1)
  then show ?thesis
    by (auto dest!: step_bind step_commit intro!: quiet_ops simp: step_simps)
next
  case (committed w0)
  then show ?thesis
    by (auto dest!: step_bind step_commit event_steps intro!: quiet_ops simp: step_simps) (blast+)?
qed simp

text \<open>A read that ends a transaction: it leaves the world's database and commit flag alone.\<close>

lemma select_step:
  assumes "mapNotFound op (query (\<lambda>db. selectOne P (rows db))) w = (r, w')"
  shows "wDb w' = wDb w \<and> wCommitted w' = wCommitted w \<and> (\<forall>x. r = Inr x \<longrightarrow> find P (rows (wDb w)) = Some x)"
  using assms
  by (auto simp: mapNotFound_def mapErr_def query_def dbCall_def Let_def selectOne_def
      split: prod.splits sum.splits option.splits)

lemma GetTask_step:
  "GetTask tn ap i w = (r, w') \<Longrightarrow> wDb w' = wDb w \<and> wCommitted w' = wCommitted w \<and>
     (\<forall>tk. r = Inr tk \<longrightarrow> find (taskIs tn ap i) (dbTasks (wDb w)) = Some tk)"
  unfolding GetTask_def by (rule select_step)

lemma getInstanceTx_step:
  "getInstanceTx tn ap i w = (r, w') \<Longrightarrow> wDb w' = wDb w \<and> wCommitted w' = wCommitted w \<and>
     (\<forall>x. r = Inr x \<longrightarrow> find (instIs tn ap i) (dbInstances (wDb w)) = Some x)"
  unfolding getInstanceTx_def by (rule select_step)

lemma status_step:
  assumes "mapNotFound op (query (\<lambda>db. map_sum (\<lambda>e. e) g (selectOne P (rows db)))) w = (Inr s, w')"
  shows "wDb w' = wDb w \<and> (\<exists>old. find P (rows (wDb w)) = Some old \<and> g old = s)"
  using assms by (auto simp: mapNotFound_def mapErr_Inr query_Inr selectOne_def split: option.splits)

lemma DelegateTask_tx:
  assumes "DelegateTask cur dt reason actor w = (r, w')"
  shows "\<not> isOk r \<and> wDb w' = wDb w \<or>
    (\<exists>t hid db1. delegateStmt cur dt actor t (wDb w) = (Inr 1, db1)
       \<and> insertHistory (historyOf hid (taskTenantID cur) (taskApplicationID cur) (taskID cur) (taskInstanceID cur)
            ''delegate'' actor (taskStatus cur) TaskPending
            (marshalStringMap [(''delegate_to'', dt), (''reason'', reason)]) t) db1 = (Inr (), wDb w')
       \<and> (\<forall>tk. r = Inr tk \<longrightarrow> find (taskIs (taskTenantID cur) (taskApplicationID cur) (taskID cur)) (dbTasks (wDb w')) = Some tk))"
  using assms unfolding DelegateTask_def
proof (cases rule: inTx_live)
  case (unchanged w0 w1)
  then show ?thesis
    by (auto dest!: step_bind step_commit GetTask_step intro!: quiet_ops simp: step_simps)
next
  case (committed w0)
  then show ?thesis
    by (auto dest!: step_bind step_commit GetTask_step intro!: quiet_ops simp: step_simps) blast+
qed simp

lemma FinishInstance_tx:
  assumes "FinishInstance d ctx tn ap x status res msg actor w = (r, w')"
  shows "\<not> isOk r \<and> wDb w' = wDb w \<or>
    (\<exists>inst. find (instIs tn ap x) (dbInstances (wDb w)) = Some inst \<and> instStatus inst = status
       \<and> r = Inr inst \<and> wDb w' = wDb w) \<or>
    (\<exists>t old inst ev db1. find (instIs tn ap x) (dbInstances (wDb w)) = Some old
       \<and> instStatus old = InstanceRunning \<and> status \<noteq> InstanceRunning
       \<and> finishStmt tn ap x status res msg actor t (wDb w) = (Inr 1, db1)
       \<and> find (instIs tn ap x) (dbInstances db1) = Some inst
       \<and> builtBy (InstanceStatusChangedEv d ctx inst InstanceRunning) ev
       \<and> addTxStmt d ev actor db1 = (Inr (), wDb w')
       \<and> r = Inr inst)"
  using assms unfolding FinishInstance_def
proof (cases rule: inTx_live)
  case (unchanged w0 w1)
  then show ?thesis
    by (auto dest!: step_bind step_commit status_step getInstanceTx_step intro!: quiet_ops
        simp: step_simps isOk_iff live_def split: if_splits)
next
  case (committed w0)
  then show ?thesis
    by (auto dest!: step_bind step_commit status_step event_steps getInstanceTx_step intro!: quiet_ops
        simp: step_simps split: if_splits) (blast+)?
qed simp

text \<open>
  \<open>CreateTask\<close> either returns the task that exists for the node, or moves the instance to the
  node (unless it is there already), inserts the task and enqueues its event.
\<close>

lemma requireAt_Inr:
  "requireAt tn ap x node w = (Inr u, w') \<longleftrightarrow>
     (\<exists>i. wFaults w (wCalls w) = None \<and> find (instIs tn ap x) (dbInstances (wDb w)) = Some i
        \<and> instStatus i = InstanceRunning \<and> instCurrentNodeID i = node \<and> w' = w\<lparr>wCalls := wCalls w + 1\<rparr>)"
  unfolding requireAt_def by (auto simp: bindE_Inr mapNotFound_select_Inr basic_Inr)

definition sameNode :: "Task \<Rightarrow> Task \<Rightarrow> bool" where
  "sameNode v r \<longleftrightarrow> taskTenantID r = taskTenantID v \<and> taskApplicationID r = taskApplicationID v
     \<and> taskInstanceID r = taskInstanceID v \<and> taskNodeID r = taskNodeID v"

lemma CreateTask_tx:
  assumes "CreateTask d ctx v w = (r, w')"
  shows "\<not> isOk r \<and> wDb w' = wDb w \<or>
    (\<exists>e. find (sameNode v) (dbTasks (wDb w)) = Some e \<and> r = Inr e \<and> wDb w' = wDb w) \<or>
    (\<exists>t n ev db1 db2. find (sameNode v) (dbTasks (wDb w)) = None
       \<and> advanceStmt (taskTenantID v) (taskApplicationID v) (taskInstanceID v) (taskNodeID v) (taskCreatedBy v) t (wDb w)
           = (Inr n, db1)
       \<and> (n = 0 \<longrightarrow> (\<exists>i. find (instIs (taskTenantID v) (taskApplicationID v) (taskInstanceID v)) (dbInstances db1) = Some i
             \<and> instStatus i = InstanceRunning \<and> instCurrentNodeID i = taskNodeID v))
       \<and> insertTask v db1 = (Inr (), db2)
       \<and> builtBy (TaskCreatedEv d ctx v) ev
       \<and> addTxStmt d ev (taskCreatedBy v) db2 = (Inr (), wDb w')
       \<and> r = Inr v)"
  using assms unfolding CreateTask_def rowsAffected_def sameNode_def [symmetric]
proof (cases rule: inTx_live)
  case (unchanged w0 w1)
  then show ?thesis
    by (auto dest!: step_bind step_commit intro!: quiet_ops simp: step_simps requireAt_Inr split: option.splits if_splits)
next
  case (committed w0)
  then show ?thesis
    by (auto dest!: step_bind step_commit event_steps intro!: quiet_ops simp: step_simps requireAt_Inr
        split: option.splits if_splits) (blast+)?
qed simp

end
