(* ===== verification/Store_Relations.thy ===== *)
theory Store_Relations
  imports Transactions
begin

text \<open>
  The relations that the operations keep, each an interpretation of the statement laws: rows
  only move forward (\<open>evolves\<close>), the rows of other tenants stay as they are
  (\<open>otherTenantsSame\<close>), and the key, reference and status invariants of the tables.
\<close>

section \<open>Rows only move forward\<close>

text \<open>
  A definition keeps its identity; it changes only with a higher version, never once it is
  disabled, and a published one only by being disabled.
\<close>

definition defStep :: "Definition \<Rightarrow> Definition \<Rightarrow> bool" where
  "defStep r r' \<longleftrightarrow>
     defID r' = defID r \<and> defTenantID r' = defTenantID r \<and> defApplicationID r' = defApplicationID r
     \<and> defKey r' = defKey r \<and> defCreatedAt r' = defCreatedAt r \<and> defCreatedBy r' = defCreatedBy r
     \<and> (r' = r \<or> defVersion r < defVersion r' \<and> defStatus r \<noteq> DefinitionDisabled
          \<and> (defStatus r = DefinitionPublished \<longrightarrow> defStatus r' = DefinitionDisabled
               \<and> defName r' = defName r \<and> defNodesJSON r' = defNodesJSON r \<and> defEdgesJSON r' = defEdgesJSON r
               \<and> defPublishedRevision r' = defPublishedRevision r))"

text \<open>An instance changes only while it is running, each time with a higher version.\<close>

definition instStep :: "Instance \<Rightarrow> Instance \<Rightarrow> bool" where
  "instStep r r' \<longleftrightarrow>
     instID r' = instID r \<and> instTenantID r' = instTenantID r \<and> instApplicationID r' = instApplicationID r
     \<and> instDefinitionID r' = instDefinitionID r \<and> instDefinitionRevision r' = instDefinitionRevision r
     \<and> instBusinessKey r' = instBusinessKey r \<and> instIdempotencyKey r' = instIdempotencyKey r
     \<and> instStarterID r' = instStarterID r \<and> instVariablesJSON r' = instVariablesJSON r
     \<and> instStartedAt r' = instStartedAt r
     \<and> (r' = r \<or> instVersion r < instVersion r' \<and> instStatus r = InstanceRunning)"

text \<open>A task changes only while it is pending or claimed, each time with a higher version.\<close>

definition taskStep :: "Task \<Rightarrow> Task \<Rightarrow> bool" where
  "taskStep r r' \<longleftrightarrow>
     taskID r' = taskID r \<and> taskTenantID r' = taskTenantID r \<and> taskApplicationID r' = taskApplicationID r
     \<and> taskInstanceID r' = taskInstanceID r \<and> taskNodeID r' = taskNodeID r \<and> taskInputJSON r' = taskInputJSON r
     \<and> taskDueAt r' = taskDueAt r \<and> taskCreatedAt r' = taskCreatedAt r
     \<and> (r' = r \<or> taskVersion r < taskVersion r' \<and> taskStatus r \<in> set openTaskStatuses)"

definition rowsStep :: "('r \<Rightarrow> 'r \<Rightarrow> bool) \<Rightarrow> 'r list \<Rightarrow> 'r list \<Rightarrow> bool" where
  "rowsStep step rs rs' \<longleftrightarrow> (\<forall>r\<in>set rs. \<exists>r'\<in>set rs'. step r r')"

definition evolves :: "database \<Rightarrow> database \<Rightarrow> bool" where
  "evolves db db' \<longleftrightarrow>
     rowsStep defStep (dbDefinitions db) (dbDefinitions db') \<and>
     set (dbRevisions db) \<subseteq> set (dbRevisions db') \<and>
     rowsStep instStep (dbInstances db) (dbInstances db') \<and>
     rowsStep taskStep (dbTasks db) (dbTasks db')"

lemma step_refl: "defStep r r" "instStep i i" "taskStep t t"
  by (simp_all add: defStep_def instStep_def taskStep_def)

lemma step_trans:
  "defStep a b \<Longrightarrow> defStep b c \<Longrightarrow> defStep a c"
  "instStep i j \<Longrightarrow> instStep j k \<Longrightarrow> instStep i k"
  "taskStep t u \<Longrightarrow> taskStep u v \<Longrightarrow> taskStep t v"
  by (auto simp: defStep_def instStep_def taskStep_def constant_defs)

lemma rowsStep_refl: "(\<And>r. step r r) \<Longrightarrow> rowsStep step rs rs"
  unfolding rowsStep_def by blast

lemma rowsStep_append: "(\<And>r. step r r) \<Longrightarrow> rowsStep step rs (rs @ xs)"
  unfolding rowsStep_def by auto

lemma rowsStep_trans:
  "(\<And>a b c. step a b \<Longrightarrow> step b c \<Longrightarrow> step a c) \<Longrightarrow> rowsStep step as bs \<Longrightarrow> rowsStep step bs cs
   \<Longrightarrow> rowsStep step as cs"
  unfolding rowsStep_def by meson

lemma rowsStep_update:
  "(\<And>r. step r r) \<Longrightarrow> (\<And>r. r \<in> set rs \<Longrightarrow> P r \<Longrightarrow> step r (f r)) \<Longrightarrow> rowsStep step rs (updateWhere P f rs)"
  unfolding rowsStep_def
proof
  fix r assume refl: "\<And>r. step r r" and upd: "\<And>r. r \<in> set rs \<Longrightarrow> P r \<Longrightarrow> step r (f r)" and r: "r \<in> set rs"
  have "step r (if P r then f r else r)" using refl upd r by simp
  then show "\<exists>r'\<in>set (updateWhere P f rs). step r r'" using r unfolding updateWhere_def set_map by blast
qed

lemmas rowsStep_refls = rowsStep_refl [of defStep] rowsStep_refl [of instStep] rowsStep_refl [of taskStep]

lemma evolves_refl: "evolves db db"
  by (simp add: evolves_def rowsStep_refls step_refl)

lemma evolves_trans:
  assumes "evolves a b" and "evolves b c"
  shows "evolves a c"
proof -
  have "rowsStep defStep (dbDefinitions a) (dbDefinitions c)"
    by (rule rowsStep_trans [OF step_trans(1)]) (use assms in \<open>auto simp: evolves_def\<close>)
  moreover have "rowsStep instStep (dbInstances a) (dbInstances c)"
    by (rule rowsStep_trans [OF step_trans(2)]) (use assms in \<open>auto simp: evolves_def\<close>)
  moreover have "rowsStep taskStep (dbTasks a) (dbTasks c)"
    by (rule rowsStep_trans [OF step_trans(3)]) (use assms in \<open>auto simp: evolves_def\<close>)
  ultimately show ?thesis using assms by (auto simp: evolves_def)
qed

interpretation ev: store_order evolves "\<lambda>_. True"
proof (unfold_locales, goal_cases)
  case (1 db)
  then show ?case by (rule evolves_refl)
next
  case (2 a b c)
  then show ?case by (rule evolves_trans)
qed (auto simp: insert_defs update_defs row_defs evolves_def rowsStep_refls step_refl oneOf_iff deleteHistoryStmt_def
      intro!: rowsStep_append rowsStep_update
      simp: defStep_def instStep_def taskStep_def constant_defs openTaskStatuses_def)

section \<open>Other tenants\<close>

definition otherRows :: "('r \<Rightarrow> string) \<Rightarrow> string \<Rightarrow> 'r list \<Rightarrow> 'r list" where
  "otherRows tenantOf tn rs = filter (\<lambda>r. tenantOf r \<noteq> tn) rs"

definition otherTenantsSame :: "string \<Rightarrow> database \<Rightarrow> database \<Rightarrow> bool" where
  "otherTenantsSame tn db db' \<longleftrightarrow>
     otherRows defTenantID tn (dbDefinitions db') = otherRows defTenantID tn (dbDefinitions db) \<and>
     otherRows defTenantID tn (dbRevisions db') = otherRows defTenantID tn (dbRevisions db) \<and>
     otherRows instTenantID tn (dbInstances db') = otherRows instTenantID tn (dbInstances db) \<and>
     otherRows taskTenantID tn (dbTasks db') = otherRows taskTenantID tn (dbTasks db) \<and>
     otherRows histTenantID tn (dbHistory db') = otherRows histTenantID tn (dbHistory db)"

lemma otherRows_append: "otherRows g tn (rs @ [r]) = (if g r = tn then otherRows g tn rs else otherRows g tn rs @ [r])"
  by (simp add: otherRows_def)

lemma otherRows_update:
  "(\<And>r. P r \<Longrightarrow> g r = tn) \<Longrightarrow> (\<And>r. g (f r) = g r) \<Longrightarrow> otherRows g tn (updateWhere P f rs) = otherRows g tn rs"
  by (induction rs) (auto simp: otherRows_def updateWhere_def)

lemma revisionOf_fields [simp]:
  "defTenantID (revisionOf v n t actor) = defTenantID v" "defID (revisionOf v n t actor) = defID v"
  "defApplicationID (revisionOf v n t actor) = defApplicationID v" "defKey (revisionOf v n t actor) = defKey v"
  "defName (revisionOf v n t actor) = defName v" "defNodesJSON (revisionOf v n t actor) = defNodesJSON v"
  "defEdgesJSON (revisionOf v n t actor) = defEdgesJSON v" "revRevision (revisionOf v n t actor) = n"
  by (simp_all add: revisionOf_def Definition.extend_def)

interpretation tenant: store_order "otherTenantsSame tn" "\<lambda>x. x = tn" for tn
proof (unfold_locales, goal_cases)
  case (15 db ids)
  then have "''a'' = (''b'' :: string)" by (metis (full_types))
  then show ?case by simp
qed (auto simp: insert_defs update_defs row_defs otherTenantsSame_def otherRows_append
      intro!: otherRows_update)

section \<open>Keys, references and statuses\<close>

text \<open>The primary keys and unique constraints of the migrations.\<close>

definition keysOk :: "database \<Rightarrow> bool" where
  "keysOk db \<longleftrightarrow>
     distinct (map defID (dbDefinitions db)) \<and>
     distinct (map (\<lambda>r. (defTenantID r, defApplicationID r, defKey r)) (dbDefinitions db)) \<and>
     distinct (map (\<lambda>r. (defID r, revRevision r)) (dbRevisions db)) \<and>
     distinct (map instID (dbInstances db)) \<and>
     distinct (map (\<lambda>r. (instTenantID r, instApplicationID r, instIdempotencyKey r)) (dbInstances db)) \<and>
     distinct (map (\<lambda>r. (instTenantID r, instDefinitionID r, instBusinessKey r)) (dbInstances db)) \<and>
     distinct (map taskID (dbTasks db)) \<and>
     distinct (map (\<lambda>r. (taskInstanceID r, taskNodeID r)) (dbTasks db)) \<and>
     distinct (map histID (dbHistory db))"

text \<open>The foreign keys.\<close>

definition refsOk :: "database \<Rightarrow> bool" where
  "refsOk db \<longleftrightarrow>
     defID ` set (dbRevisions db) \<subseteq> defID ` set (dbDefinitions db) \<and>
     instDefinitionID ` set (dbInstances db) \<subseteq> defID ` set (dbDefinitions db) \<and>
     taskInstanceID ` set (dbTasks db) \<subseteq> instID ` set (dbInstances db) \<and>
     histTaskID ` set (dbHistory db) \<subseteq> taskID ` set (dbTasks db)"

text \<open>
  The state machines of the rows: an instance is running exactly while it has no finish time; a
  task is pending and unclaimed, claimed, or decided with a completion time and a decision that
  matches its status.
\<close>

definition instOk :: "Instance \<Rightarrow> bool" where
  "instOk r \<longleftrightarrow> (instStatus r = InstanceRunning \<and> instFinishedAt r = None
     \<or> instStatus r \<in> set terminalStatuses \<and> instFinishedAt r \<noteq> None) \<and> 1 \<le> instVersion r"

definition taskOk :: "Task \<Rightarrow> bool" where
  "taskOk r \<longleftrightarrow> 1 \<le> taskVersion r \<and>
     (taskStatus r = TaskPending \<and> taskClaimedBy r = [] \<and> taskCompletedAt r = None
      \<or> taskStatus r = TaskClaimed \<and> taskCompletedAt r = None
      \<or> taskStatus r = TaskApproved \<and> taskCompletedAt r \<noteq> None \<and> taskDecision r \<noteq> DecisionReject
      \<or> taskStatus r = TaskRejected \<and> taskCompletedAt r \<noteq> None \<and> taskDecision r = DecisionReject)"

definition statusOk :: "database \<Rightarrow> bool" where
  "statusOk db \<longleftrightarrow> list_all instOk (dbInstances db) \<and> list_all taskOk (dbTasks db)"

definition keptBy :: "(database \<Rightarrow> bool) \<Rightarrow> database \<Rightarrow> database \<Rightarrow> bool" where
  "keptBy I db db' \<longleftrightarrow> (I db \<longrightarrow> I db')"

lemma map_updateWhere:
  "(\<And>r. g (f r) = g r) \<Longrightarrow> map g (updateWhere P f rs) = map g rs"
  "(\<And>r. g (f r) = g r) \<Longrightarrow> g ` set (updateWhere P f rs) = g ` set rs"
proof -
  show *: "map g (updateWhere P f rs) = map g rs" if "\<And>r. g (f r) = g r"
    using that by (simp add: updateWhere_def)
  show "g ` set (updateWhere P f rs) = g ` set rs" if "\<And>r. g (f r) = g r"
    using * [OF that] by (metis list.set_map)
qed

lemma list_all_updateWhere:
  "list_all Q rs \<Longrightarrow> (\<And>r. Q r \<Longrightarrow> P r \<Longrightarrow> Q (f r)) \<Longrightarrow> list_all Q (updateWhere P f rs)"
  by (induction rs) (auto simp: updateWhere_def)

lemma list_ex_image: "list_ex (\<lambda>r. g r = x) rs \<longleftrightarrow> x \<in> g ` set rs"
  by (auto simp: list_ex_iff)

lemma keptBy_refl_trans: "keptBy I db db" "keptBy I a b \<Longrightarrow> keptBy I b c \<Longrightarrow> keptBy I a c"
  by (simp_all add: keptBy_def)

interpretation keys: store_order "keptBy keysOk" "\<lambda>_. True"
proof (unfold_locales, goal_cases)
  case (2 a b c)
  then show ?case by (rule keptBy_refl_trans)
next
  case (15 db ids)
  then show ?case by (auto simp: keptBy_def keysOk_def deleteHistoryStmt_def distinct_map_filter)
qed (auto simp: insert_defs update_defs keptBy_def keysOk_def map_updateWhere list_ex_iff)

interpretation refs: store_order "keptBy refsOk" "\<lambda>_. True"
proof (unfold_locales, goal_cases)
  case (2 a b c)
  then show ?case by (rule keptBy_refl_trans)
next
  case (15 db ids)
  then show ?case by (auto simp: keptBy_def refsOk_def deleteHistoryStmt_def)
qed (auto simp: insert_defs update_defs keptBy_def refsOk_def map_updateWhere list_ex_image)

interpretation status: store_order "keptBy statusOk" "\<lambda>_. True"
proof (unfold_locales, goal_cases)
  case (2 a b c)
  then show ?case by (rule keptBy_refl_trans)
qed (auto simp: insert_defs update_defs keptBy_def statusOk_def oneOf_iff deleteHistoryStmt_def
      decisionStatus_def
      intro!: list_all_updateWhere
      simp: instOk_def taskOk_def terminalStatuses_def openTaskStatuses_def openFor_def constant_defs)

end
