(* ===== verification/Publishing.thy ===== *)
theory Publishing
  imports Store_Relations
begin

text \<open>
  The life of a definition: draft, published once with exactly one revision that never changes,
  disabled. The invariant only survives the two statements of \<open>PublishDefinition\<close> together, so
  it interprets the base interface and adds the transaction by its own lemma.
\<close>

definition sameContent :: "DefinitionRevision \<Rightarrow> Definition \<Rightarrow> bool" where
  "sameContent v r \<longleftrightarrow> defID v = defID r \<and> revRevision v = 1 \<and> defTenantID v = defTenantID r
     \<and> defApplicationID v = defApplicationID r \<and> defKey v = defKey r \<and> defName v = defName r
     \<and> defNodesJSON v = defNodesJSON r \<and> defEdgesJSON v = defEdgesJSON r"

definition definitionOk :: "DefinitionRevision list \<Rightarrow> Definition \<Rightarrow> bool" where
  "definitionOk revs r \<longleftrightarrow>
     (defStatus r = DefinitionDraft \<and> defPublishedRevision r = 0 \<and> list_all (\<lambda>v. defID v \<noteq> defID r) revs) \<or>
     (defStatus r \<in> {DefinitionPublished, DefinitionDisabled} \<and> defPublishedRevision r = 1
        \<and> list_ex (\<lambda>v. sameContent v r) revs)"

definition publishOk :: "database \<Rightarrow> bool" where
  "publishOk db \<longleftrightarrow> keysOk db \<and> refsOk db \<and> list_all (definitionOk (dbRevisions db)) (dbDefinitions db)
     \<and> list_all (\<lambda>v. revRevision v = 1) (dbRevisions db)"

lemma publishOk_keys_refs:
  "keptBy keysOk db db' \<Longrightarrow> keptBy refsOk db db' \<Longrightarrow> publishOk db
   \<Longrightarrow> list_all (definitionOk (dbRevisions db')) (dbDefinitions db') \<Longrightarrow> list_all (\<lambda>v. revRevision v = 1) (dbRevisions db')
   \<Longrightarrow> publishOk db'"
  by (simp add: publishOk_def keptBy_def)

lemma keptBy_publish:
  assumes "keptBy keysOk a b" and "keptBy refsOk a b"
    and "publishOk a \<Longrightarrow> list_all (definitionOk (dbRevisions b)) (dbDefinitions b)"
    and "publishOk a \<Longrightarrow> list_all (\<lambda>v. revRevision v = 1) (dbRevisions b)"
  shows "keptBy publishOk a b"
  using assms publishOk_keys_refs [of a b] by (simp add: keptBy_def)

lemma publishOk_lists:
  "publishOk db \<Longrightarrow> list_all (definitionOk (dbRevisions db)) (dbDefinitions db)"
  "publishOk db \<Longrightarrow> list_all (\<lambda>v. revRevision v = 1) (dbRevisions db)"
  by (simp_all add: publishOk_def)

text \<open>The statements on the other tables.\<close>

lemma other_tables:
  "dbDefinitions (snd (insertInstance i db)) = dbDefinitions db" "dbRevisions (snd (insertInstance i db)) = dbRevisions db"
  "dbDefinitions (snd (insertTask k db)) = dbDefinitions db" "dbRevisions (snd (insertTask k db)) = dbRevisions db"
  "dbDefinitions (snd (insertHistory h db)) = dbDefinitions db" "dbRevisions (snd (insertHistory h db)) = dbRevisions db"
  "dbDefinitions (snd (cancelStmt tn ap x ver reason actor t db)) = dbDefinitions db"
  "dbRevisions (snd (cancelStmt tn ap x ver reason actor t db)) = dbRevisions db"
  "dbDefinitions (snd (advanceStmt tn ap x node actor t db)) = dbDefinitions db"
  "dbRevisions (snd (advanceStmt tn ap x node actor t db)) = dbRevisions db"
  "dbDefinitions (snd (finishStmt tn ap x status res msg actor t db)) = dbDefinitions db"
  "dbRevisions (snd (finishStmt tn ap x status res msg actor t db)) = dbRevisions db"
  "dbDefinitions (snd (claimStmt tn ap x ver actor t db)) = dbDefinitions db"
  "dbRevisions (snd (claimStmt tn ap x ver actor t db)) = dbRevisions db"
  "dbDefinitions (snd (completeStmt k st dec comment out actor t db)) = dbDefinitions db"
  "dbRevisions (snd (completeStmt k st dec comment out actor t db)) = dbRevisions db"
  "dbDefinitions (snd (delegateStmt k dt actor t db)) = dbDefinitions db"
  "dbRevisions (snd (delegateStmt k dt actor t db)) = dbRevisions db"
  "dbDefinitions (snd (deleteHistoryStmt ids db)) = dbDefinitions db" "dbRevisions (snd (deleteHistoryStmt ids db)) = dbRevisions db"
  by (simp_all add: insertInstance_def insertTask_def insertHistory_def cancelStmt_def advanceStmt_def finishStmt_def
      claimStmt_def completeStmt_def delegateStmt_def deleteHistoryStmt_def updateInstances_def updateTasks_def)

interpretation pub: store_base "keptBy publishOk" "\<lambda>_. True"
proof (unfold_locales, goal_cases)
  case (2 a b c)
  then show ?case by (rule keptBy_refl_trans)
next
  case (3 v db)
  show ?case
    by (rule keptBy_publish [OF keys.law_insertDefinition refs.law_insertDefinition])
      (use 3 in \<open>auto simp: insertDefinition_def publishOk_def definitionOk_def refsOk_def list_all_iff
          list_ex_iff sameContent_def\<close>)
next
  case 4
  then show ?case
    by (intro keptBy_publish keys.law_insertInstance refs.law_insertInstance) (simp_all add: other_tables publishOk_lists)
next
  case 5
  then show ?case
    by (intro keptBy_publish keys.law_insertTask refs.law_insertTask) (simp_all add: other_tables publishOk_lists)
next
  case 6
  then show ?case
    by (intro keptBy_publish keys.law_insertHistory refs.law_insertHistory) (simp_all add: other_tables publishOk_lists)
next
  case 7
  then show ?case
    by (intro keptBy_publish keys.law_updateDraft refs.law_updateDraft)
      (auto simp: publishOk_def updateDraftStmt_def updateDefinitions_def definitionOk_def sameContent_def constant_defs
        intro!: list_all_updateWhere)
next
  case 8
  then show ?case
    by (intro keptBy_publish keys.law_disable refs.law_disable)
      (auto simp: publishOk_def disableStmt_def updateDefinitions_def definitionOk_def sameContent_def constant_defs
        intro!: list_all_updateWhere)
next
  case 9
  then show ?case
    by (intro keptBy_publish keys.law_cancel refs.law_cancel) (simp_all add: other_tables publishOk_lists)
next
  case 10
  then show ?case
    by (intro keptBy_publish keys.law_advance refs.law_advance) (simp_all add: other_tables publishOk_lists)
next
  case 11
  then show ?case
    by (intro keptBy_publish keys.law_finish refs.law_finish) (simp_all add: other_tables publishOk_lists)
next
  case 12
  then show ?case
    by (intro keptBy_publish keys.law_claim refs.law_claim) (simp_all add: other_tables publishOk_lists)
next
  case 13
  then show ?case
    by (intro keptBy_publish keys.law_complete refs.law_complete) (simp_all add: other_tables publishOk_lists)
next
  case 14
  then show ?case
    by (intro keptBy_publish keys.law_delegate refs.law_delegate) (simp_all add: other_tables publishOk_lists)
next
  case 15
  then show ?case
    by (intro keptBy_publish keys.law_deleteHistory refs.law_deleteHistory) (simp_all add: other_tables publishOk_lists)
next
  case (16 db rows)
  then show ?case by (auto simp: keptBy_def publishOk_def keysOk_def refsOk_def)
qed (simp add: keptBy_def)

lemma publish_row_unique:
  assumes "keysOk db" and "find (defIs tn ap x) (dbDefinitions db) = Some cur"
    and "r \<in> set (dbDefinitions db)" and "defID r = defID cur"
  shows "r = cur"
  using assms find_Some_in [OF assms(2)] unfolding keysOk_def by (meson distinct_map inj_onD)

lemma publish_keeps: "keeps (keptBy publishOk) (PublishDefinition d ctx tn ap x ver actor)"
proof (rule keepsI)
  fix w r w'
  assume tx: "PublishDefinition d ctx tn ap x ver actor w = (r, w')"
  have kr: "keptBy keysOk (wDb w) (wDb w')" "keptBy refsOk (wDb w) (wDb w')"
    by (rule keepsD [OF keys.keeps_PublishDefinition tx], simp)
      (rule keepsD [OF refs.keeps_PublishDefinition tx], simp)
  from PublishDefinition_tx [OF tx] show "keptBy publishOk (wDb w) (wDb w')"
  proof (elim disjE exE conjE)
    fix t cur pub ev db1 db2
    assume cur: "find (defIs tn ap x) (dbDefinitions (wDb w)) = Some cur"
      and ver: "defVersion cur = ver" and draft: "defStatus cur = DefinitionDraft"
      and ins: "insertRevision (revisionOf cur (defPublishedRevision cur + 1) t actor) (wDb w) = (Inr (), db1)"
      and upd: "publishStmt tn ap x ver actor (defPublishedRevision cur + 1) t db1 = (Inr 1, db2)"
      and out: "addTxStmt d ev actor db2 = (Inr (), wDb w')"
    let ?rev = "revisionOf cur (defPublishedRevision cur + 1) t actor"
    have db1: "db1 = (wDb w)\<lparr>dbRevisions := dbRevisions (wDb w) @ [?rev]\<rparr>"
      using ins by (auto simp: insertRevision_def split: if_splits)
    have defs: "dbRevisions (wDb w') = dbRevisions (wDb w) @ [?rev]"
      "dbDefinitions (wDb w') = updateWhere
         (\<lambda>r. defIs tn ap x r \<and> defVersion r = ver \<and> defStatus r = DefinitionDraft)
         (\<lambda>r. r\<lparr>defStatus := DefinitionPublished, defPublishedRevision := defPublishedRevision cur + 1,
             defVersion := defVersion r + 1, defUpdatedAt := t, defUpdatedBy := actor\<rparr>) (dbDefinitions (wDb w))"
      using addTxStmt_db [OF out] upd by (auto simp: publishStmt_def updateDefinitions_def db1)
    show ?thesis unfolding keptBy_def
    proof
      assume p: "publishOk (wDb w)"
      then have cur0: "defPublishedRevision cur = 0"
        using find_Some_in [OF cur] draft
        by (auto simp: publishOk_def list_all_iff definitionOk_def constant_defs)
      have row: "definitionOk (dbRevisions (wDb w')) (if defIs tn ap x r \<and> defVersion r = ver \<and> defStatus r = DefinitionDraft
            then r\<lparr>defStatus := DefinitionPublished, defPublishedRevision := defPublishedRevision cur + 1,
              defVersion := defVersion r + 1, defUpdatedAt := t, defUpdatedBy := actor\<rparr> else r)"
        if r: "r \<in> set (dbDefinitions (wDb w))" for r
      proof (cases "defID r = defID cur")
        case True
        then have "r = cur" using publish_row_unique [OF _ cur r] p by (simp add: publishOk_def)
        moreover have "defIs tn ap x cur" using find_Some_in [OF cur] by simp
        moreover have "sameContent ?rev (cur\<lparr>defStatus := s, defPublishedRevision := n, defVersion := v,
            defUpdatedAt := t, defUpdatedBy := actor\<rparr>)" for s n v
          using cur0 by (simp add: sameContent_def)
        ultimately show ?thesis using ver draft cur0 by (auto simp: definitionOk_def defs(1) list_ex_iff)
      next
        case False
        have "defID cur = x" using find_Some_in [OF cur] by (simp add: defIs_def)
        with False have "\<not> defIs tn ap x r" by (simp add: defIs_def)
        moreover have "definitionOk (dbRevisions (wDb w)) r" using p r by (simp add: publishOk_def list_all_iff)
        ultimately show ?thesis using False by (auto simp: definitionOk_def defs(1) list_all_iff list_ex_iff)
      qed
      have "list_all (definitionOk (dbRevisions (wDb w'))) (dbDefinitions (wDb w'))"
        unfolding defs(2) list_all_iff set_updateWhere using row by blast
      moreover have "list_all (\<lambda>v. revRevision v = 1) (dbRevisions (wDb w'))"
        using p cur0 by (simp add: defs(1) publishOk_def revisionOf_def Definition.defs)
      ultimately show "publishOk (wDb w')" by (rule publishOk_keys_refs [OF kr p])
    qed
  qed (simp add: keptBy_def)
qed

end
