(* ===== verification/Assignments.thy ===== *)
theory Assignments
  imports World
begin

text \<open>
  The assignment resolver, \<open>internal/workflowauth/resolver.go\<close>: which roles the caller holds and
  whether it may act under an expression assignment, both asked of the authorization service. The
  client is a parameter: what the \<open>n\<close>-th call answers is its function of \<open>n\<close> and of the request.
\<close>

section \<open>The authorization client\<close>

datatype SubjectType =
    SUBJECT_TYPE_MEMBERSHIP
  | SUBJECT_TYPE_SERVICE_ACCOUNT

record Subject =
  subID :: string
  subType :: SubjectType

record Binding =
  bndStatus :: string
  bndRoleId :: string

text \<open>\<open>lbrTotal\<close> is \<open>None\<close> when the response carries no page.\<close>

record ListBindingsResponse =
  lbrBindings :: "Binding list"
  lbrTotal :: "64 word option"

text \<open>
  The parameters: the two calls, and the two principal types of the platform library that the
  resolver compares with.
\<close>

record authz =
  azListBindings :: "nat \<Rightarrow> Context \<Rightarrow> string \<Rightarrow> Subject \<Rightarrow> 32 word \<Rightarrow> 32 word \<Rightarrow> ListBindingsResponse result"
  azCheck :: "nat \<Rightarrow> Context \<Rightarrow> string \<Rightarrow> Subject \<Rightarrow> string \<Rightarrow> string \<Rightarrow> string \<Rightarrow> bool result"
  azTypeServiceAccount :: string
  azTypeSystem :: string

section \<open>The resolver\<close>

definition resolverPageSize :: "32 word" where
  "resolverPageSize = 200"

definition subjectFromContext :: "authz \<Rightarrow> Context \<Rightarrow> (Principal \<times> Subject) result" where
  "subjectFromContext az ctx =
     (case ctxPrincipal ctx of
        None \<Rightarrow> Inl (Sentinel ErrActorRequired)
      | Some identity \<Rightarrow>
          let subject = (if prType identity = azTypeServiceAccount az \<or> prType identity = azTypeSystem az
                then \<lparr>subID = prID identity, subType = SUBJECT_TYPE_SERVICE_ACCOUNT\<rparr>
                else \<lparr>subID = prMembershipID identity, subType = SUBJECT_TYPE_MEMBERSHIP\<rparr>)
          in if subID subject = [] then Inl (Sentinel ErrForbidden) else Inr (identity, subject))"

definition activeRoles :: "Binding list \<Rightarrow> string list" where
  "activeRoles bs = map bndRoleId (filter (\<lambda>b. bndStatus b = ''active'' \<and> bndRoleId b \<noteq> []) bs)"

text \<open>The condition that ends the loop; the product is one of \<open>uint64\<close>.\<close>

definition lastPage :: "32 word \<Rightarrow> ListBindingsResponse \<Rightarrow> bool" where
  "lastPage page r \<longleftrightarrow>
     (case lbrTotal r of None \<Rightarrow> True | Some n \<Rightarrow> n \<le> ucast page * ucast resolverPageSize)
     \<or> lbrBindings r = []"

text \<open>
  The loop over the pages. Its counter is a \<open>uint32\<close>: after page \<open>2\<^sup>3\<^sup>2 - 1\<close> it would start again
  at 0. The model stops there with an error that no other branch gives, so that the theorems can
  say when the loop does not get there.
\<close>

definition pageCounterWrapped :: goerr where
  "pageCounterWrapped = Opaque ''role page counter wrapped''"

lemma page_step: "(page :: 32 word) \<noteq> -1 \<Longrightarrow> unat (page + 1) = Suc (unat page)"
  using unatSuc [of page] by (metis add.commute add_eq_0_iff)

lemma page_measure: "(page :: 32 word) \<noteq> -1 \<Longrightarrow> 4294967296 - unat (page + 1) < (4294967296 - unat page :: nat)"
  using page_step [of page] unsigned_less [of "page + 1", where ?'a = nat] by simp

function roleLoop :: "authz \<Rightarrow> Context \<Rightarrow> string \<Rightarrow> Subject \<Rightarrow> 32 word \<Rightarrow> string list \<Rightarrow> string list io" where
  "roleLoop az ctx tenantID subject page roles =
     bindE (wrapE ''list authorization bindings''
       (remote (\<lambda>n. azListBindings az n ctx tenantID subject page resolverPageSize))) (\<lambda>response.
       let roles' = roles @ activeRoles (lbrBindings response) in
       if lastPage page response then ret roles'
       else if page = -1 then fail pageCounterWrapped
       else roleLoop az ctx tenantID subject (page + 1) roles')"
  by auto

termination
  by (relation "measure (\<lambda>(az, ctx, tn, s, page, roles). 4294967296 - unat page)") (auto simp: page_measure)

declare roleLoop.simps [simp del]

definition RoleIDs :: "authz \<Rightarrow> Context \<Rightarrow> string \<Rightarrow> string list io" where
  "RoleIDs az ctx tenantID =
     bindE (liftR (subjectFromContext az ctx)) (\<lambda>(identity, subject).
     bindE (guardE (prTenantID identity \<noteq> [] \<and> prTenantID identity \<noteq> tenantID) (Sentinel ErrForbidden)) (\<lambda>_.
       roleLoop az ctx tenantID subject 1 []))"

definition AuthorizeExpression :: "authz \<Rightarrow> Context \<Rightarrow> string \<Rightarrow> string \<Rightarrow> unit io" where
  "AuthorizeExpression az ctx tenantID permissionAction =
     bindE (liftR (subjectFromContext az ctx)) (\<lambda>(identity, subject).
     bindE (guardE (prTenantID identity \<noteq> [] \<and> prTenantID identity \<noteq> tenantID) (Sentinel ErrForbidden)) (\<lambda>_.
     bindE (wrapE ''check workflow assignment permission''
       (remote (\<lambda>n. azCheck az n ctx tenantID subject ''workflow_task'' ''*'' permissionAction))) (\<lambda>allowed.
       guardE (\<not> allowed) (Sentinel ErrForbidden))))"

end
