(* ===== verification/Service.thy ===== *)
theory Service
  imports Graph_Props Publishing Assignments
begin

text \<open>
  The operations of \<open>internal/workflow/service.go\<close>: who calls, whether the caller's tenant and
  the application allow it, what the request must hold, and the call to the store. The operations
  carry the prefix \<open>Service_\<close>, since the repository's have the same names. \<open>az\<close> is the
  authorization client; the application verifier is part of \<open>d\<close>.
\<close>

section \<open>Inputs\<close>

record CreateDefinitionInput =
  cdTenantID :: string
  cdApplicationID :: string
  cdKey :: string
  cdName :: string
  cdDescription :: string
  cdNodes :: "Node list"
  cdEdges :: "Edge list"

record UpdateDefinitionInput =
  udID :: string
  udTenantID :: string
  udApplicationID :: string
  udName :: string
  udDescription :: string
  udNodes :: "Node list"
  udEdges :: "Edge list"
  udExpectedVersion :: int

record StartInstanceInput =
  siTenantID :: string
  siApplicationID :: string
  siDefinitionKey :: string
  siBusinessKey :: string
  siTitle :: string
  siVariablesJSON :: string
  siIdempotencyKey :: string

section \<open>Helpers\<close>

definition actorForTenant :: "Context \<Rightarrow> string \<Rightarrow> string result" where
  "actorForTenant ctx tenantID =
     (case ctxPrincipal ctx of
        None \<Rightarrow> Inl (Sentinel ErrActorRequired)
      | Some v \<Rightarrow>
          if prTenantID v \<noteq> [] \<and> prTenantID v \<noteq> tenantID then Inl (Sentinel ErrForbidden)
          else Inr (prID v))"

definition verifyApplication :: "deps \<Rightarrow> Context \<Rightarrow> string \<Rightarrow> string \<Rightarrow> unit io" where
  "verifyApplication d ctx tenantID applicationID =
     mapErr (\<lambda>e. if errorsIs e ErrNotGranted then Sentinel ErrForbidden
                 else Wrapf ''verify tenant application access: '' e [])
       (remote (\<lambda>n. depVerify d n ctx tenantID applicationID))"

definition normalizePage :: "int \<Rightarrow> int \<Rightarrow> int \<times> int" where
  "normalizePage page sz =
     (let page = (if page < 1 then 1 else page);
          sz = (if sz < 1 then 20 else sz);
          sz = (if sz > 200 then 200 else sz)
      in (page, sz))"

definition defaultJSONObject :: "string \<Rightarrow> string" where
  "defaultJSONObject v = (if TrimSpace v = [] then ''{}'' else v)"

section \<open>Definitions\<close>

definition Service_CreateDefinition :: "deps \<Rightarrow> Context \<Rightarrow> CreateDefinitionInput \<Rightarrow> Definition io" where
  "Service_CreateDefinition d ctx input =
     bindE (liftR (actorForTenant ctx (cdTenantID input))) (\<lambda>actor.
     bindE (guardE (cdTenantID input = [] \<or> cdApplicationID input = [])
       (invalid ''tenant and application are required'')) (\<lambda>_.
     bindE (verifyApplication d ctx (cdTenantID input) (cdApplicationID input)) (\<lambda>_.
     bindE (liftR (ValidateDefinition (cdKey input) (cdName input) (cdNodes input) (cdEdges input))) (\<lambda>_.
     bindE (liftR (encodeGraph (cdNodes input) (cdEdges input))) (\<lambda>(nodesJSON, edgesJSON).
     bindE now (\<lambda>t.
     bindE newID (\<lambda>i.
       CreateDefinition
         \<lparr>defID = i, defTenantID = cdTenantID input, defApplicationID = cdApplicationID input,
          defKey = cdKey input, defName = TrimSpace (cdName input),
          defDescription = TrimSpace (cdDescription input), defStatus = DefinitionDraft,
          defPublishedRevision = 0, defNodesJSON = nodesJSON, defEdgesJSON = edgesJSON, defVersion = 1,
          defCreatedAt = t, defUpdatedAt = t, defCreatedBy = actor, defUpdatedBy = actor,
          defNodes = cdNodes input, defEdges = cdEdges input\<rparr>)))))))"

text \<open>The struct \<open>UpdateDefinition\<close> passes on: the fields it does not name are zero.\<close>

definition definitionPatch :: "UpdateDefinitionInput \<Rightarrow> string \<Rightarrow> string \<Rightarrow> Definition" where
  "definitionPatch input nodesJSON edgesJSON =
     \<lparr>defID = udID input, defTenantID = udTenantID input, defApplicationID = udApplicationID input,
      defKey = [], defName = TrimSpace (udName input), defDescription = TrimSpace (udDescription input),
      defStatus = [], defPublishedRevision = 0, defNodesJSON = nodesJSON, defEdgesJSON = edgesJSON,
      defVersion = 0, defCreatedAt = 0, defUpdatedAt = 0, defCreatedBy = [], defUpdatedBy = [],
      defNodes = [], defEdges = []\<rparr>"

definition Service_UpdateDefinition :: "deps \<Rightarrow> Context \<Rightarrow> UpdateDefinitionInput \<Rightarrow> Definition io" where
  "Service_UpdateDefinition d ctx input =
     bindE (liftR (actorForTenant ctx (udTenantID input))) (\<lambda>actor.
     bindE (guardE (udID input = [] \<or> udTenantID input = [] \<or> udApplicationID input = []
         \<or> udExpectedVersion input < 1)
       (invalid ''definition identity and expected version are required'')) (\<lambda>_.
     bindE (verifyApplication d ctx (udTenantID input) (udApplicationID input)) (\<lambda>_.
     bindE (GetDefinition (udTenantID input) (udApplicationID input) (udID input) 0) (\<lambda>current.
     bindE (guardE (defApplicationID current \<noteq> udApplicationID input) (Sentinel ErrForbidden)) (\<lambda>_.
     bindE (liftR (ValidateDefinition (defKey current) (udName input) (udNodes input) (udEdges input))) (\<lambda>_.
     bindE (liftR (encodeGraph (udNodes input) (udEdges input))) (\<lambda>(nodesJSON, edgesJSON).
       UpdateDefinition (definitionPatch input nodesJSON edgesJSON) (udExpectedVersion input) actor)))))))"

definition Service_PublishDefinition :: "deps \<Rightarrow> Context \<Rightarrow> string \<Rightarrow> string \<Rightarrow> string \<Rightarrow> int \<Rightarrow> Definition io" where
  "Service_PublishDefinition d ctx tenantID applicationID i expectedVersion =
     bindE (liftR (actorForTenant ctx tenantID)) (\<lambda>actor.
     bindE (guardE (tenantID = [] \<or> applicationID = [] \<or> i = [] \<or> expectedVersion < 1)
       (invalid ''definition identity and expected version are required'')) (\<lambda>_.
     bindE (verifyApplication d ctx tenantID applicationID) (\<lambda>_.
     bindE (GetDefinition tenantID applicationID i 0) (\<lambda>current.
     bindE (liftR (ValidateDefinition (defKey current) (defName current) (defNodes current) (defEdges current))) (\<lambda>_.
       PublishDefinition d ctx tenantID applicationID i expectedVersion actor)))))"

definition Service_DisableDefinition :: "deps \<Rightarrow> Context \<Rightarrow> string \<Rightarrow> string \<Rightarrow> string \<Rightarrow> int \<Rightarrow> Definition io" where
  "Service_DisableDefinition d ctx tenantID applicationID i expectedVersion =
     bindE (liftR (actorForTenant ctx tenantID)) (\<lambda>actor.
     bindE (guardE (tenantID = [] \<or> applicationID = [] \<or> i = [] \<or> expectedVersion < 1)
       (invalid ''definition identity and expected version are required'')) (\<lambda>_.
     bindE (verifyApplication d ctx tenantID applicationID) (\<lambda>_.
       DisableDefinition tenantID applicationID i expectedVersion actor)))"

definition Service_GetDefinition :: "deps \<Rightarrow> Context \<Rightarrow> string \<Rightarrow> string \<Rightarrow> string \<Rightarrow> 32 word \<Rightarrow> Definition io" where
  "Service_GetDefinition d ctx tenantID applicationID i revision =
     bindE (liftR (actorForTenant ctx tenantID)) (\<lambda>_.
     bindE (guardE (tenantID = [] \<or> applicationID = [] \<or> i = [])
       (invalid ''tenant and definition IDs are required'')) (\<lambda>_.
     bindE (verifyApplication d ctx tenantID applicationID) (\<lambda>_.
       GetDefinition tenantID applicationID i revision)))"

definition Service_ListDefinitions :: "deps \<Rightarrow> Context \<Rightarrow> DefinitionFilter \<Rightarrow> Definition Page io" where
  "Service_ListDefinitions d ctx filt =
     bindE (liftR (actorForTenant ctx (dfTenantID filt))) (\<lambda>_.
     bindE (guardE (dfTenantID filt = [] \<or> dfApplicationID filt = [] \<or> (dfStatus filt \<noteq> []
         \<and> \<not> oneOf (dfStatus filt) [DefinitionDraft, DefinitionPublished, DefinitionDisabled]))
       (invalid ''tenant and valid status are required'')) (\<lambda>_.
     bindE (verifyApplication d ctx (dfTenantID filt) (dfApplicationID filt)) (\<lambda>_.
       (case normalizePage (dfPage filt) (dfPageSize filt) of (page, sz) \<Rightarrow>
          ListDefinitions d (filt\<lparr>dfPage := page, dfPageSize := sz\<rparr>)))))"

text \<open>The filter is passed by pointer; the model returns the changed one.\<close>

definition validateDefinitionCandidateFilter :: "deps \<Rightarrow> Context \<Rightarrow> DefinitionFilter \<Rightarrow> DefinitionFilter io" where
  "validateDefinitionCandidateFilter d ctx filt =
     bindE (liftR (actorForTenant ctx (dfTenantID filt))) (\<lambda>_.
     bindE (guardE (dfTenantID filt = [] \<or> dfApplicationID filt = [])
       (invalid ''tenant and application are required'')) (\<lambda>_.
     bindE (verifyApplication d ctx (dfTenantID filt) (dfApplicationID filt)) (\<lambda>_.
       (case normalizePage (dfPage filt) (dfPageSize filt) of (page, sz) \<Rightarrow>
          ret (filt\<lparr>dfSearch := TrimSpace (dfSearch filt), dfPage := page, dfPageSize := sz\<rparr>)))))"

definition Service_ListStartDefinitionCandidates :: "deps \<Rightarrow> Context \<Rightarrow> DefinitionFilter \<Rightarrow> DefinitionCandidate Page io" where
  "Service_ListStartDefinitionCandidates d ctx filt =
     bindE (validateDefinitionCandidateFilter d ctx filt) (ListStartDefinitionCandidates d)"

definition Service_ListInstanceDefinitionCandidates :: "deps \<Rightarrow> Context \<Rightarrow> DefinitionFilter \<Rightarrow> DefinitionCandidate Page io" where
  "Service_ListInstanceDefinitionCandidates d ctx filt =
     bindE (validateDefinitionCandidateFilter d ctx filt) (ListInstanceDefinitionCandidates d)"

section \<open>Instances\<close>

definition newInstance :: "StartInstanceInput \<Rightarrow> Definition \<Rightarrow> string \<Rightarrow> time \<Rightarrow> string \<Rightarrow> Instance" where
  "newInstance input dv actor t i =
     \<lparr>instID = i, instTenantID = siTenantID input, instApplicationID = siApplicationID input,
      instDefinitionID = defID dv, instDefinitionRevision = defPublishedRevision dv,
      instBusinessKey = siBusinessKey input, instIdempotencyKey = siIdempotencyKey input,
      instTitle = TrimSpace (siTitle input), instStarterID = actor, instStatus = InstanceRunning,
      instCurrentNodeID = [], instVariablesJSON = defaultJSONObject (siVariablesJSON input),
      instResultJSON = ''{}'', instErrorCode = [], instErrorMessage = [],
      instTemporalWorkflowID = ''workflow:'' @ siTenantID input @ '':'' @ i, instTemporalRunID = [],
      instStartedAt = t, instFinishedAt = None, instVersion = 1, instCreatedAt = t, instUpdatedAt = t,
      instCreatedBy = actor, instUpdatedBy = actor\<rparr>"

definition Service_StartInstance :: "deps \<Rightarrow> Context \<Rightarrow> StartInstanceInput \<Rightarrow> Instance io" where
  "Service_StartInstance d ctx input =
     bindE (liftR (actorForTenant ctx (siTenantID input))) (\<lambda>actor.
     bindE (guardE (siTenantID input = [] \<or> siApplicationID input = []
         \<or> \<not> identifierPattern (siDefinitionKey input) \<or> TrimSpace (siBusinessKey input) = []
         \<or> TrimSpace (siTitle input) = [] \<or> \<not> idempotencyPattern (siIdempotencyKey input))
       (invalid ''tenant, definition, business key, title, and idempotency key are required'')) (\<lambda>_.
     bindE (verifyApplication d ctx (siTenantID input) (siApplicationID input)) (\<lambda>_.
     bindE (guardE (\<not> isOk (validJSONObject (siVariablesJSON input)))
       (invalid ''variables_json must be a JSON object'')) (\<lambda>_.
     bindE (GetPublishedDefinitionByKey (siTenantID input) (siApplicationID input) (siDefinitionKey input)) (\<lambda>dv.
     bindE now (\<lambda>t.
     bindE newID (\<lambda>i.
       CreateInstance d ctx (newInstance input dv actor t i) dv)))))))"

definition Service_CancelInstance :: "deps \<Rightarrow> Context \<Rightarrow> string \<Rightarrow> string \<Rightarrow> string \<Rightarrow> string \<Rightarrow> int \<Rightarrow> Instance io" where
  "Service_CancelInstance d ctx tenantID applicationID i reason expectedVersion =
     bindE (liftR (actorForTenant ctx tenantID)) (\<lambda>actor.
     bindE (guardE (tenantID = [] \<or> applicationID = [] \<or> i = [] \<or> expectedVersion < 1 \<or> TrimSpace reason = [])
       (invalid ''instance identity, reason, and expected version are required'')) (\<lambda>_.
     bindE (verifyApplication d ctx tenantID applicationID) (\<lambda>_.
       CancelInstance d ctx tenantID applicationID i expectedVersion (TrimSpace reason) actor)))"

definition Service_GetInstance :: "deps \<Rightarrow> Context \<Rightarrow> string \<Rightarrow> string \<Rightarrow> string \<Rightarrow> Instance io" where
  "Service_GetInstance d ctx tenantID applicationID i =
     bindE (liftR (actorForTenant ctx tenantID)) (\<lambda>_.
     bindE (guardE (tenantID = [] \<or> applicationID = [] \<or> i = [])
       (invalid ''tenant and instance IDs are required'')) (\<lambda>_.
     bindE (verifyApplication d ctx tenantID applicationID) (\<lambda>_.
       GetInstance tenantID applicationID i)))"

definition Service_ListInstances :: "deps \<Rightarrow> Context \<Rightarrow> InstanceFilter \<Rightarrow> Instance Page io" where
  "Service_ListInstances d ctx filt =
     bindE (liftR (actorForTenant ctx (ifTenantID filt))) (\<lambda>_.
     bindE (guardE (ifTenantID filt = [] \<or> ifApplicationID filt = [] \<or> (ifStatus filt \<noteq> []
         \<and> \<not> oneOf (ifStatus filt)
               [InstanceRunning, InstanceCompleted, InstanceRejected, InstanceCancelled, InstanceFailed]))
       (invalid ''tenant and valid status are required'')) (\<lambda>_.
     bindE (verifyApplication d ctx (ifTenantID filt) (ifApplicationID filt)) (\<lambda>_.
       (case normalizePage (ifPage filt) (ifPageSize filt) of (page, sz) \<Rightarrow>
          ListInstances d (filt\<lparr>ifPage := page, ifPageSize := sz\<rparr>)))))"

section \<open>Tasks\<close>

text \<open>
  Who may act on a task: its assignee, a holder of its role, or a caller the authorization
  service allows. \<open>AuthorizeExpression\<close> answers with an error or not; only that is used.
\<close>

definition assignmentAllows :: "authz \<Rightarrow> Context \<Rightarrow> string \<Rightarrow> string \<Rightarrow> Task \<Rightarrow> bool io" where
  "assignmentAllows az ctx tenantID actor task =
     (if taskAssigneeType task = AssigneeRole then
        bindE (wrapE ''resolve workflow task roles'' (RoleIDs az ctx tenantID)) (\<lambda>roles.
          ret (taskAssignee task \<in> set roles))
      else if taskAssigneeType task = AssigneeExpression then
        (\<lambda>w. case AuthorizeExpression az ctx tenantID (taskAssignee task) w of
               (r, w') \<Rightarrow> (Inr (isOk r), w'))
      else ret ((taskAssigneeType task = AssigneeUser \<or> taskAssigneeType task = AssigneeStarter)
                \<and> taskAssignee task = actor))"

definition authorizedTask :: "deps \<Rightarrow> authz \<Rightarrow> Context \<Rightarrow> string \<Rightarrow> string \<Rightarrow> string \<Rightarrow> (string \<times> Task) io" where
  "authorizedTask d az ctx tenantID applicationID i =
     bindE (liftR (actorForTenant ctx tenantID)) (\<lambda>actor.
     bindE (guardE (tenantID = [] \<or> applicationID = [] \<or> i = [])
       (invalid ''tenant and task IDs are required'')) (\<lambda>_.
     bindE (verifyApplication d ctx tenantID applicationID) (\<lambda>_.
     bindE (GetTask tenantID applicationID i) (\<lambda>task.
     bindE (guardE (taskClaimedBy task \<noteq> [] \<and> taskClaimedBy task \<noteq> actor) (Sentinel ErrForbidden)) (\<lambda>_.
     bindE (assignmentAllows az ctx tenantID actor task) (\<lambda>allowed.
     bindE (guardE (\<not> allowed) (Sentinel ErrForbidden)) (\<lambda>_.
       ret (actor, task))))))))"

definition Service_GetTask :: "deps \<Rightarrow> authz \<Rightarrow> Context \<Rightarrow> string \<Rightarrow> string \<Rightarrow> string \<Rightarrow> Task io" where
  "Service_GetTask d az ctx tenantID applicationID i =
     bindE (authorizedTask d az ctx tenantID applicationID i) (\<lambda>(actor, task). ret task)"

definition Service_ListTaskHistory :: "deps \<Rightarrow> authz \<Rightarrow> Context \<Rightarrow> TaskHistoryFilter \<Rightarrow> TaskHistory Page io" where
  "Service_ListTaskHistory d az ctx filt =
     bindE (guardE (hfTaskID filt = [] \<and> hfInstanceID filt = [] \<or> hfTaskID filt \<noteq> [] \<and> hfInstanceID filt \<noteq> [])
       (invalid ''exactly one task or instance ID is required'')) (\<lambda>_.
     bindE (if hfTaskID filt \<noteq> []
            then bindE (authorizedTask d az ctx (hfTenantID filt) (hfApplicationID filt) (hfTaskID filt)) (\<lambda>_. ret ())
            else bindE (Service_GetInstance d ctx (hfTenantID filt) (hfApplicationID filt) (hfInstanceID filt)) (\<lambda>_. ret ()))
       (\<lambda>_. (case normalizePage (hfPage filt) (hfPageSize filt) of (page, sz) \<Rightarrow>
          ListTaskHistory d (filt\<lparr>hfPage := page, hfPageSize := sz\<rparr>))))"

definition prepareMyTaskFilter :: "deps \<Rightarrow> authz \<Rightarrow> Context \<Rightarrow> TaskFilter \<Rightarrow> TaskFilter io" where
  "prepareMyTaskFilter d az ctx filt =
     bindE (liftR (actorForTenant ctx (tfTenantID filt))) (\<lambda>actor.
     bindE (guardE (tfTenantID filt = [] \<or> tfApplicationID filt = [] \<or> (tfStatus filt \<noteq> []
         \<and> \<not> oneOf (tfStatus filt)
               [TaskPending, TaskClaimed, TaskApproved, TaskRejected, TaskCancelled, TaskExpired]))
       (invalid ''tenant and valid task status are required'')) (\<lambda>_.
     bindE (verifyApplication d ctx (tfTenantID filt) (tfApplicationID filt)) (\<lambda>_.
     bindE (wrapE ''resolve workflow task assignments'' (RoleIDs az ctx (tfTenantID filt))) (\<lambda>roles.
       (case normalizePage (tfPage filt) (tfPageSize filt) of (page, sz) \<Rightarrow>
          ret (filt\<lparr>tfAssigneeUserID := actor, tfRoleIDs := roles, tfIncludeUnclaimed := True,
                 tfPage := page, tfPageSize := sz\<rparr>))))))"

definition Service_ListMyTasks :: "deps \<Rightarrow> authz \<Rightarrow> Context \<Rightarrow> TaskFilter \<Rightarrow> Task Page io" where
  "Service_ListMyTasks d az ctx filt = bindE (prepareMyTaskFilter d az ctx filt) (ListTasks d)"

definition Service_ListMyTaskInstanceCandidates :: "deps \<Rightarrow> authz \<Rightarrow> Context \<Rightarrow> TaskInstanceCandidateFilter \<Rightarrow> TaskInstanceCandidate Page io" where
  "Service_ListMyTaskInstanceCandidates d az ctx filt =
     bindE (prepareMyTaskFilter d az ctx
       \<lparr>tfTenantID = tcfTenantID filt, tfApplicationID = tcfApplicationID filt, tfInstanceID = [],
        tfStatus = [], tfAssigneeUserID = [], tfSearch = tcfSearch filt, tfRoleIDs = [],
        tfIncludeUnclaimed = False, tfPage = tcfPage filt, tfPageSize = tcfPageSize filt\<rparr>) (\<lambda>prepared.
       ListTaskInstanceCandidates d
         \<lparr>tcfTenantID = tfTenantID prepared, tcfApplicationID = tfApplicationID prepared,
          tcfSearch = TrimSpace (tcfSearch filt), tcfAssigneeUserID = tfAssigneeUserID prepared,
          tcfRoleIDs = tfRoleIDs prepared, tcfIncludeUnclaimed = tfIncludeUnclaimed prepared,
          tcfPage = tfPage prepared, tcfPageSize = tfPageSize prepared\<rparr>)"

definition Service_ClaimTask :: "deps \<Rightarrow> authz \<Rightarrow> Context \<Rightarrow> string \<Rightarrow> string \<Rightarrow> string \<Rightarrow> int \<Rightarrow> Task io" where
  "Service_ClaimTask d az ctx tenantID applicationID i expectedVersion =
     bindE (authorizedTask d az ctx tenantID applicationID i) (\<lambda>(actor, task).
     bindE (guardE (expectedVersion < 1 \<or> taskVersion task \<noteq> expectedVersion) (Sentinel ErrVersionConflict)) (\<lambda>_.
       ClaimTask tenantID applicationID i expectedVersion actor))"

text \<open>The last read returns its error beside the completed task; the result is that error.\<close>

definition Service_CompleteTask :: "deps \<Rightarrow> authz \<Rightarrow> Context \<Rightarrow> string \<Rightarrow> string \<Rightarrow> string \<Rightarrow> string \<Rightarrow> string \<Rightarrow> string \<Rightarrow> int \<Rightarrow> (Task \<times> Instance) io" where
  "Service_CompleteTask d az ctx tenantID applicationID i decision comment outputJSON expectedVersion =
     bindE (authorizedTask d az ctx tenantID applicationID i) (\<lambda>(actor, task).
     bindE (guardE (expectedVersion < 1 \<or> taskVersion task \<noteq> expectedVersion
         \<or> \<not> oneOf decision [DecisionApprove, DecisionReject]
         \<or> \<not> isOk (validJSONObject (defaultJSONObject outputJSON)))
       (invalid ''decision, JSON output, and current version are required'')) (\<lambda>_.
     bindE (CompleteTask d ctx task decision (TrimSpace comment) (defaultJSONObject outputJSON) actor) (\<lambda>completed.
     bindE (GetInstance tenantID applicationID (taskInstanceID task)) (\<lambda>inst.
       ret (completed, inst)))))"

definition Service_DelegateTask :: "deps \<Rightarrow> authz \<Rightarrow> Context \<Rightarrow> string \<Rightarrow> string \<Rightarrow> string \<Rightarrow> string \<Rightarrow> string \<Rightarrow> int \<Rightarrow> Task io" where
  "Service_DelegateTask d az ctx tenantID applicationID i delegateTo reason expectedVersion =
     bindE (authorizedTask d az ctx tenantID applicationID i) (\<lambda>(actor, task).
     bindE (guardE (expectedVersion < 1 \<or> taskVersion task \<noteq> expectedVersion
         \<or> TrimSpace delegateTo = [] \<or> TrimSpace reason = [] \<or> delegateTo = actor)
       (invalid ''delegate, reason, and current version are required'')) (\<lambda>_.
       DelegateTask task (TrimSpace delegateTo) (TrimSpace reason) actor))"

lemmas service_defs =
  Service_CreateDefinition_def Service_UpdateDefinition_def Service_PublishDefinition_def
  Service_DisableDefinition_def Service_GetDefinition_def Service_ListDefinitions_def
  Service_ListStartDefinitionCandidates_def Service_ListInstanceDefinitionCandidates_def
  Service_StartInstance_def Service_CancelInstance_def Service_GetInstance_def Service_ListInstances_def
  Service_GetTask_def Service_ListTaskHistory_def Service_ListMyTasks_def
  Service_ListMyTaskInstanceCandidates_def Service_ClaimTask_def Service_CompleteTask_def
  Service_DelegateTask_def

end
