(* ===== verification/Service_Order.thy ===== *)
theory Service_Order
  imports Service
begin

text \<open>
  The service on top of the statement laws: every relation the statements respect is kept by
  every service operation, and what an authorized call knows of the task it was given.
\<close>

section \<open>Calls that leave the database alone\<close>

definition noDb :: "'a io \<Rightarrow> bool" where
  "noDb m \<longleftrightarrow> (\<forall>w. wDb (snd (m w)) = wDb w)"

lemma noDbD: "noDb m \<Longrightarrow> m w = (r, w') \<Longrightarrow> wDb w' = wDb w"
  unfolding noDb_def by (metis snd_conv)

lemma noDb_keeps: "noDb m \<longleftrightarrow> keeps (\<lambda>a b. b = a) m"
  by (simp add: noDb_def keeps_def)

interpretation frozen: db_order "\<lambda>a b. b = a"
  by unfold_locales simp_all

lemma noDb_roleLoop: "noDb (roleLoop az ctx tn sub page roles)"
  unfolding noDb_keeps
proof (induction az ctx tn sub page roles rule: roleLoop.induct)
  case (1 az ctx tn sub page roles)
  then show ?case
    by (subst roleLoop.simps) (auto simp: Let_def intro!: frozen.keeps_intros)
qed

lemma noDb_RoleIDs: "noDb (RoleIDs az ctx tn)"
  unfolding RoleIDs_def noDb_keeps
  by (auto intro!: frozen.keeps_intros noDb_roleLoop [unfolded noDb_keeps])

lemma noDb_AuthorizeExpression: "noDb (AuthorizeExpression az ctx tn action)"
  unfolding AuthorizeExpression_def noDb_keeps by (auto intro!: frozen.keeps_intros)

lemma noDb_verifyApplication: "noDb (verifyApplication d ctx tn ap)"
  unfolding verifyApplication_def noDb_keeps by (intro frozen.keeps_intros)

lemma noDb_assignmentAllows: "noDb (assignmentAllows az ctx tn actor task)"
proof -
  have "keeps (\<lambda>a b. b = a) (\<lambda>w. case AuthorizeExpression az ctx tn x w of (r, w') \<Rightarrow> (Inr (isOk r), w'))" for x
    using noDb_AuthorizeExpression [of az ctx tn x]
    by (auto simp: keeps_def noDb_def split: prod.splits) (metis snd_conv)
  then show ?thesis
    unfolding assignmentAllows_def noDb_keeps
    by (auto intro!: frozen.keeps_intros noDb_RoleIDs [unfolded noDb_keeps])
qed

section \<open>What authorization establishes\<close>

text \<open>
  The specification of who may act on a task: the assignee itself, a caller whose roles, as the
  authorization service listed them, hold the task's role, or one the service allowed.
\<close>

definition entitled :: "authz \<Rightarrow> Context \<Rightarrow> string \<Rightarrow> string \<Rightarrow> Task \<Rightarrow> bool" where
  "entitled az ctx tn actor task \<longleftrightarrow>
     (taskAssigneeType task \<in> {AssigneeUser, AssigneeStarter} \<and> taskAssignee task = actor)
     \<or> (taskAssigneeType task = AssigneeRole
          \<and> (\<exists>w w' roles. RoleIDs az ctx tn w = (Inr roles, w') \<and> taskAssignee task \<in> set roles))
     \<or> (taskAssigneeType task = AssigneeExpression
          \<and> (\<exists>w w'. AuthorizeExpression az ctx tn (taskAssignee task) w = (Inr (), w')))"

lemma assignmentAllows_entitled:
  "assignmentAllows az ctx tn actor task w = (Inr True, w') \<Longrightarrow> entitled az ctx tn actor task"
  unfolding assignmentAllows_def entitled_def
  by (auto simp: io_simps bindE_Inr wrapE_Inr isOk_iff split: if_splits prod.splits)

lemma GetTask_Inr:
  "GetTask tn ap i w = (Inr task, w')
   \<Longrightarrow> find (taskIs tn ap i) (dbTasks (wDb w)) = Some task \<and> wDb w' = wDb w"
  by (auto simp: GetTask_def mapNotFound_def mapErr_Inr query_Inr selectOne_def split: option.splits)

lemma authorizedTask_Inr:
  assumes "authorizedTask d az ctx tn ap i w = (Inr (actor, task), w')"
  shows "find (taskIs tn ap i) (dbTasks (wDb w)) = Some task" and "wDb w' = wDb w"
    and "actorForTenant ctx tn = Inr actor" and "taskClaimedBy task = [] \<or> taskClaimedBy task = actor"
    and "entitled az ctx tn actor task"
proof -
  from assms obtain w0 w1 w2 allowed where
    ok: "actorForTenant ctx tn = Inr actor" "verifyApplication d ctx tn ap w0 = (Inr (), w1)" "w0 = w"
      "GetTask tn ap i w1 = (Inr task, w2)" "taskClaimedBy task = [] \<or> taskClaimedBy task = actor"
      "assignmentAllows az ctx tn actor task w2 = (Inr True, w')"
    by (auto simp: authorizedTask_def bindE_Inr io_simps split: if_splits)
  have "wDb w1 = wDb w" using noDbD [OF noDb_verifyApplication ok(2)] ok(3) by simp
  moreover have "wDb w' = wDb w2" by (rule noDbD [OF noDb_assignmentAllows ok(6)])
  ultimately show "find (taskIs tn ap i) (dbTasks (wDb w)) = Some task" "wDb w' = wDb w"
    using GetTask_Inr [OF ok(4)] by simp_all
  show "actorForTenant ctx tn = Inr actor" "taskClaimedBy task = [] \<or> taskClaimedBy task = actor"
    "entitled az ctx tn actor task"
    using ok assignmentAllows_entitled [OF ok(6)] by simp_all
qed

section \<open>The operations keep what the statements keep\<close>

context store_base
begin

lemma keeps_noDb: "noDb m \<Longrightarrow> keeps R m"
  unfolding noDb_def keeps_def by (simp add: refl_R)

lemma keeps_GetTask: "keeps R (GetTask tn ap i)"
  by (rule keeps_reads)

lemma keeps_bind_val:
  assumes "keeps R m" and "\<And>x w w1. m w = (Inr x, w1) \<Longrightarrow> keeps R (k x)"
  shows "keeps R (bindE m k)"
proof (rule keepsI, erule bindE_cases)
  fix w r w' e assume "m w = (Inl e, w')"
  then show "R (wDb w) (wDb w')" by (rule keepsD [OF assms(1)])
next
  fix w r w' x w1 assume "m w = (Inr x, w1)" and "k x w1 = (r, w')"
  then show "R (wDb w) (wDb w')"
    using keepsD [OF assms(1)] keepsD [OF assms(2)] trans_R by blast
qed

lemma keeps_authorizedTask: "keeps R (authorizedTask d az ctx tn ap i)"
  unfolding authorizedTask_def
  by (intro keeps_intros keeps_GetTask keeps_noDb noDb_verifyApplication noDb_assignmentAllows)

lemma keeps_bind_authorized:
  assumes "\<And>actor task. taskTenantID task = tn \<Longrightarrow> keeps R (k (actor, task))"
  shows "keeps R (bindE (authorizedTask d az ctx tn ap i) k)"
proof (rule keeps_bind_val [OF keeps_authorizedTask])
  fix x w w1 assume "authorizedTask d az ctx tn ap i w = (Inr x, w1)"
  moreover obtain actor task where "x = (actor, task)" by (cases x)
  ultimately have "taskTenantID task = tn"
    using authorizedTask_Inr(1) [of d az ctx tn ap i w actor task w1] find_Some_in
    by (fastforce simp: taskIs_def)
  then show "keeps R (k x)" using assms \<open>x = (actor, task)\<close> by simp
qed

lemma keeps_service_reads:
  "keeps R (Service_GetDefinition d ctx tn ap i rv)" "keeps R (Service_ListDefinitions d ctx df)"
  "keeps R (Service_ListStartDefinitionCandidates d ctx df)"
  "keeps R (Service_ListInstanceDefinitionCandidates d ctx df)"
  "keeps R (Service_GetInstance d ctx tn ap i)" "keeps R (Service_ListInstances d ctx fi)"
  "keeps R (Service_GetTask d az ctx tn ap i)" "keeps R (Service_ListTaskHistory d az ctx hf)"
  "keeps R (Service_ListMyTasks d az ctx tf)" "keeps R (Service_ListMyTaskInstanceCandidates d az ctx tcf)"
  by (auto simp: service_defs validateDefinitionCandidateFilter_def prepareMyTaskFilter_def
      intro!: keeps_intros keeps_reads keeps_GetDefinition keeps_authorizedTask
        keeps_noDb [OF noDb_verifyApplication] keeps_noDb [OF noDb_RoleIDs]
      split: prod.splits)

lemma keeps_Service_CreateDefinition: "ok (cdTenantID input) \<Longrightarrow> keeps R (Service_CreateDefinition d ctx input)"
  unfolding Service_CreateDefinition_def
  by (auto intro!: keeps_intros keeps_noDb [OF noDb_verifyApplication] keeps_CreateDefinition split: prod.splits)

lemma keeps_Service_UpdateDefinition: "ok (udTenantID input) \<Longrightarrow> keeps R (Service_UpdateDefinition d ctx input)"
  unfolding Service_UpdateDefinition_def definitionPatch_def
  by (auto intro!: keeps_intros keeps_GetDefinition keeps_noDb [OF noDb_verifyApplication] keeps_UpdateDefinition
      split: prod.splits)

lemma keeps_Service_DisableDefinition: "ok tn \<Longrightarrow> keeps R (Service_DisableDefinition d ctx tn ap i ver)"
  unfolding Service_DisableDefinition_def
  by (intro keeps_intros keeps_noDb [OF noDb_verifyApplication] keeps_DisableDefinition)

lemma keeps_Service_StartInstance: "ok (siTenantID input) \<Longrightarrow> keeps R (Service_StartInstance d ctx input)"
  unfolding Service_StartInstance_def newInstance_def
  by (auto intro!: keeps_intros keeps_reads keeps_noDb [OF noDb_verifyApplication] keeps_CreateInstance)

lemma keeps_Service_CancelInstance: "ok tn \<Longrightarrow> keeps R (Service_CancelInstance d ctx tn ap i reason ver)"
  unfolding Service_CancelInstance_def
  by (intro keeps_intros keeps_noDb [OF noDb_verifyApplication] keeps_CancelInstance)

lemma keeps_Service_ClaimTask: "ok tn \<Longrightarrow> keeps R (Service_ClaimTask d az ctx tn ap i ver)"
  unfolding Service_ClaimTask_def
  by (rule keeps_bind_authorized) (auto intro!: keeps_intros keeps_ClaimTask)

lemma keeps_Service_CompleteTask: "ok tn \<Longrightarrow> keeps R (Service_CompleteTask d az ctx tn ap i dec comment out ver)"
  unfolding Service_CompleteTask_def
  by (rule keeps_bind_authorized) (auto intro!: keeps_intros keeps_reads keeps_CompleteTask)

lemma keeps_Service_DelegateTask: "ok tn \<Longrightarrow> keeps R (Service_DelegateTask d az ctx tn ap i dt reason ver)"
  unfolding Service_DelegateTask_def
  by (rule keeps_bind_authorized) (auto intro!: keeps_intros keeps_DelegateTask)

end

context store_order
begin

lemma keeps_Service_PublishDefinition: "ok tn \<Longrightarrow> keeps R (Service_PublishDefinition d ctx tn ap i ver)"
  unfolding Service_PublishDefinition_def
  by (auto intro!: keeps_intros keeps_GetDefinition keeps_noDb [OF noDb_verifyApplication] keeps_PublishDefinition)

end

lemma pub_Service_PublishDefinition:
  "keeps (keptBy publishOk) (Service_PublishDefinition d ctx tn ap i ver)"
  unfolding Service_PublishDefinition_def
  by (auto intro!: pub.keeps_intros pub.keeps_GetDefinition pub.keeps_noDb [OF noDb_verifyApplication] publish_keeps)

end
