(* ===== verification/Activities.thy ===== *)
theory Activities
  imports Runtime_Props Service_Order
begin

text \<open>
  The activities, \<open>internal/workflowruntime/activities.go\<close>: what the engine runs for the commands
  of a workflow. They change the store through the repository and call other services through a
  dynamic invoker. The invoker, the expression language, the template engine and the library's
  system context are parameters.
\<close>

section \<open>Code that is not part of the repository\<close>

text \<open>The value of a condition: a boolean, or anything else.\<close>

datatype CelValue = CelBool bool | CelOther

text \<open>
  A compiled expression, a program and a parsed template are handles that only their own
  functions read.
\<close>

record rtdeps =
  rtSystemContext :: "Context \<Rightarrow> string \<Rightarrow> Context"
  rtInvoke :: "nat \<Rightarrow> Context \<Rightarrow> string \<Rightarrow> string \<Rightarrow> string \<Rightarrow> string result"
  rtCelEnv :: "unit result"
  rtCelCompile :: "string \<Rightarrow> nat result"
  rtCelProgram :: "nat \<Rightarrow> nat result"
  rtCelEval :: "nat \<Rightarrow> (string \<times> json) list \<Rightarrow> (string \<times> json) list \<Rightarrow> CelValue result"
  rtParseTemplate :: "string \<Rightarrow> nat result"
  rtExecuteTemplate :: "nat \<Rightarrow> (string \<times> json) list \<Rightarrow> string result"

definition runtimeActor :: string where
  "runtimeActor = ''workflow-service:temporal-worker''"

section \<open>The activities\<close>

definition wrapR :: "string \<Rightarrow> 'a result \<Rightarrow> 'a result" where
  "wrapR msg r = (case r of Inl e \<Rightarrow> Inl (Wrapf (msg @ '': '') e []) | Inr x \<Rightarrow> Inr x)"

definition renderRequest :: "rtdeps \<Rightarrow> string \<Rightarrow> string \<Rightarrow> string result" where
  "renderRequest rt templateJSON variablesJSON =
     bindR (wrapR ''decode workflow request variables'' (unmarshalMap (defaultJSON variablesJSON))) (\<lambda>variables.
     bindR (wrapR ''parse workflow request template'' (rtParseTemplate rt (defaultJSON templateJSON))) (\<lambda>parsed.
     bindR (wrapR ''render workflow request template'' (rtExecuteTemplate rt parsed variables)) (\<lambda>output.
     bindR (wrapR ''workflow request template must render a JSON object'' (unmarshalMap (TrimSpace output))) (\<lambda>_.
       Inr (TrimSpace output)))))"

text \<open>The task of an approval node.\<close>

definition approvalTask :: "ApprovalTaskInput \<Rightarrow> time \<Rightarrow> string \<Rightarrow> Task" where
  "approvalTask input t i =
     \<lparr>taskID = i, taskTenantID = atTenantID input, taskApplicationID = atApplicationID input,
      taskInstanceID = atInstanceID input, taskNodeID = nodeID (atNode input), taskName = nodeName (atNode input),
      taskAssigneeType = nodeAssigneeType (atNode input),
      taskAssignee = (if nodeAssigneeType (atNode input) = AssigneeStarter then atStarterID input
                      else nodeAssignee (atNode input)),
      taskClaimedBy = [], taskStatus = TaskPending, taskDecision = [], taskComment = [],
      taskInputJSON = defaultJSON (atVariablesJSON input), taskOutputJSON = ''{}'',
      taskDueAt = (if nodeTimeoutSeconds (atNode input) > 0
                   then Some (t + int (unat (nodeTimeoutSeconds (atNode input))) * secondNs) else None),
      taskCompletedAt = None, taskVersion = 1, taskCreatedAt = t, taskUpdatedAt = t,
      taskCreatedBy = runtimeActor, taskUpdatedBy = runtimeActor\<rparr>"

definition Activities_CreateApprovalTask :: "deps \<Rightarrow> rtdeps \<Rightarrow> Context \<Rightarrow> ApprovalTaskInput \<Rightarrow> unit io" where
  "Activities_CreateApprovalTask d rt ctx input =
     bindE now (\<lambda>t.
     bindE newID (\<lambda>i.
     bindE (wrapE ''create approval task''
       (CreateTask d (rtSystemContext rt ctx runtimeActor) (approvalTask input t i))) (\<lambda>_.
       ret ())))"

definition Activities_InvokeServiceTask :: "rtdeps \<Rightarrow> Context \<Rightarrow> ServiceTaskInput \<Rightarrow> ServiceTaskResult io" where
  "Activities_InvokeServiceTask rt ctx input =
     bindE (wrapE ''advance service workflow node''
       (UpdateInstanceNode (stTenantID input) (stApplicationID input) (stInstanceID input)
          (nodeID (stNode input)) runtimeActor)) (\<lambda>_.
     bindE (liftR (renderRequest rt (nodeRequestTemplateJSON (stNode input)) (stVariablesJSON input))) (\<lambda>requestJSON.
     bindE (wrapE (''invoke workflow upstream '' @ goQuote (nodeTargetService (stNode input)))
       (remote (\<lambda>n. rtInvoke rt n (rtSystemContext rt ctx runtimeActor) (nodeTargetService (stNode input))
          (nodeFullMethod (stNode input)) requestJSON))) (\<lambda>response.
       ret \<lparr>strOutputJSON = defaultJSON response\<rparr>)))"

definition Activities_CompensateServiceTask :: "rtdeps \<Rightarrow> Context \<Rightarrow> ServiceTaskInput \<Rightarrow> unit io" where
  "Activities_CompensateServiceTask rt ctx input =
     (if nodeCompensationMethod (stNode input) = [] then ret ()
      else
        bindE (liftR (renderRequest rt (nodeRequestTemplateJSON (stNode input)) (stVariablesJSON input))) (\<lambda>requestJSON.
        bindE (wrapE (''compensate workflow upstream '' @ goQuote (nodeTargetService (stNode input)))
          (remote (\<lambda>n. rtInvoke rt n (rtSystemContext rt ctx runtimeActor) (nodeTargetService (stNode input))
             (nodeCompensationMethod (stNode input)) requestJSON))) (\<lambda>_.
          ret ())))"

definition Activities_EvaluateCondition :: "rtdeps \<Rightarrow> ConditionInput \<Rightarrow> bool result" where
  "Activities_EvaluateCondition rt input =
     bindR (wrapR ''decode workflow condition variables'' (unmarshalMap (defaultJSON (ciVariablesJSON input)))) (\<lambda>variables.
     bindR (wrapR ''decode workflow condition output'' (unmarshalMap (defaultJSON (ciLastOutputJSON input)))) (\<lambda>output.
     bindR (wrapR ''create workflow CEL environment'' (rtCelEnv rt)) (\<lambda>_.
     bindR (wrapR ''compile workflow condition'' (rtCelCompile rt (ciExpression input))) (\<lambda>ast.
     bindR (wrapR ''create workflow condition program'' (rtCelProgram rt ast)) (\<lambda>program.
     bindR (wrapR ''evaluate workflow condition'' (rtCelEval rt program variables output)) (\<lambda>v.
       (case v of
          CelBool matched \<Rightarrow> Inr matched
        | CelOther \<Rightarrow> Inl (Opaque ''workflow condition must evaluate to bool''))))))))"

text \<open>A cancellation that won the race is kept: a failure to record a failure is dropped then.\<close>

definition Activities_FinishInstance :: "deps \<Rightarrow> rtdeps \<Rightarrow> Context \<Rightarrow> FinishInput \<Rightarrow> unit io" where
  "Activities_FinishInstance d rt ctx input w =
     (case FinishInstance d (rtSystemContext rt ctx runtimeActor) (fiTenantID input) (fiApplicationID input)
             (fiInstanceID input) (fiStatus input) (defaultJSON (fiResultJSON input)) (fiErrorMessage input)
             runtimeActor w of
        (Inr _, w') \<Rightarrow> (Inr (), w')
      | (Inl e, w') \<Rightarrow>
          if errorsIs e ErrConflict \<and> fiStatus input = InstanceFailed then (Inr (), w') else (Inl e, w'))"

section \<open>The activities keep what the statements keep\<close>

context store_base
begin

lemma keeps_CreateApprovalTask: "ok (atTenantID input) \<Longrightarrow> keeps R (Activities_CreateApprovalTask d rt ctx input)"
  unfolding Activities_CreateApprovalTask_def
  by (intro keeps_intros keeps_CreateTask) (simp_all add: approvalTask_def)

lemma keeps_InvokeServiceTask: "ok (stTenantID input) \<Longrightarrow> keeps R (Activities_InvokeServiceTask rt ctx input)"
  unfolding Activities_InvokeServiceTask_def by (intro keeps_intros keeps_UpdateInstanceNode)

lemma keeps_CompensateServiceTask: "keeps R (Activities_CompensateServiceTask rt ctx input)"
  unfolding Activities_CompensateServiceTask_def by (auto intro!: keeps_intros)

lemma keeps_Activities_FinishInstance:
  assumes "ok (fiTenantID input)" and "fiStatus input \<in> set terminalStatuses"
  shows "keeps R (Activities_FinishInstance d rt ctx input)"
proof (rule keepsI)
  fix w r w' assume "Activities_FinishInstance d rt ctx input w = (r, w')"
  then obtain r0 where "FinishInstance d (rtSystemContext rt ctx runtimeActor) (fiTenantID input) (fiApplicationID input)
      (fiInstanceID input) (fiStatus input) (defaultJSON (fiResultJSON input)) (fiErrorMessage input)
      runtimeActor w = (r0, w')"
    unfolding Activities_FinishInstance_def by (auto split: prod.splits sum.splits if_splits)
  then show "R (wDb w) (wDb w')" by (rule keepsD [OF keeps_FinishInstance [OF assms]])
qed

end

section \<open>The finish commands of a run\<close>

text \<open>A workflow only ever asks for a terminal status.\<close>

definition finishTerminal :: "Command \<Rightarrow> bool" where
  "finishTerminal c \<longleftrightarrow> (case c of FinishInstanceCmd opt x \<Rightarrow> fiStatus x \<in> set terminalStatuses | _ \<Rightarrow> True)"

definition terminalLog :: "'a wf \<Rightarrow> bool" where
  "terminalLog m \<longleftrightarrow> (\<forall>s r s'. m s = (r, s') \<longrightarrow> list_all finishTerminal (runLog s) \<longrightarrow> list_all finishTerminal (runLog s'))"

lemma terminalLog_basic:
  "terminalLog (ret x)" "terminalLog (fail err)" "terminalLog (setLastOutput out)" "terminalLog lastOutput"
  "terminalLog (pushService y)"
  by (auto simp: terminalLog_def io_simps setLastOutput_def lastOutput_def pushService_def)

lemma terminalLog_bind: "terminalLog m \<Longrightarrow> (\<And>x. terminalLog (k x)) \<Longrightarrow> terminalLog (bindE m k)"
  unfolding terminalLog_def by (blast elim: bindE_cases)

lemma terminalLog_wrap: "terminalLog m \<Longrightarrow> terminalLog (wrapE msg m)"
  unfolding terminalLog_def by (metis prod.collapse snd_conv wrapE_state)

lemma terminalLog_issue: "finishTerminal c \<Longrightarrow> terminalLog (issue f c)"
  by (auto simp: terminalLog_def issue_def)

lemma terminalLog_finish: "st \<in> set terminalStatuses \<Longrightarrow> terminalLog (finish e opt input st out msg)"
  unfolding finish_def by (auto intro!: terminalLog_wrap terminalLog_issue simp: finishTerminal_def finishInput_def)

lemma terminalLog_firstMatch: "terminalLog (firstMatch e opt v out es dflt)"
  by (induction e opt v out es dflt rule: firstMatch.induct)
    (auto intro!: terminalLog_basic terminalLog_bind terminalLog_wrap terminalLog_issue simp: finishTerminal_def)

lemma terminal_ends: "InstanceCompleted \<in> set terminalStatuses" "InstanceRejected \<in> set terminalStatuses"
  "InstanceFailed \<in> set terminalStatuses"
  by (simp_all add: terminalStatuses_def)

lemma terminalLog_nodeStep: "terminalLog (nodeStep e input current)"
  unfolding nodeStep_def approvalStep_def serviceStep_def Let_def
  by (auto intro!: terminalLog_basic terminalLog_bind terminalLog_wrap terminalLog_issue terminalLog_finish terminal_ends
      simp: finishTerminal_def split: option.splits)

lemma terminalLog_stepLoop: "terminalLog (stepLoop k e input nodes current)"
  by (induction k arbitrary: current)
    (auto intro!: terminalLog_basic terminalLog_bind terminalLog_nodeStep terminalLog_firstMatch
      simp: selectNext_def split: option.splits)

lemma Execute_terminal: "list_all finishTerminal (snd (Execute e input))"
proof -
  have "list_all finishTerminal (runLog s)" if "stepLoop k e input nodes current newRun = (r, s)" for k nodes current r s
    using terminalLog_stepLoop [of k e input nodes current] that by (simp add: terminalLog_def newRun_def)
  then show ?thesis
    by (auto simp: Execute_def onError_log compensations_def finishTerminal_def finishInput_def terminal_ends list_all_iff
        simp del: stepLoop.simps split: prod.splits sum.splits)
qed

end
