(* ===== verification/Commands.thy ===== *)
theory Commands
  imports Activities
begin

text \<open>
  The command handler, \<open>internal/workflowruntime/commands.go\<close>: it reads the events of the outbox
  and starts, cancels and signals workflows on the engine's client, which is a parameter. A
  handler is a computation on the calls made to the client.
\<close>

section \<open>The client\<close>

datatype ClientCall =
    ExecuteWorkflowCall string string Input
  | CancelWorkflowCall string
  | SignalWorkflowCall string string TaskSignal

text \<open>How a call ends; \<open>errors.As\<close> tells the two kinds of service error apart from the rest.\<close>

datatype ClientAnswer =
    Done
  | AlreadyStarted
  | ServiceNotFound
  | Failed goerr

record client =
  clAnswer :: "ClientCall list \<Rightarrow> ClientCall \<Rightarrow> ClientAnswer"
  clTaskQueue :: string

type_synonym 'a cmd = "(ClientCall list, 'a) stm"

definition call :: "client \<Rightarrow> ClientCall \<Rightarrow> ClientAnswer cmd" where
  "call cl c calls = (Inr (clAnswer cl calls c), calls @ [c])"

text \<open>\<open>AlreadyStarted\<close> and \<open>ServiceNotFound\<close> are errors too, where nothing tells them apart.\<close>

definition answerError :: "ClientAnswer \<Rightarrow> goerr option" where
  "answerError a = (case a of
     Done \<Rightarrow> None
   | AlreadyStarted \<Rightarrow> Some (Opaque ''workflow execution already started'')
   | ServiceNotFound \<Rightarrow> Some (Opaque ''workflow not found'')
   | Failed e \<Rightarrow> Some e)"

definition orWrapped :: "string \<Rightarrow> ClientAnswer \<Rightarrow> unit cmd" where
  "orWrapped msg a = (case answerError a of None \<Rightarrow> ret () | Some e \<Rightarrow> fail (Wrapf (msg @ '': '') e []))"

section \<open>The handler\<close>

definition workflowID :: "WorkflowInstance \<Rightarrow> string" where
  "workflowID inst = ''workflow:'' @ piTenantId inst @ '':'' @ piId inst"

text \<open>\<open>DecodePayload\<close> into a message of a given type; it refuses a payload of another type.\<close>

definition otherPayload :: goerr where
  "otherPayload = Opaque ''payload of another message type''"

definition decodeStart :: "deps \<Rightarrow> EventEnvelope \<Rightarrow> (WorkflowInstance option \<times> WorkflowDefinition option) result" where
  "decodeStart d envelope = bindR (depDecodePayload d envelope)
     (\<lambda>p. case p of InstanceStartRequestedEvent i dv \<Rightarrow> Inr (i, dv) | _ \<Rightarrow> Inl otherPayload)"

definition decodeCancel :: "deps \<Rightarrow> EventEnvelope \<Rightarrow> (WorkflowInstance option \<times> string) result" where
  "decodeCancel d envelope = bindR (depDecodePayload d envelope)
     (\<lambda>p. case p of InstanceCancellationRequestedEvent i reason \<Rightarrow> Inr (i, reason) | _ \<Rightarrow> Inl otherPayload)"

definition decodeCompleted :: "deps \<Rightarrow> EventEnvelope \<Rightarrow> WorkflowTask option result" where
  "decodeCompleted d envelope = bindR (depDecodePayload d envelope)
     (\<lambda>p. case p of TaskCompletedEvent t \<Rightarrow> Inr t | _ \<Rightarrow> Inl otherPayload)"

definition startInput :: "WorkflowInstance \<Rightarrow> WorkflowDefinition \<Rightarrow> Input" where
  "startInput i dv =
     \<lparr>inInstanceID = piId i, inTenantID = piTenantId i, inApplicationID = piApplicationId i,
      inStarterID = piStarterId i, inVariablesJSON = piVariablesJson i,
      inNodes = nodesFromProto (pdNodes dv), inEdges = edgesFromProto (pdEdges dv)\<rparr>"

definition handleStart :: "deps \<Rightarrow> client \<Rightarrow> EventEnvelope \<Rightarrow> unit cmd" where
  "handleStart d cl envelope =
     bindE (wrapE ''decode workflow start request'' (liftR (decodeStart d envelope))) (\<lambda>(inst, dv).
       case (inst, dv) of
         (Some i, Some v) \<Rightarrow>
           if piId i = [] \<or> piApplicationId i = [] then fail (Opaque ''workflow start event is incomplete'')
           else bindE (call cl (ExecuteWorkflowCall (workflowID i) (clTaskQueue cl) (startInput i v))) (\<lambda>a.
             if a = AlreadyStarted then ret () else orWrapped ''start Temporal workflow'' a)
       | _ \<Rightarrow> fail (Opaque ''workflow start event is incomplete''))"

definition handleCancel :: "deps \<Rightarrow> client \<Rightarrow> EventEnvelope \<Rightarrow> unit cmd" where
  "handleCancel d cl envelope =
     bindE (wrapE ''decode workflow cancellation request'' (liftR (decodeCancel d envelope))) (\<lambda>(inst, reason).
       case inst of
         None \<Rightarrow> fail (Opaque ''workflow cancellation event is incomplete'')
       | Some i \<Rightarrow>
           if piId i = [] then fail (Opaque ''workflow cancellation event is incomplete'')
           else bindE (call cl (CancelWorkflowCall (workflowID i))) (\<lambda>a.
             if a = ServiceNotFound then ret () else orWrapped ''cancel Temporal workflow'' a))"

definition signalTask :: "deps \<Rightarrow> client \<Rightarrow> EventEnvelope \<Rightarrow> unit cmd" where
  "signalTask d cl envelope =
     bindE (wrapE ''decode workflow task completion'' (liftR (decodeCompleted d envelope))) (\<lambda>task.
       case task of
         None \<Rightarrow> fail (Opaque ''workflow task completion event is incomplete'')
       | Some t \<Rightarrow>
           if ptInstanceId t = [] then fail (Opaque ''workflow task completion event is incomplete'')
           else bindE (call cl (SignalWorkflowCall (''workflow:'' @ ptTenantId t @ '':'' @ ptInstanceId t) TaskCompletedSignal
               \<lparr>sigTaskID = ptId t, sigNodeID = ptNodeId t, sigDecision = decisionFromProto (ptDecision t),
                sigOutputJSON = ptOutputJson t\<rparr>)) (\<lambda>a.
             orWrapped ''signal Temporal workflow task'' a))"

definition Handle :: "deps \<Rightarrow> client \<Rightarrow> EventEnvelope option \<Rightarrow> unit cmd" where
  "Handle d cl envelope =
     (case envelope of
        None \<Rightarrow> fail (Opaque ''workflow command envelope is required'')
      | Some v \<Rightarrow>
          if envEventType v = ''platform.workflow.instance.start-requested.v1'' then handleStart d cl v
          else if envEventType v = ''platform.workflow.instance.cancellation-requested.v1'' then handleCancel d cl v
          else if envEventType v = ''platform.workflow.task.completed.v1'' then signalTask d cl v
          else ret ())"

section \<open>From the outbox to the engine\<close>

text \<open>What \<open>DecodePayload\<close> documents: it returns the payload the envelope was made with.\<close>

definition decodeLaw :: "deps \<Rightarrow> bool" where
  "decodeLaw d \<longleftrightarrow> (\<forall>env. depDecodePayload d env = Inr (envPayload env))"

text \<open>A node that passed validation survives the protobuf enums, except for a foreign assignee type on a node that has none.\<close>

lemma nodeOk_protoSafe:
  "nodeOk n \<Longrightarrow> nodeAssigneeType n \<in> {[], AssigneeUser, AssigneeRole, AssigneeStarter, AssigneeExpression} \<Longrightarrow> protoSafe n"
  by (auto simp: nodeOk_def nodeTypeOk_def protoSafe_def)

lemma start_event_input:
  assumes "list_all protoSafe (defNodes dv)"
  shows "startInput (instanceProto i) (definitionProto dv) =
    \<lparr>inInstanceID = instID i, inTenantID = instTenantID i, inApplicationID = instApplicationID i,
     inStarterID = instStarterID i, inVariablesJSON = instVariablesJSON i,
     inNodes = defNodes dv, inEdges = defEdges dv\<rparr>"
  using nodes_roundtrip [OF assms] edges_roundtrip [of "defEdges dv"]
  by (simp add: startInput_def instanceProto_def definitionProto_def)

text \<open>
  The start event of an instance, built by the event factory and read back by the command
  handler, makes exactly one call to the engine: to run the workflow under the instance's
  identifier with the instance's data and the definition's nodes and edges unchanged. A second
  delivery, which the engine answers with \<open>already started\<close>, is accepted without an error.
\<close>

theorem start_event_reaches_engine:
  assumes "InstanceStartRequestedEv d ctx i dv w = (Inr ev, w')" and "envelopeLaw d" and "decodeLaw d"
    and "list_all protoSafe (defNodes dv)" and "instID i \<noteq> []" and "instApplicationID i \<noteq> []"
    and "clAnswer cl calls (ExecuteWorkflowCall (''workflow:'' @ instTenantID i @ '':'' @ instID i) (clTaskQueue cl)
          \<lparr>inInstanceID = instID i, inTenantID = instTenantID i, inApplicationID = instApplicationID i,
           inStarterID = instStarterID i, inVariablesJSON = instVariablesJSON i,
           inNodes = defNodes dv, inEdges = defEdges dv\<rparr>) \<in> {Done, AlreadyStarted}"
  shows "Handle d cl (Some (evEnvelope ev)) calls =
    (Inr (), calls @ [ExecuteWorkflowCall (''workflow:'' @ instTenantID i @ '':'' @ instID i) (clTaskQueue cl)
          \<lparr>inInstanceID = instID i, inTenantID = instTenantID i, inApplicationID = instApplicationID i,
           inStarterID = instStarterID i, inVariablesJSON = instVariablesJSON i,
           inNodes = defNodes dv, inEdges = defEdges dv\<rparr>])"
proof -
  note ev = build_event [OF assms(1) [unfolded InstanceStartRequestedEv_def] assms(2)]
  have decode: "decodeStart d (evEnvelope ev) = Inr (Some (instanceProto i), Some (definitionProto dv))"
    using assms(3) ev(3) by (simp add: decodeStart_def decodeLaw_def)
  have wid: "workflowID (instanceProto i) = ''workflow:'' @ instTenantID i @ '':'' @ instID i"
    by (simp add: workflowID_def instanceProto_def)
  have "Handle d cl (Some (evEnvelope ev)) calls = handleStart d cl (evEnvelope ev) calls"
    using ev(2) by (simp add: Handle_def InstanceStartRequestedSubject_def)
  also have "\<dots> = (let c = ExecuteWorkflowCall (workflowID (instanceProto i)) (clTaskQueue cl)
        (startInput (instanceProto i) (definitionProto dv)) in
      (if clAnswer cl calls c = AlreadyStarted then ret () else orWrapped ''start Temporal workflow'' (clAnswer cl calls c)) (calls @ [c]))"
    using assms(5,6)
    by (simp add: handleStart_def bindE_def wrapE_def mapErr_def io_simps decode call_def Let_def instanceProto_def)
  finally show ?thesis
    using assms(7) unfolding wid start_event_input [OF assms(4)] Let_def
    by (auto simp: orWrapped_def answerError_def io_simps)
qed

definition completionSignal :: "Task \<Rightarrow> TaskSignal" where
  "completionSignal t = \<lparr>sigTaskID = taskID t, sigNodeID = taskNodeID t, sigDecision = taskDecision t,
     sigOutputJSON = taskOutputJSON t\<rparr>"

lemma awaitSignal_skip: "list_all (\<lambda>p. case p of None \<Rightarrow> True | Some x \<Rightarrow> sigNodeID x \<noteq> node) polls \<Longrightarrow> awaitSignal node (polls @ later) = awaitSignal node later"
proof (induction polls)
  case (Cons p polls)
  then show ?case by (cases p) simp_all
qed simp

lemma signalled_call:
  assumes "TaskCompletedEv d ctx t w = (Inr ev, w')" and "envelopeLaw d" and "decodeLaw d"
    and "taskInstanceID t \<noteq> []" and "taskDecision t \<in> {DecisionApprove, DecisionReject}"
  shows "snd (Handle d cl (Some (evEnvelope ev)) calls) =
      calls @ [SignalWorkflowCall (''workflow:'' @ taskTenantID t @ '':'' @ taskInstanceID t) TaskCompletedSignal (completionSignal t)]"
proof -
  note ev = build_event [OF assms(1) [unfolded TaskCompletedEv_def] assms(2)]
  have decode: "decodeCompleted d (evEnvelope ev) = Inr (Some (taskProto t))"
    using assms(3) ev(3) by (simp add: decodeCompleted_def decodeLaw_def)
  have decision: "decisionFromProto (taskDecisionOf (taskDecision t)) = taskDecision t"
    using assms(5) by (intro decision_roundtrip) auto
  have "Handle d cl (Some (evEnvelope ev)) calls = signalTask d cl (evEnvelope ev) calls"
    using ev(2) by (simp add: Handle_def TaskCompletedSubject_def)
  then show ?thesis
    using assms(4) decision
    by (simp add: signalTask_def bindE_def wrapE_def mapErr_def io_simps decode call_def taskProto_def orWrapped_def
        completionSignal_def split: option.splits)
qed

text \<open>The commands of a workflow at an approval node: to create the task, and to wait for its signal.\<close>

definition approvalCmd :: "Input \<Rightarrow> Node \<Rightarrow> Command" where
  "approvalCmd input current = CreateApprovalTaskCmd (withNodeTimeout activityOptions (nodeTimeoutSeconds current))
     \<lparr>atInstanceID = inInstanceID input, atTenantID = inTenantID input, atApplicationID = inApplicationID input, atStarterID = inStarterID input,
      atVariablesJSON = inVariablesJSON input, atNode = current\<rparr>"

definition waitCmd :: "string \<Rightarrow> Node \<Rightarrow> Command" where
  "waitCmd channel current = AwaitCmd (durationOrDefault (nodeTimeoutSeconds current) (24 * 3600 * secondNs)) channel (nodeID current)"

lemma approvalStep_signalled:
  assumes "engUnit e (runLog s) (approvalCmd input current) = Inr ()"
    and "awaitSignal (nodeID current) (fst (engAwait e (runLog s @ [approvalCmd input current]) (waitCmd TaskCompletedSignal current))) = Some sig"
  shows "sigDecision sig = DecisionApprove \<Longrightarrow> approvalStep e input current s
      = (Inr None, s\<lparr>runLog := runLog s @ [approvalCmd input current, waitCmd TaskCompletedSignal current], runLastOutput := defaultJSON (sigOutputJSON sig)\<rparr>)"
    and "sigDecision sig = DecisionReject \<Longrightarrow> runLog (snd (approvalStep e input current s)) = runLog s @
      [approvalCmd input current, waitCmd TaskCompletedSignal current,
       FinishInstanceCmd activityOptions (finishInput input InstanceRejected (defaultJSON (sigOutputJSON sig)) [])]"
proof -
  let ?c = "approvalCmd input current" and ?w = "waitCmd TaskCompletedSignal current"
  have outcome: "awaitOutcome (nodeID current) (engAwait e (runLog s @ [?c]) ?w) = Inr (Some sig)"
    using assms(2) by (simp add: awaitOutcome_def case_prod_beta)
  have differ: "DecisionApprove \<noteq> DecisionReject" by code_simp
  note unfolded = approvalStep_def approvalCmd_def [symmetric] waitCmd_def [symmetric]
  note steps = bindE_def wrapE_def mapErr_def issue_def io_simps setLastOutput_def lastOutput_def finish_def outcome assms(1) differ
  show "sigDecision sig = DecisionApprove \<Longrightarrow> approvalStep e input current s
      = (Inr None, s\<lparr>runLog := runLog s @ [?c, ?w], runLastOutput := defaultJSON (sigOutputJSON sig)\<rparr>)"
    unfolding unfolded by (simp add: steps)
  show "sigDecision sig = DecisionReject \<Longrightarrow> runLog (snd (approvalStep e input current s)) = runLog s @
      [?c, ?w, FinishInstanceCmd activityOptions (finishInput input InstanceRejected (defaultJSON (sigOutputJSON sig)) [])]"
    unfolding unfolded by (simp add: steps split: sum.splits)
qed

text \<open>
  C28: the completion event of a task reaches the workflow that waits for it. Read back by the command
  handler, the event makes exactly one call, which signals the instance's workflow, under the name of
  the channel it listens to, with the task's node, decision and output. A workflow that waits at an
  approval node with the node's identifier drops the signals for other nodes before it and takes this
  one: on an approval it goes on with the task's output as the last output, on a rejection its next
  command is to finish the instance as rejected with that output. A workflow that waits at another node
  does not take it.
\<close>

theorem completion_event_signals:
  assumes "TaskCompletedEv d ctx t w = (Inr ev, w')" and "envelopeLaw d" and "decodeLaw d"
    and "taskInstanceID t \<noteq> []" and "taskDecision t \<in> {DecisionApprove, DecisionReject}"
    and "snd (Handle d cl (Some (evEnvelope ev)) calls) = calls'"
    and "engUnit e (runLog s) (approvalCmd input current) = Inr ()"
  shows "\<exists>channel signal. calls' = calls @ [SignalWorkflowCall (''workflow:'' @ taskTenantID t @ '':'' @ taskInstanceID t) channel signal]
    \<and> signal = \<lparr>sigTaskID = taskID t, sigNodeID = taskNodeID t, sigDecision = taskDecision t, sigOutputJSON = taskOutputJSON t\<rparr>
    \<and> (nodeID current = taskNodeID t
        \<and> engAwait e (runLog s @ [approvalCmd input current]) (waitCmd channel current) = (polls @ Some signal # later, ending)
        \<and> list_all (\<lambda>p. case p of None \<Rightarrow> True | Some x \<Rightarrow> sigNodeID x \<noteq> nodeID current) polls \<longrightarrow>
        (if taskDecision t = DecisionApprove
         then approvalStep e input current s = (Inr None, s\<lparr>runLog := runLog s @ [approvalCmd input current, waitCmd channel current],
                runLastOutput := defaultJSON (taskOutputJSON t)\<rparr>)
         else runLog (snd (approvalStep e input current s)) = runLog s @ [approvalCmd input current, waitCmd channel current,
                FinishInstanceCmd activityOptions (finishInput input InstanceRejected (defaultJSON (taskOutputJSON t)) [])]))
    \<and> (node \<noteq> taskNodeID t \<longrightarrow> awaitSignal node (Some signal # later) = awaitSignal node later)"
proof -
  have calls: "calls' = calls @ [SignalWorkflowCall (''workflow:'' @ taskTenantID t @ '':'' @ taskInstanceID t) TaskCompletedSignal (completionSignal t)]"
    using signalled_call [OF assms(1-5), of cl calls] assms(6) by simp
  have node: "sigNodeID (completionSignal t) = taskNodeID t" "sigDecision (completionSignal t) = taskDecision t" "sigOutputJSON (completionSignal t) = taskOutputJSON t"
    by (simp_all add: completionSignal_def)
  have taken: "awaitSignal (nodeID current) (polls @ Some (completionSignal t) # later) = Some (completionSignal t)"
    if "nodeID current = taskNodeID t" "list_all (\<lambda>p. case p of None \<Rightarrow> True | Some x \<Rightarrow> sigNodeID x \<noteq> nodeID current) polls"
    using awaitSignal_skip [OF that(2)] that(1) by (simp add: node)
  show ?thesis
    by (rule exI [of _ TaskCompletedSignal], rule exI [of _ "completionSignal t"])
      (use calls assms(5) taken node approvalStep_signalled [OF assms(7), of "completionSignal t"] in \<open>auto simp: completionSignal_def [of t, symmetric]\<close>)
qed

section \<open>Witnesses\<close>

text \<open>A platform library that does what it documents.\<close>

definition sampleDeps :: deps where
  "sampleDeps = \<lparr>depNewEnvelope = (\<lambda>m p. Inr \<lparr>envEventId = metaEventID m, envEventType = metaEventType m, envMetadata = m, envPayload = p\<rparr>),
     depDecodePayload = (\<lambda>env. Inr (envPayload env)),
     depAddTx = (\<lambda>ev actor rows. Inr (rows @ [(ev, actor)])),
     depSearchMatches = (\<lambda>s c. True), depCollate = (\<lambda>a b. True), depVerify = (\<lambda>n ctx tn ap. Inr ())\<rparr>"

lemma sampleDeps_laws: "envelopeLaw sampleDeps" "decodeLaw sampleDeps" "outboxLaw sampleDeps"
  by (simp_all add: sampleDeps_def envelopeLaw_def decodeLaw_def outboxLaw_def)

definition sampleWorld :: "database \<Rightarrow> world" where
  "sampleWorld db = \<lparr>wDb = db, wCommitted = False, wFaults = (\<lambda>n. None), wCalls = 0, wClock = (\<lambda>n. 1000 + int n), wTicks = 0,
     wIds = (\<lambda>n. replicate (Suc n) CHR ''i''), wFresh = 0, wRemote = 0\<rparr>"

definition sampleContext :: Context where
  "sampleContext = \<lparr>ctxPrincipal = Some \<lparr>prID = ''u1'', prTenantID = ''t1'', prMembershipID = ''m1'', prType = ''user''\<rparr>,
     ctxRequestID = [], ctxTraceID = []\<rparr>"

definition sampleDefinition :: Definition where
  "sampleDefinition = \<lparr>defID = ''d1'', defTenantID = ''t1'', defApplicationID = ''a1'', defKey = ''expense'', defName = ''Expense'',
     defDescription = [], defStatus = DefinitionPublished, defPublishedRevision = 1,
     defNodesJSON = marshalNodes sampleNodes, defEdgesJSON = marshalEdges sampleEdges, defVersion = 2,
     defCreatedAt = 1, defUpdatedAt = 1, defCreatedBy = ''u1'', defUpdatedBy = ''u1'', defNodes = sampleNodes, defEdges = sampleEdges\<rparr>"

definition sampleInstance :: Instance where
  "sampleInstance = newInstance \<lparr>siTenantID = ''t1'', siApplicationID = ''a1'', siDefinitionKey = ''expense'', siBusinessKey = ''b1'',
     siTitle = ''Trip'', siVariablesJSON = [], siIdempotencyKey = ''12345678''\<rparr> sampleDefinition ''u1'' 5 ''i1''"

definition sampleClient :: client where
  "sampleClient = \<lparr>clAnswer = (\<lambda>calls c. if c \<in> set calls then AlreadyStarted else Done), clTaskQueue = ''q''\<rparr>"

lemma build_ok: "ctxPrincipal ctx = Some pr \<Longrightarrow> \<exists>ev w'. build sampleDeps ctx s a ty tn ap p w = (Inr ev, w')"
  by (simp add: build_def bindE_def newID_def now_def io_simps sampleDeps_def)

theorem start_event_reaches_engine_witness:
  "\<exists>ev w'. InstanceStartRequestedEv sampleDeps sampleContext sampleInstance sampleDefinition (sampleWorld emptyDatabase) = (Inr ev, w')
     \<and> fst (Handle sampleDeps sampleClient (Some (evEnvelope ev)) []) = Inr ()"
proof -
  obtain ev w' where ev: "InstanceStartRequestedEv sampleDeps sampleContext sampleInstance sampleDefinition (sampleWorld emptyDatabase) = (Inr ev, w')"
    using build_ok unfolding InstanceStartRequestedEv_def by (metis Context.select_convs(1) sampleContext_def)
  have "list_all protoSafe (defNodes sampleDefinition)" "instID sampleInstance \<noteq> []" "instApplicationID sampleInstance \<noteq> []"
    by (simp_all add: sampleDefinition_def sampleNodes_def protoSafe_def zeroNode_def sampleInstance_def newInstance_def)
  from start_event_reaches_engine [OF ev sampleDeps_laws(1,2) this, of sampleClient "[]"] ev show ?thesis
    by (simp add: sampleClient_def)
qed

definition sampleTask :: Task where
  "sampleTask = (approvalTask \<lparr>atInstanceID = ''i1'', atTenantID = ''t1'', atApplicationID = ''a1'', atStarterID = ''u1'',
     atVariablesJSON = [], atNode = zeroNode\<lparr>nodeID := ''review'', nodeName := ''Review'', nodeAssigneeType := AssigneeUser,
       nodeAssignee := ''u1''\<rparr>\<rparr> 7 ''k1'')"

definition reviewNode :: Node where
  "reviewNode = zeroNode\<lparr>nodeID := ''review'', nodeType := NodeApproval, nodeName := ''Review''\<rparr>"

text \<open>An engine whose channel for completed tasks gets a signal for another node, and then that of the task.\<close>

definition signallingEngine :: engine where
  "signallingEngine = (sampleEngine [])\<lparr>engAwait := (\<lambda>log c. case c of
     AwaitCmd limit channel node \<Rightarrow>
       if channel = ''platform.workflow.task.completed.v1''
       then ([None, Some (completionSignal (sampleTask\<lparr>taskNodeID := ''other''\<rparr>)), Some (completionSignal (sampleTask\<lparr>taskDecision := DecisionApprove\<rparr>))], None)
       else ([], None)
   | _ \<Rightarrow> ([], None))\<rparr>"

theorem completion_event_signals_witness:
  "\<exists>ev w' channel. TaskCompletedEv sampleDeps sampleContext (sampleTask\<lparr>taskDecision := DecisionApprove\<rparr>) (sampleWorld emptyDatabase) = (Inr ev, w')
     \<and> snd (Handle sampleDeps sampleClient (Some (evEnvelope ev)) []) = [SignalWorkflowCall ''workflow:t1:i1'' channel (completionSignal (sampleTask\<lparr>taskDecision := DecisionApprove\<rparr>))]
     \<and> fst (approvalStep signallingEngine sampleInput reviewNode newRun) = Inr None"
proof -
  let ?t = "sampleTask\<lparr>taskDecision := DecisionApprove\<rparr>"
  obtain ev w' where ev: "TaskCompletedEv sampleDeps sampleContext ?t (sampleWorld emptyDatabase) = (Inr ev, w')"
    using build_ok unfolding TaskCompletedEv_def by (metis Context.select_convs(1) sampleContext_def)
  have t: "taskInstanceID ?t \<noteq> []" "taskDecision ?t \<in> {DecisionApprove, DecisionReject}" "taskTenantID sampleTask = ''t1''" "taskInstanceID sampleTask = ''i1''"
      "taskNodeID sampleTask = ''review''"
    by (simp_all add: sampleTask_def approvalTask_def)
  have unit: "engUnit signallingEngine (runLog newRun) (approvalCmd sampleInput reviewNode) = Inr ()" by (simp add: signallingEngine_def sampleEngine_def)
  from completion_event_signals [OF ev sampleDeps_laws(1,2) t(1,2) refl unit, of sampleClient "[]" "[None, Some (completionSignal (sampleTask\<lparr>taskNodeID := ''other''\<rparr>))]" "[]" None]
  obtain channel where
    c: "snd (Handle sampleDeps sampleClient (Some (evEnvelope ev)) []) = [SignalWorkflowCall ''workflow:t1:i1'' channel (completionSignal ?t)]"
      "engAwait signallingEngine (runLog newRun @ [approvalCmd sampleInput reviewNode]) (waitCmd channel reviewNode)
         = ([None, Some (completionSignal (sampleTask\<lparr>taskNodeID := ''other''\<rparr>)), Some (completionSignal ?t)], None)
       \<Longrightarrow> fst (approvalStep signallingEngine sampleInput reviewNode newRun) = Inr None"
    using t(3-5) by (auto simp: completionSignal_def reviewNode_def)
  have "channel = ''platform.workflow.task.completed.v1''"
    using c(1) signalled_call [OF ev sampleDeps_laws(1,2) t(1,2), of sampleClient "[]"] by (simp add: TaskCompletedSignal_def)
  then show ?thesis using ev c by (auto simp: signallingEngine_def waitCmd_def)
qed

end
