(* ===== verification/Retention.thy ===== *)
theory Retention
  imports Commands
begin

text \<open>
  The retention of the task history, \<open>internal/workflow/cleanup.go\<close>: the settings the cleaner
  starts with and the loop that deletes expired rows in batches. The goroutine that repeats the
  loop on a ticker is not modelled; each of its rounds is one \<open>clean\<close>.
\<close>

section \<open>The cleaner\<close>

record RetentionCleaner =
  rcRetention :: int
  rcInterval :: int
  rcBatchSize :: int
  rcEnabled :: bool

text \<open>The defaults, in nanoseconds: a year, an hour, 500 rows.\<close>

definition hourNs :: int where
  "hourNs = 3600 * 1000000000"

definition newRetentionCleaner :: "int \<Rightarrow> int \<Rightarrow> int \<Rightarrow> bool \<Rightarrow> RetentionCleaner" where
  "newRetentionCleaner taskHistory cleanupInterval cleanupBatchSize databaseEnabled =
     \<lparr>rcRetention = (if taskHistory \<le> 0 then 365 * 24 * hourNs else taskHistory),
      rcInterval = (if cleanupInterval \<le> 0 then hourNs else cleanupInterval),
      rcBatchSize = (if cleanupBatchSize \<le> 0 then 500 else cleanupBatchSize),
      rcEnabled = databaseEnabled\<rparr>"

text \<open>The loop has no bound of its own: that it does not return is the value \<open>None\<close>.\<close>

partial_function (option) clean :: "deps \<Rightarrow> RetentionCleaner \<Rightarrow> world \<Rightarrow> (unit result \<times> world) option" where
  "clean d c w =
     (case bindE now (\<lambda>t. DeleteTaskHistoryBefore d (t - rcRetention c) (rcBatchSize c)) w of
        (Inl e, w') \<Rightarrow> Some (Inl e, w')
      | (Inr deleted, w') \<Rightarrow> if deleted < rcBatchSize c then Some (Inr (), w') else clean d c w')"

section \<open>One batch\<close>

lemma mset_take_subset: "mset (take n xs) \<subseteq># mset xs"
  by (metis append_take_drop_id mset_append mset_subset_eq_add_left)

lemma batch_count:
  assumes "mset xs \<subseteq># mset rows"
  shows "length xs \<le> length (filter (\<lambda>h. histID h \<in> set (map histID xs)) rows)"
proof -
  have keep: "filter (\<lambda>h. histID h \<in> set (map histID xs)) xs = xs" by (simp add: filter_id_conv)
  have "mset xs = filter_mset (\<lambda>h. histID h \<in> set (map histID xs)) (mset xs)"
    unfolding mset_filter [symmetric] keep by (rule refl)
  also have "\<dots> \<subseteq># filter_mset (\<lambda>h. histID h \<in> set (map histID xs)) (mset rows)"
    using assms by (rule multiset_filter_mono)
  finally have "size (mset xs) \<le> size (mset (filter (\<lambda>h. histID h \<in> set (map histID xs)) rows))"
    unfolding mset_filter by (rule size_mset_mono)
  then show ?thesis unfolding size_mset .
qed

text \<open>
  What one batch did, however it ended: it deleted the rows of some expired identifiers. With a
  result it counted them, and when these are fewer than the limit no expired row is left.
\<close>

definition without :: "string list \<Rightarrow> database \<Rightarrow> database" where
  "without ids db = db\<lparr>dbHistory := filter (\<lambda>h. histID h \<notin> set ids) (dbHistory db)\<rparr>"

definition expiredIds :: "time \<Rightarrow> database \<Rightarrow> string set" where
  "expiredIds before db = histID ` {h \<in> set (dbHistory db). expiredHistory before db h}"

lemma without_Nil [simp]: "without [] db = db"
  by (simp add: without_def)

lemma without_append: "without ys (without xs db) = without (xs @ ys) db"
  by (simp add: without_def conj_commute)

lemma expiredHistory_without [simp]: "expiredHistory before (without ids db) h = expiredHistory before db h"
  by (simp add: expiredHistory_def without_def)

definition batchOf :: "deps \<Rightarrow> time \<Rightarrow> int \<Rightarrow> database \<Rightarrow> TaskHistory list" where
  "batchOf d before limit db = take (nat limit)
     (orderBy (\<lambda>a b. histCreatedAt a < histCreatedAt b \<or> (histCreatedAt a = histCreatedAt b \<and> depCollate d (histID a) (histID b)))
       (filter (expiredHistory before db) (dbHistory db)))"

lemma batchOf_subset:
  "mset (batchOf d before limit db) \<subseteq># mset (dbHistory db)"
  "histID ` set (batchOf d before limit db) \<subseteq> expiredIds before db"
proof -
  have "mset (batchOf d before limit db) \<subseteq># mset (filter (expiredHistory before db) (dbHistory db))"
    unfolding batchOf_def by (rule subset_mset.order_trans [OF mset_take_subset]) simp
  also have "mset (filter (expiredHistory before db) (dbHistory db)) \<subseteq># mset (dbHistory db)"
    unfolding mset_filter by (rule multiset_filter_subset)
  finally show "mset (batchOf d before limit db) \<subseteq># mset (dbHistory db)" .
  show "histID ` set (batchOf d before limit db) \<subseteq> expiredIds before db"
    unfolding batchOf_def expiredIds_def by (auto dest!: in_set_takeD)
qed

lemma batchOf_all:
  assumes "length (batchOf d before limit db) < nat limit"
  shows "set (batchOf d before limit db) = {h \<in> set (dbHistory db). expiredHistory before db h}"
proof -
  let ?all = "orderBy (\<lambda>a b. histCreatedAt a < histCreatedAt b \<or> (histCreatedAt a = histCreatedAt b \<and> depCollate d (histID a) (histID b)))
       (filter (expiredHistory before db) (dbHistory db))"
  have "batchOf d before limit db = ?all" using assms unfolding batchOf_def by (simp add: min_def split: if_splits)
  then show ?thesis by auto
qed

lemma delete_batch:
  assumes "DeleteTaskHistoryBefore d before limit w = (r, w')" and "0 < limit"
  shows "wClock w' = wClock w \<and> (\<exists>ids. wDb w' = without ids (wDb w) \<and> set ids \<subseteq> expiredIds before (wDb w) \<and>
    (\<forall>n. r = Inr n \<longrightarrow> n = int (length (filter (\<lambda>h. histID h \<in> set ids) (dbHistory (wDb w)))) \<and>
       (n < limit \<longrightarrow> expiredIds before (wDb w') = {})))"
proof -
  let ?b = "batchOf d before limit (wDb w)" and ?rows = "dbHistory (wDb w)"
  have count: "expiredIds before (without (map histID ?b) (wDb w)) = {}"
    if "int (length (filter (\<lambda>h. histID h \<in> set (map histID ?b)) ?rows)) < limit"
  proof -
    have "length ?b < nat limit" using batch_count [OF batchOf_subset(1) [of d before limit "wDb w"]] that by linarith
    from batchOf_all [OF this] show ?thesis by (auto simp: expiredIds_def) (auto simp: without_def)
  qed
  have sub: "set (map histID ?b) \<subseteq> expiredIds before (wDb w)" using batchOf_subset(2) by simp
  have lim: "limitOffset limit 0 (map histID (orderBy (\<lambda>a b. histCreatedAt a < histCreatedAt b
           \<or> (histCreatedAt a = histCreatedAt b \<and> depCollate d (histID a) (histID b)))
         (filter (expiredHistory before (wDb w)) ?rows))) = Inr (map histID ?b)"
    using assms(2) by (simp add: limitOffset_def batchOf_def take_map)
  have run: "wClock w' = wClock w \<and> (wDb w' = wDb w \<and> (\<exists>e. r = Inl e)
      \<or> wDb w' = without (map histID ?b) (wDb w) \<and>
        (\<forall>n. r = Inr n \<longrightarrow> n = int (length (filter (\<lambda>h. histID h \<in> set (map histID ?b)) ?rows))))"
  proof (cases "wFaults w (wCalls w)")
    case (Some e)
    then show ?thesis using assms(1) by (auto simp: DeleteTaskHistoryBefore_def bindE_def query_def dbCall_def)
  next
    case None
    show ?thesis
    proof (cases "map histID ?b = []")
      case True
      then have "?b = []" by simp
      with None lim assms(1) show ?thesis
        by (auto simp: DeleteTaskHistoryBefore_def bindE_def query_def dbCall_def io_simps)
    next
      case False
      then have "?b \<noteq> []" by simp
      with None lim have "DeleteTaskHistoryBefore d before limit w =
          bindE (dbCall (deleteHistoryStmt (map histID ?b))) (\<lambda>n. bindE (rowsAffected n) (\<lambda>count. ret (int count))) (w\<lparr>wCalls := wCalls w + 1\<rparr>)"
        by (simp add: DeleteTaskHistoryBefore_def bindE_def query_def dbCall_def)
      with assms(1) show ?thesis
        by (auto simp: bindE_def dbCall_def query_def io_simps deleteHistoryStmt_def rowsAffected_def without_def Let_def
            split: option.splits)
    qed
  qed
  show ?thesis
  proof (cases "wDb w' = wDb w \<and> (\<exists>e. r = Inl e)")
    case True
    then show ?thesis using run by (intro conjI exI [of _ "[]"]) auto
  next
    case False
    then show ?thesis using run sub count by (intro conjI exI [of _ "map histID ?b"]) auto
  qed
qed

section \<open>The whole loop\<close>

text \<open>
  What a round may do: delete rows of instances that ended before some reading of the clock less
  the retention, and nothing else.
\<close>

definition cleaned :: "RetentionCleaner \<Rightarrow> world \<Rightarrow> world \<Rightarrow> bool" where
  "cleaned c w w' \<longleftrightarrow> wClock w' = wClock w \<and>
     (\<exists>ids. wDb w' = without ids (wDb w) \<and> set ids \<subseteq> (\<Union>k. expiredIds (wClock w k - rcRetention c) (wDb w)))"

lemma expiredIds_without: "expiredIds t (without ids db) \<subseteq> expiredIds t db"
  by (auto simp: expiredIds_def) (auto simp: without_def)

lemma cleaned_trans: "cleaned c a b \<Longrightarrow> cleaned c b w \<Longrightarrow> cleaned c a w"
  unfolding cleaned_def
proof (elim conjE exE)
  fix xs ys
  assume *: "wClock b = wClock a" "wClock w = wClock b" "wDb b = without xs (wDb a)" "wDb w = without ys (wDb b)"
    "set xs \<subseteq> (\<Union>k. expiredIds (wClock a k - rcRetention c) (wDb a))"
    "set ys \<subseteq> (\<Union>k. expiredIds (wClock b k - rcRetention c) (wDb b))"
  have "set (xs @ ys) \<subseteq> (\<Union>k. expiredIds (wClock a k - rcRetention c) (wDb a))"
    using *(5,6) expiredIds_without unfolding *(1,3) by fastforce
  with * show "wClock w = wClock a \<and> (\<exists>ids. wDb w = without ids (wDb a)
      \<and> set ids \<subseteq> (\<Union>k. expiredIds (wClock a k - rcRetention c) (wDb a)))"
    by (intro conjI exI [of _ "xs @ ys"]) (simp_all add: without_append)
qed

lemma clean_round:
  assumes "bindE now (\<lambda>t. DeleteTaskHistoryBefore d (t - rcRetention c) (rcBatchSize c)) w = (r, w')"
    and "0 < rcBatchSize c"
  shows "cleaned c w w'"
    and "r = Inr n \<Longrightarrow> n < rcBatchSize c \<Longrightarrow> \<exists>k. expiredIds (wClock w k - rcRetention c) (wDb w') = {}"
    and "r = Inr n \<Longrightarrow> \<not> n < rcBatchSize c \<Longrightarrow> length (dbHistory (wDb w')) < length (dbHistory (wDb w))"
proof -
  let ?k = "wTicks w" and ?w = "w\<lparr>wTicks := wTicks w + 1\<rparr>"
  from assms(1) have "DeleteTaskHistoryBefore d (wClock w ?k - rcRetention c) (rcBatchSize c) ?w = (r, w')"
    by (simp add: bindE_def now_def)
  from delete_batch [OF this assms(2)] obtain ids where
    clock: "wClock w' = wClock w" and db: "wDb w' = without ids (wDb w)"
    and sub: "set ids \<subseteq> expiredIds (wClock w ?k - rcRetention c) (wDb w)"
    and count: "\<And>n. r = Inr n \<Longrightarrow> n = int (length (filter (\<lambda>h. histID h \<in> set ids) (dbHistory (wDb w)))) \<and>
        (n < rcBatchSize c \<longrightarrow> expiredIds (wClock w ?k - rcRetention c) (wDb w') = {})"
    by auto
  show "cleaned c w w'" using clock db sub by (auto simp: cleaned_def)
  show "\<exists>k. expiredIds (wClock w k - rcRetention c) (wDb w') = {}" if "r = Inr n" "n < rcBatchSize c"
    using count that by blast
  show "length (dbHistory (wDb w')) < length (dbHistory (wDb w))" if "r = Inr n" "\<not> n < rcBatchSize c"
  proof -
    have "0 < length (filter (\<lambda>h. histID h \<in> set ids) (dbHistory (wDb w)))" using count [OF that(1)] that(2) assms(2) by linarith
    moreover have "length (filter (\<lambda>h. histID h \<in> set ids) (dbHistory (wDb w)))
        + length (filter (\<lambda>h. histID h \<notin> set ids) (dbHistory (wDb w))) = length (dbHistory (wDb w))"
      by (rule sum_length_filter_compl)
    ultimately have "length (filter (\<lambda>h. histID h \<notin> set ids) (dbHistory (wDb w))) < length (dbHistory (wDb w))" by linarith
    then show ?thesis by (simp add: db without_def)
  qed
qed

lemma clean_rounds:
  assumes "0 < rcBatchSize c"
  shows "\<exists>r w'. clean d c w = Some (r, w') \<and> cleaned c w w' \<and>
    (r = Inr () \<longrightarrow> (\<exists>k. expiredIds (wClock w k - rcRetention c) (wDb w') = {}))"
proof (induction "length (dbHistory (wDb w))" arbitrary: w rule: less_induct)
  case less
  obtain r w1 where run: "bindE now (\<lambda>t. DeleteTaskHistoryBefore d (t - rcRetention c) (rcBatchSize c)) w = (r, w1)"
    by fastforce
  note round = clean_round [OF run assms]
  show ?case
  proof (cases r)
    case (Inl e)
    then have "clean d c w = Some (Inl e, w1)" using run by (subst clean.simps) simp
    with round(1) show ?thesis by blast
  next
    case (Inr n)
    show ?thesis
    proof (cases "n < rcBatchSize c")
      case True
      then have "clean d c w = Some (Inr (), w1)" using run Inr by (subst clean.simps) simp
      with round(1) round(2) [OF Inr True] show ?thesis by blast
    next
      case False
      then have step: "clean d c w = clean d c w1" using run Inr by (subst clean.simps) simp
      from less [OF round(3) [OF Inr False]] obtain r2 w2 where
        "clean d c w1 = Some (r2, w2)" "cleaned c w1 w2"
        "r2 = Inr () \<longrightarrow> (\<exists>k. expiredIds (wClock w1 k - rcRetention c) (wDb w2) = {})" by blast
      moreover have "wClock w1 = wClock w" using round(1) by (simp add: cleaned_def)
      ultimately show ?thesis using step cleaned_trans [OF round(1)] by auto
    qed
  qed
qed

text \<open>
  C30: a cleaning round ends, with every history and whatever calls to the database fail. It
  deletes only rows of instances that ended before a reading of the clock less the retention, and
  nothing else in the database; when it ends without an error no row is left that had expired at
  its last reading.
\<close>

theorem clean_terminates:
  assumes "0 < rcBatchSize c"
  shows "\<exists>r w'. clean d c w = Some (r, w') \<and> cleaned c w w' \<and>
    (r = Inr () \<longrightarrow> (\<exists>k. expiredIds (wClock w k - rcRetention c) (wDb w') = {}))"
  using assms by (rule clean_rounds)

theorem clean_terminates_witness:
  "\<exists>r w'. clean sampleDeps (newRetentionCleaner 0 0 0 True) (sampleWorld emptyDatabase) = Some (r, w')
     \<and> cleaned (newRetentionCleaner 0 0 0 True) (sampleWorld emptyDatabase) w'"
  using clean_terminates [of "newRetentionCleaner 0 0 0 True" sampleDeps "sampleWorld emptyDatabase"]
  by (auto simp: newRetentionCleaner_def)

end
