(* ===== verification/System.thy ===== *)
theory System
  imports Retention
begin

text \<open>
  The whole system as a state machine: a step is one service operation of any caller, one
  activity of the runtime, one round of the retention cleaner, or the environment, which moves
  the clock, decides which calls fail and lets the dispatcher of the outbox work. The invariants
  of the tables hold in every state that can be reached from an empty database.
\<close>

section \<open>Published graphs\<close>

text \<open>Every published revision decodes to a definition that passes validation.\<close>

definition revisionValid :: "DefinitionRevision \<Rightarrow> bool" where
  "revisionValid v \<longleftrightarrow> (\<exists>dv. hydrateDefinition (revisionAsDefinition v) = Inr dv
     \<and> ValidateDefinition (defKey dv) (defName dv) (defNodes dv) (defEdges dv) = Inr ())"

definition graphsOk :: "database \<Rightarrow> bool" where
  "graphsOk db \<longleftrightarrow> list_all revisionValid (dbRevisions db)"

lemma graphs_same_revisions: "dbRevisions b = dbRevisions a \<Longrightarrow> keptBy graphsOk a b"
  by (simp add: keptBy_def graphsOk_def)

lemma definition_statements:
  "dbRevisions (snd (insertDefinition v db)) = dbRevisions db"
  "dbRevisions (snd (updateDraftStmt v ver actor t db)) = dbRevisions db"
  "dbRevisions (snd (disableStmt tn ap x ver actor t db)) = dbRevisions db"
  by (simp_all add: insertDefinition_def updateDraftStmt_def disableStmt_def updateDefinitions_def)

interpretation graphs: store_base "keptBy graphsOk" "\<lambda>_. True"
proof (unfold_locales, goal_cases)
  case (2 a b c)
  then show ?case by (rule keptBy_refl_trans)
qed (auto intro!: graphs_same_revisions simp: other_tables definition_statements)

lemma GetDefinition_current:
  assumes "GetDefinition tn ap i 0 w = (Inr current, w')"
  shows "wDb w' = wDb w"
    and "\<exists>row. find (defIs tn ap i) (dbDefinitions (wDb w)) = Some row \<and> hydrateDefinition row = Inr current"
  using assms
  by (auto simp: GetDefinition_def bindE_Inr mapNotFound_def mapErr_Inr query_Inr selectOne_def io_simps split: option.splits)

lemma hydrate_fields:
  assumes "hydrateDefinition a = Inr x" and "defNodesJSON b = defNodesJSON a" and "defEdgesJSON b = defEdgesJSON a"
  shows "hydrateDefinition b = Inr (b\<lparr>defNodes := defNodes x, defEdges := defEdges x\<rparr>)"
    and "x = a\<lparr>defNodes := defNodes x, defEdges := defEdges x\<rparr>"
  using assms by (auto simp: hydrateDefinition_def split: sum.splits)

lemma revision_fields [simp]:
  "defNodesJSON (revisionAsDefinition (revisionOf cur n t actor)) = defNodesJSON cur"
  "defEdgesJSON (revisionAsDefinition (revisionOf cur n t actor)) = defEdgesJSON cur"
  "defKey (revisionAsDefinition (revisionOf cur n t actor)) = defKey cur"
  "defName (revisionAsDefinition (revisionOf cur n t actor)) = defName cur"
  by (simp_all add: revisionAsDefinition_def revisionOf_def Definition.defs)

lemma published_revision_valid:
  assumes "hydrateDefinition cur = Inr x" and "ValidateDefinition (defKey x) (defName x) (defNodes x) (defEdges x) = Inr ()"
  shows "revisionValid (revisionOf cur n t actor)"
proof -
  note h = hydrate_fields(1) [OF assms(1), of "revisionAsDefinition (revisionOf cur n t actor)"]
  have "defKey x = defKey cur" "defName x = defName cur"
    using hydrate_fields(2) [OF assms(1) refl refl]
    by (metis Definition.surjective Definition.update_convs(16,17) Definition.select_convs(4,5))+
  with h assms(2) show ?thesis by (simp add: revisionValid_def)
qed

lemma publish_graphs:
  assumes tx: "PublishDefinition d ctx tn ap i ver actor w = (r, w')"
    and row: "find (defIs tn ap i) (dbDefinitions (wDb w)) = Some row" "hydrateDefinition row = Inr x"
    and valid: "ValidateDefinition (defKey x) (defName x) (defNodes x) (defEdges x) = Inr ()"
  shows "keptBy graphsOk (wDb w) (wDb w')"
  using PublishDefinition_tx [OF tx]
proof (elim disjE exE conjE)
  fix t cur pub ev db1 db2
  assume cur: "find (defIs tn ap i) (dbDefinitions (wDb w)) = Some cur"
    and ins: "insertRevision (revisionOf cur (defPublishedRevision cur + 1) t actor) (wDb w) = (Inr (), db1)"
    and upd: "publishStmt tn ap i ver actor (defPublishedRevision cur + 1) t db1 = (Inr 1, db2)"
    and out: "addTxStmt d ev actor db2 = (Inr (), wDb w')"
  have "dbRevisions (wDb w') = dbRevisions (wDb w) @ [revisionOf cur (defPublishedRevision cur + 1) t actor]"
    using addTxStmt_db [OF out] upd ins
    by (auto simp: publishStmt_def updateDefinitions_def insertRevision_def split: if_splits)
  moreover have "cur = row" using cur row(1) by simp
  ultimately show ?thesis
    using published_revision_valid [OF row(2) valid] by (simp add: keptBy_def graphsOk_def)
qed (simp add: keptBy_def)

lemma graphs_read_publish:
  "keeps (keptBy graphsOk) (bindE (GetDefinition tn ap i 0) (\<lambda>current.
     bindE (liftR (ValidateDefinition (defKey current) (defName current) (defNodes current) (defEdges current))) (\<lambda>_.
       PublishDefinition d ctx tn ap i ver actor)))"
proof (rule keepsI, erule bindE_cases)
  fix w r w' e assume "GetDefinition tn ap i 0 w = (Inl e, w')"
  then show "keptBy graphsOk (wDb w) (wDb w')" by (rule keepsD [OF graphs.keeps_GetDefinition])
next
  fix w r w' current w1
  assume read: "GetDefinition tn ap i 0 w = (Inr current, w1)"
    and rest: "bindE (liftR (ValidateDefinition (defKey current) (defName current) (defNodes current) (defEdges current))) (\<lambda>_.
       PublishDefinition d ctx tn ap i ver actor) w1 = (r, w')"
  from GetDefinition_current [OF read] obtain row where db: "wDb w1 = wDb w"
    and row: "find (defIs tn ap i) (dbDefinitions (wDb w1)) = Some row" "hydrateDefinition row = Inr current" by auto
  from rest show "keptBy graphsOk (wDb w) (wDb w')"
  proof (rule bindE_cases)
    fix e assume "liftR (ValidateDefinition (defKey current) (defName current) (defNodes current) (defEdges current)) w1 = (Inl e, w')"
    then have "wDb w' = wDb w" using db by (simp add: io_simps)
    then show ?thesis by (simp add: keptBy_def)
  next
    fix u w2
    assume v: "liftR (ValidateDefinition (defKey current) (defName current) (defNodes current) (defEdges current)) w1 = (Inr u, w2)"
      and p: "PublishDefinition d ctx tn ap i ver actor w2 = (r, w')"
    from v have v': "ValidateDefinition (defKey current) (defName current) (defNodes current) (defEdges current) = Inr ()" and w2: "w2 = w1"
      by (simp_all add: io_simps)
    from publish_graphs [OF p [unfolded w2] row v'] show ?thesis by (simp only: db)
  qed
qed

lemma graphs_Service_PublishDefinition: "keeps (keptBy graphsOk) (Service_PublishDefinition d ctx tn ap i ver)"
  unfolding Service_PublishDefinition_def
  by (intro graphs.keeps_intros(1-8) graphs_read_publish) (intro graphs.keeps_noDb noDb_verifyApplication)

section \<open>Steps\<close>

datatype label =
    Request Context string
  | Activity string
  | Cleanup
  | Environment

text \<open>
  One step; the label says on whose behalf. The operations that only read are covered by the
  environment step, which leaves every table but the outbox alone.
\<close>

inductive step :: "deps \<Rightarrow> authz \<Rightarrow> rtdeps \<Rightarrow> label \<Rightarrow> world \<Rightarrow> world \<Rightarrow> bool" for d az rt where
  create: "Service_CreateDefinition d ctx input w = (r, w') \<Longrightarrow> step d az rt (Request ctx (cdTenantID input)) w w'"
| update: "Service_UpdateDefinition d ctx inputU w = (r, w') \<Longrightarrow> step d az rt (Request ctx (udTenantID inputU)) w w'"
| publish: "Service_PublishDefinition d ctx tn ap i ver w = (r, w') \<Longrightarrow> step d az rt (Request ctx tn) w w'"
| disable: "Service_DisableDefinition d ctx tn ap i ver w = (r, w') \<Longrightarrow> step d az rt (Request ctx tn) w w'"
| start: "Service_StartInstance d ctx inputS w = (rI, w') \<Longrightarrow> step d az rt (Request ctx (siTenantID inputS)) w w'"
| cancel: "Service_CancelInstance d ctx tn ap i reason ver w = (rI, w') \<Longrightarrow> step d az rt (Request ctx tn) w w'"
| claim: "Service_ClaimTask d az ctx tn ap i ver w = (rT, w') \<Longrightarrow> step d az rt (Request ctx tn) w w'"
| complete: "Service_CompleteTask d az ctx tn ap i decision comment out ver w = (rC, w') \<Longrightarrow> step d az rt (Request ctx tn) w w'"
| delegate: "Service_DelegateTask d az ctx tn ap i delegateTo reason ver w = (rT, w') \<Longrightarrow> step d az rt (Request ctx tn) w w'"
| createTask: "Activities_CreateApprovalTask d rt ctx inputA w = (rU, w') \<Longrightarrow> step d az rt (Activity (atTenantID inputA)) w w'"
| invoke: "Activities_InvokeServiceTask rt ctx inputV w = (rV, w') \<Longrightarrow> step d az rt (Activity (stTenantID inputV)) w w'"
| compensateTask: "Activities_CompensateServiceTask rt ctx inputV w = (rU, w') \<Longrightarrow> step d az rt (Activity (stTenantID inputV)) w w'"
| finishInst: "Activities_FinishInstance d rt ctx inputF w = (rU, w') \<Longrightarrow> fiStatus inputF \<in> set terminalStatuses
    \<Longrightarrow> step d az rt (Activity (fiTenantID inputF)) w w'"
| cleanup: "clean d (newRetentionCleaner history interval batch True) w = Some (rU, w') \<Longrightarrow> step d az rt Cleanup w w'"
| environment: "wDb w' = (wDb w)\<lparr>dbOutbox := rows\<rparr> \<Longrightarrow> step d az rt Environment w w'"

inductive reachable :: "deps \<Rightarrow> authz \<Rightarrow> rtdeps \<Rightarrow> world \<Rightarrow> bool" for d az rt where
  init: "wDb w = emptyDatabase \<Longrightarrow> reachable d az rt w"
| advance: "reachable d az rt w \<Longrightarrow> step d az rt l w w' \<Longrightarrow> reachable d az rt w'"

inductive_simps step_request: "step d az rt (Request ctx tn) w w'"
inductive_simps step_activity: "step d az rt (Activity tn) w w'"

lemma clean_db:
  assumes "clean d (newRetentionCleaner history interval batch True) w = Some (r, w')"
  shows "\<exists>ids. wDb w' = snd (deleteHistoryStmt ids (wDb w))"
proof -
  have "0 < rcBatchSize (newRetentionCleaner history interval batch True)" by (simp add: newRetentionCleaner_def)
  from clean_rounds [OF this, of d w] assms show ?thesis
    by (auto simp: cleaned_def without_def deleteHistoryStmt_def)
qed

text \<open>Any relation the statements keep holds between the ends of a step.\<close>

context store_base
begin

lemma keeps_request:
  assumes "ok tn" and "\<And>ap i ver. keeps R (Service_PublishDefinition d ctx tn ap i ver)"
    and "step d az rt (Request ctx tn) w w'"
  shows "R (wDb w) (wDb w')"
  using assms(3,1) unfolding step_request
  by (elim disjE exE conjE)
    (auto intro: keepsD [OF keeps_Service_CreateDefinition] keepsD [OF keeps_Service_UpdateDefinition]
      keepsD [OF assms(2)] keepsD [OF keeps_Service_DisableDefinition] keepsD [OF keeps_Service_StartInstance]
      keepsD [OF keeps_Service_CancelInstance] keepsD [OF keeps_Service_ClaimTask]
      keepsD [OF keeps_Service_CompleteTask] keepsD [OF keeps_Service_DelegateTask])

lemma keeps_activity: "ok tn \<Longrightarrow> step d az rt (Activity tn) w w' \<Longrightarrow> R (wDb w) (wDb w')"
  unfolding step_activity
  by (elim disjE exE conjE)
    (auto intro: keepsD [OF keeps_CreateApprovalTask] keepsD [OF keeps_InvokeServiceTask]
      keepsD [OF keeps_CompensateServiceTask] keepsD [OF keeps_Activities_FinishInstance])

lemma keeps_step:
  assumes "\<And>tn. ok tn" and "\<And>ctx tn ap i ver. keeps R (Service_PublishDefinition d ctx tn ap i ver)"
    and "step d az rt l w w'"
  shows "R (wDb w) (wDb w')"
proof (cases l)
  case (Request ctx tn)
  with assms keeps_request show ?thesis by blast
next
  case (Activity tn)
  with assms keeps_activity show ?thesis by blast
next
  case Cleanup
  with assms(3) have "\<exists>ids. wDb w' = snd (deleteHistoryStmt ids (wDb w))"
    by (auto elim: step.cases dest: clean_db)
  with law_deleteHistory [OF assms(1)] show ?thesis by auto
next
  case Environment
  with assms(3) have "\<exists>rows. wDb w' = (wDb w)\<lparr>dbOutbox := rows\<rparr>" by (auto elim: step.cases)
  with law_outbox show ?thesis by auto
qed

end

text \<open>An invariant that a step keeps, and that an empty database has, holds in every reachable state.\<close>

lemma reachable_invariant:
  assumes "\<And>l w w'. step d az rt l w w' \<Longrightarrow> keptBy I (wDb w) (wDb w')" and "I emptyDatabase"
    and "reachable d az rt w"
  shows "I (wDb w)"
  using assms(3)
proof (induction rule: reachable.induct)
  case (init w)
  then show ?case using assms(2) by simp
next
  case (advance w l w')
  then show ?case using assms(1) unfolding keptBy_def by blast
qed

lemma empty_invariants: "keysOk emptyDatabase" "refsOk emptyDatabase" "statusOk emptyDatabase" "publishOk emptyDatabase"
  "graphsOk emptyDatabase"
  by (simp_all add: keysOk_def refsOk_def statusOk_def publishOk_def graphsOk_def emptyDatabase_def)

text \<open>The invariants of the reachable states.\<close>

lemma reachable_publishOk: "reachable d az rt w \<Longrightarrow> publishOk (wDb w)"
  by (rule reachable_invariant [where I = publishOk, OF _ empty_invariants(4)])
    (rule pub.keeps_step [OF _ pub_Service_PublishDefinition], simp)

lemma reachable_statusOk: "reachable d az rt w \<Longrightarrow> statusOk (wDb w)"
  by (rule reachable_invariant [where I = statusOk, OF _ empty_invariants(3)])
    (rule status.keeps_step [OF _ status.keeps_Service_PublishDefinition], simp_all)

lemma reachable_graphsOk: "reachable d az rt w \<Longrightarrow> graphsOk (wDb w)"
  by (rule reachable_invariant [where I = graphsOk, OF _ empty_invariants(5)])
    (rule graphs.keeps_step [OF _ graphs_Service_PublishDefinition], simp)

lemma reachable_keysOk: "reachable d az rt w \<Longrightarrow> keysOk (wDb w)"
  using reachable_publishOk by (simp add: publishOk_def)

lemma step_evolution: "step d az rt l w w' \<Longrightarrow> evolves (wDb w) (wDb w')"
  by (rule ev.keeps_step [OF _ ev.keeps_Service_PublishDefinition]) simp_all

end
