(* ===== verification/Samples.thy ===== *)
theory Samples
  imports System
begin

text \<open>
  Concrete worlds the witnesses use: a platform library that does what it documents, a definition
  that was created and published through the service, and an instance started from it.
\<close>

section \<open>Parameters\<close>

definition sampleAuthz :: authz where
  "sampleAuthz = \<lparr>azListBindings = (\<lambda>n ctx tn s p ps. Inr \<lparr>lbrBindings = [\<lparr>bndStatus = ''active'', bndRoleId = ''managers''\<rparr>], lbrTotal = Some 1\<rparr>),
     azCheck = (\<lambda>n ctx tn s rt ri a. Inr True), azTypeServiceAccount = ''service_account'', azTypeSystem = ''system''\<rparr>"

definition sampleRt :: rtdeps where
  "sampleRt = \<lparr>rtSystemContext = (\<lambda>ctx actor. ctx\<lparr>ctxPrincipal := Some \<lparr>prID = actor, prTenantID = [], prMembershipID = [], prType = ''system''\<rparr>\<rparr>),
     rtInvoke = (\<lambda>n ctx s m r. Inr ''{}''), rtCelEnv = Inr (), rtCelCompile = (\<lambda>e. Inr 0), rtCelProgram = (\<lambda>a. Inr 0),
     rtCelEval = (\<lambda>p v out. Inr (CelBool True)), rtParseTemplate = (\<lambda>t. Inr 0), rtExecuteTemplate = (\<lambda>t v. Inr ''{}'')\<rparr>"

lemma sample_verify: "verifyApplication sampleDeps ctx tn ap w = (Inr (), w\<lparr>wRemote := wRemote w + 1\<rparr>)"
  by (simp add: verifyApplication_def mapErr_def remote_def sampleDeps_def)

lemma sample_actor: "actorForTenant sampleContext ''t1'' = Inr ''u1''"
  by (simp add: actorForTenant_def sampleContext_def)

section \<open>A definition created and published\<close>

lemma reachable_empty: "reachable d az rt (sampleWorld emptyDatabase)"
  by (rule reachable.init) (simp add: sampleWorld_def)

text \<open>A request that creates the sample definition, and the state it leads to.\<close>

definition sampleCreate :: CreateDefinitionInput where
  "sampleCreate = \<lparr>cdTenantID = ''t1'', cdApplicationID = ''a1'', cdKey = ''expense'', cdName = ''Expense'', cdDescription = [],
     cdNodes = sampleNodes, cdEdges = sampleEdges\<rparr>"

definition createdWorld :: world where
  "createdWorld = snd (Service_CreateDefinition sampleDeps sampleContext sampleCreate (sampleWorld emptyDatabase))"

definition publishedWorld :: world where
  "publishedWorld = snd (Service_PublishDefinition sampleDeps sampleContext ''t1'' ''a1'' ''i'' 1 createdWorld)"

lemma createdWorld_step: "step sampleDeps sampleAuthz sampleRt (Request sampleContext ''t1'') (sampleWorld emptyDatabase) createdWorld"
proof -
  have "cdTenantID sampleCreate = ''t1''" by (simp add: sampleCreate_def)
  then show ?thesis
    using step.create [of sampleDeps sampleContext sampleCreate "sampleWorld emptyDatabase" _ createdWorld sampleAuthz sampleRt]
    unfolding createdWorld_def by (metis prod.collapse)
qed

lemma publishedWorld_step: "step sampleDeps sampleAuthz sampleRt (Request sampleContext ''t1'') createdWorld publishedWorld"
  unfolding publishedWorld_def by (rule step.publish, rule prod.collapse [symmetric])

lemma publishedWorld_reachable: "reachable sampleDeps sampleAuthz sampleRt publishedWorld"
  by (rule reachable.advance [OF reachable.advance [OF reachable_empty createdWorld_step] publishedWorld_step])

lemma sample_strings: "map validNodeStrings sampleNodes = sampleNodes" "map validEdgeStrings sampleEdges = sampleEdges"
  "list_all priorityInRange sampleEdges"
  by code_simp+

lemma sample_hydrate:
  "defNodesJSON v = marshalNodes sampleNodes \<Longrightarrow> defEdgesJSON v = marshalEdges sampleEdges
   \<Longrightarrow> hydrateDefinition v = Inr (v\<lparr>defNodes := sampleNodes, defEdges := sampleEdges\<rparr>)"
  by (simp add: hydrateDefinition_def unmarshal_marshalNodes unmarshal_marshalEdges sample_strings)

definition createdRow :: Definition where
  "createdRow = \<lparr>defID = ''i'', defTenantID = ''t1'', defApplicationID = ''a1'', defKey = ''expense'', defName = ''Expense'',
     defDescription = [], defStatus = DefinitionDraft, defPublishedRevision = 0,
     defNodesJSON = marshalNodes sampleNodes, defEdgesJSON = marshalEdges sampleEdges, defVersion = 1,
     defCreatedAt = 1000, defUpdatedAt = 1000, defCreatedBy = ''u1'', defUpdatedBy = ''u1'', defNodes = [], defEdges = []\<rparr>"

lemma sample_trim: "TrimSpace ''Expense'' = ''Expense''"
  by code_simp

lemma createdWorld_eq:
  "createdWorld = (sampleWorld (emptyDatabase\<lparr>dbDefinitions := [createdRow]\<rparr>))\<lparr>wCalls := 2, wTicks := 1, wFresh := 1, wRemote := 1\<rparr>"
  unfolding createdWorld_def Service_CreateDefinition_def CreateDefinition_def GetDefinition_def
  by (simp add: sampleCreate_def sample_actor bindE_def io_simps sample_verify sample_accepted encodeGraph_def now_def newID_def
      sampleWorld_def wrapE_def mapErr_def dbCall_def query_def insertDefinition_def emptyDatabase_def constant_defs
      mapNotFound_def selectOne_def defIs_def sample_hydrate createdRow_def sample_trim split: option.splits)

text \<open>The row after publishing, and its revision.\<close>

definition publishedRow :: Definition where
  "publishedRow = createdRow\<lparr>defStatus := DefinitionPublished, defPublishedRevision := 1, defVersion := 2,
     defUpdatedAt := 1001, defUpdatedBy := ''u1''\<rparr>"

text \<open>The event of the sample publication, and what building and enqueueing it does.\<close>

definition sampleEvent :: "world \<Rightarrow> string \<Rightarrow> string \<Rightarrow> string \<Rightarrow> Payload \<Rightarrow> OutboxEvent" where
  "sampleEvent w subject aggregate kind p = (let e = \<lparr>envEventId = wIds w (wFresh w), envEventType = subject,
     envMetadata = \<lparr>metaEventID = wIds w (wFresh w), metaEventType = subject, metaAggregateID = aggregate,
       metaAggregateType = kind, metaTenantID = ''t1'', metaApplicationID = ''a1'', metaSchemaVersion = 1,
       metaRequestID = [], metaTraceID = [], metaActorID = ''u1'', metaActorType = ''user'', metaOccurredAt = wClock w (wTicks w)\<rparr>,
     envPayload = p\<rparr> in \<lparr>evID = envEventId e, evSubject = subject, evEnvelope = e\<rparr>)"

lemma sample_build:
  "build sampleDeps sampleContext s a kind ''t1'' ''a1'' p w =
     (Inr (sampleEvent w s a kind p), w\<lparr>wFresh := wFresh w + 1, wTicks := wTicks w + 1\<rparr>)"
  by (simp add: build_def bindE_def newID_def now_def io_simps sampleContext_def sampleDeps_def sampleEvent_def
      requestIDFromContext_def Let_def)

lemma sample_addTx: "addTxStmt sampleDeps ev actor db = (Inr (), db\<lparr>dbOutbox := dbOutbox db @ [(ev, actor)]\<rparr>)"
  by (simp add: addTxStmt_def sampleDeps_def)

lemma publishedWorld_eq:
  "\<exists>ev. wDb publishedWorld = emptyDatabase\<lparr>dbDefinitions := [publishedRow], dbRevisions := [revisionOf createdRow 1 1001 ''u1''],
       dbOutbox := [(ev, ''u1'')]\<rparr>
     \<and> wFaults publishedWorld = (\<lambda>n. None) \<and> wIds publishedWorld = (\<lambda>n. replicate (Suc n) CHR ''i'')"
proof -
  have valid: "ValidateDefinition (defKey createdRow) (defName createdRow) sampleNodes sampleEdges = Inr ()"
    using sample_accepted by (simp add: createdRow_def)
  have row: "defVersion createdRow = 1" "defStatus createdRow = DefinitionDraft" "defIs ''t1'' ''a1'' ''i'' createdRow"
    "defPublishedRevision createdRow = 0" "defID createdRow = ''i''" "defID (revisionOf createdRow 1 1001 ''u1'') = ''i''"
    by (simp_all add: createdRow_def defIs_def revisionOf_def Definition.defs)
  have hyd: "hydrateDefinition createdRow = Inr (createdRow\<lparr>defNodes := sampleNodes, defEdges := sampleEdges\<rparr>)"
    by (rule sample_hydrate) (simp_all add: createdRow_def)
  have hyd2: "hydrateDefinition publishedRow = Inr (publishedRow\<lparr>defNodes := sampleNodes, defEdges := sampleEdges\<rparr>)"
    by (rule sample_hydrate) (simp_all add: publishedRow_def createdRow_def)
  have ids: "defTenantID publishedRow = ''t1''" "defApplicationID publishedRow = ''a1''"
    by (simp_all add: publishedRow_def createdRow_def)
  have upd: "createdRow\<lparr>defStatus := DefinitionPublished, defPublishedRevision := 1, defVersion := 2,
      defUpdatedAt := 1001, defUpdatedBy := ''u1''\<rparr> = publishedRow" by (simp add: publishedRow_def)
  show ?thesis
    unfolding publishedWorld_def Service_PublishDefinition_def PublishDefinition_def GetDefinition_def createdWorld_eq
    by (simp add: sample_actor bindE_def io_simps sample_verify sampleWorld_def mapNotFound_def mapErr_def query_def dbCall_def
        selectOne_def row hyd valid inTx_def wrapE_def beginTx_def now_def insertRevision_def emptyDatabase_def
        affectedOne_def rowsAffected_def publishStmt_def updateDefinitions_def updateWhere_def upd hyd2 ids
        DefinitionPublishedEv_def sample_build sample_addTx commitTx_def rollbackTo_def)
qed

lemma publishedWorld_rows: "map defStatus (dbDefinitions (wDb publishedWorld)) = [DefinitionPublished]"
  "map revRevision (dbRevisions (wDb publishedWorld)) = [1]" "length (dbOutbox (wDb publishedWorld)) = 1"
  using publishedWorld_eq by (auto simp: publishedRow_def revisionOf_def Definition.defs)

lemma publishedWorld_changed: "wDb createdWorld \<noteq> wDb publishedWorld"
proof
  assume "wDb createdWorld = wDb publishedWorld"
  then have "length (dbOutbox (wDb createdWorld)) = 1" using publishedWorld_rows(3) by simp
  then show False by (simp add: createdWorld_eq sampleWorld_def emptyDatabase_def)
qed

section \<open>An instance started\<close>

definition sampleStart :: StartInstanceInput where
  "sampleStart = \<lparr>siTenantID = ''t1'', siApplicationID = ''a1'', siDefinitionKey = ''expense'', siBusinessKey = ''b1'', siTitle = ''Trip'',
     siVariablesJSON = ''{}'', siIdempotencyKey = ''key-0001''\<rparr>"

lemma sampleStart_fields [simp]: "siTenantID sampleStart = ''t1''" "siApplicationID sampleStart = ''a1''" "siDefinitionKey sampleStart = ''expense''"
  "siBusinessKey sampleStart = ''b1''" "siTitle sampleStart = ''Trip''" "siVariablesJSON sampleStart = ''{}''"
  "siIdempotencyKey sampleStart = ''key-0001''"
  by (simp_all add: sampleStart_def)

lemma sampleStart_valid: "identifierPattern ''expense''" "TrimSpace ''b1'' = ''b1''" "TrimSpace ''Trip'' = ''Trip''"
  "idempotencyPattern ''key-0001''" "validJSONObject ''{}'' = Inr ()"
  by code_simp+

definition publishedDefinition :: Definition where
  "publishedDefinition = (revisionAsDefinition (revisionOf createdRow 1 1001 ''u1''))\<lparr>defNodes := sampleNodes, defEdges := sampleEdges\<rparr>"

lemma sample_published:
  assumes "wDb w = wDb publishedWorld" and "wFaults w = (\<lambda>n. None)"
  shows "GetPublishedDefinitionByKey ''t1'' ''a1'' ''expense'' w = (Inr publishedDefinition, w\<lparr>wCalls := wCalls w + 2\<rparr>)"
proof -
  obtain ev where db: "wDb publishedWorld = emptyDatabase\<lparr>dbDefinitions := [publishedRow],
      dbRevisions := [revisionOf createdRow 1 1001 ''u1''], dbOutbox := [(ev, ''u1'')]\<rparr>"
    using publishedWorld_eq by blast
  have hyd: "hydrateDefinition (revisionAsDefinition (revisionOf createdRow 1 1001 ''u1'')) = Inr publishedDefinition"
    unfolding publishedDefinition_def by (rule sample_hydrate) (simp_all add: createdRow_def)
  have row: "defTenantID publishedRow = ''t1''" "defApplicationID publishedRow = ''a1''" "defKey publishedRow = ''expense''"
    "defStatus publishedRow = DefinitionPublished" "defPublishedRevision publishedRow = 1" "defID publishedRow = ''i''"
    "defID createdRow = ''i''" "defTenantID createdRow = ''t1''" "defApplicationID createdRow = ''a1''"
    by (simp_all add: publishedRow_def createdRow_def)
  show ?thesis
    by (simp add: GetPublishedDefinitionByKey_def GetDefinition_def bindE_def mapNotFound_def mapErr_def query_def dbCall_def assms db
        selectOne_def emptyDatabase_def row io_simps hyd)
qed

lemma sample_start:
  "\<exists>inst w'. Service_StartInstance sampleDeps sampleContext sampleStart publishedWorld = (Inr inst, w') \<and> instID inst \<noteq> []"
proof -
  obtain ev where db: "wDb publishedWorld = emptyDatabase\<lparr>dbDefinitions := [publishedRow],
      dbRevisions := [revisionOf createdRow 1 1001 ''u1''], dbOutbox := [(ev, ''u1'')]\<rparr>"
    and w: "wFaults publishedWorld = (\<lambda>n. None)" "wIds publishedWorld = (\<lambda>n. replicate (Suc n) CHR ''i'')"
    using publishedWorld_eq by blast
  have new: "instStatus (newInstance sampleStart publishedDefinition a t i) = InstanceRunning"
    "instDefinitionID (newInstance sampleStart publishedDefinition a t i) = ''i''" 
    "instTenantID (newInstance sampleStart publishedDefinition a t i) = ''t1''" 
    "instApplicationID (newInstance sampleStart publishedDefinition a t i) = ''a1''" 
    "instID (newInstance sampleStart publishedDefinition a t i) = i" for a t i
    by (simp_all add: newInstance_def sampleStart_def publishedDefinition_def revisionAsDefinition_def revisionOf_def createdRow_def Definition.defs)
  have row: "defID publishedRow = ''i''" by (simp add: publishedRow_def createdRow_def)
  show ?thesis
    unfolding Service_StartInstance_def CreateInstance_def InstanceStartRequestedEv_def
    by (simp add: bindE_def io_simps sample_actor sample_verify sampleStart_valid sample_published w now_def newID_def
        inTx_def wrapE_def mapErr_def beginTx_def dbCall_def insertInstance_def db emptyDatabase_def row new oneOf_iff
        sample_build sample_addTx commitTx_def rollbackTo_def)
qed

end
