(* ===== verification/Operations.thy ===== *)
theory Operations
  imports Samples
begin

text \<open>
  What single operations guarantee, whatever calls to the database or to other services fail:
  who may act on a task, that a change and its event commit together or not at all, that an
  expected version is used up by the operation it let through, and that repeated activities
  change nothing.
\<close>

section \<open>Acting on a task\<close>

lemma noDb_bind: "noDb m \<Longrightarrow> (\<And>x. noDb (k x)) \<Longrightarrow> noDb (bindE m k)"
  unfolding noDb_keeps by (rule frozen.keeps_bind)

lemma noDb_authorizedTask: "noDb (authorizedTask d az ctx tn ap i)"
  unfolding authorizedTask_def noDb_keeps GetTask_def mapNotFound_def
  by (intro frozen.keeps_intros noDb_verifyApplication [unfolded noDb_keeps] noDb_assignmentAllows [unfolded noDb_keeps])

text \<open>An operation that begins with the authorization of the task and changed the database.\<close>

lemma authorized_changed:
  assumes "bindE (authorizedTask d az ctx tn ap i) k w = (r, w')" and "wDb w' \<noteq> wDb w"
  shows "\<exists>actor task w1. authorizedTask d az ctx tn ap i w = (Inr (actor, task), w1) \<and> wDb w1 = wDb w
    \<and> k (actor, task) w1 = (r, w')"
  using assms(1)
proof (cases rule: bindE_cases)
  case (err e)
  then show ?thesis using assms(2) noDbD [OF noDb_authorizedTask] by metis
next
  case (ok x w1)
  then show ?thesis using noDbD [OF noDb_authorizedTask ok(1)] by (cases x) auto
qed

lemma guard_changed:
  "bindE (guardE b e) k w = (r, w') \<Longrightarrow> wDb w' \<noteq> wDb w \<Longrightarrow> \<not> b \<and> k () w = (r, w')"
  by (auto simp: bindE_def io_simps split: if_splits)

text \<open>The three operations on a task, each with any of its other arguments.\<close>

definition taskOperation :: "deps \<Rightarrow> authz \<Rightarrow> Context \<Rightarrow> string \<Rightarrow> string \<Rightarrow> string \<Rightarrow> int \<Rightarrow> world \<Rightarrow> world \<Rightarrow> bool" where
  "taskOperation d az ctx tn ap i ver w w' \<longleftrightarrow>
     (\<exists>r. Service_ClaimTask d az ctx tn ap i ver w = (r, w')) \<or>
     (\<exists>decision comment out r. Service_CompleteTask d az ctx tn ap i decision comment out ver w = (r, w')) \<or>
     (\<exists>delegateTo reason r. Service_DelegateTask d az ctx tn ap i delegateTo reason ver w = (r, w'))"

text \<open>A row that the statement of an operation selects is the row that was authorized.\<close>

lemma task_row_unique:
  assumes "keysOk db" and "find (taskIs tn ap i) (dbTasks db) = Some task" and "r \<in> set (dbTasks db)" and "taskID r = taskID task"
  shows "r = task"
  using assms find_Some_in [OF assms(2)] unfolding keysOk_def by (meson distinct_map inj_onD)

lemma filter_one: "length (filter P rs) = Suc 0 \<Longrightarrow> \<exists>r\<in>set rs. P r"
  by (metis One_nat_def filter_empty_conv length_0_conv zero_neq_one)

text \<open>The row a statement selected, and its successor with the next version.\<close>

definition nextIn :: "database \<Rightarrow> Task \<Rightarrow> bool" where
  "nextIn db r \<longleftrightarrow> (\<exists>r'\<in>set (dbTasks db). taskID r' = taskID r \<and> taskVersion r' = taskVersion r + 1)"

lemma nextIn_update:
  assumes "r \<in> set (dbTasks db)" and "P r" and "\<And>r. taskID (f r) = taskID r \<and> taskVersion (f r) = taskVersion r + 1"
    and "dbTasks db' = updateWhere P f (dbTasks db)"
  shows "nextIn db' r"
proof -
  have "f r \<in> set (dbTasks db')" using assms(1,2,4) by (auto simp: set_updateWhere)
  then show ?thesis unfolding nextIn_def using assms(3) by blast
qed

lemma nextIn_same: "dbTasks db' = dbTasks db \<Longrightarrow> nextIn db' r = nextIn db r"
  by (simp add: nextIn_def)

lemma later_tables: "insertHistory h db = (Inr (), db') \<Longrightarrow> dbTasks db' = dbTasks db" "addTxStmt d ev actor db = (Inr (), db') \<Longrightarrow> dbTasks db' = dbTasks db"
  by (auto simp: insertHistory_def addTxStmt_def split: if_splits sum.splits)

lemma claimed_row:
  assumes "claimStmt tn ap i ver actor t db = (Inr 1, db')"
  shows "\<exists>r\<in>set (dbTasks db). taskIs tn ap i r \<and> taskVersion r = ver \<and> taskStatus r = TaskPending \<and> nextIn db' r"
proof -
  let ?P = "\<lambda>r. taskIs tn ap i r \<and> taskVersion r = ver \<and> taskStatus r = TaskPending"
  obtain r where r: "r \<in> set (dbTasks db)" "?P r"
    using assms by (auto simp: claimStmt_def updateTasks_def dest: filter_one)
  have "nextIn db' r"
    by (rule nextIn_update [where P = ?P, OF r, of "\<lambda>r. r\<lparr>taskStatus := TaskClaimed, taskClaimedBy := actor, taskVersion := taskVersion r + 1,
             taskUpdatedAt := t, taskUpdatedBy := actor\<rparr>"])
      (use assms in \<open>auto simp: claimStmt_def updateTasks_def\<close>)
  with r show ?thesis by blast
qed

lemma opened_row:
  "completeStmt cur st dec comment out actor t db = (Inr 1, db') \<Longrightarrow> \<exists>r\<in>set (dbTasks db). openFor cur actor r \<and> nextIn db' r"
  "delegateStmt cur dt actor t db = (Inr 1, db') \<Longrightarrow> \<exists>r\<in>set (dbTasks db). openFor cur actor r \<and> nextIn db' r"
proof -
  assume c: "completeStmt cur st dec comment out actor t db = (Inr 1, db')"
  then obtain r where r: "r \<in> set (dbTasks db)" "openFor cur actor r"
    by (auto simp: completeStmt_def updateTasks_def dest: filter_one)
  have "nextIn db' r"
    by (rule nextIn_update [where P = "openFor cur actor", OF r, of "\<lambda>r. r\<lparr>taskStatus := st, taskDecision := dec, taskComment := comment,
             taskOutputJSON := out, taskCompletedAt := Some t, taskVersion := taskVersion r + 1,
             taskUpdatedAt := t, taskUpdatedBy := actor\<rparr>"])
      (use c in \<open>auto simp: completeStmt_def updateTasks_def\<close>)
  with r show "\<exists>r\<in>set (dbTasks db). openFor cur actor r \<and> nextIn db' r" by blast
next
  assume c: "delegateStmt cur dt actor t db = (Inr 1, db')"
  then obtain r where r: "r \<in> set (dbTasks db)" "openFor cur actor r"
    by (auto simp: delegateStmt_def updateTasks_def dest: filter_one)
  have "nextIn db' r"
    by (rule nextIn_update [where P = "openFor cur actor", OF r, of "\<lambda>r. r\<lparr>taskAssigneeType := AssigneeUser, taskAssignee := dt, taskClaimedBy := [],
             taskStatus := TaskPending, taskVersion := taskVersion r + 1, taskUpdatedAt := t, taskUpdatedBy := actor\<rparr>"])
      (use c in \<open>auto simp: delegateStmt_def updateTasks_def\<close>)
  with r show "\<exists>r\<in>set (dbTasks db). openFor cur actor r \<and> nextIn db' r" by blast
qed

text \<open>The transaction that an operation which changed the database ran, and on what.\<close>

lemma claim_changed:
  assumes "Service_ClaimTask d az ctx tn ap i ver w = (r, w')" and "wDb w' \<noteq> wDb w"
  shows "\<exists>actor task w1. authorizedTask d az ctx tn ap i w = (Inr (actor, task), w1) \<and> wDb w1 = wDb w
    \<and> 1 \<le> ver \<and> taskVersion task = ver \<and> ClaimTask tn ap i ver actor w1 = (r, w')"
  using authorized_changed [OF assms(1) [unfolded Service_ClaimTask_def] assms(2)] assms(2)
  by (fastforce dest!: guard_changed)

lemma GetInstance_db: "GetInstance tn ap i w = (r, w') \<Longrightarrow> wDb w' = wDb w"
  unfolding GetInstance_def by (auto dest: select_step)

lemma complete_changed:
  assumes "Service_CompleteTask d az ctx tn ap i decision comment out ver w = (r, w')" and "wDb w' \<noteq> wDb w"
  shows "\<exists>actor task w1 r2 w2. authorizedTask d az ctx tn ap i w = (Inr (actor, task), w1) \<and> wDb w1 = wDb w
    \<and> 1 \<le> ver \<and> taskVersion task = ver \<and> decision \<in> {DecisionApprove, DecisionReject}
    \<and> CompleteTask d ctx task decision (TrimSpace comment) (defaultJSONObject out) actor w1 = (r2, w2) \<and> wDb w2 = wDb w'"
proof -
  from authorized_changed [OF assms(1) [unfolded Service_CompleteTask_def] assms(2)] assms(2)
  obtain actor task w1 where a: "authorizedTask d az ctx tn ap i w = (Inr (actor, task), w1)" "wDb w1 = wDb w"
    and g: "1 \<le> ver" "taskVersion task = ver" "decision \<in> {DecisionApprove, DecisionReject}"
    and b: "bindE (CompleteTask d ctx task decision (TrimSpace comment) (defaultJSONObject out) actor) (\<lambda>completed.
        bindE (GetInstance tn ap (taskInstanceID task)) (\<lambda>inst. ret (completed, inst))) w1 = (r, w')"
    by (fastforce dest!: guard_changed simp: oneOf_iff)
  from b show ?thesis
  proof (cases rule: bindE_cases)
    case (err e)
    with a g show ?thesis by blast
  next
    case (ok x w2)
    then have "wDb w2 = wDb w'" by (auto elim!: bindE_cases simp: io_simps dest: GetInstance_db)
    with a g ok show ?thesis by blast
  qed
qed

lemma delegate_changed:
  assumes "Service_DelegateTask d az ctx tn ap i delegateTo reason ver w = (r, w')" and "wDb w' \<noteq> wDb w"
  shows "\<exists>actor task w1. authorizedTask d az ctx tn ap i w = (Inr (actor, task), w1) \<and> wDb w1 = wDb w
    \<and> 1 \<le> ver \<and> taskVersion task = ver \<and> DelegateTask task (TrimSpace delegateTo) (TrimSpace reason) actor w1 = (r, w')"
  using authorized_changed [OF assms(1) [unfolded Service_DelegateTask_def] assms(2)] assms(2)
  by (fastforce dest!: guard_changed)

lemma operation_changed:
  assumes "taskOperation d az ctx tn ap i ver w w'" and "wDb w' \<noteq> wDb w"
  shows "\<exists>actor task w1. authorizedTask d az ctx tn ap i w = (Inr (actor, task), w1) \<and> 1 \<le> ver \<and> taskVersion task = ver
    \<and> (\<exists>r\<in>set (dbTasks (wDb w)). taskID r = taskID task \<and> taskVersion r = ver \<and> taskStatus r \<in> set openTaskStatuses \<and> nextIn (wDb w') r)"
  using assms(1) unfolding taskOperation_def
proof (elim disjE exE)
  fix r assume "Service_ClaimTask d az ctx tn ap i ver w = (r, w')"
  from claim_changed [OF this assms(2)] obtain actor task w1 where
    a: "authorizedTask d az ctx tn ap i w = (Inr (actor, task), w1)" "wDb w1 = wDb w" "1 \<le> ver" "taskVersion task = ver"
      "ClaimTask tn ap i ver actor w1 = (r, w')" by blast
  from ClaimTask_tx [OF a(5)] a(2) assms(2) obtain t db1 where
    st: "claimStmt tn ap i ver actor t (wDb w) = (Inr 1, db1)" and "dbTasks (wDb w') = dbTasks db1" by (auto dest!: later_tables)
  from claimed_row [OF st] a find_Some_in [OF authorizedTask_Inr(1) [OF a(1)]] nextIn_same [OF this(2)] show ?thesis
    by (auto simp: taskIs_def openTaskStatuses_def)
next
  fix decision comment out r assume "Service_CompleteTask d az ctx tn ap i decision comment out ver w = (r, w')"
  from complete_changed [OF this assms(2)] obtain actor task w1 r2 w2 where
    a: "authorizedTask d az ctx tn ap i w = (Inr (actor, task), w1)" "wDb w1 = wDb w" "1 \<le> ver" "taskVersion task = ver"
      "CompleteTask d ctx task decision (TrimSpace comment) (defaultJSONObject out) actor w1 = (r2, w2)" "wDb w2 = wDb w'" by blast
  from CompleteTask_tx [OF a(5)] a(2,6) assms(2) obtain st t db1 where
    st: "completeStmt task st decision (TrimSpace comment) (defaultJSONObject out) actor t (wDb w) = (Inr 1, db1)"
    and "dbTasks (wDb w') = dbTasks db1" by (auto dest!: later_tables)
  from opened_row(1) [OF st] a nextIn_same [OF this(2)] show ?thesis by (auto simp: openFor_def oneOf_iff)
next
  fix delegateTo reason r assume "Service_DelegateTask d az ctx tn ap i delegateTo reason ver w = (r, w')"
  from delegate_changed [OF this assms(2)] obtain actor task w1 where
    a: "authorizedTask d az ctx tn ap i w = (Inr (actor, task), w1)" "wDb w1 = wDb w" "1 \<le> ver" "taskVersion task = ver"
      "DelegateTask task (TrimSpace delegateTo) (TrimSpace reason) actor w1 = (r, w')" by blast
  from DelegateTask_tx [OF a(5)] a(2) assms(2) obtain t db1 where
    st: "delegateStmt task (TrimSpace delegateTo) actor t (wDb w) = (Inr 1, db1)"
    and "dbTasks (wDb w') = dbTasks db1" by (auto dest!: later_tables)
  from opened_row(2) [OF st] a nextIn_same [OF this(2)] show ?thesis by (auto simp: openFor_def oneOf_iff)
qed

text \<open>
  C8: a claim, a completion or a delegation changes the database only when the caller is
  authenticated for the tenant, the task exists with exactly the expected version, is pending or
  claimed and not claimed by someone else, and the caller is its assignee, holds its role or is
  allowed by the authorization service.
\<close>

theorem task_change_authorized:
  assumes "taskOperation d az ctx tn ap i ver w w'" and "wDb w' \<noteq> wDb w" and "keysOk (wDb w)"
  shows "\<exists>actor task. actorForTenant ctx tn = Inr actor \<and> find (taskIs tn ap i) (dbTasks (wDb w)) = Some task
    \<and> taskVersion task = ver \<and> 1 \<le> ver \<and> taskStatus task \<in> set openTaskStatuses
    \<and> (taskClaimedBy task = [] \<or> taskClaimedBy task = actor) \<and> entitled az ctx tn actor task"
proof -
  from operation_changed [OF assms(1,2)] obtain actor task w1 r where
    a: "authorizedTask d az ctx tn ap i w = (Inr (actor, task), w1)" and v: "taskVersion task = ver" "1 \<le> ver"
    and r: "r \<in> set (dbTasks (wDb w))" "taskID r = taskID task" "taskStatus r \<in> set openTaskStatuses"
    by blast
  have "r = task" using task_row_unique [OF assms(3) authorizedTask_Inr(1) [OF a] r(1,2)] .
  with authorizedTask_Inr [OF a] v r(3) show ?thesis by blast
qed

section \<open>An expected version is used once\<close>

text \<open>Steps of anyone, one after the other.\<close>

inductive steps :: "deps \<Rightarrow> authz \<Rightarrow> rtdeps \<Rightarrow> world \<Rightarrow> world \<Rightarrow> bool" for d az rt where
  none: "steps d az rt w w"
| more: "steps d az rt w w1 \<Longrightarrow> step d az rt l w1 w2 \<Longrightarrow> steps d az rt w w2"

lemma steps_evolves: "steps d az rt w w' \<Longrightarrow> evolves (wDb w) (wDb w')"
  by (induction rule: steps.induct) (auto intro: evolves_refl evolves_trans step_evolution)

lemma step_keysOk: "step d az rt l w w' \<Longrightarrow> keysOk (wDb w) \<Longrightarrow> keysOk (wDb w')"
  using keys.keeps_step [OF _ keys.keeps_Service_PublishDefinition] unfolding keptBy_def by blast

lemma steps_keysOk: "steps d az rt w w' \<Longrightarrow> keysOk (wDb w) \<Longrightarrow> keysOk (wDb w')"
  by (induction rule: steps.induct) (auto dest: step_keysOk)

lemma request_steps: "taskOperation d az ctx tn ap i ver w w' \<Longrightarrow> steps d az rt w w'"
  unfolding taskOperation_def
  by (auto intro: steps.more [OF steps.none] step.claim step.complete step.delegate)

lemma later_version:
  assumes "evolves db db'" and "r \<in> set (dbTasks db)"
  shows "\<exists>r'\<in>set (dbTasks db'). taskID r' = taskID r \<and> taskVersion r \<le> taskVersion r'"
  using assms unfolding evolves_def rowsStep_def taskStep_def by (metis order.refl order.strict_implies_order)

text \<open>
  C4: when an operation on a task changed it under an expected version, no later operation of
  anyone on that task with the same expected version changes anything, whatever happened in
  between: of two people who read the same version at most one acts on it.
\<close>

theorem task_version_used_once:
  assumes "keysOk (wDb w)" and "taskOperation d az ctx tn ap i ver w w1" and "wDb w1 \<noteq> wDb w"
    and "steps d az rt w1 w2" and "taskOperation d az ctx' tn ap i ver w2 w3"
  shows "wDb w3 = wDb w2"
proof (rule ccontr)
  assume changed: "wDb w3 \<noteq> wDb w2"
  have keys2: "keysOk (wDb w2)"
    using assms(1,4) request_steps [OF assms(2)] steps_keysOk by blast
  from operation_changed [OF assms(2,3)] obtain actor task w' r where
    a: "authorizedTask d az ctx tn ap i w = (Inr (actor, task), w')" and r: "taskID r = taskID task" "taskVersion r = ver" "nextIn (wDb w1) r"
    by blast
  then obtain r1 where r1: "r1 \<in> set (dbTasks (wDb w1))" "taskID r1 = taskID task" "taskVersion r1 = ver + 1"
    by (auto simp: nextIn_def)
  from later_version [OF steps_evolves [OF assms(4)] r1(1)] obtain r2 where
    r2: "r2 \<in> set (dbTasks (wDb w2))" "taskID r2 = taskID task" "ver + 1 \<le> taskVersion r2" using r1 by auto
  from operation_changed [OF assms(5) changed] obtain actor2 task2 w'' where
    b: "authorizedTask d az ctx' tn ap i w2 = (Inr (actor2, task2), w'')" "taskVersion task2 = ver" by blast
  have "taskID task = i" "taskID task2 = i"
    using find_Some_in [OF authorizedTask_Inr(1) [OF a]] find_Some_in [OF authorizedTask_Inr(1) [OF b(1)]] by (simp_all add: taskIs_def)
  with r2 have "r2 = task2" by (intro task_row_unique [OF keys2 authorizedTask_Inr(1) [OF b(1)]]) simp_all
  with r2(3) b(2) show False by simp
qed

section \<open>Witnesses\<close>

definition taskWorld :: world where
  "taskWorld = sampleWorld (emptyDatabase\<lparr>dbTasks := [sampleTask], dbInstances := [sampleInstance\<lparr>instID := ''i1''\<rparr>]\<rparr>)"

lemma taskWorld_fields [simp]: "wFaults taskWorld n = None" "wCalls taskWorld = 0" "wTicks taskWorld = 0" "wFresh taskWorld = 0" "wRemote taskWorld = 0"
  "wClock taskWorld n = 1000 + int n" "dbTasks (wDb taskWorld) = [sampleTask]" "dbHistory (wDb taskWorld) = []" "dbOutbox (wDb taskWorld) = []"
  "dbInstances (wDb taskWorld) = [sampleInstance\<lparr>instID := ''i1''\<rparr>]" "dbDefinitions (wDb taskWorld) = []" "dbRevisions (wDb taskWorld) = []"
  by (simp_all add: taskWorld_def sampleWorld_def emptyDatabase_def)

definition claimedTask :: Task where
  "claimedTask = sampleTask\<lparr>taskStatus := TaskClaimed, taskClaimedBy := ''u1'', taskVersion := 2,
     taskUpdatedAt := 1000, taskUpdatedBy := ''u1''\<rparr>"

lemma sampleTask_fields: "taskIs ''t1'' ''a1'' ''k1'' sampleTask" "taskVersion sampleTask = 1" "taskStatus sampleTask = TaskPending"
  "taskClaimedBy sampleTask = []" "taskAssigneeType sampleTask = AssigneeUser" "taskAssignee sampleTask = ''u1''"
  "taskID sampleTask = ''k1''" "taskTenantID sampleTask = ''t1''" "taskApplicationID sampleTask = ''a1''" "taskInstanceID sampleTask = ''i1''"
  by (simp_all add: sampleTask_def approvalTask_def taskIs_def constant_defs)

lemma sample_authorized:
  "authorizedTask sampleDeps az sampleContext ''t1'' ''a1'' ''k1'' taskWorld =
     (Inr (''u1'', sampleTask), taskWorld\<lparr>wRemote := 1, wCalls := 1\<rparr>)"
  by (simp add: authorizedTask_def bindE_def io_simps sample_actor sample_verify GetTask_def mapNotFound_def mapErr_def
      query_def dbCall_def selectOne_def sampleTask_fields assignmentAllows_def constant_defs)

lemma sample_claim:
  "dbTasks (wDb (snd (Service_ClaimTask sampleDeps az sampleContext ''t1'' ''a1'' ''k1'' 1 taskWorld))) = [claimedTask]"
proof -
  have c: "taskIs ''t1'' ''a1'' ''k1'' claimedTask" "taskID claimedTask = ''k1''"
    using sampleTask_fields(1) by (simp_all add: claimedTask_def taskIs_def)
  have u: "sampleTask\<lparr>taskStatus := TaskClaimed, taskClaimedBy := ''u1'', taskVersion := 2,
     taskUpdatedAt := 1000, taskUpdatedBy := ''u1''\<rparr> = claimedTask" by (simp add: claimedTask_def)
  show ?thesis
    by (simp add: Service_ClaimTask_def bindE_def sample_authorized io_simps sampleTask_fields ClaimTask_def inTx_def wrapE_def mapErr_def
        beginTx_def dbCall_def now_def newID_def affectedOne_def rowsAffected_def query_def claimStmt_def updateTasks_def updateWhere_def
        u c getTaskTx_def mapNotFound_def selectOne_def insertHistory_def historyOf_def commitTx_def rollbackTo_def)
qed

lemma taskWorld_keys: "keysOk (wDb taskWorld)"
  by (simp add: keysOk_def)

lemma claimed_differs: "claimedTask \<noteq> sampleTask"
proof
  assume "claimedTask = sampleTask"
  then have "taskVersion claimedTask = taskVersion sampleTask" by simp
  then show False using sampleTask_fields(2) by (simp add: claimedTask_def)
qed

definition claimedWorld :: world where
  "claimedWorld = snd (Service_ClaimTask sampleDeps sampleAuthz sampleContext ''t1'' ''a1'' ''k1'' 1 taskWorld)"

lemma claimedWorld_operation: "taskOperation sampleDeps sampleAuthz sampleContext ''t1'' ''a1'' ''k1'' 1 taskWorld claimedWorld"
  unfolding taskOperation_def claimedWorld_def by (metis prod.collapse)

lemma claimedWorld_changed: "wDb claimedWorld \<noteq> wDb taskWorld"
proof
  assume "wDb claimedWorld = wDb taskWorld"
  then have "[claimedTask] = [sampleTask]" using sample_claim [of sampleAuthz] by (simp add: claimedWorld_def)
  then show False using claimed_differs by simp
qed

theorem task_change_authorized_witness:
  "\<exists>actor task. actorForTenant sampleContext ''t1'' = Inr actor \<and> find (taskIs ''t1'' ''a1'' ''k1'') (dbTasks (wDb taskWorld)) = Some task
    \<and> taskStatus task \<in> set openTaskStatuses \<and> entitled sampleAuthz sampleContext ''t1'' actor task"
  using task_change_authorized [OF claimedWorld_operation claimedWorld_changed taskWorld_keys] by blast

theorem task_version_used_once_witness:
  "wDb (snd (Service_ClaimTask sampleDeps sampleAuthz sampleContext ''t1'' ''a1'' ''k1'' 1 claimedWorld)) = wDb claimedWorld
   \<and> dbTasks (wDb claimedWorld) = [claimedTask]"
proof
  have "taskOperation sampleDeps sampleAuthz sampleContext ''t1'' ''a1'' ''k1'' 1 claimedWorld
      (snd (Service_ClaimTask sampleDeps sampleAuthz sampleContext ''t1'' ''a1'' ''k1'' 1 claimedWorld))"
    unfolding taskOperation_def by (metis prod.collapse)
  then show "wDb (snd (Service_ClaimTask sampleDeps sampleAuthz sampleContext ''t1'' ''a1'' ''k1'' 1 claimedWorld)) = wDb claimedWorld"
    by (rule task_version_used_once [OF taskWorld_keys claimedWorld_operation claimedWorld_changed steps.none])
  show "dbTasks (wDb claimedWorld) = [claimedTask]" by (simp add: claimedWorld_def sample_claim)
qed

end
