(* ===== verification/Atomicity.thy ===== *)
theory Atomicity
  imports Operations
begin

text \<open>
  The transactional outbox: an operation that changes an instance, a task or a definition leaves
  the database as it was, or commits exactly the change, its history row and one event that
  carries the changed row. Any call may fail; nothing in between is ever committed.
\<close>

section \<open>One row replaced\<close>

definition replaceRow :: "'r \<Rightarrow> 'r \<Rightarrow> 'r list \<Rightarrow> 'r list" where
  "replaceRow old new rows = map (\<lambda>r. if r = old then new else r) rows"

lemma updateWhere_one:
  assumes "distinct (map key rows)" and "x \<in> set rows" and "P x" and "\<And>r. P r \<Longrightarrow> key r = key x"
  shows "updateWhere P f rows = replaceRow x (f x) rows"
  unfolding updateWhere_def replaceRow_def
proof (rule map_cong [OF refl])
  fix r assume "r \<in> set rows"
  then have "P r \<longleftrightarrow> r = x" using assms by (metis distinct_map inj_onD)
  then show "(if P r then f r else r) = (if r = x then f x else r)" by simp
qed

lemma find_replaceRow: "find P rows = Some x \<Longrightarrow> P y \<Longrightarrow> find P (replaceRow x y rows) = Some y"
  by (induction rows) (auto simp: replaceRow_def split: if_splits)

text \<open>What the factory's event carries.\<close>

lemma built_events:
  assumes "envelopeLaw d"
  shows "builtBy (DefinitionPublishedEv d ctx v) ev \<Longrightarrow> evSubject ev = DefinitionPublishedSubject
      \<and> envPayload (evEnvelope ev) = DefinitionPublishedEvent (definitionProto v)"
    and "builtBy (InstanceStartRequestedEv d ctx i v) ev \<Longrightarrow> evSubject ev = InstanceStartRequestedSubject
      \<and> envPayload (evEnvelope ev) = InstanceStartRequestedEvent (Some (instanceProto i)) (Some (definitionProto v))"
    and "builtBy (InstanceCancellationRequestedEv d ctx i reason) ev \<Longrightarrow> evSubject ev = InstanceCancellationRequestedSubject
      \<and> envPayload (evEnvelope ev) = InstanceCancellationRequestedEvent (Some (instanceProto i)) reason"
    and "builtBy (InstanceStatusChangedEv d ctx i prev) ev
      \<Longrightarrow> envPayload (evEnvelope ev) = InstanceStatusChangedEvent (instanceProto i) (instanceStatus prev)"
    and "builtBy (TaskCreatedEv d ctx t) ev \<Longrightarrow> envPayload (evEnvelope ev) = TaskCreatedEvent (taskProto t)"
    and "builtBy (TaskCompletedEv d ctx t) ev \<Longrightarrow> evSubject ev = TaskCompletedSubject
      \<and> envPayload (evEnvelope ev) = TaskCompletedEvent (Some (taskProto t))"
  unfolding builtBy_def event_defs using build_event(1,3) [OF _ assms] by blast+

section \<open>Completing a task\<close>

definition decidedTask :: "Task \<Rightarrow> string \<Rightarrow> string \<Rightarrow> string \<Rightarrow> string \<Rightarrow> time \<Rightarrow> Task" where
  "decidedTask task decision comment out actor t = task\<lparr>taskStatus := decisionStatus decision, taskDecision := decision,
     taskComment := comment, taskOutputJSON := out, taskCompletedAt := Some t, taskVersion := taskVersion task + 1,
     taskUpdatedAt := t, taskUpdatedBy := actor\<rparr>"

definition completionHistory :: "Task \<Rightarrow> string \<Rightarrow> string \<Rightarrow> string \<Rightarrow> string \<Rightarrow> time \<Rightarrow> TaskHistory" where
  "completionHistory task decision comment hid actor t =
     historyOf hid (taskTenantID task) (taskApplicationID task) (taskID task) (taskInstanceID task) ''complete'' actor
       (taskStatus task) (decisionStatus decision) (marshalStringMap [(''comment'', comment), (''decision'', decision)]) t"

lemma complete_row:
  assumes "completeStmt task (decisionStatus dec) dec comment out actor t db = (Inr 1, db1)" and "keysOk db"
    and "find (taskIs tn ap i) (dbTasks db) = Some task"
  shows "db1 = db\<lparr>dbTasks := replaceRow task (decidedTask task dec comment out actor t) (dbTasks db)\<rparr>"
proof -
  have task: "task \<in> set (dbTasks db)" using find_Some_in [OF assms(3)] by simp
  obtain r where r: "r \<in> set (dbTasks db)" "openFor task actor r" using opened_row(1) [OF assms(1)] by blast
  then have "r = task" by (intro task_row_unique [OF assms(2,3)]) (simp_all add: openFor_def)
  with r have "openFor task actor task" by simp
  moreover have "distinct (map taskID (dbTasks db))" using assms(2) by (simp add: keysOk_def)
  ultimately have "updateWhere (openFor task actor) f (dbTasks db) = replaceRow task (f task) (dbTasks db)" for f
    by (intro updateWhere_one [OF _ task, of taskID]) (simp_all add: openFor_def)
  then show ?thesis using assms(1) by (auto simp: completeStmt_def updateTasks_def decidedTask_def)
qed

lemma insertHistory_Inr: "insertHistory h db = (Inr (), db') \<Longrightarrow> histVersion h = 1 \<Longrightarrow> db' = db\<lparr>dbHistory := dbHistory db @ [h]\<rparr>"
  by (auto simp: insertHistory_def split: if_splits)

lemma CompleteTask_effect:
  assumes "CompleteTask d ctx task dec comment out actor w = (r, w')" and "keysOk (wDb w)"
    and "find (taskIs tn ap i) (dbTasks (wDb w)) = Some task" and "outboxLaw d" and "envelopeLaw d"
  shows "\<not> isOk r \<and> wDb w' = wDb w \<or>
    (\<exists>t hid ev. r = Inr (decidedTask task dec comment out actor t)
       \<and> wDb w' = (wDb w)\<lparr>dbTasks := replaceRow task (decidedTask task dec comment out actor t) (dbTasks (wDb w)),
           dbHistory := dbHistory (wDb w) @ [completionHistory task dec comment hid actor t],
           dbOutbox := dbOutbox (wDb w) @ [(ev, actor)]\<rparr>
       \<and> evSubject ev = TaskCompletedSubject
       \<and> envPayload (evEnvelope ev) = TaskCompletedEvent (Some (taskProto (decidedTask task dec comment out actor t))))"
  using CompleteTask_tx [OF assms(1)]
proof (elim disjE exE conjE)
  fix t hid completed ev db1 db2
  let ?done = "decidedTask task dec comment out actor t"
  assume c: "completeStmt task (decisionStatus dec) dec comment out actor t (wDb w) = (Inr 1, db1)"
    and h: "insertHistory (historyOf hid (taskTenantID task) (taskApplicationID task) (taskID task) (taskInstanceID task)
        ''complete'' actor (taskStatus task) (decisionStatus dec) (marshalStringMap [(''comment'', comment), (''decision'', dec)]) t) db1
        = (Inr (), db2)"
    and f: "find (taskIs (taskTenantID task) (taskApplicationID task) (taskID task)) (dbTasks db2) = Some completed"
    and e: "builtBy (TaskCompletedEv d ctx completed) ev" and a: "addTxStmt d ev actor db2 = (Inr (), wDb w')" and r: "r = Inr completed"
  note db1 = complete_row [OF c assms(2,3)]
  have db2: "db2 = db1\<lparr>dbHistory := dbHistory db1 @ [completionHistory task dec comment hid actor t]\<rparr>"
    using insertHistory_Inr [OF h] by (simp add: completionHistory_def historyOf_def)
  have "taskIs tn ap i = taskIs (taskTenantID task) (taskApplicationID task) (taskID task)"
    using find_Some_in [OF assms(3)] by (simp add: taskIs_def)
  then have "completed = ?done"
    using f find_replaceRow [OF assms(3), of ?done] by (simp add: db2 db1 decidedTask_def taskIs_def)
  then show ?thesis
    using built_events(6) [OF assms(5) e] addTxStmt_Inr [OF a assms(4)] r by (auto simp: db1 db2)
qed simp

lemma complete_ok:
  assumes "Service_CompleteTask d az ctx tn ap i decision comment out ver w = (Inr x, w')"
  shows "\<exists>actor task w1 w2. authorizedTask d az ctx tn ap i w = (Inr (actor, task), w1)
    \<and> CompleteTask d ctx task decision (TrimSpace comment) (defaultJSONObject out) actor w1 = (Inr (fst x), w2) \<and> wDb w' = wDb w2"
  using assms unfolding Service_CompleteTask_def bindE_Inr
  by (auto simp: bindE_Inr basic_Inr dest!: GetInstance_db)

text \<open>
  C3: completing a task, whatever calls fail, either leaves every table as it was and returns an
  error, or commits together: the task with its decision, output, completion time and next
  version, one history row, and one event that carries the completed task. Nothing else changes.
  The call may still end with an error then, if reading the instance afterwards fails.
\<close>

theorem complete_atomic:
  assumes "Service_CompleteTask d az ctx tn ap i decision comment out ver w = (r, w')" and "keysOk (wDb w)"
    and "outboxLaw d" and "envelopeLaw d"
  shows "\<not> isOk r \<and> wDb w' = wDb w \<or>
    (\<exists>actor task t hid ev. let done = decidedTask task decision (TrimSpace comment) (defaultJSONObject out) actor t in
       actorForTenant ctx tn = Inr actor \<and> find (taskIs tn ap i) (dbTasks (wDb w)) = Some task
       \<and> wDb w' = (wDb w)\<lparr>dbTasks := replaceRow task done (dbTasks (wDb w)),
           dbHistory := dbHistory (wDb w) @ [completionHistory task decision (TrimSpace comment) hid actor t],
           dbOutbox := dbOutbox (wDb w) @ [(ev, actor)]\<rparr>
       \<and> evSubject ev = TaskCompletedSubject \<and> envPayload (evEnvelope ev) = TaskCompletedEvent (Some (taskProto done))
       \<and> (\<forall>x. r = Inr x \<longrightarrow> fst x = done))"
proof (cases "wDb w' = wDb w")
  case False
  from complete_changed [OF assms(1) False] obtain actor task w1 r2 w2 where
    a: "authorizedTask d az ctx tn ap i w = (Inr (actor, task), w1)" "wDb w1 = wDb w"
      "CompleteTask d ctx task decision (TrimSpace comment) (defaultJSONObject out) actor w1 = (r2, w2)" "wDb w2 = wDb w'" by blast
  note found = authorizedTask_Inr(1) [OF a(1)]
  have returned: "fst x = y" if "r = Inr x" "r2 = Inr y" for x y
    using complete_ok [OF assms(1) [unfolded that(1)]] a(1,3) that(2) by auto
  from CompleteTask_effect [OF a(3), unfolded a(2,4), OF assms(2) found assms(3,4)] False obtain t hid ev where
    e: "r2 = Inr (decidedTask task decision (TrimSpace comment) (defaultJSONObject out) actor t)"
      "wDb w' = (wDb w)\<lparr>dbTasks := replaceRow task (decidedTask task decision (TrimSpace comment) (defaultJSONObject out) actor t) (dbTasks (wDb w)),
         dbHistory := dbHistory (wDb w) @ [completionHistory task decision (TrimSpace comment) hid actor t],
         dbOutbox := dbOutbox (wDb w) @ [(ev, actor)]\<rparr>"
      "evSubject ev = TaskCompletedSubject"
      "envPayload (evEnvelope ev) = TaskCompletedEvent (Some (taskProto (decidedTask task decision (TrimSpace comment) (defaultJSONObject out) actor t)))"
    by blast
  then show ?thesis using authorizedTask_Inr(3) [OF a(1)] found returned unfolding Let_def by blast
next
  case True
  have "\<not> isOk r"
  proof
    assume "isOk r"
    then obtain x where "r = Inr x" by (auto simp: isOk_iff)
    from complete_ok [OF assms(1) [unfolded this]] obtain actor task w1 w2 where
      a: "authorizedTask d az ctx tn ap i w = (Inr (actor, task), w1)"
        "CompleteTask d ctx task decision (TrimSpace comment) (defaultJSONObject out) actor w1 = (Inr (fst x), w2)" "wDb w' = wDb w2"
      by blast
    have w1: "wDb w1 = wDb w" by (rule noDbD [OF noDb_authorizedTask a(1)])
    from CompleteTask_effect [OF a(2), unfolded w1, OF assms(2) authorizedTask_Inr(1) [OF a(1)] assms(3,4)]
    obtain rows x where "dbOutbox (wDb w2) = dbOutbox (wDb w) @ [x]" by auto
    with a(3) True have "dbOutbox (wDb w) = dbOutbox (wDb w) @ [x]" by simp
    then show False by simp
  qed
  with True show ?thesis by simp
qed

section \<open>Starting and cancelling an instance\<close>

lemma noDb_step:
  assumes "bindE m k w = (r, w')" and "noDb m"
  obtains (failed) "\<not> isOk r" "wDb w' = wDb w"
  | (went_on) x w1 where "m w = (Inr x, w1)" "wDb w1 = wDb w" "k x w1 = (r, w')"
  using assms(1) by (cases rule: bindE_cases) (use noDbD [OF assms(2)] failed went_on in force)+

lemma noDb_basic: "noDb (liftR q)" "noDb (guardE b e)" "noDb now" "noDb newID" "noDb (ret x)" "noDb (fail e)" "noDb (query q2)"
  unfolding noDb_keeps by (rule frozen.keeps_intros)+

lemma noDb_mapNotFound: "noDb m \<Longrightarrow> noDb (mapNotFound op m)"
  unfolding mapNotFound_def noDb_keeps by (rule frozen.keeps_mapErr)

lemma noDb_GetDefinition: "noDb (GetDefinition tn ap i rv)"
  unfolding GetDefinition_def by (auto intro!: noDb_bind noDb_mapNotFound noDb_basic)

lemma noDb_GetPublished: "noDb (GetPublishedDefinitionByKey tn ap key)"
  unfolding GetPublishedDefinitionByKey_def by (intro noDb_bind noDb_mapNotFound noDb_basic noDb_GetDefinition)

lemma start_split:
  assumes "Service_StartInstance d ctx input w = (r, w')"
  shows "\<not> isOk r \<and> wDb w' = wDb w \<or> (\<exists>actor dv t i w1 w2 w3. actorForTenant ctx (siTenantID input) = Inr actor
    \<and> siTenantID input \<noteq> [] \<and> siApplicationID input \<noteq> [] \<and> wDb w1 = wDb w
    \<and> GetPublishedDefinitionByKey (siTenantID input) (siApplicationID input) (siDefinitionKey input) w1 = (Inr dv, w2)
    \<and> i = wIds w2 (wFresh w2) \<and> wDb w3 = wDb w \<and> CreateInstance d ctx (newInstance input dv actor t i) dv w3 = (r, w'))"
  using assms unfolding Service_StartInstance_def
  by (elim noDb_step; (intro noDb_basic noDb_verifyApplication noDb_GetPublished)?)
    (auto simp: basic_Inr now_def newID_def isOk_iff split: if_splits)

text \<open>The definition an instance starts from: the published revision of the key.\<close>

definition publishedFor :: "string \<Rightarrow> string \<Rightarrow> string \<Rightarrow> Definition \<Rightarrow> bool" where
  "publishedFor tn ap key r \<longleftrightarrow> defTenantID r = tn \<and> defApplicationID r = ap \<and> defKey r = key \<and> defStatus r = DefinitionPublished"

lemma GetDefinition_revision:
  assumes "GetDefinition tn ap i n w = (Inr dv, w')" and "n \<noteq> 0"
  shows "\<exists>v\<in>set (dbRevisions (wDb w)). defID v = i \<and> defTenantID v = tn \<and> defApplicationID v = ap \<and> revRevision v = n
    \<and> hydrateDefinition (revisionAsDefinition v) = Inr dv"
  using assms
  by (auto simp: GetDefinition_def bindE_Inr mapNotFound_def mapErr_Inr query_Inr selectOne_def basic_Inr split: option.splits
      dest!: find_Some_in)

lemma revision_unique:
  assumes "keysOk db" and "v \<in> set (dbRevisions db)" and "u \<in> set (dbRevisions db)"
    and "defID v = defID u" and "revRevision v = revRevision u"
  shows "v = u"
proof -
  have "inj_on (\<lambda>r. (defID r, revRevision r)) (set (dbRevisions db))" using assms(1) by (simp add: keysOk_def distinct_map)
  from inj_onD [OF this _ assms(2,3)] assms(4,5) show ?thesis by simp
qed

lemma published_read:
  assumes "GetPublishedDefinitionByKey tn ap key w = (Inr dv, w')" and "publishOk (wDb w)"
  shows "\<exists>cur\<in>set (dbDefinitions (wDb w)). publishedFor tn ap key cur
    \<and> (\<exists>v\<in>set (dbRevisions (wDb w)). sameContent v cur \<and> hydrateDefinition (revisionAsDefinition v) = Inr dv)"
proof -
  from assms(1) obtain cur where cur: "find (publishedFor tn ap key) (dbDefinitions (wDb w)) = Some cur"
    and get: "GetDefinition tn ap (defID cur) (defPublishedRevision cur) (w\<lparr>wCalls := wCalls w + 1\<rparr>) = (Inr dv, w')"
    by (auto simp: GetPublishedDefinitionByKey_def bindE_Inr mapNotFound_select_Inr publishedFor_def [abs_def])
  have in_db: "cur \<in> set (dbDefinitions (wDb w))" "publishedFor tn ap key cur" using find_Some_in [OF cur] by auto
  with assms(2) have ok: "defPublishedRevision cur = 1" "list_ex (\<lambda>v. sameContent v cur) (dbRevisions (wDb w))"
    by (auto simp: publishOk_def list_all_iff definitionOk_def publishedFor_def constant_defs)
  from GetDefinition_revision [OF get] ok(1) obtain v where v: "v \<in> set (dbRevisions (wDb w))" "defID v = defID cur"
    "revRevision v = 1" "hydrateDefinition (revisionAsDefinition v) = Inr dv" by auto
  from ok(2) obtain v0 where v0: "v0 \<in> set (dbRevisions (wDb w))" "sameContent v0 cur" by (auto simp: list_ex_iff)
  have "v = v0"
    by (rule revision_unique [OF _ v(1) v0(1)]) (use assms(2) v v0 in \<open>auto simp: publishOk_def sameContent_def\<close>)
  with v v0 in_db show ?thesis by blast
qed

lemma insertInstance_Inr:
  "insertInstance v db = (Inr (), db') \<Longrightarrow> instVersion v = 1 \<Longrightarrow>
     db' = db\<lparr>dbInstances := dbInstances db @ [v]\<rparr>
     \<and> list_all (\<lambda>r. (instTenantID r, instApplicationID r, instIdempotencyKey r) \<noteq> (instTenantID v, instApplicationID v, instIdempotencyKey v)
         \<and> (instTenantID r, instDefinitionID r, instBusinessKey r) \<noteq> (instTenantID v, instDefinitionID v, instBusinessKey v)) (dbInstances db)"
  by (auto simp: insertInstance_def list_ex_iff list_all_iff split: if_splits)

lemma newInstance_fields [simp]: "instVersion (newInstance input dv actor t i) = 1" "instCreatedBy (newInstance input dv actor t i) = actor"
  "instTenantID (newInstance input dv actor t i) = siTenantID input" "instApplicationID (newInstance input dv actor t i) = siApplicationID input"
  "instIdempotencyKey (newInstance input dv actor t i) = siIdempotencyKey input" "instID (newInstance input dv actor t i) = i"
  by (simp_all add: newInstance_def)

lemma CreateInstance_effect:
  assumes "CreateInstance d ctx v dv w = (r, w')" and "instVersion v = 1" and "outboxLaw d" and "envelopeLaw d"
  shows "\<not> isOk r \<and> wDb w' = wDb w \<or> (\<exists>ev. r = Inr v
    \<and> wDb w' = (wDb w)\<lparr>dbInstances := dbInstances (wDb w) @ [v], dbOutbox := dbOutbox (wDb w) @ [(ev, instCreatedBy v)]\<rparr>
    \<and> builtBy (InstanceStartRequestedEv d ctx v dv) ev
    \<and> list_all (\<lambda>r. (instTenantID r, instApplicationID r, instIdempotencyKey r) \<noteq> (instTenantID v, instApplicationID v, instIdempotencyKey v)
         \<and> (instTenantID r, instDefinitionID r, instBusinessKey r) \<noteq> (instTenantID v, instDefinitionID v, instBusinessKey v)) (dbInstances (wDb w)))"
  using CreateInstance_tx [OF assms(1)] addTxStmt_Inr [OF _ assms(3)] insertInstance_Inr [OF _ assms(2)] by fastforce

text \<open>
  C10: starting an instance, whatever calls fail, either leaves every table as it was and returns
  an error, or commits together one running instance of the published revision of the key and
  one event that carries the instance and the definition. It never creates a second instance
  with an idempotency key, or with a business key of the definition, that is in use.
\<close>

theorem start_atomic:
  assumes "Service_StartInstance d ctx input w = (r, w')" and "publishOk (wDb w)" and "outboxLaw d" and "envelopeLaw d"
  shows "\<not> isOk r \<and> wDb w' = wDb w \<or>
    (\<exists>actor cur v dv t i ev. let inst = newInstance input dv actor t i in
       actorForTenant ctx (siTenantID input) = Inr actor
       \<and> cur \<in> set (dbDefinitions (wDb w)) \<and> publishedFor (siTenantID input) (siApplicationID input) (siDefinitionKey input) cur
       \<and> v \<in> set (dbRevisions (wDb w)) \<and> sameContent v cur \<and> hydrateDefinition (revisionAsDefinition v) = Inr dv
       \<and> r = Inr inst
       \<and> wDb w' = (wDb w)\<lparr>dbInstances := dbInstances (wDb w) @ [inst], dbOutbox := dbOutbox (wDb w) @ [(ev, actor)]\<rparr>
       \<and> evSubject ev = InstanceStartRequestedSubject
       \<and> envPayload (evEnvelope ev) = InstanceStartRequestedEvent (Some (instanceProto inst)) (Some (definitionProto dv))
       \<and> list_all (\<lambda>x. (instTenantID x, instApplicationID x, instIdempotencyKey x) \<noteq> (siTenantID input, siApplicationID input, siIdempotencyKey input)
            \<and> (instTenantID x, instDefinitionID x, instBusinessKey x) \<noteq> (siTenantID input, defID dv, siBusinessKey input)) (dbInstances (wDb w)))"
  using start_split [OF assms(1)]
proof (elim disjE exE conjE)
  fix actor dv t i w1 w2 w3
  let ?inst = "newInstance input dv actor t i"
  assume act: "actorForTenant ctx (siTenantID input) = Inr actor" and w1: "wDb w1 = wDb w" and w3: "wDb w3 = wDb w"
    and pub: "GetPublishedDefinitionByKey (siTenantID input) (siApplicationID input) (siDefinitionKey input) w1 = (Inr dv, w2)"
    and create: "CreateInstance d ctx ?inst dv w3 = (r, w')"
  from published_read [OF pub] w1 assms(2) obtain cur v where source:
    "cur \<in> set (dbDefinitions (wDb w))" "publishedFor (siTenantID input) (siApplicationID input) (siDefinitionKey input) cur"
    "v \<in> set (dbRevisions (wDb w))" "sameContent v cur" "hydrateDefinition (revisionAsDefinition v) = Inr dv" by auto
  have [simp]: "instDefinitionID ?inst = defID dv" "instBusinessKey ?inst = siBusinessKey input" by (simp_all add: newInstance_def)
  from CreateInstance_effect [OF create newInstance_fields(1) assms(3,4)] show ?thesis
  proof (elim disjE exE conjE)
    fix ev assume "builtBy (InstanceStartRequestedEv d ctx ?inst dv) ev" and r: "r = Inr ?inst"
      and db: "wDb w' = (wDb w3)\<lparr>dbInstances := dbInstances (wDb w3) @ [?inst],
        dbOutbox := dbOutbox (wDb w3) @ [(ev, instCreatedBy ?inst)]\<rparr>"
      and fresh: "list_all (\<lambda>r. (instTenantID r, instApplicationID r, instIdempotencyKey r)
           \<noteq> (instTenantID ?inst, instApplicationID ?inst, instIdempotencyKey ?inst)
         \<and> (instTenantID r, instDefinitionID r, instBusinessKey r)
           \<noteq> (instTenantID ?inst, instDefinitionID ?inst, instBusinessKey ?inst)) (dbInstances (wDb w3))"
    note ev = built_events(2) [OF assms(4) this(1)]
    show ?thesis
      using fresh
      by (intro disjI2 exI [of _ actor] exI [of _ cur] exI [of _ v] exI [of _ dv] exI [of _ t] exI [of _ i] exI [of _ ev])
        (simp add: Let_def act source r db w3 ev)
  qed (simp_all add: w3)
qed simp

section \<open>Witnesses\<close>

lemma sample_complete_ok:
  "isOk (fst (Service_CompleteTask sampleDeps sampleAuthz sampleContext ''t1'' ''a1'' ''k1'' DecisionApprove ''fine'' [] 1 taskWorld))"
proof -
  have open_task: "openFor sampleTask ''u1'' sampleTask"
    using sampleTask_fields by (simp add: openFor_def oneOf_iff openTaskStatuses_def)
  have inst: "instIs ''t1'' ''a1'' ''i1'' (sampleInstance\<lparr>instID := ''i1''\<rparr>)"
    by (simp add: instIs_def sampleInstance_def newInstance_def)
  have out: "defaultJSONObject [] = ''{}''" "validJSONObject ''{}'' = Inr ()" by code_simp+
  show ?thesis
    by (simp add: Service_CompleteTask_def bindE_def sample_authorized io_simps sampleTask_fields out oneOf_iff CompleteTask_def inTx_def
        wrapE_def mapErr_def beginTx_def dbCall_def now_def newID_def affectedOne_def rowsAffected_def query_def completeStmt_def
        updateTasks_def updateWhere_def open_task insertHistory_def historyOf_def getTaskTx_def mapNotFound_def selectOne_def
        taskIs_def TaskCompletedEv_def sample_build sample_addTx commitTx_def rollbackTo_def GetInstance_def inst)
qed

theorem complete_atomic_witness:
  "map (evSubject \<circ> fst) (dbOutbox (wDb (snd (Service_CompleteTask sampleDeps sampleAuthz sampleContext ''t1'' ''a1'' ''k1''
     DecisionApprove ''fine'' [] 1 taskWorld)))) = [TaskCompletedSubject]"
proof -
  obtain r w' where run: "Service_CompleteTask sampleDeps sampleAuthz sampleContext ''t1'' ''a1'' ''k1'' DecisionApprove ''fine'' [] 1
      taskWorld = (r, w')" by fastforce
  have "isOk r" using sample_complete_ok run by simp
  with complete_atomic [OF run taskWorld_keys sampleDeps_laws(3,1)] show ?thesis unfolding Let_def by (auto simp: run)
qed

theorem start_atomic_witness:
  "\<exists>inst w'. Service_StartInstance sampleDeps sampleContext sampleStart publishedWorld = (Inr inst, w')
    \<and> dbInstances (wDb w') = dbInstances (wDb publishedWorld) @ [inst] \<and> length (dbOutbox (wDb w')) = 2"
proof -
  obtain inst w' where run: "Service_StartInstance sampleDeps sampleContext sampleStart publishedWorld = (Inr inst, w')"
    using sample_start by blast
  from start_atomic [OF run reachable_publishOk [OF publishedWorld_reachable] sampleDeps_laws(3,1)] run show ?thesis
    unfolding Let_def by (auto simp: publishedWorld_rows(3))
qed

end
