(* ===== verification/Lifecycle.thy ===== *)
theory Lifecycle
  imports Atomicity
begin

text \<open>
  An instance from the request that starts it to the run of its workflow: the published revision
  passes through the event, the command handler and the protobuf enums and still is a graph that
  validation accepts, so the run has no structural error.
\<close>

section \<open>Graphs through the wire\<close>

definition wireNode :: "Node \<Rightarrow> Node" where
  "wireNode n = nodeFromProto (nodeProto n)"

lemma nodesFromProto_wire: "nodesFromProto (map (\<lambda>n. Some (nodeProto n)) ns) = map wireNode ns"
  by (induction ns) (simp_all add: wireNode_def)

lemma wireNode_fields:
  "nodeID (wireNode n) = nodeID n" "nodeOk n \<Longrightarrow> nodeType (wireNode n) = nodeType n"
  by (auto simp: wireNode_def nodeFromProto_def nodeProto_def nodeOk_def nodeTypeOk_def intro!: nodeType_roundtrip)

lemma wireNode_ok: "nodeOk n \<Longrightarrow> nodeOk (wireNode n)"
  using wireNode_fields(2) [of n]
  by (auto simp: nodeOk_def nodeTypeOk_def wireNode_def nodeFromProto_def nodeProto_def assigneeType_roundtrip)

lemma wire_wellFormed:
  assumes "wellFormedGraph ns es"
  shows "wellFormedGraph (map wireNode ns) es"
proof -
  have ok: "list_all nodeOk ns" using assms by (simp add: wellFormedGraph_def)
  have types: "nodeType (wireNode n) = nodeType n" if "n \<in> set ns" for n
    using ok that wireNode_fields(2) by (simp add: list_all_iff)
  have cnt: "length (filter (\<lambda>n. nodeType n = NodeStart) (map wireNode ns)) = length (filter (\<lambda>n. nodeType n = NodeStart) ns)"
    using types by (simp add: filter_map o_def cong: filter_cong)
  have ids: "map nodeID (map wireNode ns) = map nodeID ns" by (simp add: wireNode_fields o_def)
  have edge: "edgeOk (map wireNode ns) e = edgeOk ns e" for e
    using types by (simp add: edgeOk_def wireNode_fields cong: bex_cong)
  show ?thesis
    using assms ids cnt
    by (auto simp: wellFormedGraph_def list_all_iff list_ex_iff edge types wireNode_fields wireNode_ok o_def)
qed

lemma wire_validates:
  "ValidateDefinition key name ns es = Inr () \<Longrightarrow> ValidateDefinition key name (map wireNode ns) es = Inr ()"
  unfolding validate_accepts_iff wellFormedDefinition_def using wire_wellFormed by simp

section \<open>The call that starts the run\<close>

lemma handle_start_call:
  assumes "builtBy (InstanceStartRequestedEv d ctx i dv) ev" and "envelopeLaw d" and "decodeLaw d"
    and "instID i \<noteq> []" and "instApplicationID i \<noteq> []"
  shows "snd (Handle d cl (Some (evEnvelope ev)) calls) = calls @
    [ExecuteWorkflowCall (''workflow:'' @ instTenantID i @ '':'' @ instID i) (clTaskQueue cl)
       (startInput (instanceProto i) (definitionProto dv))]"
proof -
  obtain w w' where "build d ctx InstanceStartRequestedSubject (instID i) ''workflow_instance'' (instTenantID i) (instApplicationID i)
      (InstanceStartRequestedEvent (Some (instanceProto i)) (Some (definitionProto dv))) w = (Inr ev, w')"
    using assms(1) by (auto simp: builtBy_def InstanceStartRequestedEv_def)
  note ev = build_event(2,3) [OF this assms(2)]
  have "decodeStart d (evEnvelope ev) = Inr (Some (instanceProto i), Some (definitionProto dv))"
    using assms(3) ev(2) by (simp add: decodeStart_def decodeLaw_def)
  then show ?thesis
    using assms(4,5) ev(1)
    by (auto simp: Handle_def InstanceStartRequestedSubject_def handleStart_def bindE_def wrapE_def mapErr_def io_simps call_def
        orWrapped_def workflowID_def instanceProto_def split: option.splits)
qed

lemma startInput_fields:
  "inInstanceID (startInput (instanceProto i) (definitionProto dv)) = instID i"
  "inTenantID (startInput (instanceProto i) (definitionProto dv)) = instTenantID i"
  "inApplicationID (startInput (instanceProto i) (definitionProto dv)) = instApplicationID i"
  "inNodes (startInput (instanceProto i) (definitionProto dv)) = map wireNode (defNodes dv)"
  "inEdges (startInput (instanceProto i) (definitionProto dv)) = defEdges dv"
  by (simp_all add: startInput_def instanceProto_def definitionProto_def nodesFromProto_wire edges_roundtrip)

text \<open>
  C12: in a reachable state, an instance that was started has put one event into the outbox; the
  command handler answers it with one call to the engine, to run the workflow of that instance;
  and that run, whatever the engine answers, never fails because of its graph: an error of the
  workflow itself is an approval that timed out, an unknown decision or no matching edge.
\<close>

theorem started_instance_runs:
  assumes "reachable d az rt w" and "Service_StartInstance d ctx input w = (Inr inst, w')"
    and "outboxLaw d" and "envelopeLaw d" and "decodeLaw d" and "instID inst \<noteq> []"
  shows "\<exists>ev actor inp. dbOutbox (wDb w') = dbOutbox (wDb w) @ [(ev, actor)]
    \<and> snd (Handle d cl (Some (evEnvelope ev)) calls) =
        calls @ [ExecuteWorkflowCall (''workflow:'' @ instTenantID inst @ '':'' @ instID inst) (clTaskQueue cl) inp]
    \<and> inInstanceID inp = instID inst
    \<and> (\<forall>e m t log. priority_sorter (engSort e) \<longrightarrow> Execute e inp = (Inl (AppErr m t), log)
          \<longrightarrow> t \<in> {''APPROVAL_TIMEOUT'', ''INVALID_DECISION'', ''NO_MATCHING_EDGE''})"
proof -
  from start_split [OF assms(2)] obtain actor dv t i w1 w2 w3 where
    ids: "siTenantID input \<noteq> []" "siApplicationID input \<noteq> []" and w1: "wDb w1 = wDb w" and w3: "wDb w3 = wDb w"
    and pub: "GetPublishedDefinitionByKey (siTenantID input) (siApplicationID input) (siDefinitionKey input) w1 = (Inr dv, w2)"
    and create: "CreateInstance d ctx (newInstance input dv actor t i) dv w3 = (Inr inst, w')"
    by auto
  from CreateInstance_effect [OF create newInstance_fields(1) assms(3,4)] obtain ev where
    inst: "inst = newInstance input dv actor t i"
    and db: "dbOutbox (wDb w') = dbOutbox (wDb w3) @ [(ev, instCreatedBy inst)]"
    and ev: "builtBy (InstanceStartRequestedEv d ctx inst dv) ev" by auto
  from published_read [OF pub] w1 reachable_publishOk [OF assms(1)] obtain v where
    v: "v \<in> set (dbRevisions (wDb w))" "hydrateDefinition (revisionAsDefinition v) = Inr dv" by auto
  with reachable_graphsOk [OF assms(1)] have valid: "ValidateDefinition (defKey dv) (defName dv) (defNodes dv) (defEdges dv) = Inr ()"
    by (auto simp: graphsOk_def list_all_iff revisionValid_def)
  let ?inp = "startInput (instanceProto inst) (definitionProto dv)"
  have inp: "inInstanceID ?inp \<noteq> []" "inTenantID ?inp \<noteq> []" "inApplicationID ?inp \<noteq> []"
    using assms(6) ids by (simp_all add: startInput_fields inst)
  have graph: "ValidateDefinition (defKey dv) (defName dv) (inNodes ?inp) (inEdges ?inp) = Inr ()"
    using wire_validates [OF valid] by (simp add: startInput_fields)
  note call = handle_start_call [OF ev assms(4,5,6), of cl calls]
  show ?thesis
    using db w3 call ids inp run_error_kinds [OF graph inp]
    by (intro exI [of _ ev] exI [of _ "instCreatedBy inst"] exI [of _ ?inp]) (auto simp: inst startInput_fields)
qed

theorem started_instance_runs_witness:
  "\<exists>inst w' ev actor inp. Service_StartInstance sampleDeps sampleContext sampleStart publishedWorld = (Inr inst, w')
    \<and> dbOutbox (wDb w') = dbOutbox (wDb publishedWorld) @ [(ev, actor)]
    \<and> snd (Handle sampleDeps sampleClient (Some (evEnvelope ev)) [])
        = [ExecuteWorkflowCall (''workflow:'' @ instTenantID inst @ '':'' @ instID inst) (clTaskQueue sampleClient) inp]"
proof -
  obtain inst w' where run: "Service_StartInstance sampleDeps sampleContext sampleStart publishedWorld = (Inr inst, w')" "instID inst \<noteq> []"
    using sample_start by blast
  from started_instance_runs [OF publishedWorld_reachable run(1) sampleDeps_laws(3,1,2) run(2), of sampleClient "[]"] run(1)
  show ?thesis by fastforce
qed

end
