(* ===== verification/Guarantees.thy ===== *)
theory Guarantees
  imports Lifecycle
begin

text \<open>
  What the service guarantees as a whole: the invariants of every reachable state, that rows only
  move forward, the separation of tenants, and who may change what.
\<close>

section \<open>Reachable states\<close>

text \<open>
  C7: in every reachable state the primary keys, the unique constraints and the foreign keys
  hold; a definition is a draft without a revision, or published or disabled with exactly one
  revision, number 1, that holds its current content; an instance is running exactly while it has no finish time; a
  task is pending and unclaimed, claimed, or decided with a matching status and a completion time.
\<close>

theorem reachable_tables:
  assumes "reachable d az rt w"
  shows "publishOk (wDb w) \<and> statusOk (wDb w)"
  using reachable_publishOk [OF assms] reachable_statusOk [OF assms] by simp

theorem reachable_tables_witness:
  "publishOk (wDb publishedWorld) \<and> statusOk (wDb publishedWorld) \<and> dbRevisions (wDb publishedWorld) \<noteq> []"
  using reachable_tables [OF publishedWorld_reachable] publishedWorld_rows(2) by auto

text \<open>
  C18: in every reachable state each published revision decodes to a graph that
  \<open>ValidateDefinition\<close> accepts.
\<close>

theorem reachable_revisions_valid:
  assumes "reachable d az rt w" and "v \<in> set (dbRevisions (wDb w))"
  shows "revisionValid v"
  using reachable_graphsOk [OF assms(1)] assms(2) by (simp add: graphsOk_def list_all_iff)

theorem reachable_revisions_valid_witness:
  "revisionValid (hd (dbRevisions (wDb publishedWorld)))"
proof -
  have "dbRevisions (wDb publishedWorld) \<noteq> []" using publishedWorld_rows(2) by auto
  then show ?thesis by (intro reachable_revisions_valid [OF publishedWorld_reachable]) simp
qed

text \<open>
  C11: rows only move forward. After any step every definition, revision, instance and task that
  was there is still there, with its identity and its fixed fields; it changed only with a higher
  version, a definition never once disabled and a published one only to disabled with the same
  content, a revision never, an instance only while running, a task only while pending or claimed.
\<close>

theorem step_evolves:
  assumes "step d az rt l w w'"
  shows "evolves (wDb w) (wDb w')"
  using assms by (rule step_evolution)

theorem step_evolves_witness:
  "evolves (wDb createdWorld) (wDb publishedWorld) \<and> wDb createdWorld \<noteq> wDb publishedWorld"
  using step_evolves [OF publishedWorld_step] publishedWorld_changed by simp

text \<open>
  C13: a request or an activity for one tenant leaves the definitions, revisions, instances,
  tasks and history of every other tenant exactly as they are, in content and order.
\<close>

theorem tenant_isolation:
  assumes "step d az rt l w w'" and "l = Request ctx tn \<or> l = Activity tn"
  shows "otherTenantsSame tn (wDb w) (wDb w')"
  using assms tenant.keeps_request [OF refl tenant.keeps_Service_PublishDefinition [OF refl]] tenant.keeps_activity [OF refl]
  by blast

theorem tenant_isolation_witness:
  "otherTenantsSame ''t1'' (wDb createdWorld) (wDb publishedWorld)"
  by (rule tenant_isolation [OF publishedWorld_step, of sampleContext]) simp

section \<open>Who may change what\<close>

lemma actor_first:
  "bindE (liftR (actorForTenant ctx tn)) k w = (r, w') \<Longrightarrow>
     (\<exists>e. actorForTenant ctx tn = Inl e \<and> r = Inl e \<and> w' = w) \<or> (\<exists>actor. actorForTenant ctx tn = Inr actor)"
  by (auto simp: bindE_def io_simps split: sum.splits)

lemma bind_authorized_first:
  "bindE (authorizedTask d az ctx tn ap i) k w = (r, w') \<Longrightarrow>
     (\<exists>e. actorForTenant ctx tn = Inl e \<and> r = Inl e \<and> w' = w) \<or> (\<exists>actor. actorForTenant ctx tn = Inr actor)"
  by (cases "actorForTenant ctx tn") (auto simp: authorizedTask_def bindE_def io_simps)

text \<open>
  C17: a request changes the database only when the caller is authenticated and, if its
  identity is bound to a tenant, that tenant is the one the request names.
\<close>

theorem request_needs_actor:
  assumes "step d az rt (Request ctx tn) w w'" and "wDb w' \<noteq> wDb w"
  shows "\<exists>pr. ctxPrincipal ctx = Some pr \<and> (prTenantID pr = [] \<or> prTenantID pr = tn)"
proof -
  have "\<exists>actor. actorForTenant ctx tn = Inr actor"
    using assms unfolding step_request service_defs
    by (elim disjE exE conjE) (auto dest!: actor_first bind_authorized_first)
  then show ?thesis by (auto simp: actorForTenant_def split: option.splits if_splits)
qed

theorem request_needs_actor_witness:
  "\<exists>pr. ctxPrincipal sampleContext = Some pr \<and> (prTenantID pr = [] \<or> prTenantID pr = ''t1'')"
  using request_needs_actor [OF publishedWorld_step] publishedWorld_changed by metis

end
