(* ===== verification/Retries.thy ===== *)
theory Retries
  imports Lifecycle
begin

text \<open>
  The engine repeats an activity that failed or whose answer was lost. What a repeated activity
  does: an approval node gets one task, and an instance that has ended stays as it is.
\<close>

section \<open>One task per approval node\<close>

lemma approval_node: "sameNode (approvalTask input t i) r \<longleftrightarrow>
    taskTenantID r = atTenantID input \<and> taskApplicationID r = atApplicationID input \<and> taskInstanceID r = atInstanceID input
    \<and> taskNodeID r = nodeID (atNode input)"
  by (simp add: sameNode_def approvalTask_def)

lemma CreateApprovalTask_split:
  assumes "Activities_CreateApprovalTask d rt ctx input w = (r, w')"
  shows "\<exists>t i w1 r1. wDb w1 = wDb w \<and> CreateTask d (rtSystemContext rt ctx runtimeActor) (approvalTask input t i) w1 = (r1, w')
    \<and> (isOk r \<longrightarrow> isOk r1)"
proof -
  let ?w = "w\<lparr>wTicks := wTicks w + 1, wFresh := wFresh w + 1\<rparr>"
  let ?run = "CreateTask d (rtSystemContext rt ctx runtimeActor) (approvalTask input (wClock w (wTicks w)) (wIds w (wFresh w)))"
  have "bindE (wrapE ''create approval task'' ?run) (\<lambda>_. ret ()) ?w = (r, w')"
    using assms by (simp add: Activities_CreateApprovalTask_def bindE_def now_def newID_def)
  then obtain r1 where "?run ?w = (r1, w')" "isOk r \<longrightarrow> isOk r1"
    by (cases rule: bindE_cases) (auto simp: wrapE_Inr wrapE_Inl io_simps)
  then show ?thesis by (intro exI [of _ "wClock w (wTicks w)"] exI [of _ "wIds w (wFresh w)"] exI [of _ ?w]) auto
qed

lemma created_task:
  assumes "CreateTask d ctx v w = (r, w')" and "isOk r"
  shows "\<exists>x\<in>set (dbTasks (wDb w')). sameNode v x"
  using CreateTask_tx [OF assms(1)]
proof (elim disjE exE conjE)
  fix e assume "find (sameNode v) (dbTasks (wDb w)) = Some e" "wDb w' = wDb w"
  then show ?thesis using find_Some_in by fastforce
next
  fix t n ev db1 db2
  assume ins: "insertTask v db1 = (Inr (), db2)" and out: "addTxStmt d ev (taskCreatedBy v) db2 = (Inr (), wDb w')"
  have "v\<lparr>taskVersion := 1\<rparr> \<in> set (dbTasks (wDb w'))"
    using ins later_tables(2) [OF out] by (auto simp: insertTask_def split: if_splits)
  moreover have "sameNode v (v\<lparr>taskVersion := 1\<rparr>)" by (simp add: sameNode_def)
  ultimately show ?thesis by blast
qed (use assms(2) in simp)

lemma sameNode_later:
  assumes "evolves db db'" and "x \<in> set (dbTasks db)" and "sameNode v x"
  shows "\<exists>y\<in>set (dbTasks db'). sameNode v y"
  using assms unfolding evolves_def rowsStep_def taskStep_def sameNode_def by metis

text \<open>
  C20: once the activity that creates an approval task has succeeded for a node of an instance, no
  later run of it for that node, whatever happened in between, changes the database: no second
  task and no second event.
\<close>

theorem approval_task_once:
  assumes "Activities_CreateApprovalTask d rt ctx input w = (Inr (), w1)" and "steps d az rt w1 w2"
    and "Activities_CreateApprovalTask d rt ctx' input' w2 = (r, w3)"
    and "atTenantID input' = atTenantID input" and "atApplicationID input' = atApplicationID input"
    and "atInstanceID input' = atInstanceID input" and "nodeID (atNode input') = nodeID (atNode input)"
  shows "wDb w3 = wDb w2"
proof -
  from CreateApprovalTask_split [OF assms(1)] created_task obtain t i x where
    x: "x \<in> set (dbTasks (wDb w1))" "sameNode (approvalTask input t i) x" by (metis isOk_simps(2))
  from sameNode_later [OF steps_evolves [OF assms(2)] x] obtain y where
    y: "y \<in> set (dbTasks (wDb w2))" "sameNode (approvalTask input t i) y" by blast
  from CreateApprovalTask_split [OF assms(3)] obtain t' i' w' r' where w': "wDb w' = wDb w2"
    and run: "CreateTask d (rtSystemContext rt ctx' runtimeActor) (approvalTask input' t' i') w' = (r', w3)" by blast
  have "sameNode (approvalTask input' t' i') y" using y(2) assms(4-7) by (simp add: approval_node)
  then have "find (sameNode (approvalTask input' t' i')) (dbTasks (wDb w')) \<noteq> None"
    using y(1) w' by (auto simp: find_None_iff)
  with CreateTask_tx [OF run] w' show ?thesis by auto
qed

section \<open>An instance that has ended\<close>

lemma FinishInstance_ended:
  assumes "\<And>n. wFaults w n = None" and "find (instIs tn ap i) (dbInstances (wDb w)) = Some inst" and "instStatus inst \<noteq> InstanceRunning"
  shows "\<exists>w'. FinishInstance d ctx tn ap i status res msg actor w =
    (if instStatus inst = status then Inr inst else Inl (Sentinel ErrConflict), w') \<and> wDb w' = wDb w"
  using assms
  by (simp add: FinishInstance_def inTx_def bindE_def wrapE_def mapErr_def beginTx_def dbCall_def mapNotFound_def query_def selectOne_def
      getInstanceTx_def io_simps rollbackTo_def)

text \<open>
  C29: an instance that was cancelled, or has ended otherwise, keeps its status. The activity that
  records the end of a run changes nothing; without failures of the database it succeeds when it
  reports the same status or a failure, so a cancelled run ends quietly, and reports a conflict
  for any other status.
\<close>

theorem finish_after_end:
  assumes "find (instIs (fiTenantID input) (fiApplicationID input) (fiInstanceID input)) (dbInstances (wDb w)) = Some inst"
    and "instStatus inst \<noteq> InstanceRunning" and "Activities_FinishInstance d rt ctx input w = (r, w')"
  shows "wDb w' = wDb w \<and> ((\<forall>n. wFaults w n = None) \<longrightarrow>
    r = (if fiStatus input \<in> {instStatus inst, InstanceFailed} then Inr () else Inl (Sentinel ErrConflict)))"
proof
  let ?run = "FinishInstance d (rtSystemContext rt ctx runtimeActor) (fiTenantID input) (fiApplicationID input) (fiInstanceID input)
    (fiStatus input) (defaultJSON (fiResultJSON input)) (fiErrorMessage input) runtimeActor w"
  obtain r0 where fin: "?run = (r0, w')"
    using assms(3) unfolding Activities_FinishInstance_def by (auto split: prod.splits sum.splits if_splits)
  show "wDb w' = wDb w" using FinishInstance_tx [OF fin] assms(1,2) by auto
  show "(\<forall>n. wFaults w n = None) \<longrightarrow>
    r = (if fiStatus input \<in> {instStatus inst, InstanceFailed} then Inr () else Inl (Sentinel ErrConflict))"
  proof
    assume "\<forall>n. wFaults w n = None"
    then have "wFaults w n = None" for n by simp
    from FinishInstance_ended [OF this assms(1,2)]
    obtain w2 where "?run = (if instStatus inst = fiStatus input then Inr inst else Inl (Sentinel ErrConflict), w2)" by blast
    with fin have "r0 = (if instStatus inst = fiStatus input then Inr inst else Inl (Sentinel ErrConflict))" by (simp only: prod.inject)
    then show "r = (if fiStatus input \<in> {instStatus inst, InstanceFailed} then Inr () else Inl (Sentinel ErrConflict))"
      using assms(3) fin by (auto simp: Activities_FinishInstance_def split: if_splits)
  qed
qed

section \<open>Witnesses\<close>

definition runningWorld :: world where
  "runningWorld = sampleWorld (emptyDatabase\<lparr>dbInstances := [sampleInstance]\<rparr>)"

lemma runningWorld_fields [simp]: "wFaults runningWorld n = None" "wCalls runningWorld = 0" "wTicks runningWorld = 0" "wFresh runningWorld = 0"
  "wClock runningWorld n = 1000 + int n" "wIds runningWorld n = replicate (Suc n) CHR ''i''" "dbTasks (wDb runningWorld) = []"
  "dbInstances (wDb runningWorld) = [sampleInstance]" "dbOutbox (wDb runningWorld) = []"
  by (simp_all add: runningWorld_def sampleWorld_def emptyDatabase_def)

definition sampleApproval :: ApprovalTaskInput where
  "sampleApproval = \<lparr>atInstanceID = instID sampleInstance, atTenantID = ''t1'', atApplicationID = ''a1'', atStarterID = ''u1'', atVariablesJSON = [],
     atNode = zeroNode\<lparr>nodeID := ''review'', nodeName := ''Review'', nodeAssigneeType := AssigneeUser, nodeAssignee := ''u1''\<rparr>\<rparr>"

lemma sampleInstance_fields: "instTenantID sampleInstance = ''t1''" "instApplicationID sampleInstance = ''a1''"
  "instStatus sampleInstance = InstanceRunning" "instCurrentNodeID sampleInstance = []"
  by (simp_all add: sampleInstance_def newInstance_def)

lemma runtime_build:
  "\<exists>ev. build sampleDeps (rtSystemContext sampleRt sampleContext runtimeActor) s a kind tn ap p w =
     (Inr ev, w\<lparr>wFresh := wFresh w + 1, wTicks := wTicks w + 1\<rparr>)"
  by (simp add: build_def bindE_def newID_def now_def io_simps sampleRt_def sampleDeps_def)

lemma sample_approval_ok: "fst (Activities_CreateApprovalTask sampleDeps sampleRt sampleContext sampleApproval runningWorld) = Inr ()"
proof -
  let ?v = "approvalTask sampleApproval 1000 ''i''"
  have v: "taskTenantID ?v = ''t1''" "taskApplicationID ?v = ''a1''" "taskInstanceID ?v = instID sampleInstance" "taskNodeID ?v = ''review''"
    "taskAssigneeType ?v = AssigneeUser" "taskStatus ?v = TaskPending"
    by (simp_all add: approvalTask_def sampleApproval_def)
  obtain ev where ev: "build sampleDeps (rtSystemContext sampleRt sampleContext runtimeActor) s a kind tn ap p w =
     (Inr (ev s a kind tn ap p w), w\<lparr>wFresh := wFresh w + 1, wTicks := wTicks w + 1\<rparr>)" for s a kind tn ap p w
    using runtime_build by metis
  have adv: "instIs ''t1'' ''a1'' (instID sampleInstance) sampleInstance" by (simp add: instIs_def sampleInstance_fields)
  show ?thesis
    by (simp add: Activities_CreateApprovalTask_def CreateTask_def TaskCreatedEv_def bindE_def now_def newID_def wrapE_def mapErr_def inTx_def beginTx_def
        dbCall_def query_def v ev adv io_simps advanceStmt_def updateInstances_def updateWhere_def sampleInstance_fields rowsAffected_def
        insertTask_def oneOf_iff sample_addTx commitTx_def rollbackTo_def)
qed

theorem approval_task_once_witness:
  "let w1 = snd (Activities_CreateApprovalTask sampleDeps sampleRt sampleContext sampleApproval runningWorld);
       w2 = snd (Activities_CreateApprovalTask sampleDeps sampleRt sampleContext sampleApproval w1)
   in wDb w2 = wDb w1"
proof -
  obtain w1 where w1: "Activities_CreateApprovalTask sampleDeps sampleRt sampleContext sampleApproval runningWorld = (Inr (), w1)"
    using sample_approval_ok by (metis prod.collapse)
  obtain r w2 where w2: "Activities_CreateApprovalTask sampleDeps sampleRt sampleContext sampleApproval w1 = (r, w2)" by fastforce
  have "steps sampleDeps sampleAuthz sampleRt w1 w1" by (rule steps.none)
  from approval_task_once [OF w1 this w2 refl refl refl refl] show ?thesis by (simp add: w1 w2)
qed

definition cancelledWorld :: world where
  "cancelledWorld = sampleWorld (emptyDatabase\<lparr>dbInstances := [sampleInstance\<lparr>instStatus := InstanceCancelled\<rparr>]\<rparr>)"

theorem finish_after_end_witness:
  "fst (Activities_FinishInstance sampleDeps sampleRt sampleContext \<lparr>fiInstanceID = instID sampleInstance, fiTenantID = ''t1'',
     fiApplicationID = ''a1'', fiStatus = InstanceFailed, fiResultJSON = ''{}'', fiErrorMessage = ''cancelled''\<rparr> cancelledWorld) = Inr ()"
proof -
  let ?input = "\<lparr>fiInstanceID = instID sampleInstance, fiTenantID = ''t1'', fiApplicationID = ''a1'', fiStatus = InstanceFailed,
     fiResultJSON = ''{}'', fiErrorMessage = ''cancelled''\<rparr>"
  obtain r w' where run: "Activities_FinishInstance sampleDeps sampleRt sampleContext ?input cancelledWorld = (r, w')" by fastforce
  have row: "find (instIs (fiTenantID ?input) (fiApplicationID ?input) (fiInstanceID ?input)) (dbInstances (wDb cancelledWorld))
      = Some (sampleInstance\<lparr>instStatus := InstanceCancelled\<rparr>)"
    by (simp add: cancelledWorld_def sampleWorld_def instIs_def sampleInstance_fields)
  have "instStatus (sampleInstance\<lparr>instStatus := InstanceCancelled\<rparr>) \<noteq> InstanceRunning" by (simp add: constant_defs)
  from finish_after_end [OF row this run] have "r = Inr ()" by (simp add: cancelledWorld_def sampleWorld_def)
  then show ?thesis by (simp add: run)
qed

end
