(* ===== verification/Listing.thy ===== *)
theory Listing
  imports Retries
begin

text \<open>
  The lists the service returns: the bounds of a page request, that the pages of a list cut the
  selected rows without gap or overlap, and that the roles of a caller are collected from all
  pages of the authorization service.
\<close>

section \<open>Pages\<close>

lemma normalizePage_bounds: "normalizePage page sz = (p, s) \<Longrightarrow> 1 \<le> p \<and> 1 \<le> s \<and> s \<le> 200"
  by (auto simp: normalizePage_def Let_def split: if_splits)

lemma selectPage_Inr:
  assumes "selectPage what tot rows page sz w = (Inr p, w')"
  shows "pageItems p = take (nat sz) (drop (nat (offsetOf page sz)) (rows (wDb w)))" and "pageTotal p = tot (wDb w)"
  using assms
  by (auto simp: selectPage_def bindE_Inr wrapE_Inr query_Inr basic_Inr limitOffset_def split: if_splits)

lemma offsetOf_exact:
  assumes "1 \<le> page" and "0 \<le> sz" and "page * sz < 2 ^ 63" and "page < 2 ^ 63"
  shows "offsetOf page sz = (page - 1) * sz"
proof -
  have "(page - 1) * sz \<le> page * sz" using assms(2) by (simp add: mult_right_mono)
  then have "(page - 1) * sz < 2 ^ 63" using assms(3) by linarith
  moreover have "0 \<le> (page - 1) * sz" using assms(1,2) by simp
  ultimately show ?thesis using assms(1,4) by (simp add: offsetOf_def wrap64_id)
qed

lemma concat_pages: "concat (map (\<lambda>p. take s (drop ((p - 1) * s) xs)) [1..<Suc n]) = take (n * s) xs"
proof (induction n)
  case (Suc n)
  have "take (Suc n * s) xs = take (n * s + s) xs" by (simp add: add.commute)
  also have "\<dots> = take (n * s) xs @ take s (drop (n * s) xs)" by (rule take_add)
  finally show ?case using Suc by simp
qed simp

lemma instanceWhere_page [simp]: "instanceWhere d (filt\<lparr>ifPage := p, ifPageSize := s\<rparr>) = instanceWhere d filt"
  by (simp add: instanceWhere_def fun_eq_iff cong: option.case_cong)

text \<open>The rows a list of instances is cut from.\<close>

definition matchingInstances :: "deps \<Rightarrow> InstanceFilter \<Rightarrow> database \<Rightarrow> Instance list" where
  "matchingInstances d filt db = orderBy (laterThen d instStartedAt instID) (filter (instanceWhere d filt) (dbInstances db))"

lemma Service_ListInstances_page:
  assumes "Service_ListInstances d ctx filt w = (Inr p, w')" and "1 \<le> ifPage filt" and "1 \<le> ifPageSize filt" and "ifPageSize filt \<le> 200"
    and "ifPage filt * ifPageSize filt < 2 ^ 63"
  shows "pageItems p = take (nat (ifPageSize filt)) (drop (nat ((ifPage filt - 1) * ifPageSize filt)) (matchingInstances d filt (wDb w)))"
    and "pageTotal p = int (length (matchingInstances d filt (wDb w)))"
proof -
  have nrm: "normalizePage (ifPage filt) (ifPageSize filt) = (ifPage filt, ifPageSize filt)"
    using assms(2-4) by (simp add: normalizePage_def Let_def)
  obtain w1 where w1: "wDb w1 = wDb w" and run: "ListInstances d filt w1 = (Inr p, w')"
    using assms(1) by (auto simp: Service_ListInstances_def nrm bindE_Inr basic_Inr dest: noDbD [OF noDb_verifyApplication])
  have "ifPage filt \<le> ifPage filt * ifPageSize filt" using assms(2,3) by (simp add: mult_le_cancel_left1)
  then have off: "offsetOf (ifPage filt) (ifPageSize filt) = (ifPage filt - 1) * ifPageSize filt"
    using assms by (intro offsetOf_exact) linarith+
  show "pageItems p = take (nat (ifPageSize filt)) (drop (nat ((ifPage filt - 1) * ifPageSize filt)) (matchingInstances d filt (wDb w)))"
    and "pageTotal p = int (length (matchingInstances d filt (wDb w)))"
    using selectPage_Inr [OF run [unfolded ListInstances_def]] by (simp_all add: w1 off matchingInstances_def)
qed

text \<open>
  C31: the pages of a list of instances cut the matching rows without gap or overlap. With a page
  size from 1 to 200 and while the rows stay the same, the first \<open>n\<close> pages together are the first
  \<open>n * s\<close> matching rows in the list's order; when these are all, every row that matches the
  filter was listed exactly as often as the table holds it, and the total of each page is their number.
\<close>

theorem instance_pages_complete:
  assumes "1 \<le> s" and "s \<le> 200" and "int n * int s < 2 ^ 63"
    and "\<And>p. 1 \<le> p \<Longrightarrow> p \<le> n \<Longrightarrow>
      Service_ListInstances d ctx (filt\<lparr>ifPage := int p, ifPageSize := int s\<rparr>) (w p) = (Inr (pg p), w' p) \<and> wDb (w p) = db"
  shows "concat (map (\<lambda>p. pageItems (pg p)) [1..<Suc n]) = take (n * s) (matchingInstances d filt db)
    \<and> (length (matchingInstances d filt db) \<le> n * s \<longrightarrow>
         mset (concat (map (\<lambda>p. pageItems (pg p)) [1..<Suc n])) = mset (filter (instanceWhere d filt) (dbInstances db)))
    \<and> (\<forall>p\<in>{1..n}. pageTotal (pg p) = int (length (filter (instanceWhere d filt) (dbInstances db))))"
proof -
  have match: "matchingInstances d (filt\<lparr>ifPage := a, ifPageSize := b\<rparr>) = matchingInstances d filt" for a b
    by (simp add: matchingInstances_def fun_eq_iff)
  have page: "pageItems (pg p) = take s (drop ((p - 1) * s) (matchingInstances d filt db))
      \<and> pageTotal (pg p) = int (length (matchingInstances d filt db))" if "1 \<le> p" "p \<le> n" for p
  proof -
    have "int p * int s \<le> int n * int s" using that(2) by (simp add: mult_right_mono)
    then have small: "int p * int s < 2 ^ 63" using assms(3) by linarith
    have run: "Service_ListInstances d ctx (filt\<lparr>ifPage := int p, ifPageSize := int s\<rparr>) (w p) = (Inr (pg p), w' p)" and db: "wDb (w p) = db"
      using assms(4) [OF that] by simp_all
    have off: "nat ((int p - 1) * int s) = (p - 1) * s" using that(1) by (simp add: nat_mult_distrib nat_diff_distrib)
    show ?thesis
      using Service_ListInstances_page [OF run] that(1) assms(1,2) small by (simp add: match db off)
  qed
  have "concat (map (\<lambda>p. pageItems (pg p)) [1..<Suc n])
      = concat (map (\<lambda>p. take s (drop ((p - 1) * s) (matchingInstances d filt db))) [1..<Suc n])"
    by (rule arg_cong [of _ _ concat], rule map_cong [OF refl]) (use page in auto)
  then have c: "concat (map (\<lambda>p. pageItems (pg p)) [1..<Suc n]) = take (n * s) (matchingInstances d filt db)"
    by (simp only: concat_pages)
  have m: "mset (matchingInstances d filt db) = mset (filter (instanceWhere d filt) (dbInstances db))"
    by (simp add: matchingInstances_def)
  then have "length (matchingInstances d filt db) = length (filter (instanceWhere d filt) (dbInstances db))"
    by (metis size_mset)
  with c m page show ?thesis by auto
qed

definition pagedDatabase :: database where
  "pagedDatabase = emptyDatabase\<lparr>dbInstances := map (\<lambda>i. sampleInstance\<lparr>instID := i\<rparr>) [''a'', ''b'', ''c'']\<rparr>"

definition pagedFilter :: InstanceFilter where
  "pagedFilter = \<lparr>ifTenantID = ''t1'', ifApplicationID = ''a1'', ifDefinitionID = [], ifStatus = [], ifStarterID = [], ifSearch = [],
     ifStartedFrom = None, ifStartedUntil = None, ifPage = 1, ifPageSize = 20\<rparr>"

definition pagedRun :: "nat \<Rightarrow> Instance Page result \<times> world" where
  "pagedRun p = Service_ListInstances sampleDeps sampleContext (pagedFilter\<lparr>ifPage := int p, ifPageSize := int 2\<rparr>) (sampleWorld pagedDatabase)"

lemma pagedRun_ok: "1 \<le> p \<Longrightarrow> p \<le> 2 \<Longrightarrow> \<exists>page w'. pagedRun p = (Inr page, w')"
  by (simp add: pagedRun_def Service_ListInstances_def pagedFilter_def sample_actor sample_verify normalizePage_def Let_def bindE_def
    liftR_def guardE_def ret_def ListInstances_def selectPage_def wrapE_def mapErr_def query_def dbCall_def sampleWorld_def
    limitOffset_def offsetOf_def wrap64_def)

theorem instance_pages_complete_witness:
  "\<exists>p1 p2. mset (pageItems p1 @ pageItems p2) = mset (filter (instanceWhere sampleDeps pagedFilter) (dbInstances pagedDatabase))
     \<and> fst (pagedRun 1) = Inr p1 \<and> fst (pagedRun 2) = Inr p2"
proof -
  define pg where "pg p = projr (fst (pagedRun p))" for p
  have run: "pagedRun p = (Inr (pg p), snd (pagedRun p))" if "1 \<le> p" "p \<le> 2" for p
    using pagedRun_ok [OF that] by (auto simp: pg_def)
  have few: "length (matchingInstances sampleDeps pagedFilter pagedDatabase) \<le> 2 * 2"
  proof -
    have "mset (matchingInstances sampleDeps pagedFilter pagedDatabase) = mset (filter (instanceWhere sampleDeps pagedFilter) (dbInstances pagedDatabase))"
      by (simp add: matchingInstances_def)
    then have "length (matchingInstances sampleDeps pagedFilter pagedDatabase) = length (filter (instanceWhere sampleDeps pagedFilter) (dbInstances pagedDatabase))"
      by (metis size_mset)
    also have "\<dots> \<le> length (dbInstances pagedDatabase)" by (rule length_filter_le)
    finally show ?thesis by (simp add: pagedDatabase_def)
  qed
  have page: "Service_ListInstances sampleDeps sampleContext (pagedFilter\<lparr>ifPage := int p, ifPageSize := int 2\<rparr>) (sampleWorld pagedDatabase)
      = (Inr (pg p), snd (pagedRun p)) \<and> wDb (sampleWorld pagedDatabase) = pagedDatabase" if "1 \<le> p" "p \<le> 2" for p
    using run [OF that] by (simp add: pagedRun_def sampleWorld_def)
  have "(1 :: nat) \<le> 2" "(2 :: nat) \<le> 200" "int 2 * int 2 < 2 ^ 63" by simp_all
  from instance_pages_complete [OF this page] few
  have "mset (concat (map (\<lambda>p. pageItems (pg p)) [1..<Suc 2])) = mset (filter (instanceWhere sampleDeps pagedFilter) (dbInstances pagedDatabase))"
    by blast
  moreover have "[1..<Suc 2] = [1, 2]" by (simp add: upt_rec)
  ultimately have "mset (pageItems (pg 1) @ pageItems (pg 2)) = mset (filter (instanceWhere sampleDeps pagedFilter) (dbInstances pagedDatabase))" by simp
  moreover have "fst (pagedRun 1) = Inr (pg 1)" "fst (pagedRun 2) = Inr (pg 2)" using run [of 1] run [of 2] by (metis fst_conv order_refl one_le_numeral)+
  ultimately show ?thesis by blast
qed

section \<open>Roles\<close>

text \<open>
  What the listing of bindings documents, for a list that does not change between the calls:
  page \<open>p\<close> of size 200 holds the bindings from \<open>(p - 1) * 200\<close> on, the total is their number.
\<close>

definition pagedBindings :: "authz \<Rightarrow> Context \<Rightarrow> string \<Rightarrow> Subject \<Rightarrow> Binding list \<Rightarrow> bool" where
  "pagedBindings az ctx tn subject bs \<longleftrightarrow>
     (\<forall>n page. azListBindings az n ctx tn subject page resolverPageSize =
        Inr \<lparr>lbrBindings = take 200 (drop ((unat page - 1) * 200) bs), lbrTotal = Some (word_of_nat (length bs))\<rparr>)"

lemma activeRoles_append: "activeRoles (xs @ ys) = activeRoles xs @ activeRoles ys"
  by (simp add: activeRoles_def)

lemma unat_page: "Suc k < 2 ^ 32 \<Longrightarrow> unat (word_of_nat (Suc k) :: 32 word) = Suc k"
  by (simp add: unat_of_nat del: of_nat_Suc)

lemma page_words:
  assumes "length bs < 2 ^ 39" and "Suc k < 2 ^ 32"
  shows "(word_of_nat (length bs) :: 64 word) \<le> ucast (word_of_nat (Suc k) :: 32 word) * ucast resolverPageSize \<longleftrightarrow> length bs \<le> Suc k * 200"
proof -
  have a: "unat (word_of_nat (length bs) :: 64 word) = length bs"
    using assms(1) by (simp add: unat_of_nat)
  have c: "unat (ucast (word_of_nat (Suc k) :: 32 word) :: 64 word) = Suc k"
    using assms(2) by (simp add: unsigned_ucast_eq unat_page take_bit_nat_eq_self del: of_nat_Suc)
  have b: "unat (ucast (word_of_nat (Suc k) :: 32 word) * ucast resolverPageSize :: 64 word) = Suc k * 200"
    using assms(2) by (simp add: unat_word_ariths resolverPageSize_def c del: of_nat_Suc)
  show ?thesis unfolding word_le_nat_alt a b ..
qed

lemma roleLoop_pages:
  assumes "pagedBindings az ctx tn subject bs" and "length bs < 2 ^ 39"
  shows "k = 0 \<or> k * 200 < length bs \<Longrightarrow>
    fst (roleLoop az ctx tn subject (word_of_nat (Suc k)) roles w) = Inr (roles @ activeRoles (drop (k * 200) bs))"
proof (induction "length bs - k * 200" arbitrary: k roles w rule: less_induct)
  case less
  define r where "r = \<lparr>lbrBindings = take 200 (drop (k * 200) bs), lbrTotal = Some (word_of_nat (length bs))\<rparr>"
  have k: "Suc k < 2 ^ 32" using less.prems assms(2) by auto
  have ask: "azListBindings az n ctx tn subject (word_of_nat (Suc k)) resolverPageSize = Inr r" for n
    using assms(1) unat_page [OF k] by (simp add: pagedBindings_def r_def del: of_nat_Suc)
  have last: "lastPage (word_of_nat (Suc k)) r \<longleftrightarrow> length bs \<le> Suc k * 200"
    using page_words [OF assms(2) k] less.prems by (auto simp: lastPage_def r_def)
  have split: "activeRoles (drop (k * 200) bs) = activeRoles (take 200 (drop (k * 200) bs)) @ activeRoles (drop (Suc k * 200) bs)"
    using append_take_drop_id [of 200 "drop (k * 200) bs"] activeRoles_append by (metis drop_drop mult_Suc)
  show ?case
  proof (cases "length bs \<le> Suc k * 200")
    case True
    then have "take 200 (drop (k * 200) bs) = drop (k * 200) bs" by simp
    with True last show ?thesis
      by (subst roleLoop.simps) (simp add: bindE_def wrapE_def mapErr_def remote_def ask Let_def ret_def r_def del: of_nat_Suc)
  next
    case False
    have top: "(word_of_nat (Suc k) :: 32 word) \<noteq> -1"
    proof
      assume "(word_of_nat (Suc k) :: 32 word) = -1"
      then have "Suc k = unat (- 1 :: 32 word)" using unat_page [OF k] by (simp only:)
      then show False using False assms(2) by (simp add: unsigned_minus_1_eq_mask mask_eq_exp_minus_1)
    qed
    have next': "(word_of_nat (Suc k) :: 32 word) + 1 = word_of_nat (Suc (Suc k))" by simp
    have "fst (roleLoop az ctx tn subject (word_of_nat (Suc (Suc k))) (roles @ activeRoles (lbrBindings r)) (w\<lparr>wRemote := wRemote w + 1\<rparr>))
        = Inr ((roles @ activeRoles (lbrBindings r)) @ activeRoles (drop (Suc k * 200) bs))"
      by (rule less.hyps) (use False in auto)
    also have "\<dots> = Inr (roles @ activeRoles (drop (k * 200) bs))"
      by (simp add: split r_def)
    finally show ?thesis
      using False last top
      by (subst roleLoop.simps) (simp add: bindE_def wrapE_def mapErr_def remote_def ask Let_def next' del: of_nat_Suc)
  qed
qed

text \<open>
  C32: the roles of a caller are collected completely. When the authorization service answers its
  pages from one list of bindings, \<open>RoleIDs\<close> returns the role of every active binding of that list,
  in its order and nothing else, over all its pages, for any list shorter than \<open>2\<^sup>3\<^sup>9\<close> bindings (the
  page counter then stays within its 32 bits).
\<close>

theorem roles_complete:
  assumes "subjectFromContext az ctx = Inr (identity, subject)" and "prTenantID identity \<in> {[], tn}"
    and "pagedBindings az ctx tn subject bs" and "length bs < 2 ^ 39"
  shows "fst (RoleIDs az ctx tn w) = Inr (activeRoles bs)"
  using assms(1,2) roleLoop_pages [OF assms(3,4), of 0 "[]" w]
  by (auto simp: RoleIDs_def bindE_def liftR_def guardE_def ret_def)

definition manyBindings :: "Binding list" where
  "manyBindings = replicate 200 \<lparr>bndStatus = ''revoked'', bndRoleId = ''auditors''\<rparr> @ [\<lparr>bndStatus = ''active'', bndRoleId = ''managers''\<rparr>]"

definition manyAuthz :: authz where
  "manyAuthz = sampleAuthz\<lparr>azListBindings := (\<lambda>n ctx tn s p sz.
     Inr \<lparr>lbrBindings = take 200 (drop ((unat p - 1) * 200) manyBindings), lbrTotal = Some (word_of_nat (length manyBindings))\<rparr>)\<rparr>"

theorem roles_complete_witness:
  "fst (RoleIDs manyAuthz (sampleContext\<lparr>ctxPrincipal := Some \<lparr>prID = ''u1'', prTenantID = ''t1'', prMembershipID = ''m1'', prType = ''user''\<rparr>\<rparr>) ''t1''
     (sampleWorld emptyDatabase)) = Inr [''managers'']"
proof -
  have "activeRoles manyBindings = [''managers'']" by (simp add: activeRoles_def manyBindings_def filter_replicate)
  then show ?thesis
    by (subst roles_complete [where bs = manyBindings
          and identity = "\<lparr>prID = ''u1'', prTenantID = ''t1'', prMembershipID = ''m1'', prType = ''user''\<rparr>"])
       (simp_all add: subjectFromContext_def manyAuthz_def sampleAuthz_def pagedBindings_def manyBindings_def sampleContext_def)
qed

end
