(* ===== verification/Readback.thy ===== *)
theory Readback
  imports Listing
begin

text \<open>
  What is stored is what is read: a definition that was created is returned with the graph that was
  validated, through the JSON columns of its row.
\<close>

lemma GetDefinition_row:
  assumes "GetDefinition tn ap i 0 w = (Inr v, w')"
  shows "\<exists>r. find (defIs tn ap i) (dbDefinitions (wDb w)) = Some r \<and> hydrateDefinition r = Inr v" and "wDb w' = wDb w"
  using assms
  by (auto simp: GetDefinition_def bindE_Inr mapNotFound_def mapErr_Inr query_Inr basic_Inr selectOne_def split: option.splits)

lemma hydrate_encoded:
  assumes "hydrateDefinition r = Inr v" and "defNodesJSON r = marshalNodes ns" and "defEdgesJSON r = marshalEdges es" and "list_all priorityInRange es"
  shows "v = r\<lparr>defNodes := map validNodeStrings ns, defEdges := map validEdgeStrings es\<rparr>"
  using assms by (simp add: hydrateDefinition_def unmarshal_marshalNodes unmarshal_marshalEdges)

lemma Service_GetDefinition_row:
  assumes "Service_GetDefinition d ctx tn ap i 0 w = (Inr v, w')"
  shows "\<exists>r. find (defIs tn ap i) (dbDefinitions (wDb w)) = Some r \<and> hydrateDefinition r = Inr v"
proof -
  from assms obtain w1 where "wDb w1 = wDb w" and "GetDefinition tn ap i 0 w1 = (Inr v, w')"
    by (auto simp: Service_GetDefinition_def bindE_Inr basic_Inr dest: noDbD [OF noDb_verifyApplication])
  then show ?thesis using GetDefinition_row(1) by metis
qed

text \<open>The row a creation inserts, which is the only one with its identifier.\<close>

definition draftRow :: "CreateDefinitionInput \<Rightarrow> string \<Rightarrow> time \<Rightarrow> string \<Rightarrow> Definition" where
  "draftRow input actor t i =
     \<lparr>defID = i, defTenantID = cdTenantID input, defApplicationID = cdApplicationID input, defKey = cdKey input,
      defName = TrimSpace (cdName input), defDescription = TrimSpace (cdDescription input), defStatus = DefinitionDraft,
      defPublishedRevision = 0, defNodesJSON = marshalNodes (cdNodes input), defEdgesJSON = marshalEdges (cdEdges input), defVersion = 1,
      defCreatedAt = t, defUpdatedAt = t, defCreatedBy = actor, defUpdatedBy = actor, defNodes = [], defEdges = []\<rparr>"

lemma insertDefinition_found:
  assumes "insertDefinition v db = (Inr (), db')"
  shows "find (defIs (defTenantID v) (defApplicationID v) (defID v)) (dbDefinitions db') = Some (v\<lparr>defVersion := 1, defNodes := [], defEdges := []\<rparr>)"
proof -
  have old: "\<not> list_ex (\<lambda>r. defID r = defID v) (dbDefinitions db)"
    and new: "dbDefinitions db' = dbDefinitions db @ [v\<lparr>defVersion := 1, defNodes := [], defEdges := []\<rparr>]"
    using assms by (auto simp: insertDefinition_def split: if_splits)
  have "find (defIs (defTenantID v) (defApplicationID v) (defID v)) (dbDefinitions db) = None"
    using old by (auto simp: find_None_iff list_ex_iff defIs_def)
  moreover have "find P (xs @ [y]) = (case find P xs of None \<Rightarrow> if P y then Some y else None | Some z \<Rightarrow> Some z)"
    for P :: "Definition \<Rightarrow> bool" and xs y by (induction xs) auto
  ultimately show ?thesis by (simp add: new defIs_def)
qed

lemma created_row:
  assumes "Service_CreateDefinition d ctx input w = (Inr v, w1)"
  shows "\<exists>actor t. find (defIs (cdTenantID input) (cdApplicationID input) (defID v)) (dbDefinitions (wDb w1)) = Some (draftRow input actor t (defID v))
    \<and> hydrateDefinition (draftRow input actor t (defID v)) = Inr v \<and> actorForTenant ctx (cdTenantID input) = Inr actor"
proof -
  from assms obtain actor t i w2 w3 where actor: "actorForTenant ctx (cdTenantID input) = Inr actor"
    and ins: "dbCall (insertDefinition ((draftRow input actor t i)\<lparr>defNodes := cdNodes input, defEdges := cdEdges input\<rparr>)) w2 = (Inr (), w3)"
    and get: "GetDefinition (cdTenantID input) (cdApplicationID input) i 0 w3 = (Inr v, w1)"
    by (auto simp: Service_CreateDefinition_def CreateDefinition_def bindE_Inr basic_Inr wrapE_Inr encodeGraph_def draftRow_def)
  have "insertDefinition ((draftRow input actor t i)\<lparr>defNodes := cdNodes input, defEdges := cdEdges input\<rparr>) (wDb w2) = (Inr (), wDb w3)"
    using ins by (auto simp: dbCall_def Let_def split: option.splits prod.splits)
  from insertDefinition_found [OF this]
  have row: "find (defIs (cdTenantID input) (cdApplicationID input) i) (dbDefinitions (wDb w3)) = Some (draftRow input actor t i)"
    by (simp add: draftRow_def)
  then have h: "hydrateDefinition (draftRow input actor t i) = Inr v" using GetDefinition_row(1) [OF get] by simp
  then have "defID v = i" by (auto simp: hydrateDefinition_def draftRow_def split: sum.splits)
  then show ?thesis using row h actor GetDefinition_row(2) [OF get] by auto
qed

text \<open>
  C19: a definition is read back as it was created. Creating a definition whose edge priorities are
  32-bit numbers returns, and any later read of it in the same state returns again, the same
  definition: a draft of version 1 without a revision, with the key, the trimmed name and
  description, and the nodes and edges of the request with each byte that is not UTF-8 replaced; for
  valid strings, exactly the nodes and edges that were validated.
\<close>

theorem definition_read_back:
  assumes "Service_CreateDefinition d ctx input w = (Inr v, w1)" and "list_all priorityInRange (cdEdges input)"
    and "wDb w2 = wDb w1" and "Service_GetDefinition d' ctx' (cdTenantID input) (cdApplicationID input) (defID v) 0 w2 = (Inr v', w3)"
  shows "v' = v \<and> defNodes v = map validNodeStrings (cdNodes input) \<and> defEdges v = map validEdgeStrings (cdEdges input)
    \<and> defKey v = cdKey input \<and> defName v = TrimSpace (cdName input) \<and> defDescription v = TrimSpace (cdDescription input)
    \<and> defStatus v = DefinitionDraft \<and> defVersion v = 1 \<and> defPublishedRevision v = 0"
proof -
  from created_row [OF assms(1)] obtain actor t where
    row: "find (defIs (cdTenantID input) (cdApplicationID input) (defID v)) (dbDefinitions (wDb w1)) = Some (draftRow input actor t (defID v))"
    and h: "hydrateDefinition (draftRow input actor t (defID v)) = Inr v" by blast
  have "v' = v" using Service_GetDefinition_row [OF assms(4)] row h assms(3) by auto
  moreover have "v = (draftRow input actor t (defID v))\<lparr>defNodes := map validNodeStrings (cdNodes input), defEdges := map validEdgeStrings (cdEdges input)\<rparr>"
    by (rule hydrate_encoded [OF h]) (simp_all add: draftRow_def assms(2))
  then obtain i where "v = (draftRow input actor t i)\<lparr>defNodes := map validNodeStrings (cdNodes input), defEdges := map validEdgeStrings (cdEdges input)\<rparr>"
    by blast
  then have "defNodes v = map validNodeStrings (cdNodes input) \<and> defEdges v = map validEdgeStrings (cdEdges input)
    \<and> defKey v = cdKey input \<and> defName v = TrimSpace (cdName input) \<and> defDescription v = TrimSpace (cdDescription input)
    \<and> defStatus v = DefinitionDraft \<and> defVersion v = 1 \<and> defPublishedRevision v = 0"
    by (simp add: draftRow_def)
  ultimately show ?thesis by simp
qed

lemma sample_creates:
  "\<exists>v. Service_CreateDefinition sampleDeps sampleContext sampleCreate (sampleWorld emptyDatabase) = (Inr v, createdWorld) \<and> defID v = ''i''"
  unfolding createdWorld_def Service_CreateDefinition_def CreateDefinition_def GetDefinition_def
  by (simp add: sampleCreate_def sample_actor bindE_def io_simps sample_verify sample_accepted encodeGraph_def now_def newID_def
      sampleWorld_def wrapE_def mapErr_def dbCall_def query_def insertDefinition_def emptyDatabase_def constant_defs
      mapNotFound_def selectOne_def defIs_def sample_hydrate sample_trim split: option.splits)

lemma sample_reads: "\<exists>v w'. Service_GetDefinition sampleDeps sampleContext ''t1'' ''a1'' ''i'' 0 createdWorld = (Inr v, w')"
  unfolding createdWorld_eq Service_GetDefinition_def GetDefinition_def
  by (simp add: sample_actor bindE_def io_simps sample_verify sampleWorld_def mapErr_def dbCall_def query_def emptyDatabase_def
      mapNotFound_def selectOne_def defIs_def sample_hydrate createdRow_def split: option.splits)

theorem definition_read_back_witness:
  "\<exists>v w'. Service_GetDefinition sampleDeps sampleContext ''t1'' ''a1'' ''i'' 0 createdWorld = (Inr v, w') \<and> defNodes v = sampleNodes \<and> defEdges v = sampleEdges"
proof -
  obtain v where c: "Service_CreateDefinition sampleDeps sampleContext sampleCreate (sampleWorld emptyDatabase) = (Inr v, createdWorld)" and i: "defID v = ''i''"
    using sample_creates by blast
  obtain v' w' where g: "Service_GetDefinition sampleDeps sampleContext ''t1'' ''a1'' ''i'' 0 createdWorld = (Inr v', w')" using sample_reads by blast
  have f: "cdTenantID sampleCreate = ''t1''" "cdApplicationID sampleCreate = ''a1''" "cdNodes sampleCreate = sampleNodes" "cdEdges sampleCreate = sampleEdges"
    by (simp_all add: sampleCreate_def)
  have "defNodes v' = sampleNodes \<and> defEdges v' = sampleEdges"
    using definition_read_back [OF c _ refl, unfolded f i, OF _ g] by (simp add: sample_strings)
  with g show ?thesis by blast
qed

end
