(* ===== verification/Http.thy ===== *)
theory Http
  imports Service_Order
begin

text \<open>
  The HTTP API: the application errors of \<open>internal/apperror/error.go\<close>, the response envelope of
  \<open>internal/transport/http/response.go\<close> and the handlers of
  \<open>internal/transport/http/workflow_handler.go\<close>. A handler gets what gin's \<open>ShouldBindJSON\<close>
  made of the body, an error or the request, and answers with a status and an envelope.
\<close>

section \<open>Application errors\<close>

text \<open>The codes by name; their numbers are constants of the platform's \<open>errorcode\<close> package.\<close>

datatype AppCode =
    CodeOK
  | CodeInvalidArgument
  | CodeNotFound
  | CodeRequestTimeout
  | CodeTooManyRequests
  | CodeUnauthorized
  | CodeForbidden
  | CodeConflict
  | CodeRequestInProgress
  | CodeStaleVersion
  | CodeInternal
  | CodeDependencyUnavailable

record AppError =
  aeCode :: AppCode
  aeMessage :: string
  aeHTTPStatus :: int
  aeErr :: "goerr option"

definition apperror_Error :: "AppError \<Rightarrow> string" where
  "apperror_Error e = (case aeErr e of Some x \<Rightarrow> errorText x | None \<Rightarrow> aeMessage e)"

definition apperror_New :: "AppCode \<Rightarrow> string \<Rightarrow> int \<Rightarrow> goerr option \<Rightarrow> AppError" where
  "apperror_New code message status err = \<lparr>aeCode = code, aeMessage = message, aeHTTPStatus = status, aeErr = err\<rparr>"

definition apperror_Invalid :: "string \<Rightarrow> goerr option \<Rightarrow> AppError" where
  "apperror_Invalid message err = apperror_New CodeInvalidArgument message 400 err"

definition apperror_NotFound :: "string \<Rightarrow> AppError" where
  "apperror_NotFound message = apperror_New CodeNotFound message 404 None"

definition apperror_Conflict :: "string \<Rightarrow> goerr option \<Rightarrow> AppError" where
  "apperror_Conflict message err = apperror_New CodeConflict message 409 err"

definition apperror_StaleVersion :: "goerr option \<Rightarrow> AppError" where
  "apperror_StaleVersion err = apperror_New CodeStaleVersion ''resource version is stale'' 409 err"

definition apperror_RequestInProgress :: AppError where
  "apperror_RequestInProgress = apperror_New CodeRequestInProgress ''request is already processing'' 409 None"

definition apperror_Unauthorized :: "string \<Rightarrow> AppError" where
  "apperror_Unauthorized message = apperror_New CodeUnauthorized message 401 None"

definition apperror_Forbidden :: "string \<Rightarrow> AppError" where
  "apperror_Forbidden message = apperror_New CodeForbidden message 403 None"

definition apperror_TooManyRequests :: AppError where
  "apperror_TooManyRequests = apperror_New CodeTooManyRequests ''too many requests'' 429 None"

definition apperror_RequestTimeout :: AppError where
  "apperror_RequestTimeout = apperror_New CodeRequestTimeout ''request timeout'' 504 None"

definition apperror_Unavailable :: "string \<Rightarrow> goerr option \<Rightarrow> AppError" where
  "apperror_Unavailable message err = apperror_New CodeDependencyUnavailable message 503 err"

definition apperror_Internal :: "goerr option \<Rightarrow> AppError" where
  "apperror_Internal err = apperror_New CodeInternal ''internal server error'' 500 err"

lemmas apperror_defs = apperror_New_def apperror_Invalid_def apperror_NotFound_def apperror_Conflict_def
  apperror_StaleVersion_def apperror_RequestInProgress_def apperror_Unauthorized_def apperror_Forbidden_def
  apperror_TooManyRequests_def apperror_RequestTimeout_def apperror_Unavailable_def apperror_Internal_def

section \<open>Responses\<close>

record 'b Response =
  rsCode :: AppCode
  rsMessage :: string
  rsBody :: "'b option"
  rsRequestID :: string

type_synonym 'b reply = "int \<times> 'b Response"

text \<open>An error \<open>Fail\<close> is given: an application error, found by \<open>errors.As\<close>, or another one.\<close>

datatype httpError =
    App AppError
  | Plain goerr

definition OK :: "string \<Rightarrow> 'b \<Rightarrow> 'b reply" where
  "OK rid body = (200, \<lparr>rsCode = CodeOK, rsMessage = ''success'', rsBody = Some body, rsRequestID = rid\<rparr>)"

definition Fail :: "string \<Rightarrow> httpError \<Rightarrow> 'b reply" where
  "Fail rid err =
     (let appErr = (case err of App e \<Rightarrow> e | Plain e \<Rightarrow> apperror_Internal (Some e))
      in (aeHTTPStatus appErr, \<lparr>rsCode = aeCode appErr, rsMessage = aeMessage appErr, rsBody = None, rsRequestID = rid\<rparr>))"

definition workflowHTTPError :: "goerr \<Rightarrow> httpError" where
  "workflowHTTPError err =
     (if errorsIs err ErrInvalid then App (apperror_Invalid ''invalid workflow request'' (Some err))
      else if errorsIs err ErrActorRequired then App (apperror_Unauthorized ''authentication required'')
      else if errorsIs err ErrNotFound then App (apperror_NotFound ''workflow resource not found'')
      else if errorsIs err ErrForbidden then App (apperror_New CodeForbidden ''workflow operation is forbidden'' 403 (Some err))
      else if errorsIs err ErrVersionConflict then App (apperror_StaleVersion (Some err))
      else if errorsIs err ErrConflict then App (apperror_Conflict ''workflow resource conflict'' (Some err))
      else if errorsIs err ErrUnavailable then App (apperror_Unavailable ''application authorization is unavailable'' (Some err))
      else App (apperror_Internal (Some err)))"

text \<open>The handler's service is nil when the workflow database is disabled.\<close>

record Handler =
  hWorkflow :: bool

definition bind :: "Handler \<Rightarrow> 'rq result \<Rightarrow> httpError + 'rq" where
  "bind h bound =
     (if \<not> hWorkflow h then Inl (App (apperror_Unavailable ''workflow database is disabled'' None))
      else case bound of Inl e \<Rightarrow> Inl (App (apperror_Invalid ''invalid request body'' (Some e))) | Inr rq \<Rightarrow> Inr rq)"

definition respond :: "string \<Rightarrow> 'b result \<Rightarrow> 'b reply" where
  "respond rid r = (case r of Inl e \<Rightarrow> Fail rid (workflowHTTPError e) | Inr body \<Rightarrow> OK rid body)"

text \<open>A handler: bind, call the service, convert the value, respond.\<close>

definition serve :: "Handler \<Rightarrow> string \<Rightarrow> 'rq result \<Rightarrow> ('a \<Rightarrow> 'b) \<Rightarrow> ('rq \<Rightarrow> 'a io) \<Rightarrow> world \<Rightarrow> 'b reply \<times> world" where
  "serve h rid bound f op w =
     (case bind h bound of
        Inl e \<Rightarrow> (Fail rid e, w)
      | Inr rq \<Rightarrow> (case op rq w of (r, w') \<Rightarrow> (respond rid (map_sum (\<lambda>e. e) f r), w')))"

section \<open>Raw JSON\<close>

definition validJSON :: "string \<Rightarrow> bool" where
  "validJSON s \<longleftrightarrow> jsonParse s \<noteq> None"

text \<open>A JSON string that holds a JSON document stands for the document.\<close>

definition rawObject :: "string \<Rightarrow> string" where
  "rawObject v =
     (if v \<noteq> [] \<and> validJSON v then
        (if hd v = CHR 0x22 then
           (case jsonParse v of
              Some (JStr legacy) \<Rightarrow> if validJSON legacy then legacy else v
            | _ \<Rightarrow> v)
         else v)
      else ''{}'')"

section \<open>Data transfer objects\<close>

record WorkflowNodeDTO =
  ndID :: string
  ndName :: string
  ndType :: string
  ndAssigneeType :: string
  ndAssignee :: string
  ndTimeoutSeconds :: "32 word"
  ndTargetService :: string
  ndFullMethod :: string
  ndRequestTemplateJSON :: string
  ndCompensationMethod :: string
  ndTimerSeconds :: "32 word"
  ndConfigJSON :: string

record WorkflowEdgeDTO =
  edFromNodeID :: string
  edToNodeID :: string
  edConditionExpression :: string
  edPriority :: int

record DefinitionDTO =
  ddID :: string
  ddTenantID :: string
  ddApplicationID :: string
  ddKey :: string
  ddName :: string
  ddDescription :: string
  ddStatus :: string
  ddPublishedRevision :: "32 word"
  ddNodes :: "WorkflowNodeDTO list"
  ddEdges :: "WorkflowEdgeDTO list"
  ddVersion :: int
  ddCreatedAt :: time
  ddUpdatedAt :: time
  ddCreatedBy :: string
  ddUpdatedBy :: string

record InstanceDTO =
  idID :: string
  idTenantID :: string
  idApplicationID :: string
  idDefinitionID :: string
  idDefinitionRevision :: "32 word"
  idBusinessKey :: string
  idTitle :: string
  idStarterID :: string
  idStatus :: string
  idCurrentNodeID :: string
  idVariablesJSON :: string
  idResultJSON :: string
  idErrorCode :: string
  idErrorMessage :: string
  idStartedAt :: time
  idFinishedAt :: "time option"
  idVersion :: int
  idCreatedAt :: time
  idUpdatedAt :: time
  idCreatedBy :: string
  idUpdatedBy :: string

record TaskDTO =
  tdID :: string
  tdTenantID :: string
  tdApplicationID :: string
  tdInstanceID :: string
  tdNodeID :: string
  tdName :: string
  tdAssigneeType :: string
  tdAssignee :: string
  tdClaimedBy :: string
  tdStatus :: string
  tdDecision :: string
  tdComment :: string
  tdInputJSON :: string
  tdOutputJSON :: string
  tdDueAt :: "time option"
  tdCompletedAt :: "time option"
  tdVersion :: int
  tdCreatedAt :: time
  tdUpdatedAt :: time
  tdCreatedBy :: string
  tdUpdatedBy :: string

record TaskHistoryDTO =
  hdID :: string
  hdTenantID :: string
  hdApplicationID :: string
  hdTaskID :: string
  hdInstanceID :: string
  hdAction :: string
  hdActorID :: string
  hdFromStatus :: string
  hdToStatus :: string
  hdDetailJSON :: string
  hdVersion :: int
  hdCreatedAt :: time
  hdUpdatedAt :: time
  hdCreatedBy :: string
  hdUpdatedBy :: string

record 'a PageDTO =
  pdtoItems :: "'a list"
  pdtoTotal :: int
  pdtoPage :: int
  pdtoPageSize :: int

record DefinitionCandidateDTO =
  dcdID :: string
  dcdKey :: string
  dcdName :: string
  dcdStatus :: string
  dcdPublishedRevision :: "32 word"

record TaskInstanceCandidateDTO =
  tcdID :: string
  tcdTitle :: string
  tcdBusinessKey :: string
  tcdStatus :: string

record CompleteTaskResponseBody =
  crbTask :: TaskDTO
  crbInstance :: InstanceDTO

section \<open>Requests\<close>

record CreateDefinitionRequest =
  hcTenantID :: string
  hcApplicationID :: string
  hcKey :: string
  hcName :: string
  hcDescription :: string
  hcNodes :: "WorkflowNodeDTO list"
  hcEdges :: "WorkflowEdgeDTO list"

record UpdateDefinitionRequest =
  huID :: string
  huTenantID :: string
  huApplicationID :: string
  huName :: string
  huDescription :: string
  huNodes :: "WorkflowNodeDTO list"
  huEdges :: "WorkflowEdgeDTO list"
  huExpectedVersion :: int

record VersionedDefinitionRequest =
  hvID :: string
  hvTenantID :: string
  hvApplicationID :: string
  hvExpectedVersion :: int

record GetDefinitionRequest =
  hgID :: string
  hgTenantID :: string
  hgApplicationID :: string
  hgRevision :: "32 word"

record ListDefinitionsRequest =
  hlTenantID :: string
  hlApplicationID :: string
  hlStatus :: string
  hlSearch :: string
  hlPage :: int
  hlPageSize :: int

record ListDefinitionCandidatesRequest =
  lcTenantID :: string
  lcApplicationID :: string
  lcSearch :: string
  lcPage :: int
  lcPageSize :: int

record StartInstanceRequest =
  hsTenantID :: string
  hsApplicationID :: string
  hsDefinitionKey :: string
  hsBusinessKey :: string
  hsTitle :: string
  hsVariablesJSON :: string
  hsIdempotencyKey :: string

record CancelInstanceRequest =
  hxID :: string
  hxTenantID :: string
  hxApplicationID :: string
  hxReason :: string
  hxExpectedVersion :: int

record GetInstanceRequest =
  giID :: string
  giTenantID :: string
  giApplicationID :: string

record ListInstancesRequest =
  liTenantID :: string
  liApplicationID :: string
  liDefinitionID :: string
  liStatus :: string
  liStarterID :: string
  liSearch :: string
  liStartedFrom :: "time option"
  liStartedUntil :: "time option"
  liPage :: int
  liPageSize :: int

record TaskVersionRequest =
  tvID :: string
  tvTenantID :: string
  tvApplicationID :: string
  tvExpectedVersion :: int

record CompleteTaskRequest =
  hkID :: string
  hkTenantID :: string
  hkApplicationID :: string
  hkDecision :: string
  hkComment :: string
  hkOutputJSON :: string
  hkExpectedVersion :: int

record DelegateTaskRequest =
  hdtID :: string
  hdtTenantID :: string
  hdtApplicationID :: string
  hdtDelegateTo :: string
  hdtReason :: string
  hdtExpectedVersion :: int

record GetTaskRequest =
  gtID :: string
  gtTenantID :: string
  gtApplicationID :: string

record ListTasksRequest =
  ltTenantID :: string
  ltApplicationID :: string
  ltInstanceID :: string
  ltStatus :: string
  ltSearch :: string
  ltPage :: int
  ltPageSize :: int

record ListTaskInstanceCandidatesRequest =
  ltcTenantID :: string
  ltcApplicationID :: string
  ltcSearch :: string
  ltcPage :: int
  ltcPageSize :: int

record ListTaskHistoryRequest =
  lthTenantID :: string
  lthApplicationID :: string
  lthTaskID :: string
  lthPage :: int
  lthPageSize :: int

record ListInstanceTaskHistoryRequest =
  lihTenantID :: string
  lihApplicationID :: string
  lihInstanceID :: string
  lihPage :: int
  lihPageSize :: int

section \<open>Conversions\<close>

definition nodesFromDTO :: "WorkflowNodeDTO list \<Rightarrow> Node list" where
  "nodesFromDTO = map (\<lambda>v. \<lparr>nodeID = ndID v, nodeName = ndName v, nodeType = ndType v,
     nodeAssigneeType = ndAssigneeType v, nodeAssignee = ndAssignee v, nodeTimeoutSeconds = ndTimeoutSeconds v,
     nodeTargetService = ndTargetService v, nodeFullMethod = ndFullMethod v,
     nodeRequestTemplateJSON = rawObject (ndRequestTemplateJSON v), nodeCompensationMethod = ndCompensationMethod v,
     nodeTimerSeconds = ndTimerSeconds v, nodeConfigJSON = rawObject (ndConfigJSON v)\<rparr>)"

definition edgesFromDTO :: "WorkflowEdgeDTO list \<Rightarrow> Edge list" where
  "edgesFromDTO = map (\<lambda>v. \<lparr>edgeFromNodeID = edFromNodeID v, edgeToNodeID = edToNodeID v,
     edgeConditionExpression = edConditionExpression v, edgePriority = edPriority v\<rparr>)"

definition definitionDTO :: "Definition \<Rightarrow> DefinitionDTO" where
  "definitionDTO v =
     (let nodes = map (\<lambda>node. \<lparr>ndID = nodeID node, ndName = nodeName node, ndType = nodeType node,
            ndAssigneeType = nodeAssigneeType node, ndAssignee = nodeAssignee node,
            ndTimeoutSeconds = nodeTimeoutSeconds node, ndTargetService = nodeTargetService node,
            ndFullMethod = nodeFullMethod node, ndRequestTemplateJSON = rawObject (nodeRequestTemplateJSON node),
            ndCompensationMethod = nodeCompensationMethod node, ndTimerSeconds = nodeTimerSeconds node,
            ndConfigJSON = rawObject (nodeConfigJSON node)\<rparr>) (defNodes v);
          edges = map (\<lambda>edge. \<lparr>edFromNodeID = edgeFromNodeID edge, edToNodeID = edgeToNodeID edge,
            edConditionExpression = edgeConditionExpression edge, edPriority = edgePriority edge\<rparr>) (defEdges v)
      in \<lparr>ddID = defID v, ddTenantID = defTenantID v, ddApplicationID = defApplicationID v, ddKey = defKey v,
          ddName = defName v, ddDescription = defDescription v, ddStatus = defStatus v,
          ddPublishedRevision = defPublishedRevision v, ddNodes = nodes, ddEdges = edges, ddVersion = defVersion v,
          ddCreatedAt = defCreatedAt v, ddUpdatedAt = defUpdatedAt v, ddCreatedBy = defCreatedBy v,
          ddUpdatedBy = defUpdatedBy v\<rparr>)"

definition instanceDTO :: "Instance \<Rightarrow> InstanceDTO" where
  "instanceDTO v =
     \<lparr>idID = instID v, idTenantID = instTenantID v, idApplicationID = instApplicationID v,
      idDefinitionID = instDefinitionID v, idDefinitionRevision = instDefinitionRevision v,
      idBusinessKey = instBusinessKey v, idTitle = instTitle v, idStarterID = instStarterID v,
      idStatus = instStatus v, idCurrentNodeID = instCurrentNodeID v,
      idVariablesJSON = rawObject (instVariablesJSON v), idResultJSON = rawObject (instResultJSON v),
      idErrorCode = instErrorCode v, idErrorMessage = instErrorMessage v, idStartedAt = instStartedAt v,
      idFinishedAt = instFinishedAt v, idVersion = instVersion v, idCreatedAt = instCreatedAt v,
      idUpdatedAt = instUpdatedAt v, idCreatedBy = instCreatedBy v, idUpdatedBy = instUpdatedBy v\<rparr>"

definition taskDTO :: "Task \<Rightarrow> TaskDTO" where
  "taskDTO v =
     \<lparr>tdID = taskID v, tdTenantID = taskTenantID v, tdApplicationID = taskApplicationID v,
      tdInstanceID = taskInstanceID v, tdNodeID = taskNodeID v, tdName = taskName v,
      tdAssigneeType = taskAssigneeType v, tdAssignee = taskAssignee v, tdClaimedBy = taskClaimedBy v,
      tdStatus = taskStatus v, tdDecision = taskDecision v, tdComment = taskComment v,
      tdInputJSON = rawObject (taskInputJSON v), tdOutputJSON = rawObject (taskOutputJSON v),
      tdDueAt = taskDueAt v, tdCompletedAt = taskCompletedAt v, tdVersion = taskVersion v,
      tdCreatedAt = taskCreatedAt v, tdUpdatedAt = taskUpdatedAt v, tdCreatedBy = taskCreatedBy v,
      tdUpdatedBy = taskUpdatedBy v\<rparr>"

definition taskHistoryDTO :: "TaskHistory \<Rightarrow> TaskHistoryDTO" where
  "taskHistoryDTO v =
     \<lparr>hdID = histID v, hdTenantID = histTenantID v, hdApplicationID = histApplicationID v, hdTaskID = histTaskID v,
      hdInstanceID = histInstanceID v, hdAction = histAction v, hdActorID = histActorID v,
      hdFromStatus = histFromStatus v, hdToStatus = histToStatus v, hdDetailJSON = rawObject (histDetailJSON v),
      hdVersion = histVersion v, hdCreatedAt = histCreatedAt v, hdUpdatedAt = histUpdatedAt v,
      hdCreatedBy = histCreatedBy v, hdUpdatedBy = histUpdatedBy v\<rparr>"

text \<open>\<open>PageDTO[T]{Items: items, Total: ..., Page: ..., PageSize: ...}\<close> of the list handlers.\<close>

definition pageDTO :: "('a \<Rightarrow> 'b) \<Rightarrow> 'a Page \<Rightarrow> 'b PageDTO" where
  "pageDTO f p = \<lparr>pdtoItems = map f (pageItems p), pdtoTotal = pageTotal p, pdtoPage = pagePage p, pdtoPageSize = pageSize p\<rparr>"

section \<open>Handlers\<close>

definition Http_CreateDefinition :: "deps \<Rightarrow> Handler \<Rightarrow> Context \<Rightarrow> string \<Rightarrow> CreateDefinitionRequest result \<Rightarrow> world \<Rightarrow> DefinitionDTO reply \<times> world" where
  "Http_CreateDefinition d h ctx rid bound = serve h rid bound definitionDTO (\<lambda>rq. Service_CreateDefinition d ctx
     \<lparr>cdTenantID = hcTenantID rq, cdApplicationID = hcApplicationID rq, cdKey = hcKey rq, cdName = hcName rq,
      cdDescription = hcDescription rq, cdNodes = nodesFromDTO (hcNodes rq), cdEdges = edgesFromDTO (hcEdges rq)\<rparr>)"

definition Http_UpdateDefinition :: "deps \<Rightarrow> Handler \<Rightarrow> Context \<Rightarrow> string \<Rightarrow> UpdateDefinitionRequest result \<Rightarrow> world \<Rightarrow> DefinitionDTO reply \<times> world" where
  "Http_UpdateDefinition d h ctx rid bound = serve h rid bound definitionDTO (\<lambda>rq. Service_UpdateDefinition d ctx
     \<lparr>udID = huID rq, udTenantID = huTenantID rq, udApplicationID = huApplicationID rq, udName = huName rq,
      udDescription = huDescription rq, udNodes = nodesFromDTO (huNodes rq), udEdges = edgesFromDTO (huEdges rq),
      udExpectedVersion = huExpectedVersion rq\<rparr>)"

definition Http_PublishDefinition :: "deps \<Rightarrow> Handler \<Rightarrow> Context \<Rightarrow> string \<Rightarrow> VersionedDefinitionRequest result \<Rightarrow> world \<Rightarrow> DefinitionDTO reply \<times> world" where
  "Http_PublishDefinition d h ctx rid bound = serve h rid bound definitionDTO
     (\<lambda>rq. Service_PublishDefinition d ctx (hvTenantID rq) (hvApplicationID rq) (hvID rq) (hvExpectedVersion rq))"

definition Http_DisableDefinition :: "deps \<Rightarrow> Handler \<Rightarrow> Context \<Rightarrow> string \<Rightarrow> VersionedDefinitionRequest result \<Rightarrow> world \<Rightarrow> DefinitionDTO reply \<times> world" where
  "Http_DisableDefinition d h ctx rid bound = serve h rid bound definitionDTO
     (\<lambda>rq. Service_DisableDefinition d ctx (hvTenantID rq) (hvApplicationID rq) (hvID rq) (hvExpectedVersion rq))"

definition Http_GetDefinition :: "deps \<Rightarrow> Handler \<Rightarrow> Context \<Rightarrow> string \<Rightarrow> GetDefinitionRequest result \<Rightarrow> world \<Rightarrow> DefinitionDTO reply \<times> world" where
  "Http_GetDefinition d h ctx rid bound = serve h rid bound definitionDTO
     (\<lambda>rq. Service_GetDefinition d ctx (hgTenantID rq) (hgApplicationID rq) (hgID rq) (hgRevision rq))"

definition Http_ListDefinitions :: "deps \<Rightarrow> Handler \<Rightarrow> Context \<Rightarrow> string \<Rightarrow> ListDefinitionsRequest result \<Rightarrow> world \<Rightarrow> DefinitionDTO PageDTO reply \<times> world" where
  "Http_ListDefinitions d h ctx rid bound = serve h rid bound (pageDTO definitionDTO) (\<lambda>rq. Service_ListDefinitions d ctx
     \<lparr>dfTenantID = hlTenantID rq, dfApplicationID = hlApplicationID rq, dfStatus = hlStatus rq, dfSearch = hlSearch rq,
      dfPage = hlPage rq, dfPageSize = hlPageSize rq\<rparr>)"

definition Http_listDefinitionCandidates :: "Handler \<Rightarrow> string \<Rightarrow> ListDefinitionCandidatesRequest result \<Rightarrow> (DefinitionFilter \<Rightarrow> DefinitionCandidate Page io) \<Rightarrow> world \<Rightarrow> DefinitionCandidateDTO PageDTO reply \<times> world" where
  "Http_listDefinitionCandidates h rid bound list = serve h rid bound
     (pageDTO (\<lambda>item. \<lparr>dcdID = dcID item, dcdKey = dcKey item, dcdName = dcName item, dcdStatus = dcStatus item,
        dcdPublishedRevision = dcPublishedRevision item\<rparr>))
     (\<lambda>rq. list \<lparr>dfTenantID = lcTenantID rq, dfApplicationID = lcApplicationID rq, dfStatus = [], dfSearch = lcSearch rq,
        dfPage = lcPage rq, dfPageSize = lcPageSize rq\<rparr>)"

definition Http_ListStartDefinitionCandidates :: "deps \<Rightarrow> Handler \<Rightarrow> Context \<Rightarrow> string \<Rightarrow> ListDefinitionCandidatesRequest result \<Rightarrow> world \<Rightarrow> DefinitionCandidateDTO PageDTO reply \<times> world" where
  "Http_ListStartDefinitionCandidates d h ctx rid bound =
     Http_listDefinitionCandidates h rid bound (Service_ListStartDefinitionCandidates d ctx)"

definition Http_ListInstanceDefinitionCandidates :: "deps \<Rightarrow> Handler \<Rightarrow> Context \<Rightarrow> string \<Rightarrow> ListDefinitionCandidatesRequest result \<Rightarrow> world \<Rightarrow> DefinitionCandidateDTO PageDTO reply \<times> world" where
  "Http_ListInstanceDefinitionCandidates d h ctx rid bound =
     Http_listDefinitionCandidates h rid bound (Service_ListInstanceDefinitionCandidates d ctx)"

definition Http_StartInstance :: "deps \<Rightarrow> Handler \<Rightarrow> Context \<Rightarrow> string \<Rightarrow> StartInstanceRequest result \<Rightarrow> world \<Rightarrow> InstanceDTO reply \<times> world" where
  "Http_StartInstance d h ctx rid bound = serve h rid bound instanceDTO (\<lambda>rq. Service_StartInstance d ctx
     \<lparr>siTenantID = hsTenantID rq, siApplicationID = hsApplicationID rq, siDefinitionKey = hsDefinitionKey rq,
      siBusinessKey = hsBusinessKey rq, siTitle = hsTitle rq, siVariablesJSON = rawObject (hsVariablesJSON rq),
      siIdempotencyKey = hsIdempotencyKey rq\<rparr>)"

definition Http_CancelInstance :: "deps \<Rightarrow> Handler \<Rightarrow> Context \<Rightarrow> string \<Rightarrow> CancelInstanceRequest result \<Rightarrow> world \<Rightarrow> InstanceDTO reply \<times> world" where
  "Http_CancelInstance d h ctx rid bound = serve h rid bound instanceDTO
     (\<lambda>rq. Service_CancelInstance d ctx (hxTenantID rq) (hxApplicationID rq) (hxID rq) (hxReason rq) (hxExpectedVersion rq))"

definition Http_GetInstance :: "deps \<Rightarrow> Handler \<Rightarrow> Context \<Rightarrow> string \<Rightarrow> GetInstanceRequest result \<Rightarrow> world \<Rightarrow> InstanceDTO reply \<times> world" where
  "Http_GetInstance d h ctx rid bound = serve h rid bound instanceDTO
     (\<lambda>rq. Service_GetInstance d ctx (giTenantID rq) (giApplicationID rq) (giID rq))"

definition Http_ListInstances :: "deps \<Rightarrow> Handler \<Rightarrow> Context \<Rightarrow> string \<Rightarrow> ListInstancesRequest result \<Rightarrow> world \<Rightarrow> InstanceDTO PageDTO reply \<times> world" where
  "Http_ListInstances d h ctx rid bound = serve h rid bound (pageDTO instanceDTO) (\<lambda>rq. Service_ListInstances d ctx
     \<lparr>ifTenantID = liTenantID rq, ifApplicationID = liApplicationID rq, ifDefinitionID = liDefinitionID rq,
      ifStatus = liStatus rq, ifStarterID = liStarterID rq, ifSearch = liSearch rq, ifStartedFrom = liStartedFrom rq,
      ifStartedUntil = liStartedUntil rq, ifPage = liPage rq, ifPageSize = liPageSize rq\<rparr>)"

definition Http_ClaimTask :: "deps \<Rightarrow> authz \<Rightarrow> Handler \<Rightarrow> Context \<Rightarrow> string \<Rightarrow> TaskVersionRequest result \<Rightarrow> world \<Rightarrow> TaskDTO reply \<times> world" where
  "Http_ClaimTask d az h ctx rid bound = serve h rid bound taskDTO
     (\<lambda>rq. Service_ClaimTask d az ctx (tvTenantID rq) (tvApplicationID rq) (tvID rq) (tvExpectedVersion rq))"

definition Http_CompleteTask :: "deps \<Rightarrow> authz \<Rightarrow> Handler \<Rightarrow> Context \<Rightarrow> string \<Rightarrow> CompleteTaskRequest result \<Rightarrow> world \<Rightarrow> CompleteTaskResponseBody reply \<times> world" where
  "Http_CompleteTask d az h ctx rid bound = serve h rid bound (\<lambda>(task, inst). \<lparr>crbTask = taskDTO task, crbInstance = instanceDTO inst\<rparr>)
     (\<lambda>rq. Service_CompleteTask d az ctx (hkTenantID rq) (hkApplicationID rq) (hkID rq) (hkDecision rq) (hkComment rq)
        (rawObject (hkOutputJSON rq)) (hkExpectedVersion rq))"

definition Http_DelegateTask :: "deps \<Rightarrow> authz \<Rightarrow> Handler \<Rightarrow> Context \<Rightarrow> string \<Rightarrow> DelegateTaskRequest result \<Rightarrow> world \<Rightarrow> TaskDTO reply \<times> world" where
  "Http_DelegateTask d az h ctx rid bound = serve h rid bound taskDTO
     (\<lambda>rq. Service_DelegateTask d az ctx (hdtTenantID rq) (hdtApplicationID rq) (hdtID rq) (hdtDelegateTo rq) (hdtReason rq)
        (hdtExpectedVersion rq))"

definition Http_GetTask :: "deps \<Rightarrow> authz \<Rightarrow> Handler \<Rightarrow> Context \<Rightarrow> string \<Rightarrow> GetTaskRequest result \<Rightarrow> world \<Rightarrow> TaskDTO reply \<times> world" where
  "Http_GetTask d az h ctx rid bound = serve h rid bound taskDTO
     (\<lambda>rq. Service_GetTask d az ctx (gtTenantID rq) (gtApplicationID rq) (gtID rq))"

definition Http_ListTasks :: "deps \<Rightarrow> authz \<Rightarrow> Handler \<Rightarrow> Context \<Rightarrow> string \<Rightarrow> ListTasksRequest result \<Rightarrow> world \<Rightarrow> TaskDTO PageDTO reply \<times> world" where
  "Http_ListTasks d az h ctx rid bound = serve h rid bound (pageDTO taskDTO) (\<lambda>rq. Service_ListMyTasks d az ctx
     \<lparr>tfTenantID = ltTenantID rq, tfApplicationID = ltApplicationID rq, tfInstanceID = ltInstanceID rq,
      tfStatus = ltStatus rq, tfAssigneeUserID = [], tfSearch = ltSearch rq, tfRoleIDs = [], tfIncludeUnclaimed = False,
      tfPage = ltPage rq, tfPageSize = ltPageSize rq\<rparr>)"

definition Http_ListTaskInstanceCandidates :: "deps \<Rightarrow> authz \<Rightarrow> Handler \<Rightarrow> Context \<Rightarrow> string \<Rightarrow> ListTaskInstanceCandidatesRequest result \<Rightarrow> world \<Rightarrow> TaskInstanceCandidateDTO PageDTO reply \<times> world" where
  "Http_ListTaskInstanceCandidates d az h ctx rid bound = serve h rid bound
     (pageDTO (\<lambda>item. \<lparr>tcdID = tcID item, tcdTitle = tcTitle item, tcdBusinessKey = tcBusinessKey item, tcdStatus = tcStatus item\<rparr>))
     (\<lambda>rq. Service_ListMyTaskInstanceCandidates d az ctx
        \<lparr>tcfTenantID = ltcTenantID rq, tcfApplicationID = ltcApplicationID rq, tcfSearch = ltcSearch rq,
         tcfAssigneeUserID = [], tcfRoleIDs = [], tcfIncludeUnclaimed = False, tcfPage = ltcPage rq,
         tcfPageSize = ltcPageSize rq\<rparr>)"

definition Http_ListTaskHistory :: "deps \<Rightarrow> authz \<Rightarrow> Handler \<Rightarrow> Context \<Rightarrow> string \<Rightarrow> ListTaskHistoryRequest result \<Rightarrow> world \<Rightarrow> TaskHistoryDTO PageDTO reply \<times> world" where
  "Http_ListTaskHistory d az h ctx rid bound = serve h rid bound (pageDTO taskHistoryDTO) (\<lambda>rq. Service_ListTaskHistory d az ctx
     \<lparr>hfTenantID = lthTenantID rq, hfApplicationID = lthApplicationID rq, hfTaskID = lthTaskID rq, hfInstanceID = [],
      hfPage = lthPage rq, hfPageSize = lthPageSize rq\<rparr>)"

definition Http_ListInstanceTaskHistory :: "deps \<Rightarrow> authz \<Rightarrow> Handler \<Rightarrow> Context \<Rightarrow> string \<Rightarrow> ListInstanceTaskHistoryRequest result \<Rightarrow> world \<Rightarrow> TaskHistoryDTO PageDTO reply \<times> world" where
  "Http_ListInstanceTaskHistory d az h ctx rid bound = serve h rid bound (pageDTO taskHistoryDTO) (\<lambda>rq. Service_ListTaskHistory d az ctx
     \<lparr>hfTenantID = lihTenantID rq, hfApplicationID = lihApplicationID rq, hfTaskID = [], hfInstanceID = lihInstanceID rq,
      hfPage = lihPage rq, hfPageSize = lihPageSize rq\<rparr>)"

section \<open>Raw JSON is JSON\<close>

lemma validJSON_empty_object: "validJSON ''{}''"
  by code_simp

lemma rawObject_valid: "validJSON (rawObject v)"
  unfolding rawObject_def by (auto simp: validJSON_empty_object split: option.splits json.splits)

end
