(* ===== verification/Grpc.thy ===== *)
theory Grpc
  imports Service_Order
begin

text \<open>
  The gRPC server of the workflow API, \<open>internal/transport/grpc/workflow_server.go\<close>: the
  conversions between the protobuf messages and the model, the mapping of errors to status codes
  and one handler per method. A handler runs the service operation in the world and answers with
  a message or a status.
\<close>

section \<open>Status errors\<close>

text \<open>The codes of \<open>google.golang.org/grpc/codes\<close> the server names, and those of a context error.\<close>

datatype GrpcCode =
    Canceled
  | Unknown
  | InvalidArgument
  | DeadlineExceeded
  | NotFound
  | PermissionDenied
  | FailedPrecondition
  | Aborted
  | Internal
  | Unavailable
  | Unauthenticated

record GrpcStatus =
  stCode :: GrpcCode
  stMessage :: string

definition statusError :: "GrpcCode \<Rightarrow> string \<Rightarrow> GrpcStatus" where
  "statusError c m = \<lparr>stCode = c, stMessage = m\<rparr>"

text \<open>
  \<open>fce\<close> stands for \<open>status.FromContextError\<close>, which documents that it gives a cancelled or an
  expired context its own code.
\<close>

definition contextErrorLaw :: "(goerr \<Rightarrow> GrpcStatus) \<Rightarrow> bool" where
  "contextErrorLaw fce \<longleftrightarrow> (\<forall>e. (errorsIs e ErrCanceled \<longrightarrow> stCode (fce e) = Canceled)
     \<and> (errorsIs e ErrDeadlineExceeded \<longrightarrow> stCode (fce e) = DeadlineExceeded))"

definition grpcError :: "(goerr \<Rightarrow> GrpcStatus) \<Rightarrow> goerr \<Rightarrow> GrpcStatus" where
  "grpcError fce err =
     (if errorsIs err ErrCanceled \<or> errorsIs err ErrDeadlineExceeded then fce err
      else if errorsIs err ErrInvalid then statusError InvalidArgument ''invalid workflow request''
      else if errorsIs err ErrActorRequired then statusError Unauthenticated ''authentication required''
      else if errorsIs err ErrNotFound then statusError NotFound ''workflow resource not found''
      else if errorsIs err ErrForbidden then statusError PermissionDenied ''workflow operation is forbidden''
      else if errorsIs err ErrVersionConflict then statusError Aborted ''workflow resource version conflict''
      else if errorsIs err ErrConflict then statusError FailedPrecondition ''workflow resource state conflict''
      else if errorsIs err ErrUnavailable then statusError Unavailable ''application authorization is unavailable''
      else statusError Internal ''internal server error'')"

section \<open>Pages and times\<close>

record PageRequest =
  prqPage :: "32 word"
  prqPageSize :: "32 word"

record PageResult =
  prsTotal :: "64 word"
  prsPage :: "32 word"
  prsPageSize :: "32 word"

definition pageFromProto :: "PageRequest option \<Rightarrow> int \<times> int" where
  "pageFromProto v = (case v of None \<Rightarrow> (1, 20) | Some p \<Rightarrow> (uint (prqPage p), uint (prqPageSize p)))"

definition pageToProto :: "int \<Rightarrow> int \<Rightarrow> int \<Rightarrow> PageResult" where
  "pageToProto tot page sz = \<lparr>prsTotal = word_of_int tot, prsPage = word_of_int page, prsPageSize = word_of_int sz\<rparr>"

text \<open>A protobuf timestamp and a Go time are the same instant.\<close>

definition timeFromProto :: "time option \<Rightarrow> time option" where
  "timeFromProto v = (case v of None \<Rightarrow> None | Some t \<Rightarrow> Some t)"

definition grpc_optionalTimestamp :: "time option \<Rightarrow> time option" where
  "grpc_optionalTimestamp v = (case v of None \<Rightarrow> None | Some t \<Rightarrow> Some t)"

section \<open>Enums\<close>

definition definitionStatusFromProto :: "DefinitionStatus \<Rightarrow> string" where
  "definitionStatusFromProto v = mapGetD []
     [(DEFINITION_STATUS_DRAFT, DefinitionDraft),
      (DEFINITION_STATUS_PUBLISHED, DefinitionPublished),
      (DEFINITION_STATUS_DISABLED, DefinitionDisabled)] v"

definition definitionStatusToProto :: "string \<Rightarrow> DefinitionStatus" where
  "definitionStatusToProto v = mapGetD DEFINITION_STATUS_UNSPECIFIED
     [(DefinitionDraft, DEFINITION_STATUS_DRAFT),
      (DefinitionPublished, DEFINITION_STATUS_PUBLISHED),
      (DefinitionDisabled, DEFINITION_STATUS_DISABLED)] v"

definition grpc_nodeTypeFromProto :: "NodeType \<Rightarrow> string" where
  "grpc_nodeTypeFromProto v = mapGetD []
     [(NODE_TYPE_START, NodeStart),
      (NODE_TYPE_APPROVAL, NodeApproval),
      (NODE_TYPE_SERVICE_TASK, NodeServiceTask),
      (NODE_TYPE_TIMER, NodeTimer),
      (NODE_TYPE_END, NodeEnd)] v"

definition nodeTypeToProto :: "string \<Rightarrow> NodeType" where
  "nodeTypeToProto v = mapGetD NODE_TYPE_UNSPECIFIED
     [(NodeStart, NODE_TYPE_START),
      (NodeApproval, NODE_TYPE_APPROVAL),
      (NodeServiceTask, NODE_TYPE_SERVICE_TASK),
      (NodeTimer, NODE_TYPE_TIMER),
      (NodeEnd, NODE_TYPE_END)] v"

definition grpc_assigneeTypeFromProto :: "AssigneeType \<Rightarrow> string" where
  "grpc_assigneeTypeFromProto v = mapGetD []
     [(ASSIGNEE_TYPE_USER, AssigneeUser),
      (ASSIGNEE_TYPE_ROLE, AssigneeRole),
      (ASSIGNEE_TYPE_STARTER, AssigneeStarter),
      (ASSIGNEE_TYPE_EXPRESSION, AssigneeExpression)] v"

definition assigneeTypeToProto :: "string \<Rightarrow> AssigneeType" where
  "assigneeTypeToProto v = mapGetD ASSIGNEE_TYPE_UNSPECIFIED
     [(AssigneeUser, ASSIGNEE_TYPE_USER),
      (AssigneeRole, ASSIGNEE_TYPE_ROLE),
      (AssigneeStarter, ASSIGNEE_TYPE_STARTER),
      (AssigneeExpression, ASSIGNEE_TYPE_EXPRESSION)] v"

definition instanceStatusFromProto :: "InstanceStatus \<Rightarrow> string" where
  "instanceStatusFromProto v = mapGetD []
     [(INSTANCE_STATUS_RUNNING, InstanceRunning),
      (INSTANCE_STATUS_COMPLETED, InstanceCompleted),
      (INSTANCE_STATUS_REJECTED, InstanceRejected),
      (INSTANCE_STATUS_CANCELLED, InstanceCancelled),
      (INSTANCE_STATUS_FAILED, InstanceFailed)] v"

definition instanceStatusToProto :: "string \<Rightarrow> InstanceStatus" where
  "instanceStatusToProto v = mapGetD INSTANCE_STATUS_UNSPECIFIED
     [(InstanceRunning, INSTANCE_STATUS_RUNNING),
      (InstanceCompleted, INSTANCE_STATUS_COMPLETED),
      (InstanceRejected, INSTANCE_STATUS_REJECTED),
      (InstanceCancelled, INSTANCE_STATUS_CANCELLED),
      (InstanceFailed, INSTANCE_STATUS_FAILED)] v"

definition taskStatusFromProto :: "TaskStatus \<Rightarrow> string" where
  "taskStatusFromProto v = mapGetD []
     [(TASK_STATUS_PENDING, TaskPending),
      (TASK_STATUS_CLAIMED, TaskClaimed),
      (TASK_STATUS_APPROVED, TaskApproved),
      (TASK_STATUS_REJECTED, TaskRejected),
      (TASK_STATUS_CANCELLED, TaskCancelled),
      (TASK_STATUS_EXPIRED, TaskExpired)] v"

definition taskStatusToProto :: "string \<Rightarrow> TaskStatus" where
  "taskStatusToProto v = mapGetD TASK_STATUS_UNSPECIFIED
     [(TaskPending, TASK_STATUS_PENDING),
      (TaskClaimed, TASK_STATUS_CLAIMED),
      (TaskApproved, TASK_STATUS_APPROVED),
      (TaskRejected, TASK_STATUS_REJECTED),
      (TaskCancelled, TASK_STATUS_CANCELLED),
      (TaskExpired, TASK_STATUS_EXPIRED)] v"

definition grpc_decisionFromProto :: "TaskDecision \<Rightarrow> string" where
  "grpc_decisionFromProto v = mapGetD []
     [(TASK_DECISION_APPROVE, DecisionApprove),
      (TASK_DECISION_REJECT, DecisionReject)] v"

definition decisionToProto :: "string \<Rightarrow> TaskDecision" where
  "decisionToProto v = mapGetD TASK_DECISION_UNSPECIFIED
     [(DecisionApprove, TASK_DECISION_APPROVE),
      (DecisionReject, TASK_DECISION_REJECT)] v"

section \<open>Messages\<close>

fun grpc_nodesFromProto :: "WorkflowNode option list \<Rightarrow> Node list" where
  "grpc_nodesFromProto [] = []"
| "grpc_nodesFromProto (None # vs) = grpc_nodesFromProto vs"
| "grpc_nodesFromProto (Some v # vs) =
     \<lparr>nodeID = pnId v, nodeName = pnName v, nodeType = grpc_nodeTypeFromProto (pnType v),
      nodeAssigneeType = grpc_assigneeTypeFromProto (pnAssigneeType v), nodeAssignee = pnAssignee v,
      nodeTimeoutSeconds = pnTimeoutSeconds v, nodeTargetService = pnTargetService v,
      nodeFullMethod = pnFullMethod v, nodeRequestTemplateJSON = pnRequestTemplateJson v,
      nodeCompensationMethod = pnCompensationMethod v, nodeTimerSeconds = pnTimerSeconds v,
      nodeConfigJSON = pnConfigJson v\<rparr> # grpc_nodesFromProto vs"

fun grpc_edgesFromProto :: "WorkflowEdge option list \<Rightarrow> Edge list" where
  "grpc_edgesFromProto [] = []"
| "grpc_edgesFromProto (None # vs) = grpc_edgesFromProto vs"
| "grpc_edgesFromProto (Some v # vs) =
     \<lparr>edgeFromNodeID = peFromNodeId v, edgeToNodeID = peToNodeId v,
      edgeConditionExpression = peConditionExpression v, edgePriority = pePriority v\<rparr> # grpc_edgesFromProto vs"

definition definitionToProto :: "Definition \<Rightarrow> WorkflowDefinition" where
  "definitionToProto v =
     (let nodes = map (\<lambda>node. Some \<lparr>pnId = nodeID node, pnName = nodeName node, pnType = nodeTypeToProto (nodeType node),
            pnAssigneeType = assigneeTypeToProto (nodeAssigneeType node), pnAssignee = nodeAssignee node,
            pnTimeoutSeconds = nodeTimeoutSeconds node, pnTargetService = nodeTargetService node,
            pnFullMethod = nodeFullMethod node, pnRequestTemplateJson = nodeRequestTemplateJSON node,
            pnCompensationMethod = nodeCompensationMethod node, pnTimerSeconds = nodeTimerSeconds node,
            pnConfigJson = nodeConfigJSON node\<rparr>) (defNodes v);
          edges = map (\<lambda>edge. Some \<lparr>peFromNodeId = edgeFromNodeID edge, peToNodeId = edgeToNodeID edge,
            peConditionExpression = edgeConditionExpression edge, pePriority = edgePriority edge\<rparr>) (defEdges v)
      in \<lparr>pdId = defID v, pdTenantId = defTenantID v, pdApplicationId = defApplicationID v, pdKey = defKey v,
          pdName = defName v, pdDescription = defDescription v, pdStatus = definitionStatusToProto (defStatus v),
          pdPublishedRevision = defPublishedRevision v, pdNodes = nodes, pdEdges = edges, pdVersion = defVersion v,
          pdCreatedAt = Some (defCreatedAt v), pdUpdatedAt = Some (defUpdatedAt v),
          pdCreatedBy = defCreatedBy v, pdUpdatedBy = defUpdatedBy v\<rparr>)"

definition instanceToProto :: "Instance \<Rightarrow> WorkflowInstance" where
  "instanceToProto v =
     \<lparr>piId = instID v, piTenantId = instTenantID v, piApplicationId = instApplicationID v,
      piDefinitionId = instDefinitionID v, piDefinitionRevision = instDefinitionRevision v,
      piBusinessKey = instBusinessKey v, piTitle = instTitle v, piStarterId = instStarterID v,
      piStatus = instanceStatusToProto (instStatus v), piCurrentNodeId = instCurrentNodeID v,
      piVariablesJson = instVariablesJSON v, piResultJson = instResultJSON v,
      piErrorCode = instErrorCode v, piErrorMessage = instErrorMessage v,
      piStartedAt = Some (instStartedAt v), piFinishedAt = grpc_optionalTimestamp (instFinishedAt v),
      piVersion = instVersion v, piCreatedAt = Some (instCreatedAt v), piUpdatedAt = Some (instUpdatedAt v),
      piCreatedBy = instCreatedBy v, piUpdatedBy = instUpdatedBy v\<rparr>"

definition taskToProto :: "Task \<Rightarrow> WorkflowTask" where
  "taskToProto v =
     \<lparr>ptId = taskID v, ptTenantId = taskTenantID v, ptApplicationId = taskApplicationID v,
      ptInstanceId = taskInstanceID v, ptNodeId = taskNodeID v, ptName = taskName v,
      ptAssigneeType = assigneeTypeToProto (taskAssigneeType v), ptAssignee = taskAssignee v,
      ptClaimedBy = taskClaimedBy v, ptStatus = taskStatusToProto (taskStatus v),
      ptDecision = decisionToProto (taskDecision v), ptComment = taskComment v,
      ptInputJson = taskInputJSON v, ptOutputJson = taskOutputJSON v,
      ptDueAt = grpc_optionalTimestamp (taskDueAt v), ptCompletedAt = grpc_optionalTimestamp (taskCompletedAt v),
      ptVersion = taskVersion v, ptCreatedAt = Some (taskCreatedAt v), ptUpdatedAt = Some (taskUpdatedAt v),
      ptCreatedBy = taskCreatedBy v, ptUpdatedBy = taskUpdatedBy v\<rparr>"

record WorkflowTaskHistory =
  phId :: string
  phTenantId :: string
  phApplicationId :: string
  phTaskId :: string
  phInstanceId :: string
  phAction :: string
  phActorId :: string
  phFromStatus :: string
  phToStatus :: string
  phDetailJson :: string
  phVersion :: int
  phCreatedAt :: "time option"
  phUpdatedAt :: "time option"
  phCreatedBy :: string
  phUpdatedBy :: string

definition taskHistoryToProto :: "TaskHistory \<Rightarrow> WorkflowTaskHistory" where
  "taskHistoryToProto v =
     \<lparr>phId = histID v, phTenantId = histTenantID v, phApplicationId = histApplicationID v, phTaskId = histTaskID v,
      phInstanceId = histInstanceID v, phAction = histAction v, phActorId = histActorID v,
      phFromStatus = histFromStatus v, phToStatus = histToStatus v, phDetailJson = histDetailJSON v,
      phVersion = histVersion v, phCreatedAt = Some (histCreatedAt v), phUpdatedAt = Some (histUpdatedAt v),
      phCreatedBy = histCreatedBy v, phUpdatedBy = histUpdatedBy v\<rparr>"

section \<open>Requests\<close>

text \<open>The request messages, with the fields the handlers read; equal messages share a record.\<close>

record PbCreateDefinition =
  gcTenantId :: string
  gcApplicationId :: string
  gcKey :: string
  gcName :: string
  gcDescription :: string
  gcNodes :: "WorkflowNode option list"
  gcEdges :: "WorkflowEdge option list"

record PbUpdateDefinition =
  guId :: string
  guTenantId :: string
  guApplicationId :: string
  guName :: string
  guDescription :: string
  guNodes :: "WorkflowNode option list"
  guEdges :: "WorkflowEdge option list"
  guExpectedVersion :: int

text \<open>\<open>PublishDefinition\<close>, \<open>DisableDefinition\<close>, \<open>ClaimTask\<close>.\<close>

record PbVersioned =
  gvId :: string
  gvTenantId :: string
  gvApplicationId :: string
  gvExpectedVersion :: int

text \<open>\<open>GetDefinition\<close>, \<open>GetInstance\<close>, \<open>GetTask\<close>; only the first has a revision.\<close>

record PbGet =
  ggId :: string
  ggTenantId :: string
  ggApplicationId :: string
  ggRevision :: "32 word"

record PbListDefinitions =
  glTenantId :: string
  glApplicationId :: string
  glStatus :: DefinitionStatus
  glSearch :: string
  glPage :: "PageRequest option"

record PbStartInstance =
  gsTenantId :: string
  gsApplicationId :: string
  gsDefinitionKey :: string
  gsBusinessKey :: string
  gsTitle :: string
  gsVariablesJson :: string
  gsIdempotencyKey :: string

record PbCancelInstance =
  gxId :: string
  gxTenantId :: string
  gxApplicationId :: string
  gxReason :: string
  gxExpectedVersion :: int

record PbListInstances =
  giTenantId :: string
  giApplicationId :: string
  giDefinitionId :: string
  giStatus :: InstanceStatus
  giStarterId :: string
  giSearch :: string
  giStartedFrom :: "time option"
  giStartedUntil :: "time option"
  giPage :: "PageRequest option"

record PbCompleteTask =
  gkId :: string
  gkTenantId :: string
  gkApplicationId :: string
  gkDecision :: TaskDecision
  gkComment :: string
  gkOutputJson :: string
  gkExpectedVersion :: int

record PbDelegateTask =
  gdId :: string
  gdTenantId :: string
  gdApplicationId :: string
  gdDelegateTo :: string
  gdReason :: string
  gdExpectedVersion :: int

record PbListTasks =
  gtTenantId :: string
  gtApplicationId :: string
  gtInstanceId :: string
  gtStatus :: TaskStatus
  gtSearch :: string
  gtRoleIds :: "string list"
  gtIncludeUnclaimed :: bool
  gtPage :: "PageRequest option"

text \<open>\<open>ListTaskHistory\<close> by task, \<open>ListInstanceTaskHistory\<close> by instance.\<close>

record PbListHistory =
  ghTenantId :: string
  ghApplicationId :: string
  ghSubjectId :: string
  ghPage :: "PageRequest option"

section \<open>Handlers\<close>

type_synonym 'm rpc = "world \<Rightarrow> (GrpcStatus + 'm) \<times> world"

text \<open>\<open>if err != nil { return nil, grpcError(err) }\<close> and the response built from the value.\<close>

definition answer :: "(goerr \<Rightarrow> GrpcStatus) \<Rightarrow> ('a \<Rightarrow> 'm) \<Rightarrow> 'a io \<Rightarrow> 'm rpc" where
  "answer fce f op w = (case op w of (Inl e, w') \<Rightarrow> (Inl (grpcError fce e), w') | (Inr v, w') \<Rightarrow> (Inr (f v), w'))"

definition pageAnswer :: "('a \<Rightarrow> 'm) \<Rightarrow> 'a Page \<Rightarrow> 'm list \<times> PageResult" where
  "pageAnswer f values = (map f (pageItems values), pageToProto (pageTotal values) (pagePage values) (pageSize values))"

definition Grpc_CreateDefinition :: "deps \<Rightarrow> (goerr \<Rightarrow> GrpcStatus) \<Rightarrow> Context \<Rightarrow> PbCreateDefinition \<Rightarrow> WorkflowDefinition rpc" where
  "Grpc_CreateDefinition d fce ctx rq = answer fce definitionToProto (Service_CreateDefinition d ctx
     \<lparr>cdTenantID = gcTenantId rq, cdApplicationID = gcApplicationId rq, cdKey = gcKey rq, cdName = gcName rq,
      cdDescription = gcDescription rq, cdNodes = grpc_nodesFromProto (gcNodes rq), cdEdges = grpc_edgesFromProto (gcEdges rq)\<rparr>)"

definition Grpc_UpdateDefinition :: "deps \<Rightarrow> (goerr \<Rightarrow> GrpcStatus) \<Rightarrow> Context \<Rightarrow> PbUpdateDefinition \<Rightarrow> WorkflowDefinition rpc" where
  "Grpc_UpdateDefinition d fce ctx rq = answer fce definitionToProto (Service_UpdateDefinition d ctx
     \<lparr>udID = guId rq, udTenantID = guTenantId rq, udApplicationID = guApplicationId rq, udName = guName rq,
      udDescription = guDescription rq, udNodes = grpc_nodesFromProto (guNodes rq), udEdges = grpc_edgesFromProto (guEdges rq),
      udExpectedVersion = guExpectedVersion rq\<rparr>)"

definition Grpc_PublishDefinition :: "deps \<Rightarrow> (goerr \<Rightarrow> GrpcStatus) \<Rightarrow> Context \<Rightarrow> PbVersioned \<Rightarrow> WorkflowDefinition rpc" where
  "Grpc_PublishDefinition d fce ctx rq = answer fce definitionToProto
     (Service_PublishDefinition d ctx (gvTenantId rq) (gvApplicationId rq) (gvId rq) (gvExpectedVersion rq))"

definition Grpc_DisableDefinition :: "deps \<Rightarrow> (goerr \<Rightarrow> GrpcStatus) \<Rightarrow> Context \<Rightarrow> PbVersioned \<Rightarrow> WorkflowDefinition rpc" where
  "Grpc_DisableDefinition d fce ctx rq = answer fce definitionToProto
     (Service_DisableDefinition d ctx (gvTenantId rq) (gvApplicationId rq) (gvId rq) (gvExpectedVersion rq))"

definition Grpc_GetDefinition :: "deps \<Rightarrow> (goerr \<Rightarrow> GrpcStatus) \<Rightarrow> Context \<Rightarrow> PbGet \<Rightarrow> WorkflowDefinition rpc" where
  "Grpc_GetDefinition d fce ctx rq = answer fce definitionToProto
     (Service_GetDefinition d ctx (ggTenantId rq) (ggApplicationId rq) (ggId rq) (ggRevision rq))"

definition Grpc_ListDefinitions :: "deps \<Rightarrow> (goerr \<Rightarrow> GrpcStatus) \<Rightarrow> Context \<Rightarrow> PbListDefinitions \<Rightarrow> (WorkflowDefinition list \<times> PageResult) rpc" where
  "Grpc_ListDefinitions d fce ctx rq =
     (case pageFromProto (glPage rq) of (page, sz) \<Rightarrow>
        answer fce (pageAnswer definitionToProto) (Service_ListDefinitions d ctx
          \<lparr>dfTenantID = glTenantId rq, dfApplicationID = glApplicationId rq,
           dfStatus = definitionStatusFromProto (glStatus rq), dfSearch = glSearch rq, dfPage = page, dfPageSize = sz\<rparr>))"

definition Grpc_StartInstance :: "deps \<Rightarrow> (goerr \<Rightarrow> GrpcStatus) \<Rightarrow> Context \<Rightarrow> PbStartInstance \<Rightarrow> WorkflowInstance rpc" where
  "Grpc_StartInstance d fce ctx rq = answer fce instanceToProto (Service_StartInstance d ctx
     \<lparr>siTenantID = gsTenantId rq, siApplicationID = gsApplicationId rq, siDefinitionKey = gsDefinitionKey rq,
      siBusinessKey = gsBusinessKey rq, siTitle = gsTitle rq, siVariablesJSON = gsVariablesJson rq,
      siIdempotencyKey = gsIdempotencyKey rq\<rparr>)"

definition Grpc_CancelInstance :: "deps \<Rightarrow> (goerr \<Rightarrow> GrpcStatus) \<Rightarrow> Context \<Rightarrow> PbCancelInstance \<Rightarrow> WorkflowInstance rpc" where
  "Grpc_CancelInstance d fce ctx rq = answer fce instanceToProto
     (Service_CancelInstance d ctx (gxTenantId rq) (gxApplicationId rq) (gxId rq) (gxReason rq) (gxExpectedVersion rq))"

definition Grpc_GetInstance :: "deps \<Rightarrow> (goerr \<Rightarrow> GrpcStatus) \<Rightarrow> Context \<Rightarrow> PbGet \<Rightarrow> WorkflowInstance rpc" where
  "Grpc_GetInstance d fce ctx rq = answer fce instanceToProto
     (Service_GetInstance d ctx (ggTenantId rq) (ggApplicationId rq) (ggId rq))"

definition Grpc_ListInstances :: "deps \<Rightarrow> (goerr \<Rightarrow> GrpcStatus) \<Rightarrow> Context \<Rightarrow> PbListInstances \<Rightarrow> (WorkflowInstance list \<times> PageResult) rpc" where
  "Grpc_ListInstances d fce ctx rq =
     (case pageFromProto (giPage rq) of (page, sz) \<Rightarrow>
        answer fce (pageAnswer instanceToProto) (Service_ListInstances d ctx
          \<lparr>ifTenantID = giTenantId rq, ifApplicationID = giApplicationId rq, ifDefinitionID = giDefinitionId rq,
           ifStatus = instanceStatusFromProto (giStatus rq), ifStarterID = giStarterId rq, ifSearch = giSearch rq,
           ifStartedFrom = timeFromProto (giStartedFrom rq), ifStartedUntil = timeFromProto (giStartedUntil rq),
           ifPage = page, ifPageSize = sz\<rparr>))"

definition Grpc_ClaimTask :: "deps \<Rightarrow> authz \<Rightarrow> (goerr \<Rightarrow> GrpcStatus) \<Rightarrow> Context \<Rightarrow> PbVersioned \<Rightarrow> WorkflowTask rpc" where
  "Grpc_ClaimTask d az fce ctx rq = answer fce taskToProto
     (Service_ClaimTask d az ctx (gvTenantId rq) (gvApplicationId rq) (gvId rq) (gvExpectedVersion rq))"

definition Grpc_CompleteTask :: "deps \<Rightarrow> authz \<Rightarrow> (goerr \<Rightarrow> GrpcStatus) \<Rightarrow> Context \<Rightarrow> PbCompleteTask \<Rightarrow> (WorkflowTask \<times> WorkflowInstance) rpc" where
  "Grpc_CompleteTask d az fce ctx rq = answer fce (\<lambda>(task, inst). (taskToProto task, instanceToProto inst))
     (Service_CompleteTask d az ctx (gkTenantId rq) (gkApplicationId rq) (gkId rq) (grpc_decisionFromProto (gkDecision rq))
        (gkComment rq) (gkOutputJson rq) (gkExpectedVersion rq))"

definition Grpc_DelegateTask :: "deps \<Rightarrow> authz \<Rightarrow> (goerr \<Rightarrow> GrpcStatus) \<Rightarrow> Context \<Rightarrow> PbDelegateTask \<Rightarrow> WorkflowTask rpc" where
  "Grpc_DelegateTask d az fce ctx rq = answer fce taskToProto
     (Service_DelegateTask d az ctx (gdTenantId rq) (gdApplicationId rq) (gdId rq) (gdDelegateTo rq) (gdReason rq)
        (gdExpectedVersion rq))"

definition Grpc_GetTask :: "deps \<Rightarrow> authz \<Rightarrow> (goerr \<Rightarrow> GrpcStatus) \<Rightarrow> Context \<Rightarrow> PbGet \<Rightarrow> WorkflowTask rpc" where
  "Grpc_GetTask d az fce ctx rq = answer fce taskToProto
     (Service_GetTask d az ctx (ggTenantId rq) (ggApplicationId rq) (ggId rq))"

text \<open>The request's \<open>role_ids\<close> and \<open>include_unclaimed\<close> are not read.\<close>

definition Grpc_ListTasks :: "deps \<Rightarrow> authz \<Rightarrow> (goerr \<Rightarrow> GrpcStatus) \<Rightarrow> Context \<Rightarrow> PbListTasks \<Rightarrow> (WorkflowTask list \<times> PageResult) rpc" where
  "Grpc_ListTasks d az fce ctx rq =
     (case pageFromProto (gtPage rq) of (page, sz) \<Rightarrow>
        answer fce (pageAnswer taskToProto) (Service_ListMyTasks d az ctx
          \<lparr>tfTenantID = gtTenantId rq, tfApplicationID = gtApplicationId rq, tfInstanceID = gtInstanceId rq,
           tfStatus = taskStatusFromProto (gtStatus rq), tfAssigneeUserID = [], tfSearch = gtSearch rq, tfRoleIDs = [],
           tfIncludeUnclaimed = False, tfPage = page, tfPageSize = sz\<rparr>))"

definition Grpc_ListTaskHistory :: "deps \<Rightarrow> authz \<Rightarrow> (goerr \<Rightarrow> GrpcStatus) \<Rightarrow> Context \<Rightarrow> PbListHistory \<Rightarrow> (WorkflowTaskHistory list \<times> PageResult) rpc" where
  "Grpc_ListTaskHistory d az fce ctx rq =
     (case pageFromProto (ghPage rq) of (page, sz) \<Rightarrow>
        answer fce (pageAnswer taskHistoryToProto) (Service_ListTaskHistory d az ctx
          \<lparr>hfTenantID = ghTenantId rq, hfApplicationID = ghApplicationId rq, hfTaskID = ghSubjectId rq, hfInstanceID = [],
           hfPage = page, hfPageSize = sz\<rparr>))"

definition Grpc_ListInstanceTaskHistory :: "deps \<Rightarrow> authz \<Rightarrow> (goerr \<Rightarrow> GrpcStatus) \<Rightarrow> Context \<Rightarrow> PbListHistory \<Rightarrow> (WorkflowTaskHistory list \<times> PageResult) rpc" where
  "Grpc_ListInstanceTaskHistory d az fce ctx rq =
     (case pageFromProto (ghPage rq) of (page, sz) \<Rightarrow>
        answer fce (pageAnswer taskHistoryToProto) (Service_ListTaskHistory d az ctx
          \<lparr>hfTenantID = ghTenantId rq, hfApplicationID = ghApplicationId rq, hfTaskID = [], hfInstanceID = ghSubjectId rq,
           hfPage = page, hfPageSize = sz\<rparr>))"

lemmas grpc_maps =
  definitionStatusFromProto_def definitionStatusToProto_def grpc_nodeTypeFromProto_def nodeTypeToProto_def
  grpc_assigneeTypeFromProto_def assigneeTypeToProto_def instanceStatusFromProto_def instanceStatusToProto_def
  taskStatusFromProto_def taskStatusToProto_def grpc_decisionFromProto_def decisionToProto_def

section \<open>The two copies of the conversions\<close>

lemma grpc_enums_agree:
  "grpc_nodeTypeFromProto = nodeTypeFromProto" "nodeTypeToProto = nodeTypeOf"
  "grpc_assigneeTypeFromProto = assigneeTypeFromProto" "assigneeTypeToProto = assigneeTypeOf"
  "definitionStatusToProto = definitionStatus" "instanceStatusToProto = instanceStatus"
  "taskStatusToProto = taskStatusOf" "decisionToProto = taskDecisionOf" "grpc_decisionFromProto = decisionFromProto"
  by (simp_all add: fun_eq_iff grpc_maps proto_maps)

lemma grpc_lists_agree: "grpc_nodesFromProto ns = nodesFromProto ns" "grpc_edgesFromProto es = edgesFromProto es"
  by (induction ns rule: nodesFromProto.induct, simp_all add: nodeFromProto_def grpc_enums_agree)
    (induction es rule: edgesFromProto.induct, simp_all add: edgeFromProto_def)

text \<open>The messages agree but for zero times, which the events leave out.\<close>

lemma timestamps_agree:
  "t \<noteq> 0 \<Longrightarrow> timestamp t = Some t" "ot \<noteq> Some 0 \<Longrightarrow> optionalTimestamp ot = grpc_optionalTimestamp ot"
  by (auto simp: timestamp_def optionalTimestamp_def grpc_optionalTimestamp_def split: option.splits)

lemma messages_agree:
  "defCreatedAt v \<noteq> 0 \<Longrightarrow> defUpdatedAt v \<noteq> 0 \<Longrightarrow> definitionToProto v = definitionProto v"
  "instStartedAt i \<noteq> 0 \<Longrightarrow> instCreatedAt i \<noteq> 0 \<Longrightarrow> instUpdatedAt i \<noteq> 0 \<Longrightarrow> instFinishedAt i \<noteq> Some 0
   \<Longrightarrow> instanceToProto i = instanceProto i"
  "taskCreatedAt t \<noteq> 0 \<Longrightarrow> taskUpdatedAt t \<noteq> 0 \<Longrightarrow> taskDueAt t \<noteq> Some 0 \<Longrightarrow> taskCompletedAt t \<noteq> Some 0
   \<Longrightarrow> taskToProto t = taskProto t"
  by (simp_all add: definitionToProto_def definitionProto_def instanceToProto_def instanceProto_def taskToProto_def
      taskProto_def nodeProto_def edgeProto_def grpc_enums_agree timestamps_agree Let_def)

lemma definition_message_roundtrip:
  assumes "list_all protoSafe (defNodes v)"
  shows "grpc_nodesFromProto (pdNodes (definitionToProto v)) = defNodes v"
    and "grpc_edgesFromProto (pdEdges (definitionToProto v)) = defEdges v"
  using nodes_roundtrip [OF assms] edges_roundtrip [of "defEdges v"]
  by (simp_all add: definitionToProto_def grpc_lists_agree Let_def nodeProto_def edgeProto_def grpc_enums_agree)

end
