(* ===== verification/Path_Match.thy ===== *)
theory Path_Match
  imports Go_Json
begin

text \<open>
  \<open>path.Match\<close> of the Go standard library, which the configuration, the authentication and the
  idempotency of the service use for their route patterns, and \<open>MatchesAny\<close> of
  \<open>internal/auth/pattern.go\<close>. A result \<open>None\<close> stands for \<open>ErrBadPattern\<close>.

  The theorems: whether a pattern is bad does not depend on the name it is matched with, so a
  pattern that the configuration accepted never fails later; a pattern without metacharacters
  matches itself only; a trailing star matches one path segment.
\<close>

section \<open>Runes\<close>

text \<open>\<open>utf8.DecodeRuneInString\<close>: the rune and its size in bytes.\<close>

definition runeError :: nat where
  "runeError = 65533"

definition decodeRune :: "string \<Rightarrow> nat \<times> nat" where
  "decodeRune s =
     (let b = (\<lambda>i. byte (s ! i)); n = utf8Len s in
      if s = [] then (runeError, 0)
      else if n = 0 then (runeError, 1)
      else if n = 1 then (b 0, 1)
      else if n = 2 then ((b 0 mod 32) * 64 + b 1 mod 64, 2)
      else if n = 3 then ((b 0 mod 16) * 4096 + (b 1 mod 64) * 64 + b 2 mod 64, 3)
      else ((b 0 mod 8) * 262144 + (b 1 mod 64) * 4096 + (b 2 mod 64) * 64 + b 3 mod 64, 4))"

lemma decodeRune_size: "s \<noteq> [] \<Longrightarrow> decodeRune s = (r, n) \<Longrightarrow> 0 < n"
  by (auto simp: decodeRune_def Let_def split: if_splits)

section \<open>Chunks\<close>

text \<open>\<open>getEsc\<close>: a possibly escaped rune of a character class and the rest, never empty.\<close>

definition getEsc :: "string \<Rightarrow> (nat \<times> string) option" where
  "getEsc chunk =
     (if chunk = [] \<or> hd chunk = CHR ''-'' \<or> hd chunk = CHR '']'' then None
      else let c = (if hd chunk = CHR 0x5C then tl chunk else chunk) in
        if c = [] then None
        else case decodeRune c of (r, n) \<Rightarrow>
          if (r = runeError \<and> n = 1) \<or> drop n c = [] then None else Some (r, drop n c))"

lemma getEsc_length: "getEsc c = Some (r, rest) \<Longrightarrow> length rest < length c"
  by (auto simp: getEsc_def Let_def split: if_splits prod.splits dest!: decodeRune_size)

text \<open>The loop over the ranges of a character class: whether \<open>r\<close> is in one, and the rest.\<close>

definition rangeEnd :: "nat \<Rightarrow> string \<Rightarrow> (nat \<times> string) option" where
  "rangeEnd lo chunk = (if hd chunk = CHR ''-'' then getEsc (tl chunk) else Some (lo, chunk))"

lemma rangeEnd_length: "rangeEnd lo c = Some (hi, rest) \<Longrightarrow> length rest \<le> length c"
  by (cases c) (auto simp: rangeEnd_def dest: getEsc_length split: if_splits)

function classLoop :: "nat \<Rightarrow> bool \<Rightarrow> bool \<Rightarrow> string \<Rightarrow> (bool \<times> string) option" where
  "classLoop r ranged found chunk =
     (if chunk \<noteq> [] \<and> hd chunk = CHR '']'' \<and> ranged then Some (found, tl chunk)
      else case getEsc chunk of
        None \<Rightarrow> None
      | Some (lo, rest) \<Rightarrow>
          (case rangeEnd lo rest of
             None \<Rightarrow> None
           | Some (hi, rest') \<Rightarrow> classLoop r True (found \<or> (lo \<le> r \<and> r \<le> hi)) rest'))"
  by pat_completeness auto

termination
  by (relation "measure (\<lambda>(r, ranged, found, chunk). length chunk)")
    (auto dest!: getEsc_length rangeEnd_length)

declare classLoop.simps [simp del]

lemma tl_shorter: "xs \<noteq> [] \<Longrightarrow> length (tl xs) < length xs"
  by (cases xs) auto

lemma classLoop_length: "classLoop r ranged found c = Some (m, rest) \<Longrightarrow> length rest < length c"
proof (induction r ranged found c rule: classLoop.induct)
  case (1 r ranged found c)
  show ?case
  proof (cases "c \<noteq> [] \<and> hd c = CHR '']'' \<and> ranged")
    case True
    then show ?thesis using 1(2) tl_shorter [of c] by (subst (asm) classLoop.simps) simp
  next
    case False
    then obtain lo rest1 hi rest2 where a: "getEsc c = Some (lo, rest1)" and b: "rangeEnd lo rest1 = Some (hi, rest2)"
      and l: "classLoop r True (found \<or> (lo \<le> r \<and> r \<le> hi)) rest2 = Some (m, rest)"
      using 1(2) by (subst (asm) classLoop.simps) (auto split: option.splits)
    show ?thesis using 1(1) [OF False a refl b refl l] getEsc_length [OF a] rangeEnd_length [OF b] by simp
  qed
qed

text \<open>
  \<open>matchChunk\<close>: \<open>Some (Some t)\<close> when the chunk matches a prefix of the name and leaves \<open>t\<close>,
  \<open>Some None\<close> when it does not. After a mismatch the loop goes on over the chunk, with \<open>failed\<close>
  set, to check that it is well formed.
\<close>

function matchLoop :: "bool \<Rightarrow> string \<Rightarrow> string \<Rightarrow> string option option" where
  "matchLoop failed chunk s =
     (if chunk = [] then Some (if failed then None else Some s)
      else let failed = failed \<or> s = []; c = hd chunk;
               literal = (if c = CHR 0x5C then tl chunk else chunk) in
        if c = CHR ''['' then
          (case (if failed then (0, 0) else decodeRune s) of (r, n) \<Rightarrow>
             let negated = (tl chunk \<noteq> [] \<and> hd (tl chunk) = CHR ''^'') in
             case classLoop r False False (if negated then tl (tl chunk) else tl chunk) of
               None \<Rightarrow> None
             | Some (found, rest) \<Rightarrow> matchLoop (failed \<or> found = negated) rest (drop n s))
        else if c = CHR ''?'' then
          matchLoop (failed \<or> hd s = CHR ''/'') (tl chunk) (if failed then s else drop (snd (decodeRune s)) s)
        else if literal = [] then None
        else matchLoop (failed \<or> hd literal \<noteq> hd s) (tl literal) (if failed then s else tl s))"
  by pat_completeness auto

termination
  by (relation "measure (\<lambda>(failed, chunk, s). length chunk)")
    (auto dest!: classLoop_length simp: tl_shorter Let_def split: if_splits)

declare matchLoop.simps [simp del]

definition matchChunk :: "string \<Rightarrow> string \<Rightarrow> string option option" where
  "matchChunk = matchLoop False"

section \<open>Patterns\<close>

text \<open>\<open>scanChunk\<close>: the leading stars, the bytes up to the next star outside a class, the rest.\<close>

fun scanBody :: "bool \<Rightarrow> string \<Rightarrow> string \<times> string" where
  "scanBody inrange [] = ([], [])"
| "scanBody inrange (c # cs) =
     (if c = CHR 0x5C then
        (case cs of [] \<Rightarrow> ([c], [])
         | d # ds \<Rightarrow> (case scanBody inrange ds of (a, b) \<Rightarrow> (c # d # a, b)))
      else if c = CHR ''*'' \<and> \<not> inrange then ([], c # cs)
      else (case scanBody (if c = CHR ''['' then True else if c = CHR '']'' then False else inrange) cs of
              (a, b) \<Rightarrow> (c # a, b)))"

definition scanChunk :: "string \<Rightarrow> bool \<times> string \<times> string" where
  "scanChunk pattern =
     (case scanBody False (dropWhile (\<lambda>c. c = CHR ''*'') pattern) of (chunk, rest) \<Rightarrow>
        (pattern \<noteq> [] \<and> hd pattern = CHR ''*'', chunk, rest))"

lemma scanBody_append: "scanBody b p = (c, r) \<Longrightarrow> p = c @ r"
  by (induction b p arbitrary: c r rule: scanBody.induct) (auto split: if_splits prod.splits list.splits)

lemma scanBody_progress: "p \<noteq> [] \<Longrightarrow> hd p \<noteq> CHR ''*'' \<Longrightarrow> fst (scanBody b p) \<noteq> []"
  by (cases p) (auto split: prod.splits list.splits)

lemma scanChunk_shorter:
  assumes "scanChunk p = (star, chunk, rest)" and "p \<noteq> []"
  shows "length rest < length p"
proof -
  let ?q = "dropWhile (\<lambda>c. c = CHR ''*'') p"
  have scan: "scanBody False ?q = (chunk, rest)" using assms(1) by (auto simp: scanChunk_def split: prod.splits)
  have q: "?q = chunk @ rest" using scanBody_append [OF scan] .
  show ?thesis
  proof (cases "hd p = CHR ''*''")
    case True
    then have "length ?q < length p" using assms(2) by (cases p) (auto simp: le_imp_less_Suc length_dropWhile_le)
    then show ?thesis using q by (metis length_append trans_le_add2 le_less_trans le_refl)
  next
    case False
    then have "?q = p" using assms(2) by (cases p) auto
    then have "chunk \<noteq> []" using scanBody_progress [OF assms(2) False, of False] scan by auto
    then show ?thesis using q \<open>?q = p\<close> by (metis length_append length_greater_0_conv less_add_same_cancel2)
  qed
qed

lemma scanChunk_trailing: "scanChunk p = (star, [], rest) \<Longrightarrow> rest = []"
  using scanBody_progress [of "dropWhile (\<lambda>c. c = CHR ''*'') p" False]
    hd_dropWhile [of "\<lambda>c. c = CHR ''*''" p] scanBody_append
  by (fastforce simp: scanChunk_def split: prod.splits)

text \<open>The loop that skips bytes of the name under a star, up to a slash.\<close>

primrec skipLoop :: "string \<Rightarrow> bool \<Rightarrow> string \<Rightarrow> string option option" where
  "skipLoop chunk final [] = Some None"
| "skipLoop chunk final (c # cs) =
     (if c = CHR ''/'' then Some None
      else case matchChunk chunk cs of
        None \<Rightarrow> None
      | Some None \<Rightarrow> skipLoop chunk final cs
      | Some (Some t) \<Rightarrow> if final \<and> t \<noteq> [] then skipLoop chunk final cs else Some (Some t))"

text \<open>The last loop: whether the remaining chunks are well formed.\<close>

function restValid :: "string \<Rightarrow> bool" where
  "restValid pattern \<longleftrightarrow>
     (if pattern = [] then True
      else case scanChunk pattern of (star, chunk, rest) \<Rightarrow> matchChunk chunk [] \<noteq> None \<and> restValid rest)"
  by pat_completeness auto

termination
  by (relation "measure length") (auto dest: scanChunk_shorter [OF sym])

function Match :: "string \<Rightarrow> string \<Rightarrow> bool option" where
  "Match pattern name =
     (if pattern = [] then Some (name = [])
      else case scanChunk pattern of (star, chunk, rest) \<Rightarrow>
        if star \<and> chunk = [] then Some (CHR ''/'' \<notin> set name)
        else case matchChunk chunk name of
          None \<Rightarrow> None
        | Some r \<Rightarrow>
            (if r \<noteq> None \<and> (the r = [] \<or> rest \<noteq> []) then Match rest (the r)
             else case (if star then skipLoop chunk (rest = []) name else Some None) of
               None \<Rightarrow> None
             | Some (Some t) \<Rightarrow> Match rest t
             | Some None \<Rightarrow> if restValid rest then Some False else None))"
  by pat_completeness auto

termination
  by (relation "measure (\<lambda>(pattern, name). length pattern)") (auto dest: scanChunk_shorter [OF sym])

declare restValid.simps [simp del] Match.simps [simp del]

text \<open>\<open>MatchesAny\<close>, \<open>internal/auth/pattern.go\<close>.\<close>

fun MatchesAny :: "string \<Rightarrow> string list \<Rightarrow> bool" where
  "MatchesAny route [] = False"
| "MatchesAny route (pattern # patterns) = (if Match pattern route = Some True then True else MatchesAny route patterns)"

section \<open>Bad patterns\<close>

lemma classLoop_shape: "map_option snd (classLoop r g m c) = map_option snd (classLoop r' g m' c)"
proof (induction r g m c arbitrary: m' rule: classLoop.induct)
  case (1 r g m c)
  show ?case
  proof (cases "c \<noteq> [] \<and> hd c = CHR '']'' \<and> g")
    case True
    then have "classLoop x g y c = Some (y, tl c)" for x y by (subst classLoop.simps) simp
    then show ?thesis by simp
  next
    case False
    show ?thesis
    proof (cases "getEsc c")
      case None
      with False show ?thesis by (simp only: classLoop.simps [of _ g _ c] if_False option.case)
    next
      case (Some a)
      obtain lo rest where a: "a = (lo, rest)" by fastforce
      show ?thesis
        using 1 [OF False Some a [symmetric]] Some a False
        by (cases "rangeEnd lo rest") (simp_all only: classLoop.simps [of _ g _ c] if_False option.case prod.case, auto)
    qed
  qed
qed

text \<open>Whether a chunk is well formed depends on neither the name nor an earlier mismatch.\<close>

lemma matchLoop_bad: "matchLoop f c s = None \<longleftrightarrow> matchLoop f' c s' = None"
proof (induction "length c" arbitrary: f f' c s s' rule: less_induct)
  case less
  define bad where "bad rest \<longleftrightarrow> matchLoop True rest [] = None" for rest
  have ih: "matchLoop g rest u = None \<longleftrightarrow> bad rest" if "length rest < length c" for g rest u
    unfolding bad_def by (rule less) (rule that)
  show ?case
  proof (cases "c = []")
    case True
    then show ?thesis by (simp add: matchLoop.simps [of _ "[]"])
  next
    case False
    consider (cls) "hd c = CHR ''[''" | (any) "hd c = CHR ''?''" | (lit) "hd c \<noteq> CHR ''[''" "hd c \<noteq> CHR ''?''" by blast
    then show ?thesis
    proof cases
      case cls
      define body where "body = (if tl c \<noteq> [] \<and> hd (tl c) = CHR ''^'' then tl (tl c) else tl c)"
      have short: "length body < length c" using False by (auto simp: body_def)
      have shape: "map_option snd (classLoop r False False body) = map_option snd (classLoop r' False False body)" for r r'
        by (rule classLoop_shape)
      have step: "matchLoop f c s = None \<longleftrightarrow> (case map_option snd (classLoop 0 False False body) of None \<Rightarrow> True | Some rest \<Rightarrow> bad rest)" for f s
      proof -
        obtain r n where rn: "(if f \<or> s = [] then (0, 0) else decodeRune s) = (r, n)" by fastforce
        have "matchLoop f c s = (case classLoop r False False body of None \<Rightarrow> None
            | Some (found, rest) \<Rightarrow> matchLoop ((f \<or> s = []) \<or> found = (tl c \<noteq> [] \<and> hd (tl c) = CHR ''^'')) rest (drop n s))"
          using False cls by (subst matchLoop.simps) (simp only: Let_def if_False if_True rn prod.case body_def, simp)
        moreover have "matchLoop g rest u = None \<longleftrightarrow> bad rest"
          if "classLoop r False False body = Some (found, rest)" for g found rest u
          using ih [of rest g u] classLoop_length [OF that] short by simp
        ultimately show ?thesis using shape [of r 0]
          by (cases "classLoop r False False body"; cases "classLoop 0 False False body") auto
      qed
      show ?thesis using step [of f s] step [of f' s'] by simp
    next
      case any
      have "matchLoop f c s = None \<longleftrightarrow> bad (tl c)" for f s
        using False any ih [of "tl c"] tl_shorter [OF False]
        by (subst matchLoop.simps) (simp add: Let_def)
      then show ?thesis by simp
    next
      case lit
      define l where "l = (if hd c = CHR 0x5C then tl c else c)"
      have short: "l \<noteq> [] \<Longrightarrow> length (tl l) < length c" using False tl_shorter [of l] tl_shorter [of c] by (auto simp: l_def)
      have "matchLoop f c s = None \<longleftrightarrow> l = [] \<or> bad (tl l)" for f s
        using False lit ih [of "tl l"] short
        by (subst matchLoop.simps) (simp add: Let_def l_def [symmetric])
      then show ?thesis by simp
    qed
  qed
qed

lemma matchChunk_bad: "matchChunk c s = None \<longleftrightarrow> matchChunk c [] = None"
  unfolding matchChunk_def by (rule matchLoop_bad)

lemma skipLoop_ok: "matchChunk c [] \<noteq> None \<Longrightarrow> skipLoop c final s \<noteq> None"
proof (induction s)
  case (Cons a s)
  then have "matchChunk c s \<noteq> None" using matchChunk_bad [of c s] by simp
  then show ?case using Cons by (auto split: option.splits)
qed simp

lemma Match_bad: "Match p s = None \<longleftrightarrow> \<not> restValid p"
proof (induction p s rule: Match.induct)
  case (1 p s)
  show ?case
  proof (cases "p = []")
    case True
    then show ?thesis by (simp add: Match.simps restValid.simps)
  next
    case False
    obtain star chunk rest where scan: "scanChunk p = (star, chunk, rest)" by (metis prod_cases3)
    have valid: "restValid p \<longleftrightarrow> matchChunk chunk [] \<noteq> None \<and> restValid rest"
      using False scan by (subst restValid.simps) simp
    show ?thesis
    proof (cases "star \<and> chunk = []")
      case True
      then have "restValid p" using valid scanChunk_trailing scan by (simp add: restValid.simps matchChunk_def matchLoop.simps [of _ "[]"])
      then show ?thesis using False scan True by (subst Match.simps) simp
    next
      case False': False
      show ?thesis
      proof (cases "matchChunk chunk s")
        case None
        then show ?thesis using matchChunk_bad [of chunk s] valid False scan False' by (subst Match.simps) auto
      next
        case (Some r)
        then have ok: "matchChunk chunk [] \<noteq> None" using matchChunk_bad [of chunk s] by simp
        note IH = 1 [OF False scan [symmetric] refl False' Some]
        have eq: "Match p s = (if r \<noteq> None \<and> (the r = [] \<or> rest \<noteq> []) then Match rest (the r)
             else case (if star then skipLoop chunk (rest = []) s else Some None) of
               None \<Rightarrow> None
             | Some (Some t) \<Rightarrow> Match rest t
             | Some None \<Rightarrow> if restValid rest then Some False else None)"
          by (subst Match.simps) (simp only: False scan False' Some if_False prod.case option.case)
        show ?thesis
        proof (cases "r \<noteq> None \<and> (the r = [] \<or> rest \<noteq> [])")
          case True
          show ?thesis unfolding eq if_P [OF True] using IH(1) [OF True] valid ok by simp
        next
          case no: False
          obtain t where skip: "(if star then skipLoop chunk (rest = []) s else Some None) = Some t"
            using skipLoop_ok [OF ok, of "rest = []" s] by (cases star) auto
          show ?thesis unfolding eq if_not_P [OF no] skip
            using IH(2) [OF no skip] valid ok by (cases t) simp_all
        qed
      qed
    qed
  qed
qed

section \<open>The patterns of the configuration\<close>

text \<open>The route patterns in use are plain text, or plain text and a star at the end.\<close>

definition plainByte :: "char \<Rightarrow> bool" where
  "plainByte c \<longleftrightarrow> c \<notin> {CHR ''*'', CHR ''?'', CHR ''['', CHR 0x5C}"

definition plainPattern :: "string \<Rightarrow> bool" where
  "plainPattern p \<longleftrightarrow> list_all plainByte p"

definition simplePattern :: "string \<Rightarrow> bool" where
  "simplePattern p \<longleftrightarrow> plainPattern p \<or> (p \<noteq> [] \<and> last p = CHR ''*'' \<and> plainPattern (butlast p))"

definition simpleMatch :: "string \<Rightarrow> string \<Rightarrow> bool" where
  "simpleMatch p route =
     (if plainPattern p then route = p
      else take (length p - 1) route = butlast p \<and> CHR ''/'' \<notin> set (drop (length p - 1) route))"

lemma matchLoop_plain:
  "plainPattern c \<Longrightarrow> matchLoop f c s = Some (if \<not> f \<and> take (length c) s = c then Some (drop (length c) s) else None)"
proof (induction c arbitrary: f s)
  case Nil
  then show ?case by (subst matchLoop.simps) simp
next
  case (Cons a c)
  have a: "a \<noteq> CHR ''['' \<and> a \<noteq> CHR ''?'' \<and> a \<noteq> CHR 0x5C" and c: "plainPattern c"
    using Cons.prems by (auto simp: plainPattern_def plainByte_def)
  show ?case using a Cons.IH [OF c] by (subst matchLoop.simps) (cases s; auto simp: Let_def)
qed

lemma scanBody_plain: "plainPattern p \<Longrightarrow> scanBody False (p @ r) = (p @ fst (scanBody False r), snd (scanBody False r))"
  by (induction p) (auto simp: plainPattern_def plainByte_def split: prod.splits)

lemma dropWhile_plain: "plainPattern p \<Longrightarrow> p \<noteq> [] \<Longrightarrow> dropWhile (\<lambda>c. c = CHR ''*'') (p @ r) = p @ r"
  by (cases p) (auto simp: plainPattern_def plainByte_def)

lemma scanChunk_plain: "plainPattern p \<Longrightarrow> p \<noteq> [] \<Longrightarrow> scanChunk (p @ r) = (False, p @ fst (scanBody False r), snd (scanBody False r))"
  by (cases p) (auto simp: scanChunk_def dropWhile_plain scanBody_plain plainPattern_def plainByte_def)

lemma Match_plain:
  assumes "plainPattern p"
  shows "Match p s = Some (s = p)"
proof (cases "p = []")
  case True
  then show ?thesis by (simp add: Match.simps)
next
  case False
  have "scanChunk p = (False, p, [])" using scanChunk_plain [OF assms False, of "[]"] by simp
  moreover have "matchChunk p s = Some (if take (length p) s = p then Some (drop (length p) s) else None)"
    by (simp add: matchChunk_def matchLoop_plain [OF assms])
  ultimately show ?thesis using False
    by (subst Match.simps) (auto simp: Match.simps [of "[]"] restValid.simps [of "[]"])
qed

lemma Match_lone_star: "Match ''*'' s = Some (CHR ''/'' \<notin> set s)"
  by (subst Match.simps) (simp add: scanChunk_def)

lemma restValid_star: "restValid ''*''"
  using Match_bad [of "''*''" "[]"] Match_lone_star by simp

lemma Match_star:
  assumes "plainPattern p"
  shows "Match (p @ ''*'') s = Some (take (length p) s = p \<and> CHR ''/'' \<notin> set (drop (length p) s))"
proof (cases "p = []")
  case True
  then show ?thesis by (simp add: Match_lone_star)
next
  case False
  have "scanChunk (p @ ''*'') = (False, p, ''*'')" using scanChunk_plain [OF assms False, of "''*''"] by simp
  moreover have "matchChunk p s = Some (if take (length p) s = p then Some (drop (length p) s) else None)"
    by (simp add: matchChunk_def matchLoop_plain [OF assms])
  ultimately show ?thesis
    by (subst Match.simps) (auto simp: Match_lone_star restValid_star)
qed

lemma Match_simple:
  assumes "simplePattern p"
  shows "Match p s = Some (simpleMatch p s)"
proof (cases "plainPattern p")
  case True
  then show ?thesis by (simp add: Match_plain simpleMatch_def)
next
  case False
  then have p: "p \<noteq> []" "last p = CHR ''*''" "plainPattern (butlast p)" using assms by (auto simp: simplePattern_def)
  then have "p = butlast p @ ''*''" by (metis append_butlast_last_id)
  then have "Match p s = Match (butlast p @ ''*'') s" by simp
  then show ?thesis using False by (simp add: Match_star [OF p(3)] simpleMatch_def)
qed

lemma MatchesAny_iff: "MatchesAny route ps \<longleftrightarrow> (\<exists>p\<in>set ps. Match p route = Some True)"
  by (induction ps) auto

text \<open>A route that a pattern matches starts with the plain text the pattern starts with.\<close>

lemma matchLoop_failed: "matchLoop True c s \<noteq> Some (Some t)"
proof (induction "length c" arbitrary: c s rule: less_induct)
  case less
  show ?case
  proof (cases "c = []")
    case True
    then show ?thesis by (simp add: matchLoop.simps [of _ "[]"])
  next
    case False
    have ih: "length rest < length c \<Longrightarrow> matchLoop True rest u \<noteq> Some (Some t)" for rest u by (rule less)
    show ?thesis
    proof (cases "hd c = CHR ''[''")
      case True
      then show ?thesis using False ih
        by (subst matchLoop.simps) (auto simp: Let_def less_Suc_eq_le dest!: classLoop_length split: option.splits)
    next
      case other: False
      have "length (tl (tl c)) < length c" "length (tl c) < length c" using False by (cases c; simp)+
      then show ?thesis using False other ih [of "tl c"] ih [of "tl (tl c)"]
        by (subst matchLoop.simps) (simp add: Let_def)
    qed
  qed
qed

lemma matchLoop_prefix: "plainPattern a \<Longrightarrow> matchLoop False (a @ c) s = Some (Some t) \<Longrightarrow> take (length a) s = a"
proof (induction a arbitrary: s)
  case (Cons x a)
  have x: "x \<noteq> CHR ''['' \<and> x \<noteq> CHR ''?'' \<and> x \<noteq> CHR 0x5C" and a: "plainPattern a"
    using Cons.prems(1) by (auto simp: plainPattern_def plainByte_def)
  have "matchLoop (s = [] \<or> x \<noteq> hd s) (a @ c) (if s = [] then s else tl s) = Some (Some t)"
    using Cons.prems(2) x by (subst (asm) matchLoop.simps) (simp add: Let_def)
  moreover from this have "\<not> (s = [] \<or> x \<noteq> hd s)"
    using matchLoop_failed [of "a @ c" "if s = [] then s else tl s" t] by (cases "s = [] \<or> x \<noteq> hd s") simp_all
  ultimately have "s \<noteq> []" "x = hd s" "matchLoop False (a @ c) (tl s) = Some (Some t)" by auto
  then show ?case using Cons.IH [OF a] by (cases s) auto
qed simp

lemma Match_prefix:
  assumes "plainPattern a" and "a \<noteq> []" and "Match (a @ p) s = Some True"
  shows "take (length a) s = a"
proof -
  have scan: "scanChunk (a @ p) = (False, a @ fst (scanBody False p), snd (scanBody False p))"
    by (rule scanChunk_plain [OF assms(1,2)])
  then obtain t where "matchChunk (a @ fst (scanBody False p)) s = Some (Some t)"
    using assms(2,3) by (subst (asm) Match.simps) (auto split: option.splits if_splits)
  then show ?thesis using matchLoop_prefix [OF assms(1)] by (simp add: matchChunk_def)
qed

text \<open>
  The route patterns mean what their readers expect. For patterns that are plain text or plain
  text with a star at the end, \<open>MatchesAny\<close> holds of exactly the routes that equal a plain pattern,
  or that continue the text before a star with bytes other than a slash, so a star never reaches
  into a deeper path.
\<close>

theorem MatchesAny_simple:
  assumes "list_all simplePattern ps"
  shows "MatchesAny route ps \<longleftrightarrow> list_ex (\<lambda>p. simpleMatch p route) ps"
  using assms by (auto simp: MatchesAny_iff list_ex_iff list_all_iff Match_simple)

theorem MatchesAny_simple_witness:
  "MatchesAny ''/grpc.health.v1.Health/Check'' [''/api/v1/version'', ''/grpc.health.v1.Health/*'']
   \<and> \<not> MatchesAny ''/grpc.health.v1.Health/Check/x'' [''/api/v1/version'', ''/grpc.health.v1.Health/*'']"
proof -
  have "list_all simplePattern [''/api/v1/version'', ''/grpc.health.v1.Health/*'']" by code_simp
  note m = MatchesAny_simple [OF this]
  show ?thesis unfolding m by code_simp
qed

end
