(* ===== verification/Config.thy ===== *)
theory Config
  imports Complex_Main "HOL-Library.Word" Path_Match
begin

text \<open>
  The configuration of the service, \<open>internal/config/config.go\<close>: its structures, the defaults, and
  the validation that decides whether the service starts. Loading them
  with \<open>viper\<close> is in \<open>Loading\<close>; here is the hook that splits a string into a list when values are decoded.

  A Go \<open>error\<close> is \<open>None\<close> for \<open>nil\<close>. A duration is its number of nanoseconds. A map is an
  association list in the order in which a \<open>range\<close> over it visits its keys; for the map of the
  four rate limit rules, which the code builds in place, the order is an argument.
\<close>

section \<open>Structures\<close>

type_synonym duration = int

text \<open>A \<open>float64\<close>, with the values for which the comparisons of the code are not those of numbers.\<close>

datatype float64 = Finite rat | PosInf | NegInf | NaN

record RuntimeInfo =
  rnActiveProfile :: string
  rnConfigFiles :: "string list"

record AppConfig =
  appName :: string
  appSchema :: string
  appEnv :: string
  appShutdownTimeout :: duration

record CorsConfig =
  corsEnabled :: bool
  corsAllowedOrigins :: "string list"
  corsAllowedHeaders :: "string list"
  corsExposedHeaders :: "string list"
  corsMaxAge :: duration

record HttpConfig =
  httpAddress :: string
  httpReadTimeout :: duration
  httpWriteTimeout :: duration
  httpIdleTimeout :: duration
  httpRequestTimeout :: duration
  httpMaxBodyBytes :: int
  httpTrustedProxies :: "string list"
  httpCORS :: CorsConfig

record GrpcTls =
  gtlsEnabled :: bool
  gtlsCertFile :: string
  gtlsKeyFile :: string
  gtlsClientCAFile :: string

record GrpcConfig =
  grpcEnabled :: bool
  grpcAddress :: string
  grpcReflectionEnabled :: bool
  grpcMaxReceiveBytes :: int
  grpcTLS :: GrpcTls

record LogConfig =
  logLevel :: string
  logFormat :: string
  logFile :: string
  logMaxSizeMB :: int
  logMaxBackups :: int
  logMaxAgeDays :: int
  logCompress :: bool

record DatabaseConfig =
  dbcEnabled :: bool
  dbcName :: string
  dbcSchema :: string
  dbcType :: string
  dbcDSN :: string
  dbcMaxOpenConns :: int
  dbcMaxIdleConns :: int
  dbcConnMaxLifetime :: duration
  dbcConnMaxIdleTime :: duration
  dbcPingTimeout :: duration

record RedisConfig =
  redisEnabled :: bool
  redisAddress :: string
  redisUsername :: string
  redisPassword :: string
  redisDB :: int
  redisDialTimeout :: duration
  redisReadTimeout :: duration
  redisWriteTimeout :: duration

record HealthConfig =
  hlDatabaseTimeout :: duration
  hlRedisTimeout :: duration

record RateLimitRule =
  rrRate :: int
  rrBurst :: int
  rrPeriod :: duration

record RateLimitConfig =
  rlEnabled :: bool
  rlFailOpen :: bool
  rlIP :: RateLimitRule
  rlAPI :: RateLimitRule
  rlUser :: RateLimitRule
  rlLogin :: RateLimitRule

record ObservabilityConfig =
  obsMetricsEnabled :: bool
  obsTracingEnabled :: bool
  obsTracingEndpoint :: string
  obsTracingSampleRatio :: float64
  obsPprofEnabled :: bool
  obsPprofToken :: string

record SwaggerConfig =
  swEnabled :: bool
  swRequireAuth :: bool

record JwtConfig =
  jwtIssuer :: string
  jwtSecret :: string
  jwtTTL :: duration

record PskConfig =
  pskEnabled :: bool
  pskKey :: string
  pskHTTPPaths :: "string list"
  pskGRPCMethods :: "string list"

record AuthConfig =
  authClientID :: string
  authClientSecret :: string
  authJWKSURL :: string
  authIssuer :: string
  authAudience :: string
  authSkipHTTPPaths :: "string list"
  authSkipGRPCMethods :: "string list"
  authPSK :: PskConfig

record AuthorizationConfig =
  aznEnabled :: bool

record MigrationConfig =
  mgAutoUp :: bool
  mgCreateSchema :: bool
  mgPath :: string
  mgDatabaseURL :: string
  mgTable :: string
  mgSchema :: string
  mgDatabaseName :: string

record IdempotencyConfig =
  idmEnabled :: bool
  idmHTTPPaths :: "string list"
  idmGRPCMethods :: "string list"
  idmProcessingTTL :: duration
  idmResultTTL :: duration
  idmFailureTTL :: duration

record ClientAuth =
  caType :: string
  caToken :: string

record RetryPolicy =
  ryMaxAttempts :: int
  ryInitialBackoff :: duration
  ryMaxBackoff :: duration
  ryMethods :: "string list"

record BreakerPolicy =
  brEnabled :: bool
  brFailureThreshold :: "32 word"
  brOpenTimeout :: duration

record ClientTls =
  ctEnabled :: bool
  ctAllowInsecure :: bool
  ctServerName :: string
  ctCAFile :: string
  ctCertFile :: string
  ctKeyFile :: string

record HttpUpstream =
  huBaseURL :: string
  huTimeout :: duration
  huAuth :: ClientAuth
  huRetry :: RetryPolicy
  huBreaker :: BreakerPolicy
  huTLS :: ClientTls

record GrpcUpstream =
  guTarget :: string
  guTimeout :: duration
  guAuth :: ClientAuth
  guRetry :: RetryPolicy
  guBreaker :: BreakerPolicy
  guTLS :: ClientTls

record OutboundConfig =
  obHTTP :: "(string, HttpUpstream) gomap"
  obGRPC :: "(string, GrpcUpstream) gomap"

record EventBusConfig =
  ebEnabled :: bool
  ebURLs :: "string list"
  ebStreamName :: string
  ebSubjects :: "string list"
  ebStorage :: string
  ebMaxAge :: duration
  ebDuplicateWindow :: duration
  ebConnectTimeout :: duration
  ebReconnectWait :: duration
  ebPublishTimeout :: duration
  ebConsumerAckWait :: duration
  ebConsumerAckTimeout :: duration
  ebConsumerHandlerTimeout :: duration
  ebConsumerRetryDelay :: duration
  ebConsumerMaxRetryDelay :: duration
  ebConsumerMaxDeliver :: int
  ebConsumerMaxAckPending :: int
  ebDeadLetterSubject :: string
  ebDispatchInterval :: duration
  ebDispatchBatchSize :: int
  ebDispatchLease :: duration
  ebDispatchRetryDelay :: duration
  ebPublishedRetention :: duration
  ebCleanupInterval :: duration
  ebCleanupBatchSize :: int

record TemporalConfig =
  tpEnabled :: bool
  tpHostPort :: string
  tpNamespace :: string
  tpTaskQueue :: string
  tpConnectTimeout :: duration
  tpWorkerStopTimeout :: duration
  tpTLS :: ClientTls

record RetentionConfig =
  rtTaskHistory :: duration
  rtCleanupInterval :: duration
  rtCleanupBatchSize :: int

record Config =
  cfgRuntime :: RuntimeInfo
  cfgApp :: AppConfig
  cfgHTTP :: HttpConfig
  cfgGRPC :: GrpcConfig
  cfgLog :: LogConfig
  cfgDatabase :: DatabaseConfig
  cfgRedis :: RedisConfig
  cfgHealth :: HealthConfig
  cfgRateLimit :: RateLimitConfig
  cfgObservability :: ObservabilityConfig
  cfgSwagger :: SwaggerConfig
  cfgJWT :: JwtConfig
  cfgAuth :: AuthConfig
  cfgAuthorization :: AuthorizationConfig
  cfgMigration :: MigrationConfig
  cfgIdempotency :: IdempotencyConfig
  cfgOutbound :: OutboundConfig
  cfgEventBus :: EventBusConfig
  cfgTemporal :: TemporalConfig
  cfgRetention :: RetentionConfig

section \<open>Helpers of the validation\<close>

primrec firstError :: "goerr option list \<Rightarrow> goerr option" where
  "firstError [] = None"
| "firstError (e # es) = (case e of Some x \<Rightarrow> Some x | None \<Rightarrow> firstError es)"

text \<open>\<open>if cond { return errors.New(msg) }\<close>.\<close>

definition reject :: "bool \<Rightarrow> string \<Rightarrow> goerr option" where
  "reject cond msg = (if cond then Some (Opaque msg) else None)"

lemma firstError_None [simp]: "firstError es = None \<longleftrightarrow> list_all (\<lambda>e. e = None) es"
  by (induction es) (auto split: option.splits)

declare firstError.simps(2) [simp del]

lemma reject_None [simp]: "reject cond msg = None \<longleftrightarrow> \<not> cond"
  by (simp add: reject_def)

primrec floatBelow :: "float64 \<Rightarrow> rat \<Rightarrow> bool" where
  "floatBelow (Finite x) y \<longleftrightarrow> x < y"
| "floatBelow PosInf y \<longleftrightarrow> False"
| "floatBelow NegInf y \<longleftrightarrow> True"
| "floatBelow NaN y \<longleftrightarrow> False"

primrec floatAbove :: "float64 \<Rightarrow> rat \<Rightarrow> bool" where
  "floatAbove (Finite x) y \<longleftrightarrow> y < x"
| "floatAbove PosInf y \<longleftrightarrow> True"
| "floatAbove NegInf y \<longleftrightarrow> False"
| "floatAbove NaN y \<longleftrightarrow> False"

definition HasPrefix :: "string \<Rightarrow> string \<Rightarrow> bool" where
  "HasPrefix s pre \<longleftrightarrow> take (length pre) s = pre"

text \<open>\<open>validProfile\<close>, \<^verbatim>\<open>^[a-z0-9][a-z0-9_-]*$\<close>, and \<open>validMigrationTable\<close>, \<^verbatim>\<open>^[a-z][a-z0-9_]{0,62}$\<close>.\<close>

definition validProfile :: "string \<Rightarrow> bool" where
  "validProfile s =
     (case s of [] \<Rightarrow> False
      | c # cs \<Rightarrow> (isLower c \<or> isDigit c) \<and> list_all (\<lambda>c. isLower c \<or> isDigit c \<or> c \<in> {CHR ''_'', CHR ''-''}) cs)"

definition validMigrationTable :: "string \<Rightarrow> bool" where
  "validMigrationTable s =
     (case s of [] \<Rightarrow> False
      | c # cs \<Rightarrow> isLower c \<and> length cs \<le> 62 \<and> list_all (\<lambda>c. isLower c \<or> isDigit c \<or> c = CHR ''_'') cs)"

definition isDBType :: "string \<Rightarrow> bool" where
  "isDBType t \<longleftrightarrow> t = ''mysql'' \<or> t = ''postgres'' \<or> t = ''kingbase''"

text \<open>\<open>path.Match(pattern, "/validation/target")\<close>, and its error.\<close>

definition sampleTarget :: string where
  "sampleTarget = ''/validation/target''"

definition ErrBadPattern :: goerr where
  "ErrBadPattern = Opaque ''syntax error in pattern''"

definition badPattern :: "string \<Rightarrow> string \<Rightarrow> goerr option" where
  "badPattern field pattern =
     (if Match pattern sampleTarget = None
      then Some (Wrapf (field @ '' contains invalid pattern '' @ goQuote pattern @ '': '') ErrBadPattern [])
      else None)"

text \<open>The loops over HTTP path patterns and over gRPC method patterns.\<close>

definition checkHTTPPaths :: "string \<Rightarrow> string list \<Rightarrow> goerr option" where
  "checkHTTPPaths field patterns =
     firstError (map (\<lambda>pattern. firstError
       [reject (\<not> HasPrefix pattern ''/api/'') (field @ '' contains path outside /api '' @ goQuote pattern),
        badPattern field pattern]) patterns)"

definition methodShape :: "string \<Rightarrow> bool" where
  "methodShape pattern \<longleftrightarrow> HasPrefix pattern ''/'' \<and> count_list pattern (CHR ''/'') = 2"

definition checkGRPCMethods :: "string \<Rightarrow> string list \<Rightarrow> goerr option" where
  "checkGRPCMethods field patterns =
     firstError (map (\<lambda>pattern. firstError
       [reject (\<not> methodShape pattern) (field @ '' contains invalid method pattern '' @ goQuote pattern),
        badPattern field pattern]) patterns)"

section \<open>Validation\<close>

definition validateClientPolicy :: "string \<Rightarrow> ClientAuth \<Rightarrow> RetryPolicy \<Rightarrow> BreakerPolicy \<Rightarrow> ClientTls \<Rightarrow> bool \<Rightarrow> goerr option" where
  "validateClientPolicy name auth retry breaker tls production = firstError
     [reject (caType auth \<noteq> [] \<and> caType auth \<noteq> ''bearer'' \<and> caType auth \<noteq> ''psk'')
        (''outbound '' @ name @ '' auth.type must be bearer or psk''),
      reject (caType auth \<noteq> [] \<and> caToken auth = []) (''outbound '' @ name @ '' auth.token is required''),
      reject (caType auth \<noteq> [] \<and> \<not> ctEnabled tls \<and> \<not> ctAllowInsecure tls)
        (''outbound '' @ name @ '' credentials require TLS or explicit allow_insecure''),
      reject (ctEnabled tls \<and> ctAllowInsecure tls)
        (''outbound '' @ name @ '' TLS and allow_insecure are mutually exclusive''),
      reject (production \<and> caType auth \<noteq> [] \<and> ctAllowInsecure tls)
        (''production outbound '' @ name @ '' credentials require TLS''),
      reject (ryMaxAttempts retry < 1 \<or> 5 < ryMaxAttempts retry \<or> ryInitialBackoff retry \<le> 0
          \<or> ryMaxBackoff retry < ryInitialBackoff retry)
        (''outbound '' @ name @ '' retry policy is invalid''),
      firstError (map (\<lambda>pattern. firstError
        [reject (\<not> methodShape pattern) (''outbound '' @ name @ '' retry method pattern is invalid''),
         (if Match pattern sampleTarget = None
          then Some (Wrapf (''outbound '' @ name @ '' retry method pattern is invalid: '') ErrBadPattern []) else None)])
        (ryMethods retry)),
      reject (brEnabled breaker \<and> (brFailureThreshold breaker = 0 \<or> brOpenTimeout breaker \<le> 0))
        (''outbound '' @ name @ '' breaker policy is invalid''),
      reject (ctEnabled tls \<and> (ctCertFile tls = []) \<noteq> (ctKeyFile tls = []))
        (''outbound '' @ name @ '' TLS certificate and key must be configured together'')]"

definition production :: "Config \<Rightarrow> bool" where
  "production c \<longleftrightarrow> appEnv (cfgApp c) = ''production''"

definition validateServers :: "Config \<Rightarrow> goerr option" where
  "validateServers c = (let db = cfgDatabase c; grpc = cfgGRPC c; mg = cfgMigration c in firstError
     [reject (\<not> validMigrationTable (dbcName db))
        ''database.name must contain lowercase letters, digits, or underscores and be at most 63 characters'',
      reject (dbcSchema db \<noteq> [] \<and> \<not> validMigrationTable (dbcSchema db))
        ''database.schema must contain lowercase letters, digits, or underscores and be at most 63 characters'',
      reject (httpAddress (cfgHTTP c) = []) ''http.address is required'',
      reject (grpcEnabled grpc \<and> (grpcAddress grpc = [] \<or> grpcMaxReceiveBytes grpc \<le> 0))
        ''enabled grpc requires address and positive max_receive_bytes'',
      reject (gtlsEnabled (grpcTLS grpc) \<and> (gtlsCertFile (grpcTLS grpc) = [] \<or> gtlsKeyFile (grpcTLS grpc) = []))
        ''grpc tls requires cert_file and key_file'',
      reject (production c \<and> grpcEnabled grpc \<and> \<not> gtlsEnabled (grpcTLS grpc)) ''grpc tls must be enabled in production'',
      reject (production c \<and> grpcReflectionEnabled grpc) ''grpc reflection must be disabled in production'',
      reject (dbcEnabled db \<and> (dbcDSN db = [] \<or> \<not> isDBType (dbcType db)))
        ''enabled database requires dsn and type mysql, postgres, or kingbase'',
      reject (mgAutoUp mg \<and> (\<not> dbcEnabled db \<or> mgPath mg = [] \<or> mgDatabaseURL mg = [] \<or> \<not> validMigrationTable (mgTable mg)))
        ''migration.auto_up requires enabled database, path, database_url, and a valid service-specific table'',
      reject (redisEnabled (cfgRedis c) \<and> redisAddress (cfgRedis c) = []) ''enabled redis requires address'',
      reject (httpRequestTimeout (cfgHTTP c) \<le> 0 \<or> hlDatabaseTimeout (cfgHealth c) \<le> 0 \<or> hlRedisTimeout (cfgHealth c) \<le> 0)
        ''http and health timeouts must be positive''])"

definition rateRules :: "RateLimitConfig \<Rightarrow> (string, RateLimitRule) gomap" where
  "rateRules rl = [(''ip'', rlIP rl), (''api'', rlAPI rl), (''user'', rlUser rl), (''login'', rlLogin rl)]"

definition validateRules :: "string list \<Rightarrow> RateLimitConfig \<Rightarrow> goerr option" where
  "validateRules visit rl = firstError (map (\<lambda>name.
     case mapGet (rateRules rl) name of
       None \<Rightarrow> None
     | Some rule \<Rightarrow> reject (rrRate rule \<le> 0 \<or> rrBurst rule \<le> 0 \<or> rrPeriod rule \<le> 0)
         (''rate_limit.'' @ name @ '' values must be positive'')) visit)"

definition validateExposure :: "string list \<Rightarrow> Config \<Rightarrow> goerr option" where
  "validateExposure visit c = (let rl = cfgRateLimit c; obs = cfgObservability c; cors = httpCORS (cfgHTTP c) in firstError
     [reject (rlEnabled rl \<and> \<not> redisEnabled (cfgRedis c)) ''rate_limit requires redis.enabled'',
      (if rlEnabled rl then validateRules visit rl else None),
      reject (corsEnabled cors \<and> corsAllowedOrigins cors = []) ''cors.allowed_origins is required when cors is enabled'',
      reject (floatBelow (obsTracingSampleRatio obs) 0 \<or> floatAbove (obsTracingSampleRatio obs) 1)
        ''observability.tracing_sample_ratio must be between 0 and 1'',
      reject (obsTracingEnabled obs \<and> obsTracingEndpoint obs = []) ''observability.tracing_endpoint is required'',
      reject (obsPprofEnabled obs \<and> length (obsPprofToken obs) < 32) ''observability.pprof_token must contain at least 32 bytes'',
      reject (production c \<and> swEnabled (cfgSwagger c) \<and> \<not> swRequireAuth (cfgSwagger c))
        ''swagger.require_auth must be enabled in production''])"

definition validateAuth :: "Config \<Rightarrow> goerr option" where
  "validateAuth c = (let auth = cfgAuth c; psk = authPSK (cfgAuth c); grpc = obGRPC (cfgOutbound c) in firstError
     [reject (production c \<and> (authJWKSURL auth = [] \<or> authIssuer auth = [] \<or> authAudience auth = []))
        ''production authentication requires identity JWKS URL, issuer, and workflow-service audience'',
      reject (production c \<and> \<not> aznEnabled (cfgAuthorization c)) ''authorization must be enabled in production'',
      reject (aznEnabled (cfgAuthorization c) \<and> mapGet grpc ''authorization'' = None)
        ''enabled authorization requires outbound.grpc.authorization'',
      reject (dbcEnabled (cfgDatabase c) \<and> mapGet grpc ''application'' = None)
        ''enabled workflow database requires outbound.grpc.application'',
      reject ((authClientID auth \<noteq> [] \<or> authClientSecret auth \<noteq> []) \<and> length (jwtSecret (cfgJWT c)) < 32)
        ''jwt.secret must contain at least 32 bytes when auth is enabled'',
      checkHTTPPaths ''auth.skip_http_paths'' (authSkipHTTPPaths auth),
      checkGRPCMethods ''auth.skip_grpc_methods'' (authSkipGRPCMethods auth),
      reject (pskEnabled psk \<and> (length (pskKey psk) < 32 \<or> length (pskHTTPPaths psk) + length (pskGRPCMethods psk) = 0))
        ''enabled auth.psk requires a key of at least 32 bytes and at least one route pattern'',
      checkHTTPPaths ''auth.psk.http_paths'' (pskHTTPPaths psk),
      checkGRPCMethods ''auth.psk.grpc_methods'' (pskGRPCMethods psk)])"

definition validateIdempotency :: "Config \<Rightarrow> goerr option" where
  "validateIdempotency c = (let idm = cfgIdempotency c in firstError
     [reject (idmEnabled idm \<and> (\<not> redisEnabled (cfgRedis c) \<or> (idmHTTPPaths idm = [] \<and> idmGRPCMethods idm = [])
          \<or> idmProcessingTTL idm \<le> 0 \<or> idmResultTTL idm \<le> 0 \<or> idmFailureTTL idm \<le> 0))
        ''enabled idempotency requires redis, at least one route pattern, and positive TTL values'',
      checkHTTPPaths ''idempotency.http_paths'' (idmHTTPPaths idm),
      checkGRPCMethods ''idempotency.grpc_methods'' (idmGRPCMethods idm)])"

definition eventBusIncomplete :: "EventBusConfig \<Rightarrow> bool" where
  "eventBusIncomplete eb \<longleftrightarrow>
     ebURLs eb = [] \<or> ebStreamName eb = [] \<or> ebSubjects eb = [] \<or> (ebStorage eb \<noteq> ''file'' \<and> ebStorage eb \<noteq> ''memory'')
     \<or> ebMaxAge eb \<le> 0 \<or> ebDuplicateWindow eb \<le> 0 \<or> ebConnectTimeout eb \<le> 0 \<or> ebReconnectWait eb \<le> 0
     \<or> ebPublishTimeout eb \<le> 0 \<or> ebConsumerAckWait eb \<le> 0 \<or> ebConsumerAckTimeout eb \<le> 0
     \<or> ebConsumerHandlerTimeout eb \<le> 0 \<or> ebConsumerRetryDelay eb \<le> 0 \<or> ebConsumerMaxRetryDelay eb \<le> 0
     \<or> ebConsumerMaxDeliver eb \<le> 0 \<or> ebConsumerMaxAckPending eb \<le> 0 \<or> ebDeadLetterSubject eb = []
     \<or> ebDispatchInterval eb \<le> 0 \<or> ebDispatchBatchSize eb \<le> 0 \<or> ebDispatchLease eb \<le> 0 \<or> ebDispatchRetryDelay eb \<le> 0
     \<or> ebPublishedRetention eb \<le> 0 \<or> ebCleanupInterval eb \<le> 0 \<or> ebCleanupBatchSize eb \<le> 0"

definition validateEngines :: "Config \<Rightarrow> goerr option" where
  "validateEngines c = (let eb = cfgEventBus c; tp = cfgTemporal c; rt = cfgRetention c in firstError
     [reject (ebEnabled eb \<and> eventBusIncomplete eb)
        ''enabled event_bus requires URLs, stream, subjects, valid storage, positive timeouts, and max deliveries'',
      reject (ebEnabled eb \<and> ebConsumerAckWait eb \<le> ebConsumerHandlerTimeout eb)
        ''event_bus.consumer_handler_timeout must be shorter than consumer_ack_wait'',
      reject (ebEnabled eb \<and> ebConsumerMaxRetryDelay eb < ebConsumerRetryDelay eb)
        ''event_bus.consumer_retry_delay must not exceed consumer_max_retry_delay'',
      reject (tpEnabled tp \<and> (tpHostPort tp = [] \<or> tpNamespace tp = [] \<or> tpTaskQueue tp = []
          \<or> tpConnectTimeout tp \<le> 0 \<or> tpWorkerStopTimeout tp \<le> 0))
        ''enabled temporal requires host_port, namespace, task_queue, and positive timeouts'',
      reject (tpEnabled tp \<and> (\<not> dbcEnabled (cfgDatabase c) \<or> \<not> ebEnabled eb)) ''enabled temporal requires database and event_bus'',
      reject (ctEnabled (tpTLS tp) \<and> (ctCertFile (tpTLS tp) = []) \<noteq> (ctKeyFile (tpTLS tp) = []))
        ''temporal TLS certificate and key must be configured together'',
      reject (rtTaskHistory rt \<le> 0 \<or> rtCleanupInterval rt \<le> 0 \<or> rtCleanupBatchSize rt \<le> 0)
        ''workflow retention values must be positive''])"

definition validateHTTPUpstream :: "bool \<Rightarrow> string \<Rightarrow> HttpUpstream \<Rightarrow> goerr option" where
  "validateHTTPUpstream strict name up = firstError
     [reject (huBaseURL up = [] \<or> huTimeout up \<le> 0) (''outbound.http.'' @ name @ '' requires base_url and positive timeout''),
      validateClientPolicy name (huAuth up) (huRetry up) (huBreaker up) (huTLS up) strict]"

definition validateGRPCUpstream :: "bool \<Rightarrow> string \<Rightarrow> GrpcUpstream \<Rightarrow> goerr option" where
  "validateGRPCUpstream strict name up = firstError
     [reject (guTarget up = [] \<or> guTimeout up \<le> 0) (''outbound.grpc.'' @ name @ '' requires target and positive timeout''),
      validateClientPolicy name (guAuth up) (guRetry up) (guBreaker up) (guTLS up) strict]"

definition validateOutbound :: "Config \<Rightarrow> goerr option" where
  "validateOutbound c = firstError
     [firstError (map (\<lambda>(name, up). validateHTTPUpstream (production c) name up) (obHTTP (cfgOutbound c))),
      firstError (map (\<lambda>(name, up). validateGRPCUpstream (production c) name up) (obGRPC (cfgOutbound c)))]"

text \<open>\<open>Config.Validate\<close>: the checks in the order of the source, \<open>visit\<close> the order of the rate limit rules.\<close>

definition Validate :: "string list \<Rightarrow> Config \<Rightarrow> goerr option" where
  "Validate visit c = firstError
     [validateServers c, validateExposure visit c, validateAuth c, validateIdempotency c, validateEngines c, validateOutbound c]"

section \<open>Loading\<close>

text \<open>
  The string case of \<open>stringToStringSliceHook\<close>: a list written as text, with or without brackets,
  its values separated by commas and possibly quoted.
\<close>

fun splitComma :: "string \<Rightarrow> string list" where
  "splitComma [] = [[]]"
| "splitComma (c # cs) =
     (if c = CHR '','' then [] # splitComma cs
      else case splitComma cs of v # vs \<Rightarrow> (c # v) # vs | [] \<Rightarrow> [[c]])"

definition quoteMark :: "char \<Rightarrow> bool" where
  "quoteMark c \<longleftrightarrow> c = CHR 0x22 \<or> c = CHR 0x27"

definition trimQuotes :: "string \<Rightarrow> string" where
  "trimQuotes s = rev (dropWhile quoteMark (rev (dropWhile quoteMark s)))"

definition stringToStringSlice :: "string \<Rightarrow> string list" where
  "stringToStringSlice text =
     (let trimmed = TrimSpace text;
          raw = (if HasPrefix trimmed ''['' \<and> trimmed \<noteq> [] \<and> last trimmed = CHR '']''
                 then TrimSpace (butlast (tl trimmed)) else trimmed) in
      if raw = [] then [] else map (\<lambda>v. trimQuotes (TrimSpace v)) (splitComma raw))"

text \<open>\<open>profileConfigPath\<close>: the profile goes before the extension, as \<open>filepath.Ext\<close> finds it.\<close>

definition Ext :: "string \<Rightarrow> string" where
  "Ext path =
     (let t = takeWhile (\<lambda>c. c \<noteq> CHR ''/'' \<and> c \<noteq> CHR ''.'') (rev path) in
      case drop (length t) (rev path) of
        [] \<Rightarrow> []
      | c # cs \<Rightarrow> if c = CHR ''.'' then c # rev t else [])"

definition profileConfigPath :: "string \<Rightarrow> string \<Rightarrow> string" where
  "profileConfigPath path profile = take (length path - length (Ext path)) path @ ''-'' @ profile @ Ext path"

text \<open>
  \<open>setDefaults\<close>: the configuration that the defaults alone decode to. A key without a default is
  the zero value of its type.
\<close>

definition seconds :: "int \<Rightarrow> duration" where
  "seconds n = n * 1000000000"

definition minutes :: "int \<Rightarrow> duration" where
  "minutes n = seconds (60 * n)"

definition hours :: "int \<Rightarrow> duration" where
  "hours n = minutes (60 * n)"

definition defaultRule :: "int \<Rightarrow> int \<Rightarrow> RateLimitRule" where
  "defaultRule rate burst = \<lparr>rrRate = rate, rrBurst = burst, rrPeriod = minutes 1\<rparr>"

definition defaultServers :: "AppConfig \<times> HttpConfig \<times> GrpcConfig \<times> LogConfig" where
  "defaultServers =
     (\<lparr>appName = ''workflow-service'', appSchema = [], appEnv = ''development'', appShutdownTimeout = seconds 10\<rparr>,
      \<lparr>httpAddress = ''127.0.0.1:8080'', httpReadTimeout = seconds 10, httpWriteTimeout = seconds 15, httpIdleTimeout = seconds 60,
       httpRequestTimeout = seconds 10, httpMaxBodyBytes = 1048576, httpTrustedProxies = [],
       httpCORS = \<lparr>corsEnabled = False, corsAllowedOrigins = [], corsAllowedHeaders = [''Authorization'', ''Content-Type'', ''X-Request-ID''],
         corsExposedHeaders = [''X-Request-ID'', ''X-RateLimit-Limit'', ''X-RateLimit-Remaining'', ''Retry-After''], corsMaxAge = hours 12\<rparr>\<rparr>,
      \<lparr>grpcEnabled = True, grpcAddress = ''127.0.0.1:9090'', grpcReflectionEnabled = True, grpcMaxReceiveBytes = 16777216,
       grpcTLS = \<lparr>gtlsEnabled = False, gtlsCertFile = [], gtlsKeyFile = [], gtlsClientCAFile = []\<rparr>\<rparr>,
      \<lparr>logLevel = ''info'', logFormat = ''json'', logFile = ''logs/app.log'', logMaxSizeMB = 100, logMaxBackups = 10,
       logMaxAgeDays = 30, logCompress = True\<rparr>)"

definition defaultStores :: "DatabaseConfig \<times> RedisConfig \<times> HealthConfig \<times> RateLimitConfig" where
  "defaultStores =
     (\<lparr>dbcEnabled = False, dbcName = ''platform'', dbcSchema = ''workflow'', dbcType = ''postgres'', dbcDSN = [], dbcMaxOpenConns = 25,
       dbcMaxIdleConns = 10, dbcConnMaxLifetime = minutes 5, dbcConnMaxIdleTime = minutes 1, dbcPingTimeout = seconds 5\<rparr>,
      \<lparr>redisEnabled = False, redisAddress = ''127.0.0.1:6379'', redisUsername = [], redisPassword = [], redisDB = 0,
       redisDialTimeout = seconds 5, redisReadTimeout = seconds 3, redisWriteTimeout = seconds 3\<rparr>,
      \<lparr>hlDatabaseTimeout = seconds 2, hlRedisTimeout = seconds 2\<rparr>,
      \<lparr>rlEnabled = False, rlFailOpen = False, rlIP = defaultRule 120 30, rlAPI = defaultRule 10000 1000,
       rlUser = defaultRule 600 100, rlLogin = defaultRule 10 3\<rparr>)"

definition defaultSecurity :: "ObservabilityConfig \<times> SwaggerConfig \<times> JwtConfig \<times> AuthConfig \<times> AuthorizationConfig \<times> MigrationConfig" where
  "defaultSecurity =
     (\<lparr>obsMetricsEnabled = True, obsTracingEnabled = False, obsTracingEndpoint = ''http://127.0.0.1:4318'',
       obsTracingSampleRatio = Finite (1 / 10), obsPprofEnabled = False, obsPprofToken = []\<rparr>,
      \<lparr>swEnabled = True, swRequireAuth = False\<rparr>,
      \<lparr>jwtIssuer = ''workflow-service'', jwtSecret = [], jwtTTL = hours 2\<rparr>,
      \<lparr>authClientID = [], authClientSecret = [], authJWKSURL = [], authIssuer = ''identity-service'', authAudience = ''workflow-service'',
       authSkipHTTPPaths = [''/api/v1/version''], authSkipGRPCMethods = [''/grpc.health.v1.Health/*''],
       authPSK = \<lparr>pskEnabled = False, pskKey = [], pskHTTPPaths = [], pskGRPCMethods = []\<rparr>\<rparr>,
      \<lparr>aznEnabled = False\<rparr>,
      \<lparr>mgAutoUp = False, mgCreateSchema = False, mgPath = ''migrations/postgres'', mgDatabaseURL = [],
       mgTable = ''workflow_schema_migrations'', mgSchema = [], mgDatabaseName = []\<rparr>)"

definition defaultEventBus :: EventBusConfig where
  "defaultEventBus =
     \<lparr>ebEnabled = False, ebURLs = [''nats://127.0.0.1:4222''], ebStreamName = ''PLATFORM_EVENTS'', ebSubjects = [''platform.>''],
      ebStorage = ''file'', ebMaxAge = hours 168, ebDuplicateWindow = minutes 10, ebConnectTimeout = seconds 5, ebReconnectWait = seconds 1,
      ebPublishTimeout = seconds 5, ebConsumerAckWait = seconds 30, ebConsumerAckTimeout = seconds 5, ebConsumerHandlerTimeout = seconds 25,
      ebConsumerRetryDelay = seconds 1, ebConsumerMaxRetryDelay = minutes 1, ebConsumerMaxDeliver = 10, ebConsumerMaxAckPending = 64,
      ebDeadLetterSubject = ''platform.system.event.dead-lettered.v1'', ebDispatchInterval = 250000000, ebDispatchBatchSize = 100,
      ebDispatchLease = seconds 30, ebDispatchRetryDelay = seconds 5, ebPublishedRetention = hours 336, ebCleanupInterval = hours 1,
      ebCleanupBatchSize = 500\<rparr>"

definition defaultWorkers :: "IdempotencyConfig \<times> TemporalConfig \<times> RetentionConfig \<times> OutboundConfig" where
  "defaultWorkers =
     (\<lparr>idmEnabled = False, idmHTTPPaths = [], idmGRPCMethods = [], idmProcessingTTL = seconds 30, idmResultTTL = hours 24,
       idmFailureTTL = minutes 5\<rparr>,
      \<lparr>tpEnabled = False, tpHostPort = ''127.0.0.1:7233'', tpNamespace = ''default'', tpTaskQueue = ''workflow-service'',
       tpConnectTimeout = seconds 5, tpWorkerStopTimeout = seconds 10,
       tpTLS = \<lparr>ctEnabled = False, ctAllowInsecure = False, ctServerName = [], ctCAFile = [], ctCertFile = [], ctKeyFile = []\<rparr>\<rparr>,
      \<lparr>rtTaskHistory = hours 8760, rtCleanupInterval = hours 1, rtCleanupBatchSize = 500\<rparr>,
      \<lparr>obHTTP = [], obGRPC = []\<rparr>)"

definition defaultConfig :: Config where
  "defaultConfig =
     (case (defaultServers, defaultStores, defaultSecurity, defaultWorkers) of
       ((app, http, grpc, lg), (db, redis, health, rl), (obs, sw, jwt, auth, azn, mg), (idm, tp, rt, ob)) \<Rightarrow>
       \<lparr>cfgRuntime = \<lparr>rnActiveProfile = [], rnConfigFiles = []\<rparr>, cfgApp = app, cfgHTTP = http, cfgGRPC = grpc, cfgLog = lg,
        cfgDatabase = db, cfgRedis = redis, cfgHealth = health, cfgRateLimit = rl, cfgObservability = obs, cfgSwagger = sw, cfgJWT = jwt,
        cfgAuth = auth, cfgAuthorization = azn, cfgMigration = mg, cfgIdempotency = idm, cfgOutbound = ob, cfgEventBus = defaultEventBus,
        cfgTemporal = tp, cfgRetention = rt\<rparr>)"

end
