(* ===== verification/Access.thy ===== *)
theory Access
  imports Grpc Config
begin

text \<open>
  Who is calling and what the caller may do: the token service of \<open>internal/auth/jwt.go\<close>, the shared
  key of \<open>psk.go\<close>, the authentication of a gRPC call and the tables of required permissions of both
  transports. The JWT library, the JWKS verifier and the decision of the authorization service are
  parameters.
\<close>

section \<open>Authorization headers\<close>

text \<open>\<open>strings.Cut(s, " ")\<close>.\<close>

definition cutSpace :: "string \<Rightarrow> string \<times> string \<times> bool" where
  "cutSpace s =
     (case dropWhile (\<lambda>c. c \<noteq> CHR '' '') s of
        [] \<Rightarrow> (s, [], False)
      | c # rest \<Rightarrow> (takeWhile (\<lambda>c. c \<noteq> CHR '' '') s, rest, True))"

text \<open>
  \<open>strings.EqualFold\<close> with an ASCII word, given in lower case. Folding relates a letter with its
  other case, \<open>s\<close> with U+017F and \<open>k\<close> with U+212A, and no other rune with a letter of ASCII.
\<close>

definition lowerByte :: "char \<Rightarrow> char" where
  "lowerByte c = (if isUpper c then char_of (byte c + 32) else c)"

definition foldRune :: "string \<Rightarrow> char \<Rightarrow> string option" where
  "foldRune s t =
     (if s \<noteq> [] \<and> lowerByte (hd s) = t then Some (tl s)
      else if t = CHR ''s'' \<and> take 2 s = [CHR 0xC5, CHR 0xBF] then Some (drop 2 s)
      else if t = CHR ''k'' \<and> take 3 s = [CHR 0xE2, CHR 0x84, CHR 0xAA] then Some (drop 3 s)
      else None)"

fun equalFold :: "string \<Rightarrow> string \<Rightarrow> bool" where
  "equalFold s [] \<longleftrightarrow> s = []"
| "equalFold s (t # ts) \<longleftrightarrow> (case foldRune s t of None \<Rightarrow> False | Some r \<Rightarrow> equalFold r ts)"

text \<open>\<open>VerifyPSK\<close>; \<open>subtle.ConstantTimeCompare\<close> is equality.\<close>

definition VerifyPSK :: "string \<Rightarrow> string \<Rightarrow> bool" where
  "VerifyPSK authorization expected =
     (case cutSpace authorization of (scheme, supplied, ok) \<Rightarrow>
        if \<not> ok \<or> \<not> equalFold scheme ''psk'' \<or> supplied = [] \<or> length supplied \<noteq> length expected then False
        else supplied = expected)"

section \<open>The token service\<close>

record Claims =
  jcIssuer :: string
  jcSubject :: string
  jcID :: string
  jcIssuedAt :: time
  jcNotBefore :: time
  jcExpiresAt :: time

text \<open>
  The parameters: \<open>ParseWithClaims\<close> with the key function and the issuer the options require, which
  returns the claims and whether the token is valid; \<open>SignedString\<close>; \<open>NewNumericDate\<close>; the JWKS
  verifier for a URL, issuer and audience; the two principal types of the platform library.
\<close>

record jwtlib =
  jlParse :: "string \<Rightarrow> (string \<Rightarrow> string result) \<Rightarrow> string \<Rightarrow> (Claims \<times> bool) result"
  jlSign :: "Claims \<Rightarrow> string \<Rightarrow> string result"
  jlDate :: "time \<Rightarrow> time"
  jlVerifier :: "string \<Rightarrow> string \<Rightarrow> string \<Rightarrow> (Context \<Rightarrow> string \<Rightarrow> Principal result) result"
  jlTypeUser :: string
  jlTypeServiceAccount :: string

record AuthService =
  asIssuer :: string
  asSecret :: string
  asTTL :: duration
  asClientID :: string
  asClientSecret :: string
  asVerifier :: "(Context \<Rightarrow> string \<Rightarrow> Principal result) option"

definition Auth_New :: "Config \<Rightarrow> AuthService" where
  "Auth_New cfg =
     \<lparr>asIssuer = jwtIssuer (cfgJWT cfg), asSecret = jwtSecret (cfgJWT cfg), asTTL = jwtTTL (cfgJWT cfg),
      asClientID = authClientID (cfgAuth cfg), asClientSecret = authClientSecret (cfgAuth cfg), asVerifier = None\<rparr>"

definition Auth_NewRuntime :: "jwtlib \<Rightarrow> Config \<Rightarrow> AuthService result" where
  "Auth_NewRuntime jl cfg =
     (if authJWKSURL (cfgAuth cfg) = [] then Inr (Auth_New cfg)
      else case jlVerifier jl (authJWKSURL (cfgAuth cfg)) (authIssuer (cfgAuth cfg)) (authAudience (cfgAuth cfg)) of
        Inl err \<Rightarrow> Inl (Wrapf ''configure identity token verifier: '' err [])
      | Inr verifier \<Rightarrow> Inr ((Auth_New cfg)\<lparr>asVerifier := Some verifier\<rparr>))"

definition Auth_Enabled :: "AuthService \<Rightarrow> bool" where
  "Auth_Enabled s \<longleftrightarrow> 32 \<le> length (asSecret s) \<and> asClientID s \<noteq> [] \<and> asClientSecret s \<noteq> []"

definition Auth_Authenticate :: "AuthService \<Rightarrow> string \<Rightarrow> string \<Rightarrow> bool" where
  "Auth_Authenticate s clientID clientSecret \<longleftrightarrow>
     Auth_Enabled s \<and> clientID = asClientID s \<and> clientSecret = asClientSecret s"

text \<open>\<open>Issue\<close>, given the time it reads and the identifier it draws.\<close>

definition Auth_Issue :: "jwtlib \<Rightarrow> AuthService \<Rightarrow> time \<Rightarrow> string result \<Rightarrow> string \<Rightarrow> string result" where
  "Auth_Issue jl s t jti subject =
     (if \<not> Auth_Enabled s then Inl (Opaque ''authentication is not configured'')
      else case jti of
        Inl err \<Rightarrow> Inl (Wrapf ''create token id: '' err [])
      | Inr i \<Rightarrow> jlSign jl \<lparr>jcIssuer = asIssuer s, jcSubject = subject, jcID = i, jcIssuedAt = jlDate jl t,
          jcNotBefore = jlDate jl t, jcExpiresAt = jlDate jl (t + asTTL s)\<rparr> (asSecret s))"

definition signingKey :: "AuthService \<Rightarrow> string \<Rightarrow> string result" where
  "signingKey s alg =
     (if alg \<noteq> ''HS256'' then Inl (Opaque (''unexpected signing method '' @ alg)) else Inr (asSecret s))"

definition Auth_Parse :: "jwtlib \<Rightarrow> AuthService \<Rightarrow> string \<Rightarrow> Claims result" where
  "Auth_Parse jl s raw =
     (if \<not> Auth_Enabled s then Inl (Opaque ''authentication is not configured'')
      else case jlParse jl raw (signingKey s) (asIssuer s) of
        Inl err \<Rightarrow> Inl (Wrapf ''parse jwt: '' err [])
      | Inr (claims, valid) \<Rightarrow> if \<not> valid then Inl (Opaque ''invalid jwt claims'') else Inr claims)"

definition Auth_Verify :: "jwtlib \<Rightarrow> AuthService \<Rightarrow> Context \<Rightarrow> string \<Rightarrow> Principal result" where
  "Auth_Verify jl s ctx raw =
     (case asVerifier s of
        Some verify \<Rightarrow> verify ctx raw
      | None \<Rightarrow> (case Auth_Parse jl s raw of
          Inl err \<Rightarrow> Inl err
        | Inr claims \<Rightarrow> Inr \<lparr>prID = jcSubject claims, prTenantID = [], prMembershipID = [], prType = jlTypeUser jl\<rparr>))"

definition pskPrincipal :: "jwtlib \<Rightarrow> Principal" where
  "pskPrincipal jl = \<lparr>prID = ''workflow-service:psk'', prTenantID = [], prMembershipID = [], prType = jlTypeServiceAccount jl\<rparr>"

section \<open>Authentication of a gRPC call\<close>

text \<open>\<open>authenticateGRPC\<close>: \<open>vals\<close> are the values of the \<open>authorization\<close> metadata.\<close>

definition authenticateGRPC :: "jwtlib \<Rightarrow> Context \<Rightarrow> string list \<Rightarrow> string \<Rightarrow> AuthService \<Rightarrow> AuthConfig \<Rightarrow> GrpcStatus + Context" where
  "authenticateGRPC jl ctx vals rpc service cfg =
     (if pskEnabled (authPSK cfg) \<and> MatchesAny rpc (pskGRPCMethods (authPSK cfg)) then
        (if vals = [] \<or> \<not> VerifyPSK (hd vals) (pskKey (authPSK cfg))
         then Inl (statusError Unauthenticated ''missing or invalid PSK'')
         else Inr (ctx\<lparr>ctxPrincipal := Some (pskPrincipal jl)\<rparr>))
      else if MatchesAny rpc (authSkipGRPCMethods cfg) then Inr ctx
      else if vals = [] then Inl (statusError Unauthenticated ''missing bearer token'')
      else case cutSpace (hd vals) of (scheme, raw, ok) \<Rightarrow>
        if \<not> ok \<or> \<not> equalFold scheme ''bearer'' then Inl (statusError Unauthenticated ''invalid bearer token'')
        else case Auth_Verify jl service ctx raw of
          Inl err \<Rightarrow> Inl (statusError Unauthenticated ''invalid or expired token'')
        | Inr identity \<Rightarrow> Inr (ctx\<lparr>ctxPrincipal := Some identity\<rparr>))"

section \<open>Required permissions\<close>

record Requirement =
  rqResource :: string
  rqAction :: string

text \<open>Every requirement has the scope \<open>ScopePrincipal\<close> of the platform library.\<close>

definition need :: "string \<Rightarrow> string \<Rightarrow> Requirement" where
  "need resource action = \<lparr>rqResource = resource, rqAction = action\<rparr>"

definition httpRequirements :: "(string, Requirement) gomap" where
  "httpRequirements =
     [(''/api/v1/workflow/definitions/create'', need ''workflow.definition'' ''create''),
      (''/api/v1/workflow/definitions/update'', need ''workflow.definition'' ''update''),
      (''/api/v1/workflow/definitions/publish'', need ''workflow.definition'' ''publish''),
      (''/api/v1/workflow/definitions/disable'', need ''workflow.definition'' ''disable''),
      (''/api/v1/workflow/definitions/get'', need ''workflow.definition'' ''read''),
      (''/api/v1/workflow/definitions/list'', need ''workflow.definition'' ''list''),
      (''/api/v1/workflow/instances/start'', need ''workflow.instance'' ''start''),
      (''/api/v1/workflow/instances/cancel'', need ''workflow.instance'' ''cancel''),
      (''/api/v1/workflow/instances/get'', need ''workflow.instance'' ''read''),
      (''/api/v1/workflow/instances/list'', need ''workflow.instance'' ''list''),
      (''/api/v1/workflow/instances/start-definitions/list'', need ''workflow.instance'' ''start''),
      (''/api/v1/workflow/instances/definitions/list'', need ''workflow.instance'' ''list''),
      (''/api/v1/workflow/tasks/claim'', need ''workflow.task'' ''claim''),
      (''/api/v1/workflow/tasks/complete'', need ''workflow.task'' ''complete''),
      (''/api/v1/workflow/tasks/delegate'', need ''workflow.task'' ''delegate''),
      (''/api/v1/workflow/tasks/get'', need ''workflow.task'' ''read''),
      (''/api/v1/workflow/tasks/list'', need ''workflow.task'' ''list''),
      (''/api/v1/workflow/tasks/instances/list'', need ''workflow.task'' ''list''),
      (''/api/v1/workflow/tasks/history/list'', need ''workflow.task'' ''read''),
      (''/api/v1/workflow/instances/task-history/list'', need ''workflow.instance'' ''read'')]"

definition workflowHTTPRequirement :: "string \<Rightarrow> Requirement option" where
  "workflowHTTPRequirement route = mapGet httpRequirements route"

text \<open>
  The gRPC table is keyed by the full method names of the generated package; \<open>full\<close> is the full name
  of an RPC of the workflow service.
\<close>

definition rpcRequirements :: "(string, Requirement) gomap" where
  "rpcRequirements =
     [(''CreateDefinition'', need ''workflow.definition'' ''create''),
      (''UpdateDefinition'', need ''workflow.definition'' ''update''),
      (''PublishDefinition'', need ''workflow.definition'' ''publish''),
      (''DisableDefinition'', need ''workflow.definition'' ''disable''),
      (''GetDefinition'', need ''workflow.definition'' ''read''),
      (''ListDefinitions'', need ''workflow.definition'' ''list''),
      (''StartInstance'', need ''workflow.instance'' ''start''),
      (''CancelInstance'', need ''workflow.instance'' ''cancel''),
      (''GetInstance'', need ''workflow.instance'' ''read''),
      (''ListInstances'', need ''workflow.instance'' ''list''),
      (''ClaimTask'', need ''workflow.task'' ''claim''),
      (''CompleteTask'', need ''workflow.task'' ''complete''),
      (''DelegateTask'', need ''workflow.task'' ''delegate''),
      (''GetTask'', need ''workflow.task'' ''read''),
      (''ListTasks'', need ''workflow.task'' ''list''),
      (''ListTaskHistory'', need ''workflow.task'' ''read''),
      (''ListInstanceTaskHistory'', need ''workflow.instance'' ''read'')]"

definition workflowGRPCRequirement :: "(string \<Rightarrow> string) \<Rightarrow> bool \<Rightarrow> string \<Rightarrow> Requirement option" where
  "workflowGRPCRequirement full enabled rpc =
     (if \<not> enabled then None else mapGet (map (\<lambda>(n, r). (full n, r)) rpcRequirements) rpc)"

end
