(* ===== verification/Middleware.thy ===== *)
theory Middleware
  imports Http Access
begin

text \<open>
  The HTTP middleware of \<open>internal/transport/http/middleware.go\<close> and the order in which
  \<open>server.go\<close> puts it before the handlers of the API. A middleware either passes the request on,
  possibly changed, or answers it; \<open>c.Next()\<close> is the last thing the modelled ones do, except for
  the idempotent execution, which gets the rest of the chain as an argument.

  Recovery from a panic, metrics, the deadline of \<open>Timeout\<close>, the body limit and the media type check
  are in \<open>Server\<close>. Not modelled: logging and tracing.
\<close>

section \<open>Requests\<close>

record HttpRequest =
  hrMethod :: string
  hrRoute :: string
  hrHeader :: "string \<Rightarrow> string"
  hrBody :: "string result"
  hrClientIP :: string
  hrTLS :: bool
  hrContentLength :: int
  hrContext :: Context
  hrEnvironment :: string
  hrCredential :: "string option"
  hrIdempotencyKey :: "string option"
  hrRequestID :: "string option"
  hrSubject :: "string option"
  hrOut :: "(string, string) gomap"

text \<open>A body is absent when the middleware only sets a status, or when it is not the unified JSON.\<close>

datatype 'b flow =
    Next HttpRequest
  | Abort int "'b Response option" "(string, string) gomap"

primrec thenDo :: "'b flow \<Rightarrow> (HttpRequest \<Rightarrow> 'b flow) \<Rightarrow> 'b flow" where
  "thenDo (Next req) k = k req"
| "thenDo (Abort st body out) k = Abort st body out"

lemma thenDo_Next [simp]: "thenDo f k = Next req' \<longleftrightarrow> (\<exists>req. f = Next req \<and> k req = Next req')"
  by (cases f) auto

text \<open>\<open>requestID\<close>, \<open>c.Header\<close> and \<open>Fail\<close>.\<close>

definition requestID :: "HttpRequest \<Rightarrow> string" where
  "requestID req = (case hrRequestID req of None \<Rightarrow> [] | Some i \<Rightarrow> i)"

definition setHeader :: "string \<Rightarrow> string \<Rightarrow> HttpRequest \<Rightarrow> HttpRequest" where
  "setHeader name v req = req\<lparr>hrOut := mapSet name v (hrOut req)\<rparr>"

definition abortJSON :: "HttpRequest \<Rightarrow> int \<Rightarrow> AppCode \<Rightarrow> string \<Rightarrow> 'b flow" where
  "abortJSON req st code msg = Abort st (Some \<lparr>rsCode = code, rsMessage = msg, rsBody = None, rsRequestID = requestID req\<rparr>) (hrOut req)"

definition failWith :: "HttpRequest \<Rightarrow> AppError \<Rightarrow> 'b flow" where
  "failWith req e = (case Fail (requestID req) (App e) of (st, body) \<Rightarrow> Abort st (Some body) (hrOut req))"

section \<open>Identifiers of a request\<close>

definition allowedCharacter :: "char \<Rightarrow> bool" where
  "allowedCharacter c \<longleftrightarrow> isLower c \<or> isUpper c \<or> isDigit c \<or> c \<in> {CHR ''-'', CHR ''_'', CHR ''.''}"

text \<open>\<open>requestid.Valid\<close>: a rune above ASCII is never allowed, so the loop over runes is one over bytes.\<close>

definition requestid_Valid :: "string \<Rightarrow> bool" where
  "requestid_Valid s \<longleftrightarrow> s \<noteq> [] \<and> length s \<le> 128 \<and> list_all allowedCharacter s"

text \<open>\<open>RequestID\<close>; \<open>generated\<close> is what \<open>requestid.Generate\<close> returns if it is called.\<close>

definition RequestID :: "string \<Rightarrow> HttpRequest \<Rightarrow> 'b flow" where
  "RequestID generated req =
     (let i = (if requestid_Valid (hrHeader req ''X-Request-ID'') then hrHeader req ''X-Request-ID'' else generated) in
      Next (setHeader ''X-Request-ID'' i (req\<lparr>hrRequestID := Some i, hrContext := (hrContext req)\<lparr>ctxRequestID := i\<rparr>\<rparr>)))"

definition Environment :: "string \<Rightarrow> HttpRequest \<Rightarrow> 'b flow" where
  "Environment profile req = Next (req\<lparr>hrEnvironment := profile\<rparr>)"

text \<open>\<open>IdempotencyKey\<close>; \<open>valid\<close> is \<open>Valid\<close> of the platform library.\<close>

definition IdempotencyKey :: "(string \<Rightarrow> bool) \<Rightarrow> HttpRequest \<Rightarrow> 'b flow" where
  "IdempotencyKey valid req =
     (let key = hrHeader req ''Idempotency-Key'' in
      if key = [] then Next req
      else if \<not> valid key then failWith req (apperror_Invalid ''invalid Idempotency-Key'' None)
      else Next (setHeader ''Idempotency-Key'' key (req\<lparr>hrIdempotencyKey := Some key\<rparr>)))"

section \<open>Headers of the response\<close>

definition SecurityHeaders :: "HttpRequest \<Rightarrow> 'b flow" where
  "SecurityHeaders req =
     (let req = setHeader ''X-Content-Type-Options'' ''nosniff'' req;
          req = setHeader ''X-Frame-Options'' ''DENY'' req;
          req = setHeader ''Referrer-Policy'' ''no-referrer'' req;
          req = setHeader ''Content-Security-Policy'' (''default-src '' @ [CHR 0x27] @ ''none'' @ [CHR 0x27] @ ''; frame-ancestors '' @ [CHR 0x27] @ ''none'' @ [CHR 0x27]) req;
          req = setHeader ''Cache-Control'' ''no-store'' req in
      Next (if hrTLS req then setHeader ''Strict-Transport-Security'' ''max-age=31536000; includeSubDomains'' req else req))"

primrec joinList :: "string list \<Rightarrow> string" where
  "joinList [] = []"
| "joinList (v # vs) = (if vs = [] then v else v @ '', '' @ joinList vs)"

text \<open>\<open>CORS\<close>; \<open>maxAge\<close> is the text of the maximum age, computed from the duration in floating point.\<close>

definition CORS :: "CorsConfig \<Rightarrow> string \<Rightarrow> HttpRequest \<Rightarrow> 'b flow" where
  "CORS cfg maxAge req =
     (if \<not> corsEnabled cfg then Next req
      else let origin = hrHeader req ''Origin'' in
        if origin = [] then Next req
        else if origin \<notin> set (corsAllowedOrigins cfg) then abortJSON req 403 CodeForbidden ''origin is not allowed''
        else let req = setHeader ''Access-Control-Allow-Origin'' origin req;
                 req = setHeader ''Vary'' ''Origin'' req;
                 req = setHeader ''Access-Control-Allow-Methods'' ''POST, GET, OPTIONS'' req;
                 req = setHeader ''Access-Control-Allow-Headers'' (joinList (corsAllowedHeaders cfg)) req;
                 req = setHeader ''Access-Control-Expose-Headers'' (joinList (corsExposedHeaders cfg)) req;
                 req = setHeader ''Access-Control-Max-Age'' maxAge req in
          if hrMethod req = ''OPTIONS'' then Abort 204 None (hrOut req) else Next req)"

section \<open>Rate limits\<close>

record BackendResult =
  bkAllowed :: int
  bkRemaining :: int
  bkRetryAfter :: duration

record LimitResult =
  lrAllowed :: bool
  lrLimit :: int
  lrRemaining :: int
  lrRetryAfter :: duration

text \<open>The Redis backend is a parameter, absent when there is no Redis client.\<close>

record Limiter =
  lmEnabled :: bool
  lmFailOpen :: bool
  lmBackend :: "(string \<Rightarrow> RateLimitRule \<Rightarrow> BackendResult result) option"

definition Limiter_New :: "(string \<Rightarrow> RateLimitRule \<Rightarrow> BackendResult result) option \<Rightarrow> Config \<Rightarrow> Limiter" where
  "Limiter_New backend cfg = \<lparr>lmEnabled = rlEnabled (cfgRateLimit cfg), lmFailOpen = rlFailOpen (cfgRateLimit cfg), lmBackend = backend\<rparr>"

definition Limiter_Allow :: "Limiter \<Rightarrow> string \<Rightarrow> RateLimitRule \<Rightarrow> LimitResult result" where
  "Limiter_Allow l key rule =
     (if \<not> lmEnabled l then Inr \<lparr>lrAllowed = True, lrLimit = 0, lrRemaining = 0, lrRetryAfter = 0\<rparr>
      else case lmBackend l of
        None \<Rightarrow> Inl (Opaque ''redis rate limiter is unavailable'')
      | Some allow \<Rightarrow> (case allow key rule of
          Inl err \<Rightarrow> Inl (Wrapf ''check redis rate limit: '' err [])
        | Inr r \<Rightarrow> Inr \<lparr>lrAllowed = 0 < bkAllowed r, lrLimit = rrBurst rule, lrRemaining = bkRemaining r, lrRetryAfter = bkRetryAfter r\<rparr>))"

text \<open>\<open>max(1, int(d.Round(time.Second)/time.Second))\<close>, with the largest duration when rounding up overflows.\<close>

definition retrySeconds :: "duration \<Rightarrow> int" where
  "retrySeconds d =
     (if d < 0 then 1
      else let r = d mod 1000000000;
               rounded = (if 2 * r < 1000000000 then d - r else min (d + 1000000000 - r) (2 ^ 63 - 1)) in
        max 1 (rounded div 1000000000))"

text \<open>\<open>RateLimit\<close>; the numbers are written by \<open>strconv.Itoa\<close>.\<close>

definition RateLimit :: "Limiter \<Rightarrow> RateLimitRule \<Rightarrow> string \<Rightarrow> (HttpRequest \<Rightarrow> string) \<Rightarrow> HttpRequest \<Rightarrow> 'b flow" where
  "RateLimit limiter rule dimension keyFunc req =
     (if \<not> lmEnabled limiter then Next req
      else let key = keyFunc req in
        if key = [] then Next req
        else case Limiter_Allow limiter (''rate:'' @ dimension @ '':'' @ key) rule of
          Inl err \<Rightarrow> if lmFailOpen limiter then Next req
            else failWith req (apperror_Unavailable ''rate limiter unavailable'' (Some err))
        | Inr result \<Rightarrow>
            let req = setHeader ''X-RateLimit-Limit'' (decimalInt (lrLimit result)) req;
                req = setHeader ''X-RateLimit-Remaining'' (decimalInt (lrRemaining result)) req in
            if \<not> lrAllowed result
            then failWith (setHeader ''Retry-After'' (decimalInt (retrySeconds (lrRetryAfter result))) req) apperror_TooManyRequests
            else Next req)"

section \<open>Authentication and authorization\<close>

definition JWT :: "jwtlib \<Rightarrow> AuthService \<Rightarrow> HttpRequest \<Rightarrow> 'b flow" where
  "JWT jl service req =
     (case cutSpace (hrHeader req ''Authorization'') of (scheme, raw, ok) \<Rightarrow>
        if \<not> ok \<or> \<not> equalFold scheme ''bearer'' \<or> raw = [] then failWith req (apperror_Unauthorized ''missing bearer token'')
        else case Auth_Verify jl service (hrContext req) raw of
          Inl err \<Rightarrow> failWith req (apperror_Unauthorized ''invalid or expired token'')
        | Inr identity \<Rightarrow>
            Next (req\<lparr>hrSubject := Some (prID identity), hrContext := (hrContext req)\<lparr>ctxPrincipal := Some identity\<rparr>,
              hrCredential := Some (hrHeader req ''Authorization'')\<rparr>))"

definition Authentication :: "jwtlib \<Rightarrow> AuthService \<Rightarrow> AuthConfig \<Rightarrow> HttpRequest \<Rightarrow> 'b flow" where
  "Authentication jl service cfg req =
     (if pskEnabled (authPSK cfg) \<and> MatchesAny (hrRoute req) (pskHTTPPaths (authPSK cfg)) then
        (if \<not> VerifyPSK (hrHeader req ''Authorization'') (pskKey (authPSK cfg))
         then failWith req (apperror_Unauthorized ''missing or invalid PSK'')
         else Next (req\<lparr>hrSubject := Some ''psk'', hrContext := (hrContext req)\<lparr>ctxPrincipal := Some (pskPrincipal jl)\<rparr>,
                hrCredential := Some (hrHeader req ''Authorization'')\<rparr>))
      else if MatchesAny (hrRoute req) (authSkipHTTPPaths cfg) then Next req
      else JWT jl service req)"

text \<open>
  \<open>Authorization\<close>; the parameters are the decision of \<open>Enforce\<close> on the context and the credential,
  and whether an error is an unavailable decision.
\<close>

record authorizer =
  enfDecide :: "Context \<Rightarrow> string option \<Rightarrow> Requirement \<Rightarrow> unit result"
  enfUnavailable :: "goerr \<Rightarrow> bool"

definition Authorization :: "bool \<Rightarrow> authorizer \<Rightarrow> HttpRequest \<Rightarrow> 'b flow" where
  "Authorization enabled authz req =
     (case workflowHTTPRequirement (hrRoute req) of
        None \<Rightarrow> Next req
      | Some requirement \<Rightarrow>
          if \<not> enabled then Next req
          else case enfDecide authz (hrContext req) (hrCredential req) requirement of
            Inl err \<Rightarrow> if enfUnavailable authz err
              then failWith req (apperror_Unavailable ''authorization decision is unavailable'' (Some err))
              else failWith req (apperror_Forbidden ''permission denied'')
          | Inr _ \<Rightarrow> Next req)"

definition pprofAuth :: "string \<Rightarrow> HttpRequest \<Rightarrow> 'b flow" where
  "pprofAuth expected req =
     (case cutSpace (hrHeader req ''Authorization'') of (scheme, token, ok) \<Rightarrow>
        if \<not> ok \<or> \<not> equalFold scheme ''bearer'' \<or> token \<noteq> expected then Abort 401 None (hrOut req) else Next req)"

section \<open>The chain before the handlers of the API\<close>

definition subjectKey :: "HttpRequest \<Rightarrow> string" where
  "subjectKey req = (case hrSubject req of None \<Rightarrow> [] | Some s \<Rightarrow> s)"

definition apiChain :: "jwtlib \<Rightarrow> AuthService \<Rightarrow> authorizer \<Rightarrow> Limiter \<Rightarrow> Config \<Rightarrow> HttpRequest \<Rightarrow> 'b flow" where
  "apiChain jl service authz limiter cfg req =
     thenDo (RateLimit limiter (rlIP (cfgRateLimit cfg)) ''ip'' hrClientIP req) (\<lambda>req.
     thenDo (RateLimit limiter (rlAPI (cfgRateLimit cfg)) ''api'' hrRoute req) (\<lambda>req.
     thenDo (Authentication jl service (cfgAuth cfg) req) (\<lambda>req.
     thenDo (Authorization (aznEnabled (cfgAuthorization cfg)) authz req) (\<lambda>req.
       RateLimit limiter (rlUser (cfgRateLimit cfg)) ''user'' subjectKey req))))"

text \<open>The routes registered below the chain.\<close>

definition apiRoutes :: "string list" where
  "apiRoutes = map (\<lambda>r. ''/api/v1'' @ r)
     [''/version'', ''/me'',
      ''/workflow/definitions/create'', ''/workflow/definitions/update'', ''/workflow/definitions/publish'',
      ''/workflow/definitions/disable'', ''/workflow/definitions/get'', ''/workflow/definitions/list'',
      ''/workflow/instances/start'', ''/workflow/instances/cancel'', ''/workflow/instances/get'', ''/workflow/instances/list'',
      ''/workflow/instances/start-definitions/list'', ''/workflow/instances/definitions/list'',
      ''/workflow/tasks/claim'', ''/workflow/tasks/complete'', ''/workflow/tasks/delegate'', ''/workflow/tasks/get'',
      ''/workflow/tasks/list'', ''/workflow/tasks/instances/list'', ''/workflow/tasks/history/list'',
      ''/workflow/instances/task-history/list'']"

section \<open>Idempotent execution\<close>

datatype State =
    StateAcquired
  | StateProcessing
  | StateCompleted
  | StateFailed
  | StateConflict
  | StateOther

record Failure =
  flCode :: AppCode
  flMessage :: string
  flHTTPStatus :: int

text \<open>\<open>dcResponse\<close> is the stored response, \<open>None\<close> when its bytes do not decode.\<close>

record 'b Decision =
  dcState :: State
  dcResponse :: "'b Response option"
  dcFailure :: Failure
  dcOwner :: string

datatype 'b managerCall =
    CompleteCall string string "'b Response"
  | FailCall string string Failure

text \<open>
  The manager of the platform library. A call that stores a result is kept with its time and its error,
  which is only logged; what the manager answers to \<open>Begin\<close> may depend on these calls and on the time.
\<close>

record 'b storing =
  ssCall :: "'b managerCall"
  ssTime :: int
  ssError :: "goerr option"

record 'b manager =
  imEnabled :: bool
  imBegin :: "'b storing list \<Rightarrow> int \<Rightarrow> string \<Rightarrow> string \<Rightarrow> 'b Decision result"
  imStore :: "'b storing list \<Rightarrow> int \<Rightarrow> 'b managerCall \<Rightarrow> goerr option"

text \<open>\<open>fmt.Sprint\<close> of the subject, which may be missing, and the hash of the request; \<open>sha\<close> is SHA-256 in hexadecimal.\<close>

definition idempotencyFingerprint :: "(string \<Rightarrow> string) \<Rightarrow> HttpRequest \<Rightarrow> string result" where
  "idempotencyFingerprint sha req =
     bindR (hrBody req) (\<lambda>body. Inr (sha ((case hrSubject req of None \<Rightarrow> ''<nil>'' | Some s \<Rightarrow> s)
       @ CHR 0x00 # hrMethod req @ CHR 0x00 # hrRoute req @ CHR 0x00 # body)))"

text \<open>What the chain answers: a status, and the body when it is the unified JSON.\<close>

type_synonym 'b answered = "int \<times> 'b Response option"

definition failAnswer :: "HttpRequest \<Rightarrow> AppError \<Rightarrow> 'b answered" where
  "failAnswer req e = (case Fail (requestID req) (App e) of (st, body) \<Rightarrow> (st, Some body))"

text \<open>
  A response decoded by \<open>json.Unmarshal\<close> and encoded again. Its body is decoded as \<open>any\<close>; \<open>js\<close> is what
  becomes of a body on the way, in which a number is a \<open>float64\<close> and the keys of an object get sorted.
\<close>

definition reencoded :: "('b \<Rightarrow> 'b) \<Rightarrow> 'b Response \<Rightarrow> 'b Response" where
  "reencoded js response = response\<lparr>rsBody := map_option js (rsBody response)\<rparr>"

text \<open>What is stored of an answer.\<close>

definition persistCall :: "('b \<Rightarrow> 'b) \<Rightarrow> string \<Rightarrow> string \<Rightarrow> 'b answered \<Rightarrow> 'b managerCall option" where
  "persistCall js key owner a =
     (case snd a of
        None \<Rightarrow> None
      | Some response \<Rightarrow>
          Some (if 400 \<le> fst a
            then FailCall key owner \<lparr>flCode = rsCode response, flMessage = rsMessage response, flHTTPStatus = fst a\<rparr>
            else CompleteCall key owner ((reencoded js response)\<lparr>rsRequestID := []\<rparr>)))"

definition persist :: "('b \<Rightarrow> 'b) \<Rightarrow> 'b manager \<Rightarrow> int \<Rightarrow> string \<Rightarrow> string \<Rightarrow> 'b answered \<Rightarrow> 'b storing list \<Rightarrow> 'b storing list" where
  "persist js im moment key owner a hist =
     (case persistCall js key owner a of
        None \<Rightarrow> hist
      | Some c \<Rightarrow> hist @ [\<lparr>ssCall = c, ssTime = moment, ssError = imStore im hist moment c\<rparr>])"

text \<open>
  \<open>IdempotencyExecution\<close>: \<open>rest\<close> is the remaining chain, which may change the state \<open>s\<close>; the calls
  that store results are kept in a list. \<open>began\<close> and \<open>ended\<close> are the times of \<open>Begin\<close> and of the storing.
\<close>

definition IdempotencyExecution :: "(string \<Rightarrow> string) \<Rightarrow> ('b \<Rightarrow> 'b) \<Rightarrow> int \<Rightarrow> int \<Rightarrow> 'b manager option \<Rightarrow> string list
    \<Rightarrow> (HttpRequest \<Rightarrow> 's \<Rightarrow> 'b answered \<times> 's) \<Rightarrow> HttpRequest \<Rightarrow> 's \<times> 'b storing list \<Rightarrow> 'b answered \<times> 's \<times> 'b storing list" where
  "IdempotencyExecution sha js began ended mgr paths rest req sc =
     (let pass = (case rest req (fst sc) of (a, s) \<Rightarrow> (a, s, snd sc)) in
      case (hrIdempotencyKey req, mgr) of
        (Some key, Some im) \<Rightarrow>
          if \<not> imEnabled im \<or> hrMethod req \<noteq> ''POST'' \<or> \<not> MatchesAny (hrRoute req) paths then pass
          else (case idempotencyFingerprint sha req of
            Inl err \<Rightarrow> (failAnswer req (apperror_Invalid ''read idempotent request'' (Some err)), sc)
          | Inr fingerprint \<Rightarrow> (case imBegin im (snd sc) began key fingerprint of
              Inl err \<Rightarrow> (failAnswer req (apperror_Unavailable ''idempotency is unavailable'' (Some err)), sc)
            | Inr decision \<Rightarrow> (case dcState decision of
                StateCompleted \<Rightarrow> (case dcResponse decision of
                    None \<Rightarrow> (failAnswer req (apperror_Unavailable ''idempotency response is unavailable'' None), sc)
                  | Some response \<Rightarrow> ((200, Some ((reencoded js response)\<lparr>rsRequestID := requestID req\<rparr>)), sc))
              | StateFailed \<Rightarrow> ((flHTTPStatus (dcFailure decision), Some \<lparr>rsCode = flCode (dcFailure decision),
                  rsMessage = flMessage (dcFailure decision), rsBody = None, rsRequestID = requestID req\<rparr>), sc)
              | StateProcessing \<Rightarrow> (failAnswer req apperror_RequestInProgress, sc)
              | StateConflict \<Rightarrow> (failAnswer req (apperror_Conflict ''idempotency key belongs to a different request'' None), sc)
              | StateAcquired \<Rightarrow> (case rest req (fst sc) of (a, s) \<Rightarrow> (a, s, persist js im ended key (dcOwner decision) a (snd sc)))
              | StateOther \<Rightarrow> (failAnswer req (apperror_Unavailable ''idempotency state is invalid'' None), sc))))
      | _ \<Rightarrow> pass)"

end
