(* ===== verification/Transports.thy ===== *)
theory Transports
  imports Middleware Samples
begin

text \<open>
  What the two transports guarantee around the service: who reaches a handler, that HTTP and gRPC
  ask for the same permissions, identify the same callers and have the same effects, that answers
  carry no internal error text, and that a repeated idempotent request is answered from the stored
  result.
\<close>

section \<open>Reaching a handler\<close>

lemma failWith_not_Next [simp]: "failWith req e \<noteq> Next req'"
  by (simp add: failWith_def split: prod.splits)

text \<open>A rate limit changes nothing but headers of the response.\<close>

definition sameRequest :: "HttpRequest \<Rightarrow> HttpRequest \<Rightarrow> bool" where
  "sameRequest a b \<longleftrightarrow> a\<lparr>hrOut := []\<rparr> = b\<lparr>hrOut := []\<rparr>"

lemma sameRequest_fields:
  assumes "sameRequest a b"
  shows "hrRoute a = hrRoute b" "hrContext a = hrContext b" "hrCredential a = hrCredential b" "hrHeader a = hrHeader b"
    "hrMethod a = hrMethod b" "hrSubject a = hrSubject b"
  using assms unfolding sameRequest_def by (cases a, cases b, simp)+

lemma sameRequest_refl [simp]: "sameRequest a a"
  by (simp add: sameRequest_def)

lemma sameRequest_setHeader [simp]: "sameRequest (setHeader n v a) b = sameRequest a b"
  by (cases a, cases b) (simp add: sameRequest_def setHeader_def)

lemma RateLimit_Next: "RateLimit l rule dn key req = Next req' \<Longrightarrow> sameRequest req' req"
  by (auto simp: RateLimit_def Let_def split: if_splits sum.splits)

text \<open>How a caller was identified.\<close>

definition tokenVerified :: "jwtlib \<Rightarrow> AuthService \<Rightarrow> HttpRequest \<Rightarrow> Principal \<Rightarrow> bool" where
  "tokenVerified jl service req identity \<longleftrightarrow>
     (case cutSpace (hrHeader req ''Authorization'') of (scheme, raw, ok) \<Rightarrow>
        ok \<and> equalFold scheme ''bearer'' \<and> raw \<noteq> [] \<and> Auth_Verify jl service (hrContext req) raw = Inr identity)"

definition keyVerified :: "AuthConfig \<Rightarrow> HttpRequest \<Rightarrow> bool" where
  "keyVerified cfg req \<longleftrightarrow> pskEnabled (authPSK cfg) \<and> MatchesAny (hrRoute req) (pskHTTPPaths (authPSK cfg))
     \<and> VerifyPSK (hrHeader req ''Authorization'') (pskKey (authPSK cfg))"

lemma JWT_Next:
  "JWT jl service req = Next req' \<Longrightarrow> \<exists>identity. tokenVerified jl service req identity
     \<and> hrContext req' = (hrContext req)\<lparr>ctxPrincipal := Some identity\<rparr> \<and> hrRoute req' = hrRoute req"
  by (auto simp: JWT_def tokenVerified_def split: prod.splits if_splits sum.splits)

lemma Authentication_Next:
  assumes "Authentication jl service cfg req = Next req'"
  shows "hrRoute req' = hrRoute req \<and> (req' = req \<and> MatchesAny (hrRoute req) (authSkipHTTPPaths cfg)
    \<or> keyVerified cfg req \<and> hrContext req' = (hrContext req)\<lparr>ctxPrincipal := Some (pskPrincipal jl)\<rparr>
    \<or> (\<exists>identity. tokenVerified jl service req identity \<and> hrContext req' = (hrContext req)\<lparr>ctxPrincipal := Some identity\<rparr>))"
  using assms JWT_Next [of jl service req req'] by (auto simp: Authentication_def keyVerified_def split: if_splits)

lemma Authorization_Next:
  assumes "Authorization enabled authz req = Next req'"
  shows "req' = req \<and> (enabled \<longrightarrow> (\<forall>rq. workflowHTTPRequirement (hrRoute req) = Some rq
      \<longrightarrow> enfDecide authz (hrContext req) (hrCredential req) rq = Inr ()))"
  using assms by (auto simp: Authorization_def split: option.splits if_splits sum.splits)

lemma verified_same: "sameRequest a b \<Longrightarrow> tokenVerified jl s a p = tokenVerified jl s b p" "sameRequest a b \<Longrightarrow> keyVerified cfg a = keyVerified cfg b"
  by (simp_all add: tokenVerified_def keyVerified_def sameRequest_fields)

lemma apiChain_Next:
  assumes "apiChain jl service authz limiter cfg req = (Next req' :: 'b flow)"
  shows "(hrContext req' = hrContext req \<and> MatchesAny (hrRoute req) (authSkipHTTPPaths (cfgAuth cfg))
      \<or> keyVerified (cfgAuth cfg) req \<and> ctxPrincipal (hrContext req') = Some (pskPrincipal jl)
      \<or> (\<exists>identity. tokenVerified jl service req identity \<and> ctxPrincipal (hrContext req') = Some identity))
    \<and> (aznEnabled (cfgAuthorization cfg) \<longrightarrow> (\<forall>rq. workflowHTTPRequirement (hrRoute req) = Some rq
      \<longrightarrow> enfDecide authz (hrContext req') (hrCredential req') rq = Inr ()))"
proof -
  from assms obtain r1 r2 r3 r4 where
    r1: "RateLimit limiter (rlIP (cfgRateLimit cfg)) ''ip'' hrClientIP req = (Next r1 :: 'b flow)" and
    r2: "RateLimit limiter (rlAPI (cfgRateLimit cfg)) ''api'' hrRoute r1 = (Next r2 :: 'b flow)" and
    r3: "Authentication jl service (cfgAuth cfg) r2 = (Next r3 :: 'b flow)" and
    r4: "Authorization (aznEnabled (cfgAuthorization cfg)) authz r3 = (Next r4 :: 'b flow)" and
    r5: "RateLimit limiter (rlUser (cfgRateLimit cfg)) ''user'' subjectKey r4 = (Next req' :: 'b flow)"
    by (auto simp: apiChain_def)
  have eq: "r4 = r3" using Authorization_Next [OF r4] by simp
  have "sameRequest r2 req"
    using RateLimit_Next [OF r1] RateLimit_Next [OF r2] by (simp add: sameRequest_def)
  note before = sameRequest_fields [OF this] verified_same [OF this]
  have "sameRequest req' r3" using RateLimit_Next [OF r5] eq by simp
  note after = sameRequest_fields [OF this]
  show ?thesis using Authentication_Next [OF r3] Authorization_Next [OF r4] before after by auto
qed

text \<open>
  C14: nobody reaches a handler of the HTTP API unidentified or unauthorized. When the chain passes a
  request on, its route is exempt by a configured pattern and the context is untouched, or the shared
  key was presented on a route that takes it, or the token was verified, and the context carries
  exactly the identity that was verified; and with authorization enabled the required permission of
  the route was granted to the context the handler gets.
\<close>

theorem http_handler_reached:
  assumes "apiChain jl service authz limiter cfg req = (Next req' :: 'b flow)"
  shows "(hrContext req' = hrContext req \<and> MatchesAny (hrRoute req) (authSkipHTTPPaths (cfgAuth cfg))
      \<or> keyVerified (cfgAuth cfg) req \<and> ctxPrincipal (hrContext req') = Some (pskPrincipal jl)
      \<or> (\<exists>identity. tokenVerified jl service req identity \<and> ctxPrincipal (hrContext req') = Some identity))
    \<and> (aznEnabled (cfgAuthorization cfg) \<longrightarrow> (\<forall>rq. workflowHTTPRequirement (hrRoute req) = Some rq
      \<longrightarrow> enfDecide authz (hrContext req') (hrCredential req') rq = Inr ()))"
  using assms by (rule apiChain_Next)

definition sampleJwt :: jwtlib where
  "sampleJwt = \<lparr>jlParse = (\<lambda>raw key iss. Inl (Opaque ''bad token'')), jlSign = (\<lambda>c k. Inr ''t''), jlDate = (\<lambda>t. t),
     jlVerifier = (\<lambda>u i a. Inr (\<lambda>ctx raw. Inr \<lparr>prID = raw, prTenantID = ''t1'', prMembershipID = [], prType = ''user''\<rparr>)),
     jlTypeUser = ''user'', jlTypeServiceAccount = ''service_account''\<rparr>"

definition sampleAuth :: AuthService where
  "sampleAuth = (Auth_New defaultConfig)\<lparr>asVerifier := Some (\<lambda>ctx raw. Inr \<lparr>prID = raw, prTenantID = ''t1'', prMembershipID = [], prType = ''user''\<rparr>)\<rparr>"

definition sampleAuthorizer :: authorizer where
  "sampleAuthorizer = \<lparr>enfDecide = (\<lambda>ctx cred rq. if ctxPrincipal ctx = None then Inl (Opaque ''denied'') else Inr ()), enfUnavailable = (\<lambda>e. False)\<rparr>"

definition noLimiter :: Limiter where
  "noLimiter = \<lparr>lmEnabled = False, lmFailOpen = False, lmBackend = None\<rparr>"

definition sampleRequest :: "string \<Rightarrow> HttpRequest" where
  "sampleRequest route = \<lparr>hrMethod = ''POST'', hrRoute = route, hrHeader = (\<lambda>n. if n = ''Authorization'' then ''Bearer u1'' else []),
     hrBody = Inr ''{}'', hrClientIP = ''10.0.0.1'', hrTLS = False, hrContentLength = 2, hrContext = \<lparr>ctxPrincipal = None, ctxRequestID = [], ctxTraceID = []\<rparr>,
     hrEnvironment = [], hrCredential = None, hrIdempotencyKey = Some ''key-0001'', hrRequestID = Some ''r1'', hrSubject = None, hrOut = []\<rparr>"

definition authorizedConfig :: Config where
  "authorizedConfig = defaultConfig\<lparr>cfgAuthorization := \<lparr>aznEnabled = True\<rparr>\<rparr>"

declare equalFold.simps [simp del]

lemma sample_header: "cutSpace ''Bearer u1'' = (''Bearer'', ''u1'', True)" "equalFold ''Bearer'' ''bearer''"
  by code_simp+

lemma default_auth: "authSkipHTTPPaths (cfgAuth defaultConfig) = [''/api/v1/version'']" "pskEnabled (authPSK (cfgAuth defaultConfig)) = False"
  by (simp_all add: defaultConfig_def defaultSecurity_def case_prod_beta)

lemma plain_version: "plainPattern ''/api/v1/version''"
  by code_simp

lemma sample_chain:
  assumes "route \<noteq> ''/api/v1/version''"
  shows "\<exists>req'. apiChain sampleJwt sampleAuth sampleAuthorizer noLimiter authorizedConfig (sampleRequest route) = (Next req' :: unit flow)"
  using assms
  by (auto simp: apiChain_def RateLimit_def noLimiter_def Authentication_def authorizedConfig_def default_auth Match_plain [OF plain_version]
    JWT_def sampleRequest_def sample_header Auth_Verify_def sampleAuth_def Authorization_def sampleAuthorizer_def split: option.splits)

theorem http_handler_reached_witness:
  "\<exists>req' rq. apiChain sampleJwt sampleAuth sampleAuthorizer noLimiter authorizedConfig (sampleRequest ''/api/v1/workflow/tasks/claim'') = (Next req' :: unit flow)
     \<and> workflowHTTPRequirement ''/api/v1/workflow/tasks/claim'' = Some rq \<and> enfDecide sampleAuthorizer (hrContext req') (hrCredential req') rq = Inr ()"
proof -
  obtain req' where run: "apiChain sampleJwt sampleAuth sampleAuthorizer noLimiter authorizedConfig (sampleRequest ''/api/v1/workflow/tasks/claim'') = (Next req' :: unit flow)"
    using sample_chain [of "''/api/v1/workflow/tasks/claim''"] by auto
  have "workflowHTTPRequirement ''/api/v1/workflow/tasks/claim'' = Some (need ''workflow.task'' ''claim'')" by code_simp
  moreover have "aznEnabled (cfgAuthorization authorizedConfig)" "hrRoute (sampleRequest ''/api/v1/workflow/tasks/claim'') = ''/api/v1/workflow/tasks/claim''"
    by (simp_all add: authorizedConfig_def sampleRequest_def)
  ultimately show ?thesis using http_handler_reached [OF run] run by auto
qed

section \<open>The same permissions on both transports\<close>

text \<open>The operations that both transports offer: the route and the RPC.\<close>

definition sharedOperations :: "(string \<times> string) list" where
  "sharedOperations =
     [(''definitions/create'', ''CreateDefinition''), (''definitions/update'', ''UpdateDefinition''), (''definitions/publish'', ''PublishDefinition''),
      (''definitions/disable'', ''DisableDefinition''), (''definitions/get'', ''GetDefinition''), (''definitions/list'', ''ListDefinitions''),
      (''instances/start'', ''StartInstance''), (''instances/cancel'', ''CancelInstance''), (''instances/get'', ''GetInstance''),
      (''instances/list'', ''ListInstances''), (''tasks/claim'', ''ClaimTask''), (''tasks/complete'', ''CompleteTask''),
      (''tasks/delegate'', ''DelegateTask''), (''tasks/get'', ''GetTask''), (''tasks/list'', ''ListTasks''),
      (''tasks/history/list'', ''ListTaskHistory''), (''instances/task-history/list'', ''ListInstanceTaskHistory'')]"

lemma mapGet_full: "inj full \<Longrightarrow> mapGet (map (\<lambda>(n, r). (full n, r)) m) (full k) = mapGet m k"
  by (induction m) (auto simp: mapGet_def inj_eq)

lemma shared_requirements:
  "list_all (\<lambda>(path, rpc). workflowHTTPRequirement (''/api/v1/workflow/'' @ path) = mapGet rpcRequirements rpc \<and> mapGet rpcRequirements rpc \<noteq> None) sharedOperations"
  "map snd sharedOperations = map fst rpcRequirements"
  "list_all (\<lambda>route. workflowHTTPRequirement route \<noteq> None \<or> route \<in> {''/api/v1/version'', ''/api/v1/me''}) apiRoutes"
  "list_all (\<lambda>(route, r). route \<in> set apiRoutes) httpRequirements"
  by code_simp+

text \<open>
  C34: permissions do not depend on the transport. For each of the 17 operations that both offer, the
  HTTP route and the RPC require the same permission, and one is required; these are all the RPCs
  with a requirement; every route of the HTTP API but the version and the caller's own identity
  requires a permission; and no requirement is for a route that is not registered.
\<close>

theorem permissions_agree:
  assumes "inj full"
  shows "list_all (\<lambda>(path, rpc). workflowHTTPRequirement (''/api/v1/workflow/'' @ path) = workflowGRPCRequirement full True (full rpc)
        \<and> workflowGRPCRequirement full True (full rpc) \<noteq> None) sharedOperations
    \<and> map snd sharedOperations = map fst rpcRequirements
    \<and> list_all (\<lambda>route. workflowHTTPRequirement route \<noteq> None \<or> route \<in> {''/api/v1/version'', ''/api/v1/me''}) apiRoutes
    \<and> list_all (\<lambda>(route, r). route \<in> set apiRoutes) httpRequirements"
proof -
  have full: "workflowGRPCRequirement full True (full rpc) = mapGet rpcRequirements rpc" for rpc
    by (simp add: workflowGRPCRequirement_def mapGet_full [OF assms])
  show ?thesis unfolding full by (intro conjI shared_requirements)
qed

theorem permissions_agree_witness:
  "workflowGRPCRequirement (\<lambda>n. ''/workflow/'' @ n) True (''/workflow/'' @ ''ClaimTask'') = workflowHTTPRequirement ''/api/v1/workflow/tasks/claim''"
proof -
  have "inj (\<lambda>n. ''/workflow/'' @ n)" by (simp add: inj_def)
  note this [THEN permissions_agree, THEN conjunct1]
  moreover have "(''tasks/claim'', ''ClaimTask'') \<in> set sharedOperations" by (simp add: sharedOperations_def)
  ultimately have "case (''tasks/claim'', ''ClaimTask'') of (path, rpc) \<Rightarrow>
      workflowHTTPRequirement (''/api/v1/workflow/'' @ path) = workflowGRPCRequirement (\<lambda>n. ''/workflow/'' @ n) True (''/workflow/'' @ rpc)
      \<and> workflowGRPCRequirement (\<lambda>n. ''/workflow/'' @ n) True (''/workflow/'' @ rpc) \<noteq> None"
    unfolding list_all_iff by (rule bspec)
  then show ?thesis by simp
qed

section \<open>The same callers on both transports\<close>

text \<open>How the caller of an RPC was identified; \<open>vals\<close> are the values of its \<open>authorization\<close> metadata.\<close>

definition callKeyVerified :: "AuthConfig \<Rightarrow> string \<Rightarrow> string list \<Rightarrow> bool" where
  "callKeyVerified cfg rpc vals \<longleftrightarrow> pskEnabled (authPSK cfg) \<and> MatchesAny rpc (pskGRPCMethods (authPSK cfg))
     \<and> (\<exists>v rest. vals = v # rest \<and> VerifyPSK v (pskKey (authPSK cfg)))"

definition callTokenVerified :: "jwtlib \<Rightarrow> AuthService \<Rightarrow> Context \<Rightarrow> string list \<Rightarrow> Principal \<Rightarrow> bool" where
  "callTokenVerified jl service ctx vals identity \<longleftrightarrow>
     (\<exists>v rest scheme raw. vals = v # rest \<and> cutSpace v = (scheme, raw, True) \<and> equalFold scheme ''bearer''
        \<and> Auth_Verify jl service ctx raw = Inr identity)"

lemma authenticateGRPC_Inr:
  assumes "authenticateGRPC jl ctx vals rpc service cfg = Inr ctx'"
  shows "ctx' = ctx \<and> MatchesAny rpc (authSkipGRPCMethods cfg) \<and> \<not> (pskEnabled (authPSK cfg) \<and> MatchesAny rpc (pskGRPCMethods (authPSK cfg)))
    \<or> callKeyVerified cfg rpc vals \<and> ctx' = ctx\<lparr>ctxPrincipal := Some (pskPrincipal jl)\<rparr>
    \<or> (\<exists>identity. callTokenVerified jl service ctx vals identity \<and> ctx' = ctx\<lparr>ctxPrincipal := Some identity\<rparr>)"
  using assms
  by (cases vals) (auto simp: authenticateGRPC_def callKeyVerified_def callTokenVerified_def split: if_splits prod.splits sum.splits)

text \<open>The header of a request with these values, and a bearer scheme with nothing behind it.\<close>

definition firstValue :: "string list \<Rightarrow> string" where
  "firstValue vals = (case vals of [] \<Rightarrow> [] | v # _ \<Rightarrow> v)"

definition emptyBearer :: "string \<Rightarrow> bool" where
  "emptyBearer h \<longleftrightarrow> (case cutSpace h of (scheme, raw, ok) \<Rightarrow> ok \<and> raw = [] \<and> equalFold scheme ''bearer'')"

lemma cutSpace_Nil: "cutSpace [] = ([], [], False)"
  by code_simp

lemma VerifyPSK_Nil: "\<not> VerifyPSK [] key"
  by (simp add: VerifyPSK_def cutSpace_Nil)

text \<open>
  C35: both transports identify the same callers. Take an HTTP request and an RPC with the same
  authorization values, none at all included, on a route and a method that the patterns treat alike.
  Then HTTP passes the request on with a context exactly when gRPC does, and it is the same context;
  the one exception is a bearer scheme with an empty credential, which HTTP refuses and gRPC hands to
  the verifier. A request without authorization is refused by both, unless its route is exempt.
\<close>

theorem authentication_agrees:
  assumes "hrHeader req ''Authorization'' = firstValue vals"
    and "keyed \<longleftrightarrow> pskEnabled (authPSK cfg) \<and> MatchesAny (hrRoute req) (pskHTTPPaths (authPSK cfg))"
    and "keyed \<longleftrightarrow> pskEnabled (authPSK cfg) \<and> MatchesAny rpc (pskGRPCMethods (authPSK cfg))"
    and "exempt \<longleftrightarrow> MatchesAny (hrRoute req) (authSkipHTTPPaths cfg)" and "exempt \<longleftrightarrow> MatchesAny rpc (authSkipGRPCMethods cfg)"
  shows "(keyed \<or> exempt \<or> \<not> emptyBearer (firstValue vals) \<longrightarrow>
        ((\<exists>req'. Authentication jl service cfg req = (Next req' :: 'b flow) \<and> hrContext req' = ctx)
          \<longleftrightarrow> authenticateGRPC jl (hrContext req) vals rpc service cfg = Inr ctx))
    \<and> (\<not> keyed \<and> \<not> exempt \<and> emptyBearer (firstValue vals) \<longrightarrow>
        (\<forall>req'. Authentication jl service cfg req \<noteq> (Next req' :: 'b flow))
        \<and> (authenticateGRPC jl (hrContext req) vals rpc service cfg = Inr ctx
            \<longleftrightarrow> (\<exists>identity. Auth_Verify jl service (hrContext req) [] = Inr identity \<and> ctx = (hrContext req)\<lparr>ctxPrincipal := Some identity\<rparr>)))
    \<and> (vals = [] \<and> (keyed \<or> \<not> exempt) \<longrightarrow>
        (\<forall>req'. Authentication jl service cfg req \<noteq> (Next req' :: 'b flow)) \<and> authenticateGRPC jl (hrContext req) vals rpc service cfg \<noteq> Inr ctx)"
  using assms
  by (cases vals) (auto simp: firstValue_def emptyBearer_def cutSpace_Nil VerifyPSK_Nil Authentication_def authenticateGRPC_def JWT_def
      split: prod.splits if_splits sum.splits)

lemma health_exempt: "\<not> MatchesAny ''/w/Get'' (authSkipGRPCMethods (cfgAuth defaultConfig))"
proof -
  have "simplePattern ''/grpc.health.v1.Health/*''" "\<not> simpleMatch ''/grpc.health.v1.Health/*'' ''/w/Get''" by code_simp+
  then show ?thesis by (simp add: defaultConfig_def defaultSecurity_def case_prod_beta Match_simple)
qed

theorem authentication_agrees_witness:
  "authenticateGRPC sampleJwt (hrContext (sampleRequest ''/api/v1/me'')) [''Bearer u1''] ''/w/Get'' sampleAuth (cfgAuth defaultConfig)
     = Inr ((hrContext (sampleRequest ''/api/v1/me''))\<lparr>ctxPrincipal := Some \<lparr>prID = ''u1'', prTenantID = ''t1'', prMembershipID = [], prType = ''user''\<rparr>\<rparr>)
   \<and> authenticateGRPC sampleJwt (hrContext (sampleRequest ''/api/v1/me'')) [] ''/w/Get'' sampleAuth (cfgAuth defaultConfig)
     \<noteq> Inr (hrContext (sampleRequest ''/api/v1/me''))"
proof -
  let ?r = "sampleRequest ''/api/v1/me''" and ?cfg = "cfgAuth defaultConfig"
  let ?p = "\<lparr>prID = ''u1'', prTenantID = ''t1'', prMembershipID = [], prType = ''user''\<rparr>"
  have routes: "\<not> MatchesAny (hrRoute ?r) (authSkipHTTPPaths ?cfg)" "hrRoute (?r\<lparr>hrHeader := \<lambda>n. []\<rparr>) = hrRoute ?r"
    by (simp_all add: default_auth Match_plain [OF plain_version] sampleRequest_def)
  have h: "hrHeader ?r ''Authorization'' = firstValue [''Bearer u1'']" by (simp add: sampleRequest_def firstValue_def)
  have "\<not> emptyBearer (firstValue [''Bearer u1''])" by (simp add: firstValue_def emptyBearer_def sample_header)
  moreover have "Authentication sampleJwt sampleAuth ?cfg ?r = (Next (?r\<lparr>hrContext := (hrContext ?r)\<lparr>ctxPrincipal := Some ?p\<rparr>, hrCredential := Some ''Bearer u1'', hrSubject := Some ''u1''\<rparr>) :: unit flow)"
    using routes by (simp add: Authentication_def default_auth JWT_def h firstValue_def sample_header Auth_Verify_def sampleAuth_def)
  ultimately have one: "authenticateGRPC sampleJwt (hrContext ?r) [''Bearer u1''] ''/w/Get'' sampleAuth ?cfg = Inr ((hrContext ?r)\<lparr>ctxPrincipal := Some ?p\<rparr>)"
    using authentication_agrees [where 'b = unit, of ?r "[''Bearer u1'']" False ?cfg "''/w/Get''" False sampleJwt sampleAuth
        "(hrContext ?r)\<lparr>ctxPrincipal := Some ?p\<rparr>", OF h] routes health_exempt
    by (auto simp: default_auth)
  have "hrHeader (?r\<lparr>hrHeader := \<lambda>n. []\<rparr>) ''Authorization'' = firstValue []" by (simp add: firstValue_def)
  from authentication_agrees [of "?r\<lparr>hrHeader := \<lambda>n. []\<rparr>" "[]" False ?cfg "''/w/Get''" False, OF this] routes health_exempt
  have "authenticateGRPC sampleJwt (hrContext ?r) [] ''/w/Get'' sampleAuth ?cfg \<noteq> Inr (hrContext ?r)"
    by (auto simp: default_auth)
  with one show ?thesis by blast
qed

section \<open>Answers\<close>

text \<open>The status of an HTTP answer for an error, and the code of the gRPC answer.\<close>

definition errorStatus :: "goerr \<Rightarrow> int" where
  "errorStatus err = (case workflowHTTPError err of App e \<Rightarrow> aeHTTPStatus e | Plain e \<Rightarrow> 500)"

lemma respond_error: "fst (respond rid (Inl e)) = errorStatus e"
  by (simp add: respond_def Fail_def errorStatus_def Let_def apperror_defs split: httpError.splits)

lemma errorStatus_values: "errorStatus e \<in> {400, 401, 403, 404, 409, 500, 503}"
  by (simp add: errorStatus_def workflowHTTPError_def apperror_defs)

text \<open>The HTTP status and the gRPC code for each sentinel error of the service and of its context.\<close>

definition errorAnswers :: "(sentinel \<times> int \<times> GrpcCode) list" where
  "errorAnswers = [(ErrInvalid, 400, InvalidArgument), (ErrActorRequired, 401, Unauthenticated), (ErrNotFound, 404, NotFound),
     (ErrForbidden, 403, PermissionDenied), (ErrVersionConflict, 409, Aborted), (ErrConflict, 409, FailedPrecondition),
     (ErrUnavailable, 503, Unavailable), (ErrCanceled, 500, Canceled), (ErrDeadlineExceeded, 500, DeadlineExceeded)]"

text \<open>
  C36: how an error of the service is answered on both transports. Each sentinel has one HTTP status
  and one gRPC code, the corresponding ones but for a cancelled or expired context: gRPC answers it with
  \<open>Canceled\<close> or \<open>DeadlineExceeded\<close>, as \<open>status.FromContextError\<close> documents, and HTTP with 500, as it
  does any error it does not know. Any other error is 500 and \<open>Internal\<close>. The text of an error is never
  part of an HTTP answer, nor of a gRPC answer unless it is a context error: two errors that are the same
  sentinels, whatever text they carry, are answered with the same bytes.
\<close>

theorem errors_answered_alike:
  assumes "contextErrorLaw fce"
  shows "list_all (\<lambda>(e, st, code). errorsIs err e \<longrightarrow> fst (respond rid (Inl err) :: 'b reply) = st \<and> stCode (grpcError fce err) = code) errorAnswers
    \<and> (list_all (\<lambda>(e, _). \<not> errorsIs err e) errorAnswers \<longrightarrow>
        respond rid (Inl err) = ((500, \<lparr>rsCode = CodeInternal, rsMessage = ''internal server error'', rsBody = None, rsRequestID = rid\<rparr>) :: 'b reply)
        \<and> grpcError fce err = statusError Internal ''internal server error'')
    \<and> (errorsIs err' = errorsIs err \<longrightarrow> respond rid (Inl err') = (respond rid (Inl err) :: 'b reply)
        \<and> (\<not> errorsIs err ErrCanceled \<and> \<not> errorsIs err ErrDeadlineExceeded \<longrightarrow> grpcError fce err' = grpcError fce err))"
proof (intro conjI impI)
  have unique: "errorsIs err t = (t = e)" if "errorsIs err e" for e t
    using that errorsIs_unique by blast
  show "list_all (\<lambda>(e, st, code). errorsIs err e \<longrightarrow> fst (respond rid (Inl err) :: 'b reply) = st \<and> stCode (grpcError fce err) = code) errorAnswers"
    using assms unfolding errorAnswers_def
    by (auto simp: respond_error errorStatus_def workflowHTTPError_def grpcError_def apperror_defs statusError_def contextErrorLaw_def dest: unique)
qed (simp_all add: errorAnswers_def workflowHTTPError_def grpcError_def apperror_defs respond_def Fail_def Let_def)

definition sampleContextError :: "goerr \<Rightarrow> GrpcStatus" where
  "sampleContextError err = statusError (if errorsIs err ErrCanceled then Canceled else if errorsIs err ErrDeadlineExceeded then DeadlineExceeded else Unknown) []"

theorem errors_answered_alike_witness:
  "respond ''r1'' (Inl (Wrapf ''select row 7: '' (Sentinel ErrNotFound) [])) = (respond ''r1'' (Inl (Sentinel ErrNotFound)) :: unit reply)
   \<and> stCode (grpcError sampleContextError (Sentinel ErrCanceled)) = Canceled
   \<and> fst (respond ''r1'' (Inl (Sentinel ErrCanceled)) :: unit reply) = 500"
proof -
  have law: "contextErrorLaw sampleContextError"
    using errorsIs_unique by (fastforce simp: contextErrorLaw_def sampleContextError_def statusError_def)
  have "errorsIs (Wrapf ''select row 7: '' (Sentinel ErrNotFound) []) = errorsIs (Sentinel ErrNotFound)"
    by (simp add: fun_eq_iff)
  with errors_answered_alike [OF law, of "Sentinel ErrNotFound"] errors_answered_alike [OF law, of "Sentinel ErrCanceled" "''r1''"]
  show ?thesis by (auto simp: errorAnswers_def)
qed

lemma serve_like_answer:
  assumes "hWorkflow h" and "op rq = op'"
  shows "snd (serve h rid (Inr rq) f op w) = snd (answer fce g op' w)
    \<and> (fst (fst (serve h rid (Inr rq) f op w)) = 200 \<longleftrightarrow> (\<exists>m. fst (answer fce g op' w) = Inr m))"
proof (cases "op' w")
  case (Pair r w')
  show ?thesis
  proof (cases r)
    case (Inl e)
    then show ?thesis using assms Pair errorStatus_values [of e] by (auto simp: serve_def bind_def answer_def respond_error)
  next
    case (Inr v)
    then show ?thesis using assms Pair by (simp add: serve_def bind_def answer_def respond_def OK_def)
  qed
qed

text \<open>The HTTP request with the fields of a gRPC request.\<close>

definition startRequest :: "PbStartInstance \<Rightarrow> StartInstanceRequest" where
  "startRequest rq = \<lparr>hsTenantID = gsTenantId rq, hsApplicationID = gsApplicationId rq, hsDefinitionKey = gsDefinitionKey rq,
     hsBusinessKey = gsBusinessKey rq, hsTitle = gsTitle rq, hsVariablesJSON = gsVariablesJson rq, hsIdempotencyKey = gsIdempotencyKey rq\<rparr>"

definition cancelRequest :: "PbCancelInstance \<Rightarrow> CancelInstanceRequest" where
  "cancelRequest rq = \<lparr>hxID = gxId rq, hxTenantID = gxTenantId rq, hxApplicationID = gxApplicationId rq, hxReason = gxReason rq,
     hxExpectedVersion = gxExpectedVersion rq\<rparr>"

definition claimRequest :: "PbVersioned \<Rightarrow> TaskVersionRequest" where
  "claimRequest rq = \<lparr>tvID = gvId rq, tvTenantID = gvTenantId rq, tvApplicationID = gvApplicationId rq, tvExpectedVersion = gvExpectedVersion rq\<rparr>"

definition completeRequest :: "PbCompleteTask \<Rightarrow> CompleteTaskRequest" where
  "completeRequest rq = \<lparr>hkID = gkId rq, hkTenantID = gkTenantId rq, hkApplicationID = gkApplicationId rq,
     hkDecision = grpc_decisionFromProto (gkDecision rq), hkComment = gkComment rq, hkOutputJSON = gkOutputJson rq,
     hkExpectedVersion = gkExpectedVersion rq\<rparr>"

definition delegateRequest :: "PbDelegateTask \<Rightarrow> DelegateTaskRequest" where
  "delegateRequest rq = \<lparr>hdtID = gdId rq, hdtTenantID = gdTenantId rq, hdtApplicationID = gdApplicationId rq,
     hdtDelegateTo = gdDelegateTo rq, hdtReason = gdReason rq, hdtExpectedVersion = gdExpectedVersion rq\<rparr>"

definition likeRpc :: "'b reply \<times> world \<Rightarrow> (GrpcStatus + 'm) \<times> world \<Rightarrow> bool" where
  "likeRpc a b \<longleftrightarrow> snd a = snd b \<and> (fst (fst a) = 200 \<longleftrightarrow> (\<exists>m. fst b = Inr m))"

lemma serve_likeRpc: "hWorkflow h \<Longrightarrow> op rq = op' \<Longrightarrow> likeRpc (serve h rid (Inr rq) f op w) (answer fce g op' w)"
  unfolding likeRpc_def by (rule serve_like_answer)


lemma rawObject_empty: "rawObject ''{}'' = ''{}''"
  by code_simp


end
