(* ===== verification/Idempotency.thy ===== *)
theory Idempotency
  imports Transports
begin

text \<open>
  The idempotent execution of HTTP requests: as long as the stored result of a request is kept, a
  repeated request with the same key and content is answered from it and runs no handler. The manager of
  the platform library is described by what it documents, that it keeps a result for its time to live.
\<close>

section \<open>The manager\<close>

primrec callKey :: "'b managerCall \<Rightarrow> string" where
  "callKey (CompleteCall key owner response) = key"
| "callKey (FailCall key owner failure) = key"

definition storedFor :: "string \<Rightarrow> 'b storing list \<Rightarrow> 'b storing list" where
  "storedFor key hist = filter (\<lambda>x. callKey (ssCall x) = key) hist"

text \<open>
  Until the time to live of a result that was stored without an error has passed, \<open>Begin\<close> with the same
  key and fingerprint fails, or it reports that result.
\<close>

definition remembers :: "'b manager \<Rightarrow> IdempotencyConfig \<Rightarrow> string \<Rightarrow> string \<Rightarrow> string \<Rightarrow> bool" where
  "remembers im cfg key fp owner \<longleftrightarrow> (\<forall>hist moment t d. imBegin im hist moment key fp = Inr d \<and> t \<le> moment \<longrightarrow>
     (\<forall>response. storedFor key hist = [\<lparr>ssCall = CompleteCall key owner response, ssTime = t, ssError = None\<rparr>] \<and> moment < t + idmResultTTL cfg
        \<longrightarrow> dcState d = StateCompleted \<and> dcResponse d = Some response)
     \<and> (\<forall>failure. storedFor key hist = [\<lparr>ssCall = FailCall key owner failure, ssTime = t, ssError = None\<rparr>] \<and> moment < t + idmFailureTTL cfg
        \<longrightarrow> dcState d = StateFailed \<and> dcFailure d = failure))"

text \<open>A request whose result is stored: it has a key, the method and the route.\<close>

definition idempotent :: "'b manager \<Rightarrow> string list \<Rightarrow> string \<Rightarrow> HttpRequest \<Rightarrow> bool" where
  "idempotent im paths key req \<longleftrightarrow> imEnabled im \<and> hrIdempotencyKey req = Some key \<and> hrMethod req = ''POST'' \<and> MatchesAny (hrRoute req) paths"

lemma execute_acquired:
  assumes "idempotent im paths key req" and "idempotencyFingerprint sha req = Inr fp"
    and "imBegin im hist began key fp = Inr dec" and "dcState dec = StateAcquired"
  shows "IdempotencyExecution sha js began ended (Some im) paths rest req (s, hist)
    = (case rest req s of (a, s') \<Rightarrow> (a, s', persist js im ended key (dcOwner dec) a hist))"
  using assms by (simp add: IdempotencyExecution_def idempotent_def)

text \<open>The answer from the stored result of a request that was answered with status \<open>st\<close> and \<open>response\<close>.\<close>

definition replayed :: "('b \<Rightarrow> 'b) \<Rightarrow> int \<Rightarrow> 'b Response \<Rightarrow> string \<Rightarrow> 'b answered" where
  "replayed js st response rid =
     (if 400 \<le> st then st else 200,
      Some \<lparr>rsCode = rsCode response, rsMessage = rsMessage response,
            rsBody = (if 400 \<le> st then None else map_option (\<lambda>b. js (js b)) (rsBody response)), rsRequestID = rid\<rparr>)"

lemma execute_stored:
  assumes "idempotent im paths key req" and "idempotencyFingerprint sha req = Inr fp" and "remembers im cfg key fp owner"
    and "storedFor key hist = [\<lparr>ssCall = c, ssTime = t, ssError = None\<rparr>]" and "persistCall js key owner (st, Some response) = Some c"
    and "imBegin im hist moment key fp = Inr d" and "t \<le> moment" and "moment < t + (if 400 \<le> st then idmFailureTTL cfg else idmResultTTL cfg)"
  shows "IdempotencyExecution sha js moment later (Some im) paths rest req (s, hist) = (replayed js st response (requestID req), s, hist)"
proof (cases "400 \<le> st")
  case True
  define fl where "fl = \<lparr>flCode = rsCode response, flMessage = rsMessage response, flHTTPStatus = st\<rparr>"
  have "c = FailCall key owner fl" using True assms(5) by (simp add: persistCall_def fl_def)
  with assms(3,4,6-8) True have "dcState d = StateFailed" "dcFailure d = fl" unfolding remembers_def by auto
  then show ?thesis using assms(1,2,6) True by (simp add: IdempotencyExecution_def idempotent_def fl_def replayed_def)
next
  case False
  define rs where "rs = (reencoded js response)\<lparr>rsRequestID := []\<rparr>"
  have "c = CompleteCall key owner rs" using False assms(5) by (simp add: persistCall_def rs_def)
  with assms(3,4,6-8) False have "dcState d = StateCompleted" "dcResponse d = Some rs" unfolding remembers_def by auto
  then show ?thesis using assms(1,2,6) False
    by (simp add: IdempotencyExecution_def idempotent_def rs_def replayed_def reencoded_def option.map_comp comp_def)
qed

lemma callKey_persist: "persistCall js key owner a = Some c \<Longrightarrow> callKey c = key"
  by (auto simp: persistCall_def split: option.splits if_splits)

text \<open>
  C21: an idempotent request runs once while its result is kept. Let a request with a key be executed
  and answered, and its result be stored without an error. Then until the configured time to live of the
  result, or of the failure for a status from 400, has passed, any request with the same key and
  fingerprint runs nothing and stores nothing, whatever its handler would do and whatever was stored under
  other keys in between. It is answered with the same code and message, with the status of the failure or
  200, with the body of a success as it is after being decoded and encoded as JSON twice, and under its own
  request identifier; or, when the manager fails, with \<open>idempotency is unavailable\<close>.
\<close>

theorem idempotent_replay:
  assumes "idempotent im paths key req" and "idempotencyFingerprint sha req = Inr fp"
    and "imBegin im hist began key fp = Inr dec" and "dcState dec = StateAcquired" and "remembers im cfg key fp (dcOwner dec)" and "storedFor key hist = []"
    and "IdempotencyExecution sha js began ended (Some im) paths rest req (s, hist) = ((st, Some response), s1, hist1)"
    and "list_all (\<lambda>x. ssError x = None) (storedFor key hist1)"
    and "idempotent im paths key req'" and "idempotencyFingerprint sha req' = Inr fp" and "storedFor key hist2 = storedFor key hist1"
    and "ended \<le> moment" and "moment < ended + (if 400 \<le> st then idmFailureTTL cfg else idmResultTTL cfg)"
  shows "rest req s = ((st, Some response), s1)
    \<and> (\<exists>answer. IdempotencyExecution sha js moment later (Some im) paths rest' req' (s2, hist2) = (answer, s2, hist2)
        \<and> (answer = replayed js st response (requestID req')
           \<or> (\<exists>err. imBegin im hist2 moment key fp = Inl err \<and> answer = failAnswer req' (apperror_Unavailable ''idempotency is unavailable'' (Some err)))))"
proof -
  note out = trans [OF execute_acquired [OF assms(1-4), symmetric] assms(7)]
  then have ran: "rest req s = ((st, Some response), s1)" by (simp add: case_prod_beta prod_eq_iff)
  with out have hist1: "hist1 = persist js im ended key (dcOwner dec) (st, Some response) hist" by simp
  obtain c where c: "persistCall js key (dcOwner dec) (st, Some response) = Some c" by (simp add: persistCall_def)
  have "storedFor key hist1 = [\<lparr>ssCall = c, ssTime = ended, ssError = imStore im hist ended c\<rparr>]"
    using assms(6) c callKey_persist [OF c] by (simp add: hist1 persist_def storedFor_def)
  then have kept: "storedFor key hist2 = [\<lparr>ssCall = c, ssTime = ended, ssError = None\<rparr>]" using assms(8,11) by simp
  show ?thesis
  proof (cases "imBegin im hist2 moment key fp")
    case (Inl err)
    then have "IdempotencyExecution sha js moment later (Some im) paths rest' req' (s2, hist2)
        = (failAnswer req' (apperror_Unavailable ''idempotency is unavailable'' (Some err)), s2, hist2)"
      using assms(9,10) by (simp add: IdempotencyExecution_def idempotent_def)
    then show ?thesis by (intro conjI ran exI disjI2) (simp_all add: Inl)
  next
    case (Inr d)
    show ?thesis by (intro conjI ran exI disjI1) (rule execute_stored [OF assms(9,10,5) kept c Inr assms(12,13)], rule refl)
  qed
qed

definition noFailure :: Failure where
  "noFailure = \<lparr>flCode = CodeOK, flMessage = [], flHTTPStatus = 0\<rparr>"

text \<open>A manager that keeps its results for the times to live of the default configuration.\<close>

definition sampleIdempotency :: IdempotencyConfig where
  "sampleIdempotency = cfgIdempotency defaultConfig"

definition sampleManager :: "nat manager" where
  "sampleManager = \<lparr>imEnabled = True, imBegin = (\<lambda>hist moment key fp.
     Inr (case storedFor key hist of
        [] \<Rightarrow> \<lparr>dcState = StateAcquired, dcResponse = None, dcFailure = noFailure, dcOwner = ''o1''\<rparr>
      | x # xs \<Rightarrow> (case ssCall x of
          CompleteCall k owner response \<Rightarrow>
            if moment < ssTime x + idmResultTTL sampleIdempotency then \<lparr>dcState = StateCompleted, dcResponse = Some response, dcFailure = noFailure, dcOwner = owner\<rparr>
            else \<lparr>dcState = StateAcquired, dcResponse = None, dcFailure = noFailure, dcOwner = ''o1''\<rparr>
        | FailCall k owner failure \<Rightarrow>
            if moment < ssTime x + idmFailureTTL sampleIdempotency then \<lparr>dcState = StateFailed, dcResponse = None, dcFailure = failure, dcOwner = owner\<rparr>
            else \<lparr>dcState = StateAcquired, dcResponse = None, dcFailure = noFailure, dcOwner = ''o1''\<rparr>))),
     imStore = (\<lambda>hist moment c. None)\<rparr>"

definition countingHandler :: "HttpRequest \<Rightarrow> nat \<Rightarrow> nat answered \<times> nat" where
  "countingHandler req n = (case OK (requestID req) n of (st, body) \<Rightarrow> ((st, Some body), Suc n))"

lemma sampleManager_remembers: "remembers sampleManager sampleIdempotency key fp owner"
  by (auto simp: remembers_def sampleManager_def)

theorem idempotent_replay_witness:
  "\<exists>a s hist. IdempotencyExecution (\<lambda>x. x) (\<lambda>b. b) 0 1 (Some sampleManager) [''/api/v1/me''] countingHandler (sampleRequest ''/api/v1/me'') (7, []) = (a, s, hist)
     \<and> s = 8 \<and> IdempotencyExecution (\<lambda>x. x) (\<lambda>b. b) 2 3 (Some sampleManager) [''/api/v1/me''] countingHandler (sampleRequest ''/api/v1/me'') (s, hist) = (a, s, hist)"
proof -
  let ?r = "sampleRequest ''/api/v1/me''" and ?run = "\<lambda>t u. IdempotencyExecution (\<lambda>x. x) (\<lambda>b. b) t u (Some sampleManager) [''/api/v1/me''] countingHandler"
  have plain: "plainPattern ''/api/v1/me''" by code_simp
  have idm: "idempotent sampleManager [''/api/v1/me''] ''key-0001'' ?r"
    by (simp add: idempotent_def sampleManager_def sampleRequest_def Match_plain [OF plain])
  obtain fp where fp: "idempotencyFingerprint (\<lambda>x. x) ?r = Inr fp" by (simp add: idempotencyFingerprint_def sampleRequest_def)
  obtain dec where dec: "imBegin sampleManager [] 0 ''key-0001'' fp = Inr dec" "dcState dec = StateAcquired"
    by (simp add: sampleManager_def storedFor_def)
  let ?resp = "\<lparr>rsCode = CodeOK, rsMessage = ''success'', rsBody = Some (7 :: nat), rsRequestID = ''r1''\<rparr>"
  let ?hist = "persist (\<lambda>b. b) sampleManager 1 ''key-0001'' (dcOwner dec) (200, Some ?resp) []"
  have id: "requestID ?r = ''r1''" by (simp add: requestID_def sampleRequest_def)
  have run: "?run 0 1 ?r (7, []) = ((200, Some ?resp), 8, ?hist)"
    using execute_acquired [OF idm fp dec, of "\<lambda>b. b" 1 countingHandler 7] by (simp add: countingHandler_def OK_def id)
  have ttl: "2 < 1 + idmResultTTL sampleIdempotency" by (simp add: sampleIdempotency_def defaultConfig_def defaultSecurity_def defaultWorkers_def case_prod_beta hours_def minutes_def seconds_def)
  have ok: "list_all (\<lambda>x. ssError x = None) (storedFor ''key-0001'' ?hist)" by (simp add: persist_def persistCall_def storedFor_def sampleManager_def)
  have "\<exists>answer. ?run 2 3 ?r (8, ?hist) = (answer, 8, ?hist) \<and> answer = replayed (\<lambda>b. b) 200 ?resp ''r1''"
    using idempotent_replay [OF idm fp dec sampleManager_remembers _ run ok idm fp refl, of 2 3 countingHandler 8] ttl id
    by (auto simp: storedFor_def sampleManager_def)
  with run show ?thesis by (auto simp: replayed_def)
qed

end
