(* ===== verification/Health.thy ===== *)
theory Health
  imports Http
begin

text \<open>
  The health checks of \<open>internal/health/service.go\<close> and their answers over HTTP and gRPC. The checks
  of the database and of Redis run in goroutines of their own, so their results arrive in either
  order: \<open>Ready\<close> takes them in the order of arrival.
\<close>

record Dependency =
  dpStatus :: string
  dpLatency :: string

record Status =
  heStatus :: string
  heDependencies :: "(string, Dependency) gomap"

record checkOutcome =
  coName :: string
  coDependency :: Dependency
  coReady :: bool

definition checkResult :: "string \<Rightarrow> string \<Rightarrow> goerr option \<Rightarrow> checkOutcome" where
  "checkResult name latency err =
     (case err of
        None \<Rightarrow> \<lparr>coName = name, coDependency = \<lparr>dpStatus = ''up'', dpLatency = latency\<rparr>, coReady = True\<rparr>
      | Some e \<Rightarrow> \<lparr>coName = name, coDependency = \<lparr>dpStatus = ''down'', dpLatency = latency\<rparr>, coReady = False\<rparr>)"

text \<open>A check is given what the ping returned and how long it took, \<open>None\<close> when there is no client.\<close>

type_synonym ping = "(string \<times> goerr option) option"

definition checkDatabase :: "ping \<Rightarrow> checkOutcome" where
  "checkDatabase p =
     (case p of
        None \<Rightarrow> \<lparr>coName = ''database'', coDependency = \<lparr>dpStatus = ''disabled'', dpLatency = []\<rparr>, coReady = True\<rparr>
      | Some (latency, err) \<Rightarrow> checkResult ''database'' latency err)"

definition checkRedis :: "ping \<Rightarrow> checkOutcome" where
  "checkRedis p =
     (case p of
        None \<Rightarrow> \<lparr>coName = ''redis'', coDependency = \<lparr>dpStatus = ''disabled'', dpLatency = []\<rparr>, coReady = True\<rparr>
      | Some (latency, err) \<Rightarrow> checkResult ''redis'' latency err)"

definition Live :: Status where
  "Live = \<lparr>heStatus = ''up'', heDependencies = []\<rparr>"

fun collect :: "checkOutcome list \<Rightarrow> (string, Dependency) gomap \<times> bool \<Rightarrow> (string, Dependency) gomap \<times> bool" where
  "collect [] acc = acc"
| "collect (item # items) (deps, ready) = collect items (mapSet (coName item) (coDependency item) deps, ready \<and> coReady item)"

definition Ready :: "checkOutcome list \<Rightarrow> Status \<times> bool" where
  "Ready results =
     (case collect results ([], True) of (deps, ready) \<Rightarrow>
        (\<lparr>heStatus = (if ready then ''ready'' else ''not_ready''), heDependencies = deps\<rparr>, ready))"

text \<open>The handlers: \<open>/ready\<close> over HTTP, and whether the gRPC health service says \<open>SERVING\<close>.\<close>

definition Http_Ready :: "string \<Rightarrow> checkOutcome list \<Rightarrow> Status reply" where
  "Http_Ready rid results =
     (case Ready results of (status, ready) \<Rightarrow>
        if \<not> ready
        then (503, \<lparr>rsCode = CodeDependencyUnavailable, rsMessage = ''service is not ready'', rsBody = Some status, rsRequestID = rid\<rparr>)
        else OK rid status)"

definition Http_Live :: "string \<Rightarrow> Status reply" where
  "Http_Live rid = OK rid Live"

definition Grpc_Check :: "checkOutcome list \<Rightarrow> bool" where
  "Grpc_Check results = snd (Ready results)"

definition pingOk :: "ping \<Rightarrow> bool" where
  "pingOk p \<longleftrightarrow> (case p of None \<Rightarrow> True | Some (latency, err) \<Rightarrow> err = None)"

lemma check_facts: "coName (checkDatabase p) = ''database''" "coName (checkRedis q) = ''redis''"
  "coReady (checkDatabase p) = pingOk p" "coReady (checkRedis q) = pingOk q"
  by (auto simp: checkDatabase_def checkRedis_def checkResult_def pingOk_def split: option.splits prod.splits)

lemma mapGet_two: "k \<noteq> l \<Longrightarrow> mapGet (mapSet k x (mapSet l y m)) = mapGet (mapSet l y (mapSet k x m))"
  by (auto simp: fun_eq_iff mapGet_mapSet)

text \<open>
  Readiness does not depend on which check finishes first. Whatever the order of arrival, the
  service is ready exactly when every client that exists answered its ping, HTTP answers 200 exactly
  then and 503 otherwise, gRPC says serving exactly then, and both orders report the same state of
  each dependency.
\<close>

theorem readiness_order_free:
  assumes "results = [checkDatabase p, checkRedis q] \<or> results = [checkRedis q, checkDatabase p]"
  shows "snd (Ready results) = (pingOk p \<and> pingOk q)
    \<and> fst (Http_Ready rid results) = (if pingOk p \<and> pingOk q then 200 else 503)
    \<and> Grpc_Check results = (pingOk p \<and> pingOk q)
    \<and> mapGet (heDependencies (fst (Ready results))) = mapGet (heDependencies (fst (Ready [checkDatabase p, checkRedis q])))
    \<and> heStatus (fst (Ready results)) = (if pingOk p \<and> pingOk q then ''ready'' else ''not_ready'')"
  using assms mapGet_two [of "''database''" "''redis''" "coDependency (checkDatabase p)" "coDependency (checkRedis q)" "[]"]
  by (auto simp: Ready_def Http_Ready_def Grpc_Check_def OK_def check_facts)

theorem readiness_order_free_witness:
  "fst (Http_Ready ''r1'' [checkRedis None, checkDatabase (Some (''1ms'', Some (Opaque ''refused'')))]) = 503"
  using readiness_order_free [of "[checkRedis None, checkDatabase (Some (''1ms'', Some (Opaque ''refused'')))]"
      "Some (''1ms'', Some (Opaque ''refused''))" None "''r1''"]
  by (simp add: pingOk_def)

end
