(* ===== verification/Outbound.thy ===== *)
theory Outbound
  imports Config
begin

text \<open>
  The clients of other services: \<open>internal/grpcclient/client.go\<close>, \<open>internal/outbound/http.go\<close> and the
  registry of \<open>registry.go\<close> that holds them. Modelled are the checks before a client is built, the
  credentials a call carries, which calls are repeated, how often and after which delay, and what a
  circuit breaker sees. Parameters are the network, the clock, the certificate files, the parsing of
  URLs and the breaker itself.
\<close>

section \<open>Building a gRPC client\<close>

record TLSConfig =
  tcEnabled :: bool
  tcServerName :: string
  tcCAFile :: string
  tcCertFile :: string
  tcKeyFile :: string
  tcAllowInsecureToken :: bool

record ClientConfig =
  ccTarget :: string
  ccTimeout :: duration
  ccToken :: string
  ccPSK :: string
  ccTLS :: TLSConfig
  ccName :: string
  ccRetry :: RetryPolicy
  ccBreaker :: BreakerPolicy

text \<open>What reading a certificate authority and loading a key pair return.\<close>

record certificates =
  ctfReadFile :: "string \<Rightarrow> string result"
  ctfAppendPEM :: "string \<Rightarrow> bool"
  ctfLoadPair :: "string \<Rightarrow> string \<Rightarrow> unit result"

definition checkCA :: "certificates \<Rightarrow> TLSConfig \<Rightarrow> goerr option" where
  "checkCA files cfg =
     (if tcCAFile cfg = [] then None
      else case ctfReadFile files (tcCAFile cfg) of
        Inl err \<Rightarrow> Some (Wrapf ''read grpc CA: '' err [])
      | Inr pem \<Rightarrow> reject (\<not> ctfAppendPEM files pem) ''parse grpc CA'')"

definition checkPair :: "certificates \<Rightarrow> TLSConfig \<Rightarrow> goerr option" where
  "checkPair files cfg =
     (if tcCertFile cfg = [] \<and> tcKeyFile cfg = [] then None
      else if tcCertFile cfg = [] \<or> tcKeyFile cfg = []
      then Some (Opaque ''grpc client certificate and key must be configured together'')
      else case ctfLoadPair files (tcCertFile cfg) (tcKeyFile cfg) of
        Inl err \<Rightarrow> Some (Wrapf ''load grpc client certificate: '' err [])
      | Inr _ \<Rightarrow> None)"

text \<open>\<open>transportCredentials\<close>: its error, if any.\<close>

definition transportCredentials :: "certificates \<Rightarrow> TLSConfig \<Rightarrow> goerr option" where
  "transportCredentials files cfg = (if \<not> tcEnabled cfg then None else firstError [checkCA files cfg, checkPair files cfg])"

text \<open>\<open>Dial\<close> up to the creation of the connection.\<close>

definition Dial :: "certificates \<Rightarrow> ClientConfig \<Rightarrow> goerr option" where
  "Dial files cfg = firstError
     [reject (ccTarget cfg = []) ''grpc client target is required'',
      reject (ccTimeout cfg \<le> 0) ''grpc client timeout must be positive'',
      transportCredentials files (ccTLS cfg),
      reject (ccToken cfg \<noteq> [] \<and> \<not> tcEnabled (ccTLS cfg) \<and> \<not> tcAllowInsecureToken (ccTLS cfg))
        ''refusing to send grpc bearer token without TLS'',
      reject (ccPSK cfg \<noteq> [] \<and> ccToken cfg \<noteq> []) ''grpc client bearer token and PSK are mutually exclusive'',
      reject (ccPSK cfg \<noteq> [] \<and> \<not> tcEnabled (ccTLS cfg) \<and> \<not> tcAllowInsecureToken (ccTLS cfg))
        ''refusing to send grpc PSK without TLS'']"

text \<open>The client configuration \<open>NewRegistry\<close> makes of an upstream.\<close>

definition clientConfig :: "string \<Rightarrow> GrpcUpstream \<Rightarrow> ClientConfig" where
  "clientConfig name up =
     (let tls = guTLS up in
      \<lparr>ccTarget = guTarget up, ccTimeout = guTimeout up,
       ccToken = (if caType (guAuth up) = ''bearer'' then caToken (guAuth up) else []),
       ccPSK = (if caType (guAuth up) = ''psk'' then caToken (guAuth up) else []),
       ccTLS = \<lparr>tcEnabled = ctEnabled tls, tcServerName = ctServerName tls, tcCAFile = ctCAFile tls, tcCertFile = ctCertFile tls,
         tcKeyFile = ctKeyFile tls, tcAllowInsecureToken = ctAllowInsecure tls\<rparr>,
       ccName = name, ccRetry = guRetry up, ccBreaker = guBreaker up\<rparr>)"

section \<open>Calls of a gRPC client\<close>

text \<open>\<open>metadataInterceptor\<close>: the pairs appended to the outgoing metadata.\<close>

definition metadataPairs :: "string \<Rightarrow> string \<Rightarrow> string \<Rightarrow> string option \<Rightarrow> (string \<times> string) list" where
  "metadataPairs token psk requestid key =
     (if token \<noteq> [] then [(''authorization'', ''Bearer '' @ token)] else if psk \<noteq> [] then [(''authorization'', ''PSK '' @ psk)] else [])
     @ (if requestid \<noteq> [] then [(''x-request-id'', requestid)] else [])
     @ (case key of None \<Rightarrow> [] | Some k \<Rightarrow> [(''idempotency-key'', k)])"

text \<open>The code of a call's error; \<open>ClientOK\<close> is no error.\<close>

datatype clientCode =
    ClientOK
  | ClientUnavailable
  | ClientResourceExhausted
  | ClientDeadlineExceeded
  | ClientOther nat

datatype callResult =
    Returned clientCode
  | WaitFailed goerr

definition retryableCode :: "clientCode \<Rightarrow> bool" where
  "retryableCode c \<longleftrightarrow> c = ClientUnavailable \<or> c = ClientResourceExhausted"

fun retryGRPCMethod :: "string option \<Rightarrow> string \<Rightarrow> string list \<Rightarrow> bool" where
  "retryGRPCMethod (Some key) rpc patterns = True"
| "retryGRPCMethod None rpc [] = False"
| "retryGRPCMethod None rpc (p # ps) = (if Match p rpc = Some True then True else retryGRPCMethod None rpc ps)"

text \<open>The delay of \<open>waitRetry\<close>: the shift is one of \<open>int64\<close>.\<close>

definition retryDelay :: "RetryPolicy \<Rightarrow> nat \<Rightarrow> duration" where
  "retryDelay cfg attempt =
     (let delay = wrap64 (ryInitialBackoff cfg * 2 ^ (attempt - 1)) in if ryMaxBackoff cfg < delay then ryMaxBackoff cfg else delay)"

text \<open>
  The loop of \<open>retryInterceptor\<close> with \<open>k\<close> attempts left, the next being \<open>attempt\<close>. \<open>invoke n\<close> is
  the outcome of the \<open>n\<close>-th call, \<open>expired n\<close> the error when the context ends in the wait after it.
  The result comes with the number of calls and the delays waited for.
\<close>

fun retryLoop :: "RetryPolicy \<Rightarrow> (nat \<Rightarrow> clientCode) \<Rightarrow> (nat \<Rightarrow> goerr option) \<Rightarrow> nat \<Rightarrow> nat \<Rightarrow> clientCode \<Rightarrow> callResult \<times> nat \<times> duration list" where
  "retryLoop cfg invoke expired attempt 0 err = (Returned err, 0, [])"
| "retryLoop cfg invoke expired attempt (Suc k) err =
     (let code = invoke attempt in
      if \<not> retryableCode code then (Returned code, 1, [])
      else if k = 0 then (Returned code, 1, [])
      else case expired attempt of
        Some e \<Rightarrow> (WaitFailed e, 1, [retryDelay cfg attempt])
      | None \<Rightarrow> (case retryLoop cfg invoke expired (Suc attempt) k code of
          (r, calls, delays) \<Rightarrow> (r, Suc calls, retryDelay cfg attempt # delays)))"

definition retryInterceptor :: "RetryPolicy \<Rightarrow> string option \<Rightarrow> string \<Rightarrow> (nat \<Rightarrow> clientCode) \<Rightarrow> (nat \<Rightarrow> goerr option) \<Rightarrow> callResult \<times> nat \<times> duration list" where
  "retryInterceptor cfg key rpc invoke expired =
     (if \<not> retryGRPCMethod key rpc (ryMethods cfg) then (Returned (invoke 1), 1, [])
      else retryLoop cfg invoke expired 1 (nat (ryMaxAttempts cfg)) ClientOK)"

section \<open>Calls of an HTTP client\<close>

record OutRequest =
  oqMethod :: string
  oqTarget :: string
  oqBody :: string
  oqHeaders :: "(string, string) gomap"

text \<open>The network, the URLs and the waits: \<open>oeDo sent rq\<close> answers \<open>rq\<close> after the requests \<open>sent\<close>.\<close>

record outEnv =
  oeParseBase :: "string \<Rightarrow> bool"
  oeResolve :: "string \<Rightarrow> string \<Rightarrow> string option"
  oeNewRequest :: "string \<Rightarrow> string \<Rightarrow> goerr option"
  oeDo :: "OutRequest list \<Rightarrow> OutRequest \<Rightarrow> int option result"
  oeExpired :: "nat \<Rightarrow> goerr option"

text \<open>\<open>httpTransport\<close>: its error, if any.\<close>

definition httpTransport :: "certificates \<Rightarrow> ClientTls \<Rightarrow> goerr option" where
  "httpTransport files cfg = firstError
     [if ctCAFile cfg = [] then None
      else (case ctfReadFile files (ctCAFile cfg) of
        Inl err \<Rightarrow> Some (Wrapf ''read outbound HTTP CA: '' err [])
      | Inr pem \<Rightarrow> reject (\<not> ctfAppendPEM files pem) ''parse outbound HTTP CA''),
      if ctCertFile cfg = [] then None
      else (case ctfLoadPair files (ctCertFile cfg) (ctKeyFile cfg) of
        Inl err \<Rightarrow> Some (Wrapf ''load outbound HTTP client certificate: '' err [])
      | Inr _ \<Rightarrow> None)]"

text \<open>\<open>NewHTTPClient\<close>: its error, if any. \<open>oeParseBase\<close> says whether a base URL has a scheme and a host.\<close>

definition NewHTTPClient :: "certificates \<Rightarrow> outEnv \<Rightarrow> HttpUpstream \<Rightarrow> goerr option" where
  "NewHTTPClient files env cfg = firstError
     [reject (caType (huAuth cfg) \<noteq> [] \<and> \<not> ctEnabled (huTLS cfg)) ''refusing to send outbound HTTP credentials without TLS'',
      reject (\<not> oeParseBase env (huBaseURL cfg)) (''parse outbound HTTP base URL '' @ goQuote (huBaseURL cfg)),
      httpTransport files (huTLS cfg)]"

definition retryableMethod :: "string option \<Rightarrow> string \<Rightarrow> bool" where
  "retryableMethod key verb \<longleftrightarrow> verb \<in> {''GET'', ''HEAD'', ''OPTIONS'', ''PUT'', ''DELETE''} \<or> key \<noteq> None"

definition retryableHTTPStatus :: "int \<Rightarrow> bool" where
  "retryableHTTPStatus st \<longleftrightarrow> st = 429 \<or> st = 502 \<or> st = 503 \<or> st = 504"

definition applyHTTPAuth :: "ClientAuth \<Rightarrow> (string, string) gomap \<Rightarrow> (string, string) gomap" where
  "applyHTTPAuth auth headers =
     (if caType auth = ''bearer'' then mapSet ''Authorization'' (''Bearer '' @ caToken auth) headers
      else if caType auth = ''psk'' then mapSet ''Authorization'' (''PSK '' @ caToken auth) headers
      else headers)"

definition outRequest :: "ClientAuth \<Rightarrow> string \<Rightarrow> string \<Rightarrow> string \<Rightarrow> (string, string) gomap \<Rightarrow> OutRequest" where
  "outRequest auth verb target body headers =
     \<lparr>oqMethod = verb, oqTarget = target, oqBody = body,
      oqHeaders = applyHTTPAuth auth
        (if body \<noteq> [] \<and> mapGetD [] headers ''Content-Type'' = [] then mapSet ''Content-Type'' ''application/json'' headers else headers)\<rparr>"

text \<open>
  The loop of \<open>doWithRetry\<close> with \<open>k\<close> attempts left; the requests sent so far are in \<open>sent\<close>. A missing
  response without an error is returned as it is.
\<close>

fun attemptLoop :: "outEnv \<Rightarrow> OutRequest \<Rightarrow> nat \<Rightarrow> nat \<Rightarrow> OutRequest list \<Rightarrow> int option result \<times> OutRequest list" where
  "attemptLoop env rq attempt 0 sent = (Inl (Opaque ''outbound HTTP attempts exhausted''), sent)"
| "attemptLoop env rq attempt (Suc k) sent =
     (case oeNewRequest env (oqMethod rq) (oqTarget rq) of
        Some err \<Rightarrow> (Inl (Wrapf ''create outbound HTTP request: '' err []), sent)
      | None \<Rightarrow>
          let answer = oeDo env sent rq; sent = sent @ [rq];
              again = (case oeExpired env attempt of Some e \<Rightarrow> (Inl e, sent) | None \<Rightarrow> attemptLoop env rq (Suc attempt) k sent) in
          (case answer of
             Inr response \<Rightarrow>
               if response = None \<or> \<not> retryableHTTPStatus (the response) \<or> k = 0 then (Inr response, sent) else again
           | Inl err \<Rightarrow> if k = 0 then (Inl (Wrapf ''call outbound HTTP service: '' err []), sent) else again))"

definition doWithRetry :: "outEnv \<Rightarrow> HttpUpstream \<Rightarrow> string option \<Rightarrow> string \<Rightarrow> string \<Rightarrow> string \<Rightarrow> (string, string) gomap \<Rightarrow> int option result \<times> OutRequest list" where
  "doWithRetry env cfg key verb requestPath body headers =
     (case oeResolve env (huBaseURL cfg) requestPath of
        None \<Rightarrow> (Inl (Opaque ''outbound HTTP path must be relative''), [])
      | Some target \<Rightarrow>
          attemptLoop env (outRequest (huAuth cfg) verb target body headers) 1
            (if retryableMethod key verb then nat (ryMaxAttempts (huRetry cfg)) else 1) [])"

text \<open>
  \<open>execute\<close>: with a circuit breaker, a status that counts as a failure is handed to it as an error
  and turned back into a response. The breaker is a parameter: it gets the outcome the call would
  have, with the requests it would send.
\<close>

datatype callError =
    StatusErr int
  | CallErr goerr

type_synonym guardedCall = "(callError + int option) \<times> OutRequest list"

definition breakerCall :: "int option result \<times> OutRequest list \<Rightarrow> guardedCall" where
  "breakerCall outcome =
     (case outcome of
        (Inl err, sent) \<Rightarrow> (Inl (CallErr err), sent)
      | (Inr (Some st), sent) \<Rightarrow> if retryableHTTPStatus st then (Inl (StatusErr st), sent) else (Inr (Some st), sent)
      | (Inr None, sent) \<Rightarrow> (Inr None, sent))"

definition execute :: "outEnv \<Rightarrow> (guardedCall \<Rightarrow> guardedCall) option \<Rightarrow> HttpUpstream \<Rightarrow> string option \<Rightarrow> string \<Rightarrow> string \<Rightarrow> string \<Rightarrow> (string, string) gomap \<Rightarrow> int option result \<times> OutRequest list" where
  "execute env breaker cfg key verb requestPath body headers =
     (let plain = doWithRetry env cfg key verb requestPath body headers in
      case breaker of
        None \<Rightarrow> plain
      | Some run \<Rightarrow> (case run (breakerCall plain) of
          (Inl (StatusErr st), sent) \<Rightarrow> (Inr (Some st), sent)
        | (Inl (CallErr err), sent) \<Rightarrow> (Inl err, sent)
        | (Inr response, sent) \<Rightarrow> (Inr response, sent)))"

section \<open>The registry\<close>

record Registry =
  rgHTTP :: "(string, HttpUpstream) gomap"
  rgGRPC :: "(string, ClientConfig) gomap"

fun httpClients :: "certificates \<Rightarrow> outEnv \<Rightarrow> (string \<times> HttpUpstream) list \<Rightarrow> (string, HttpUpstream) gomap \<Rightarrow> (string, HttpUpstream) gomap result" where
  "httpClients files env [] m = Inr m"
| "httpClients files env ((name, up) # rest) m =
     (case NewHTTPClient files env up of
        Some err \<Rightarrow> Inl (Wrapf (''create outbound HTTP client '' @ goQuote name @ '': '') err [])
      | None \<Rightarrow> httpClients files env rest (mapSet name up m))"

fun grpcClients :: "certificates \<Rightarrow> (string \<times> GrpcUpstream) list \<Rightarrow> (string, ClientConfig) gomap \<Rightarrow> (string, ClientConfig) gomap result" where
  "grpcClients files [] m = Inr m"
| "grpcClients files ((name, up) # rest) m =
     (case Dial files (clientConfig name up) of
        Some err \<Rightarrow> Inl (Wrapf (''create outbound gRPC client '' @ goQuote name @ '': '') err [])
      | None \<Rightarrow> grpcClients files rest (mapSet name (clientConfig name up) m))"

text \<open>\<open>NewRegistry\<close>; a client stands for its configuration. \<open>HTTP\<close> and \<open>GRPC\<close> look a client up.\<close>

definition NewRegistry :: "certificates \<Rightarrow> outEnv \<Rightarrow> Config \<Rightarrow> Registry result" where
  "NewRegistry files env cfg =
     bindR (httpClients files env (obHTTP (cfgOutbound cfg)) []) (\<lambda>http.
     bindR (grpcClients files (obGRPC (cfgOutbound cfg)) []) (\<lambda>grpc.
       Inr \<lparr>rgHTTP = http, rgGRPC = grpc\<rparr>))"

definition Registry_HTTP :: "Registry \<Rightarrow> string \<Rightarrow> HttpUpstream option" where
  "Registry_HTTP registry name = mapGet (rgHTTP registry) name"

definition Registry_GRPC :: "Registry \<Rightarrow> string \<Rightarrow> ClientConfig option" where
  "Registry_GRPC registry name = mapGet (rgGRPC registry) name"

end
