(* ===== verification/Interceptors.thy ===== *)
theory Interceptors
  imports Transports Outbound
begin

text \<open>
  The interceptors of the gRPC server, \<open>internal/transport/grpc/server.go\<close>, and the order in which
  \<open>NewServer\<close> chains them. An interceptor is a function from handlers to handlers; a handler answers
  with a response or a status, or panics. The authorization and the idempotency interceptor of the
  platform library are parameters. Metrics are the list of method and code of every counted call.

  Not modelled: log lines, the wait of \<open>stop\<close> for a graceful end.
\<close>

section \<open>Calls\<close>

record GrpcCall =
  gcMethod :: string
  gcMetadata :: "(string \<times> string) list"
  gcContext :: Context
  gcEnvironment :: string
  gcIdempotencyKey :: "string option"
  gcHeader :: "(string \<times> string) list"

datatype 'r outcome =
    Replied "GrpcStatus + 'r"
  | Panicked

type_synonym ('r, 's) handler = "GrpcCall \<Rightarrow> 's \<Rightarrow> 'r outcome \<times> 's"

text \<open>\<open>metadata.ValueFromIncomingContext\<close>; keys are in lower case.\<close>

definition valuesOf :: "string \<Rightarrow> GrpcCall \<Rightarrow> string list" where
  "valuesOf key gc = map snd (filter (\<lambda>p. fst p = key) (gcMetadata gc))"

section \<open>Unary interceptors\<close>

text \<open>The identifier of a call; \<open>generated\<close> is what \<open>requestid.Generate\<close> returns if it is called.\<close>

definition incomingID :: "string \<Rightarrow> GrpcCall \<Rightarrow> string" where
  "incomingID generated gc =
     (let vals = valuesOf ''x-request-id'' gc;
          i = (if vals \<noteq> [] \<and> requestid_Valid (hd vals) then hd vals else []) in
      if i = [] then generated else i)"

definition withRequestID :: "string \<Rightarrow> GrpcCall \<Rightarrow> GrpcCall" where
  "withRequestID i gc = gc\<lparr>gcContext := (gcContext gc)\<lparr>ctxRequestID := i\<rparr>\<rparr>"

text \<open>An error of \<open>grpc.SetHeader\<close> is dropped.\<close>

definition requestIDInterceptor :: "string \<Rightarrow> ('r, 's) handler \<Rightarrow> ('r, 's) handler" where
  "requestIDInterceptor generated handler gc s =
     (let i = incomingID generated gc in
      handler (withRequestID i (gc\<lparr>gcHeader := gcHeader gc @ [(''x-request-id'', i)]\<rparr>)) s)"

definition idempotencyInterceptor :: "(string \<Rightarrow> bool) \<Rightarrow> ('r, 's) handler \<Rightarrow> ('r, 's) handler" where
  "idempotencyInterceptor valid handler gc s =
     (let vals = valuesOf ''idempotency-key'' gc in
      if vals = [] then handler gc s
      else if \<not> valid (hd vals) then (Replied (Inl (statusError InvalidArgument ''invalid idempotency-key'')), s)
      else handler (gc\<lparr>gcIdempotencyKey := Some (hd vals)\<rparr>) s)"

definition environmentInterceptor :: "string \<Rightarrow> ('r, 's) handler \<Rightarrow> ('r, 's) handler" where
  "environmentInterceptor profile handler gc s = handler (gc\<lparr>gcEnvironment := profile\<rparr>) s"

definition authInterceptor :: "jwtlib \<Rightarrow> AuthService \<Rightarrow> AuthConfig \<Rightarrow> ('r, 's) handler \<Rightarrow> ('r, 's) handler" where
  "authInterceptor jl service cfg handler gc s =
     (case authenticateGRPC jl (gcContext gc) (valuesOf ''authorization'' gc) (gcMethod gc) service cfg of
        Inl st \<Rightarrow> (Replied (Inl st), s)
      | Inr ctx \<Rightarrow> handler (gc\<lparr>gcContext := ctx\<rparr>) s)"

definition recoveryInterceptor :: "('r, 's) handler \<Rightarrow> ('r, 's) handler" where
  "recoveryInterceptor handler gc s =
     (case handler gc s of
        (Panicked, s') \<Rightarrow> (Replied (Inl (statusError Internal ''internal server error'')), s')
      | res \<Rightarrow> res)"

text \<open>\<open>status.Code\<close> of an answer, \<open>None\<close> being \<open>OK\<close>.\<close>

type_synonym observation = "string \<times> GrpcCode option"

definition statusCode :: "GrpcStatus + 'r \<Rightarrow> GrpcCode option" where
  "statusCode res = (case res of Inl st \<Rightarrow> Some (stCode st) | Inr _ \<Rightarrow> None)"

definition metricsInterceptor :: "bool \<Rightarrow> ('r, 's) handler \<Rightarrow> ('r, 's \<times> observation list) handler" where
  "metricsInterceptor enabled handler gc st =
     (case handler gc (fst st) of
        (Panicked, s') \<Rightarrow> (Panicked, s', snd st)
      | (Replied res, s') \<Rightarrow>
          (Replied res, s', snd st @ (if enabled then [(gcMethod gc, statusCode res)] else [])))"

section \<open>The chains of the server\<close>

text \<open>
  What the chains take from outside: the verifier, the full name of an RPC, the validity of a key,
  the two interceptors of the platform library, whether metrics are on, and a fresh identifier.
\<close>

record ('r, 's) platform =
  pfJwt :: jwtlib
  pfService :: AuthService
  pfFullName :: "string \<Rightarrow> string"
  pfValidKey :: "string \<Rightarrow> bool"
  pfAuthorize :: "(string \<Rightarrow> Requirement option) \<Rightarrow> ('r, 's) handler \<Rightarrow> ('r, 's) handler"
  pfIdempotency :: "string list \<Rightarrow> ('r, 's) handler \<Rightarrow> ('r, 's) handler"
  pfMetrics :: bool
  pfGenerated :: string

definition unaryChain :: "('r, 's \<times> observation list) platform \<Rightarrow> Config \<Rightarrow> ('r, 's) handler \<Rightarrow> ('r, 's \<times> observation list) handler" where
  "unaryChain pf cfg handler =
     environmentInterceptor (rnActiveProfile (cfgRuntime cfg))
     (requestIDInterceptor (pfGenerated pf)
     (idempotencyInterceptor (pfValidKey pf)
     (recoveryInterceptor
     (authInterceptor (pfJwt pf) (pfService pf) (cfgAuth cfg)
     (pfAuthorize pf (workflowGRPCRequirement (pfFullName pf) (aznEnabled (cfgAuthorization cfg)))
     (pfIdempotency pf (idmGRPCMethods (cfgIdempotency cfg))
     (metricsInterceptor (pfMetrics pf) handler)))))))"

text \<open>The interceptors of streams. \<open>sent\<close> is the error of \<open>stream.SetHeader\<close>, if any.\<close>

definition environmentStreamInterceptor :: "string \<Rightarrow> ('r, 's) handler \<Rightarrow> ('r, 's) handler" where
  "environmentStreamInterceptor profile handler stream s = handler (stream\<lparr>gcEnvironment := profile\<rparr>) s"

definition requestIDStreamInterceptor :: "string \<Rightarrow> goerr option \<Rightarrow> ('r, 's) handler \<Rightarrow> ('r, 's) handler" where
  "requestIDStreamInterceptor generated sent handler stream s =
     (let i = incomingID generated stream in
      case sent of
        Some err \<Rightarrow> (Replied (Inl (statusError Internal ''set request metadata'')), s)
      | None \<Rightarrow> handler (withRequestID i (stream\<lparr>gcHeader := gcHeader stream @ [(''x-request-id'', i)]\<rparr>)) s)"

definition idempotencyStreamInterceptor :: "(string \<Rightarrow> bool) \<Rightarrow> ('r, 's) handler \<Rightarrow> ('r, 's) handler" where
  "idempotencyStreamInterceptor valid handler stream s =
     (let vals = valuesOf ''idempotency-key'' stream in
      if vals = [] then handler stream s
      else if \<not> valid (hd vals) then (Replied (Inl (statusError InvalidArgument ''invalid idempotency-key'')), s)
      else handler (stream\<lparr>gcIdempotencyKey := Some (hd vals)\<rparr>) s)"

definition authStreamInterceptor :: "jwtlib \<Rightarrow> AuthService \<Rightarrow> AuthConfig \<Rightarrow> ('r, 's) handler \<Rightarrow> ('r, 's) handler" where
  "authStreamInterceptor jl service cfg handler stream s =
     (case authenticateGRPC jl (gcContext stream) (valuesOf ''authorization'' stream) (gcMethod stream) service cfg of
        Inl st \<Rightarrow> (Replied (Inl st), s)
      | Inr ctx \<Rightarrow> handler (stream\<lparr>gcContext := ctx\<rparr>) s)"

definition recoveryStreamInterceptor :: "('r, 's) handler \<Rightarrow> ('r, 's) handler" where
  "recoveryStreamInterceptor handler stream s =
     (case handler stream s of
        (Panicked, s') \<Rightarrow> (Replied (Inl (statusError Internal ''internal server error'')), s')
      | res \<Rightarrow> res)"

definition metricsStreamInterceptor :: "bool \<Rightarrow> ('r, 's) handler \<Rightarrow> ('r, 's \<times> observation list) handler" where
  "metricsStreamInterceptor enabled handler stream st =
     (case handler stream (fst st) of
        (Panicked, s') \<Rightarrow> (Panicked, s', snd st)
      | (Replied res, s') \<Rightarrow>
          (Replied res, s', snd st @ (if enabled then [(gcMethod stream, statusCode res)] else [])))"

definition streamChain :: "('r, 's \<times> observation list) platform \<Rightarrow> goerr option \<Rightarrow> Config \<Rightarrow> ('r, 's) handler \<Rightarrow> ('r, 's \<times> observation list) handler" where
  "streamChain pf sent cfg handler =
     environmentStreamInterceptor (rnActiveProfile (cfgRuntime cfg))
     (requestIDStreamInterceptor (pfGenerated pf) sent
     (idempotencyStreamInterceptor (pfValidKey pf)
     (recoveryStreamInterceptor
     (authStreamInterceptor (pfJwt pf) (pfService pf) (cfgAuth cfg)
     (metricsStreamInterceptor (pfMetrics pf) handler)))))"

section \<open>The server\<close>

definition serverCredentials :: "certificates \<Rightarrow> GrpcTls \<Rightarrow> bool result" where
  "serverCredentials files cfg =
     (case ctfLoadPair files (gtlsCertFile cfg) (gtlsKeyFile cfg) of
        Inl err \<Rightarrow> Inl (Wrapf ''load grpc certificate: '' err [])
      | Inr _ \<Rightarrow>
          if gtlsClientCAFile cfg = [] then Inr False
          else case ctfReadFile files (gtlsClientCAFile cfg) of
            Inl err \<Rightarrow> Inl (Wrapf ''read grpc client CA: '' err [])
          | Inr pem \<Rightarrow> if \<not> ctfAppendPEM files pem then Inl (Opaque ''parse grpc client CA'') else Inr True)"

text \<open>
  The server \<open>NewServer\<close> builds: its transport credentials, where the value says whether client
  certificates are required and verified, and the services registered with it.
\<close>

record GrpcServer =
  gsCredentials :: "bool option"
  gsServices :: "string list"

definition Grpc_NewServer :: "certificates \<Rightarrow> Config \<Rightarrow> bool \<Rightarrow> GrpcServer result" where
  "Grpc_NewServer files cfg workflowService =
     bindR (if gtlsEnabled (grpcTLS (cfgGRPC cfg)) then bindR (serverCredentials files (grpcTLS (cfgGRPC cfg))) (\<lambda>v. Inr (Some v)) else Inr None)
       (\<lambda>creds. Inr \<lparr>gsCredentials = creds,
          gsServices = (if workflowService then [''workflow''] else []) @ [''health''] @ (if grpcReflectionEnabled (cfgGRPC cfg) then [''reflection''] else [])\<rparr>)"

text \<open>\<open>Server.start\<close>: whether it serves; \<open>listen\<close> is the outcome of \<open>net.Listen\<close>.\<close>

definition Grpc_start :: "bool \<Rightarrow> unit result \<Rightarrow> bool result" where
  "Grpc_start enabled listen =
     (if \<not> enabled then Inr False
      else case listen of Inl err \<Rightarrow> Inl (Wrapf ''listen grpc: '' err []) | Inr _ \<Rightarrow> Inr True)"

text \<open>\<open>healthServer.List\<close>: the status of the one service it names, whether it serves.\<close>

definition Health_List :: "(string \<times> bool) list" where
  "Health_List = [([], True)]"

section \<open>Streams are treated as unary calls\<close>

lemma stream_interceptors:
  "environmentStreamInterceptor p = environmentInterceptor p"
  "requestIDStreamInterceptor g None = requestIDInterceptor g"
  "idempotencyStreamInterceptor valid = idempotencyInterceptor valid"
  "authStreamInterceptor jl service cfg = authInterceptor jl service cfg"
  "recoveryStreamInterceptor = recoveryInterceptor"
  "metricsStreamInterceptor m = metricsInterceptor m"
  by (simp_all add: fun_eq_iff environmentStreamInterceptor_def environmentInterceptor_def requestIDStreamInterceptor_def requestIDInterceptor_def
      idempotencyStreamInterceptor_def idempotencyInterceptor_def authStreamInterceptor_def authInterceptor_def
      recoveryStreamInterceptor_def recoveryInterceptor_def metricsStreamInterceptor_def metricsInterceptor_def)

section \<open>Reaching a handler\<close>

text \<open>
  What the server relies on of the platform library. The authorization interceptor answers a call
  with a status, or passes it on once the requirement of its method was granted; the idempotency
  interceptor answers a call itself, or passes it on and gives the answer back. Both keep the method,
  the caller and the request identifier of what they pass on, and neither changes the state itself.
\<close>

definition sameCaller :: "GrpcCall \<Rightarrow> GrpcCall \<Rightarrow> bool" where
  "sameCaller a b \<longleftrightarrow> gcMethod a = gcMethod b \<and> ctxPrincipal (gcContext a) = ctxPrincipal (gcContext b)
     \<and> ctxRequestID (gcContext a) = ctxRequestID (gcContext b)"

definition enforcing :: "(GrpcCall \<Rightarrow> Requirement \<Rightarrow> bool) \<Rightarrow> ((string \<Rightarrow> Requirement option) \<Rightarrow> ('r, 's) handler \<Rightarrow> ('r, 's) handler) \<Rightarrow> bool" where
  "enforcing granted gate \<longleftrightarrow> (\<forall>resolve h gc s.
     (\<exists>st. gate resolve h gc s = (Replied (Inl st), s))
     \<or> (\<forall>rq. resolve (gcMethod gc) = Some rq \<longrightarrow> granted gc rq) \<and> (\<exists>gc'. sameCaller gc' gc \<and> gate resolve h gc s = h gc' s))"

definition deduplicating :: "(string list \<Rightarrow> ('r, 's) handler \<Rightarrow> ('r, 's) handler) \<Rightarrow> bool" where
  "deduplicating dedupe \<longleftrightarrow> (\<forall>methods h gc s.
     (\<exists>res. dedupe methods h gc s = (Replied res, s)) \<or> (\<exists>gc'. sameCaller gc' gc \<and> dedupe methods h gc s = h gc' s))"

text \<open>A panic is answered as an internal error.\<close>

definition recovered :: "'r outcome \<Rightarrow> GrpcStatus + 'r" where
  "recovered r = (case r of Panicked \<Rightarrow> Inl (statusError Internal ''internal server error'') | Replied res \<Rightarrow> res)"

lemma recoveryInterceptor_eq: "recoveryInterceptor h gc s = (Replied (recovered (fst (h gc s))), snd (h gc s))"
  by (simp add: recoveryInterceptor_def recovered_def split: prod.splits outcome.splits)

lemma metrics_state:
  "metricsInterceptor m h gc (s, obs) = (fst (h gc s), snd (h gc s),
     obs @ (case fst (h gc s) of Panicked \<Rightarrow> [] | Replied res \<Rightarrow> if m then [(gcMethod gc, statusCode res)] else []))"
  by (simp add: metricsInterceptor_def split: prod.splits outcome.splits)

lemma idempotency_passes:
  "(\<exists>res. idempotencyInterceptor valid h gc s = (Replied res, s))
   \<or> (\<exists>gc'. idempotencyInterceptor valid h gc s = h gc' s \<and> gcMethod gc' = gcMethod gc \<and> gcMetadata gc' = gcMetadata gc
       \<and> gcContext gc' = gcContext gc)"
proof -
  let ?vals = "valuesOf ''idempotency-key'' gc"
  consider "?vals = []" | "?vals \<noteq> []" "\<not> valid (hd ?vals)" | "?vals \<noteq> []" "valid (hd ?vals)" by blast
  then show ?thesis
  proof cases
    case 3
    then have "idempotencyInterceptor valid h gc s = h (gc\<lparr>gcIdempotencyKey := Some (hd ?vals)\<rparr>) s"
      by (simp add: idempotencyInterceptor_def Let_def)
    then show ?thesis by (intro disjI2 exI [of _ "gc\<lparr>gcIdempotencyKey := Some (hd ?vals)\<rparr>"]) simp
  qed (auto simp: idempotencyInterceptor_def Let_def)
qed

lemma authenticateGRPC_request: "authenticateGRPC jl ctx vals rpc service cfg = Inr ctx' \<Longrightarrow> ctxRequestID ctx' = ctxRequestID ctx"
  by (auto simp: authenticateGRPC_def split: if_splits prod.splits sum.splits)

lemma identified_as:
  assumes "authenticateGRPC jl (ctx\<lparr>ctxRequestID := i\<rparr>) vals rpc service cfg = Inr ctx'"
  shows "MatchesAny rpc (authSkipGRPCMethods cfg) \<and> ctxPrincipal ctx' = ctxPrincipal ctx \<and> \<not> (pskEnabled (authPSK cfg) \<and> MatchesAny rpc (pskGRPCMethods (authPSK cfg)))
    \<or> callKeyVerified cfg rpc vals \<and> ctxPrincipal ctx' = Some (pskPrincipal jl)
    \<or> (\<exists>identity. callTokenVerified jl service (ctx\<lparr>ctxRequestID := i\<rparr>) vals identity \<and> ctxPrincipal ctx' = Some identity)"
  using authenticateGRPC_Inr [OF assms] by auto

text \<open>The part of the chain behind the authentication.\<close>

lemma permitted_call:
  assumes "enforcing granted gate" and "deduplicating dedupe"
  shows "(\<exists>res. gate resolve (dedupe methods (metricsInterceptor m h)) gc st = (Replied res, st))
    \<or> (\<forall>rq. resolve (gcMethod gc) = Some rq \<longrightarrow> granted gc rq)
      \<and> (\<exists>gc'. sameCaller gc' gc \<and> gate resolve (dedupe methods (metricsInterceptor m h)) gc st = metricsInterceptor m h gc' st)"
proof -
  let ?inner = "dedupe methods (metricsInterceptor m h)"
  consider st' where "gate resolve ?inner gc st = (Replied (Inl st'), st)"
    | c where "\<forall>rq. resolve (gcMethod gc) = Some rq \<longrightarrow> granted gc rq" "sameCaller c gc" "gate resolve ?inner gc st = ?inner c st"
    using assms(1) unfolding enforcing_def by blast
  then show ?thesis
  proof cases
    case 2
    have "(\<exists>res. ?inner c st = (Replied res, st)) \<or> (\<exists>c'. sameCaller c' c \<and> ?inner c st = metricsInterceptor m h c' st)"
      using assms(2) unfolding deduplicating_def by blast
    with 2 show ?thesis by (auto simp: sameCaller_def)
  qed blast
qed

lemma auth_passes:
  "(\<exists>res. authInterceptor jl service cfg h gc s = (Replied res, s))
   \<or> (\<exists>ctx. authenticateGRPC jl (gcContext gc) (valuesOf ''authorization'' gc) (gcMethod gc) service cfg = Inr ctx
       \<and> ctxRequestID ctx = ctxRequestID (gcContext gc) \<and> authInterceptor jl service cfg h gc s = h (gc\<lparr>gcContext := ctx\<rparr>) s)"
  unfolding authInterceptor_def
  by (cases "authenticateGRPC jl (gcContext gc) (valuesOf ''authorization'' gc) (gcMethod gc) service cfg") (auto dest: authenticateGRPC_request)

text \<open>The part of the chain that starts with the authentication.\<close>

lemma identified_call:
  fixes h :: "('r, 's) handler"
  assumes "enforcing granted gate" and "deduplicating dedupe"
    and inner_def: "inner = authInterceptor jl service acfg (gate resolve (dedupe methods (metricsInterceptor m h)))"
  shows "(\<exists>res. inner gc st = (Replied res, st))
    \<or> (\<exists>ctx c gc'. authenticateGRPC jl (gcContext gc) (valuesOf ''authorization'' gc) (gcMethod gc) service acfg = Inr ctx
        \<and> inner gc st = metricsInterceptor m h gc' st \<and> gcMethod gc' = gcMethod gc \<and> ctxPrincipal (gcContext gc') = ctxPrincipal ctx
        \<and> ctxRequestID (gcContext gc') = ctxRequestID (gcContext gc)
        \<and> sameCaller c gc' \<and> (\<forall>rq. resolve (gcMethod gc) = Some rq \<longrightarrow> granted c rq))"
proof (cases "\<exists>res. inner gc st = (Replied res, st)")
  case False
  then obtain ctx where ctx: "authenticateGRPC jl (gcContext gc) (valuesOf ''authorization'' gc) (gcMethod gc) service acfg = Inr ctx"
      "ctxRequestID ctx = ctxRequestID (gcContext gc)"
      "inner gc st = gate resolve (dedupe methods (metricsInterceptor m h)) (gc\<lparr>gcContext := ctx\<rparr>) st"
    using auth_passes unfolding inner_def by metis
  with False permitted_call [OF assms(1,2), of resolve methods m h "gc\<lparr>gcContext := ctx\<rparr>" st]
  obtain gc' where gc': "sameCaller gc' (gc\<lparr>gcContext := ctx\<rparr>)" "inner gc st = metricsInterceptor m h gc' st"
      "\<forall>rq. resolve (gcMethod gc) = Some rq \<longrightarrow> granted (gc\<lparr>gcContext := ctx\<rparr>) rq"
    by auto
  then have "gcMethod gc' = gcMethod gc" "ctxPrincipal (gcContext gc') = ctxPrincipal ctx"
      "ctxRequestID (gcContext gc') = ctxRequestID (gcContext gc)" "sameCaller (gc\<lparr>gcContext := ctx\<rparr>) gc'"
    using ctx(2) by (simp_all add: sameCaller_def)
  with ctx(1) gc'(2,3) show ?thesis by blast
qed simp

text \<open>
  C15: nobody reaches a handler of the gRPC server unidentified or unauthorized, and a handler that
  panics does not end the server. A unary call is always answered. Either it leaves the state as it
  was, or the handler ran once on it; then the method is exempt by a configured pattern, does not take
  the shared key, and the caller is the one of the incoming context; or the metadata carried the
  configured shared key on a method that takes it; or the metadata carried a bearer token that the
  verifier accepted; the handler sees exactly that identity and the request identifier of the call; and
  the answer is the handler's, an internal error if it panicked. Given that the authorization
  interceptor of the platform library enforces what it is asked to, the permission that the table of the
  service requires for the method was granted to the same caller.
\<close>

theorem grpc_handler_reached:
  assumes "enforcing granted (pfAuthorize pf)" and "deduplicating (pfIdempotency pf)"
    and "unaryChain pf cfg handler gc (s, obs) = (reply, s', obs')"
  shows "(\<exists>res. reply = Replied res) \<and> (s' = s \<and> obs' = obs
    \<or> (\<exists>gc' c r. handler gc' s = (r, s') \<and> reply = Replied (recovered r) \<and> gcMethod gc' = gcMethod gc
        \<and> (MatchesAny (gcMethod gc) (authSkipGRPCMethods (cfgAuth cfg)) \<and> ctxPrincipal (gcContext gc') = ctxPrincipal (gcContext gc)
              \<and> \<not> (pskEnabled (authPSK (cfgAuth cfg)) \<and> MatchesAny (gcMethod gc) (pskGRPCMethods (authPSK (cfgAuth cfg))))
           \<or> callKeyVerified (cfgAuth cfg) (gcMethod gc) (valuesOf ''authorization'' gc) \<and> ctxPrincipal (gcContext gc') = Some (pskPrincipal (pfJwt pf))
           \<or> (\<exists>identity. callTokenVerified (pfJwt pf) (pfService pf) ((gcContext gc)\<lparr>ctxRequestID := incomingID (pfGenerated pf) gc\<rparr>)
                (valuesOf ''authorization'' gc) identity \<and> ctxPrincipal (gcContext gc') = Some identity))
        \<and> ctxRequestID (gcContext gc') = incomingID (pfGenerated pf) gc
        \<and> sameCaller c gc' \<and> (\<forall>rq. workflowGRPCRequirement (pfFullName pf) (aznEnabled (cfgAuthorization cfg)) (gcMethod gc) = Some rq
            \<longrightarrow> granted c rq)))"
proof -
  let ?i = "incomingID (pfGenerated pf) gc"
  let ?resolve = "workflowGRPCRequirement (pfFullName pf) (aznEnabled (cfgAuthorization cfg))"
  let ?auth = "authInterceptor (pfJwt pf) (pfService pf) (cfgAuth cfg) (pfAuthorize pf ?resolve
    (pfIdempotency pf (idmGRPCMethods (cfgIdempotency cfg)) (metricsInterceptor (pfMetrics pf) handler)))"
  define g where "g = withRequestID ?i (gc\<lparr>gcEnvironment := rnActiveProfile (cfgRuntime cfg), gcHeader := gcHeader gc @ [(''x-request-id'', ?i)]\<rparr>)"
  have g: "gcMethod g = gcMethod gc" "gcMetadata g = gcMetadata gc" "gcContext g = (gcContext gc)\<lparr>ctxRequestID := ?i\<rparr>"
    by (simp_all add: g_def withRequestID_def)
  have chain: "idempotencyInterceptor (pfValidKey pf) (recoveryInterceptor ?auth) g (s, obs) = (reply, s', obs')"
    using assms(3) by (simp add: unaryChain_def environmentInterceptor_def requestIDInterceptor_def g_def Let_def incomingID_def valuesOf_def)
  show ?thesis
  proof (cases "\<exists>res. (reply, s', obs') = (Replied res, s, obs)")
    case False
    then obtain g2 where g2: "recoveryInterceptor ?auth g2 (s, obs) = (reply, s', obs')" "gcMethod g2 = gcMethod gc"
        "valuesOf ''authorization'' g2 = valuesOf ''authorization'' gc" "gcContext g2 = (gcContext gc)\<lparr>ctxRequestID := ?i\<rparr>"
      using idempotency_passes [of "pfValidKey pf" "recoveryInterceptor ?auth" g "(s, obs)"] chain g
      by (auto simp: valuesOf_def)
    then have out: "reply = Replied (recovered (fst (?auth g2 (s, obs))))" "(s', obs') = snd (?auth g2 (s, obs))"
      by (simp_all add: recoveryInterceptor_eq)
    have "?auth g2 (s, obs) \<noteq> (Replied res, s, obs)" for res
      using False out by (auto simp: recovered_def)
    with identified_call [OF assms(1,2) refl, of "pfJwt pf" "pfService pf" "cfgAuth cfg" ?resolve "idmGRPCMethods (cfgIdempotency cfg)"
      "pfMetrics pf" handler g2 "(s, obs)"] g2(2-4)
    obtain ctx c gc' where gc': "authenticateGRPC (pfJwt pf) ((gcContext gc)\<lparr>ctxRequestID := ?i\<rparr>) (valuesOf ''authorization'' gc)
          (gcMethod gc) (pfService pf) (cfgAuth cfg) = Inr ctx"
        "?auth g2 (s, obs) = metricsInterceptor (pfMetrics pf) handler gc' (s, obs)" "gcMethod gc' = gcMethod gc"
        "ctxPrincipal (gcContext gc') = ctxPrincipal ctx" "ctxRequestID (gcContext gc') = ?i" "sameCaller c gc'"
        "\<forall>rq. ?resolve (gcMethod gc) = Some rq \<longrightarrow> granted c rq"
      by auto
    have "handler gc' s = (fst (handler gc' s), s')" "reply = Replied (recovered (fst (handler gc' s)))"
      using out gc'(2) by (simp_all add: metrics_state prod_eq_iff)
    with gc'(3,5-7) identified_as [OF gc'(1), folded gc'(4)] show ?thesis by simp blast
  qed auto
qed

definition samplePlatform :: "(unit, nat \<times> observation list) platform" where
  "samplePlatform = \<lparr>pfJwt = sampleJwt, pfService = sampleAuth, pfFullName = (\<lambda>n. ''/workflow/'' @ n), pfValidKey = (\<lambda>k. 8 \<le> length k),
     pfAuthorize = (\<lambda>resolve h gc s. if ctxPrincipal (gcContext gc) = None then (Replied (Inl (statusError PermissionDenied ''denied'')), s) else h gc s),
     pfIdempotency = (\<lambda>methods h. h), pfMetrics = True, pfGenerated = ''g-1''\<rparr>"

definition sampleCall :: GrpcCall where
  "sampleCall = \<lparr>gcMethod = ''/workflow/ClaimTask'', gcMetadata = [(''authorization'', ''Bearer u1''), (''x-request-id'', ''r-1'')],
     gcContext = \<lparr>ctxPrincipal = None, ctxRequestID = [], ctxTraceID = []\<rparr>, gcEnvironment = [], gcIdempotencyKey = None, gcHeader = []\<rparr>"

definition sampleHandler :: "(unit, nat) handler" where
  "sampleHandler gc n = (Replied (Inr ()), n + 1)"

lemma sample_platform_laws: "enforcing (\<lambda>gc rq. ctxPrincipal (gcContext gc) \<noteq> None) (pfAuthorize samplePlatform)" "deduplicating (pfIdempotency samplePlatform)"
  by (auto simp: enforcing_def deduplicating_def sameCaller_def samplePlatform_def)

lemma sample_id: "requestid_Valid ''r-1''"
  by code_simp

lemma sample_skip: "\<not> MatchesAny ''/workflow/ClaimTask'' (authSkipGRPCMethods (cfgAuth defaultConfig))"
  by (simp add: defaultConfig_def defaultSecurity_def case_prod_beta) code_simp

lemma sample_unary: "unaryChain samplePlatform authorizedConfig sampleHandler sampleCall (0, []) = (Replied (Inr ()), 1, [(''/workflow/ClaimTask'', None)])"
  by (simp add: unaryChain_def environmentInterceptor_def requestIDInterceptor_def idempotencyInterceptor_def recoveryInterceptor_def
      authInterceptor_def authenticateGRPC_def samplePlatform_def sampleCall_def valuesOf_def withRequestID_def incomingID_def sample_id
      metricsInterceptor_def sampleHandler_def authorizedConfig_def default_auth sample_skip [simplified] sample_header Auth_Verify_def sampleAuth_def statusCode_def)

theorem grpc_handler_reached_witness:
  "\<exists>gc' c identity. sampleHandler gc' 0 = (Replied (Inr ()), 1) \<and> ctxRequestID (gcContext gc') = incomingID ''g-1'' sampleCall
     \<and> callTokenVerified sampleJwt sampleAuth ((gcContext sampleCall)\<lparr>ctxRequestID := incomingID ''g-1'' sampleCall\<rparr>) [''Bearer u1''] identity
     \<and> ctxPrincipal (gcContext gc') = Some identity \<and> sameCaller c gc' \<and> ctxPrincipal (gcContext c) \<noteq> None"
proof -
  have "\<not> MatchesAny (gcMethod sampleCall) (authSkipGRPCMethods (cfgAuth authorizedConfig))" "\<not> pskEnabled (authPSK (cfgAuth authorizedConfig))"
    using sample_skip by (simp_all add: sampleCall_def authorizedConfig_def default_auth)
  moreover have "valuesOf ''authorization'' sampleCall = [''Bearer u1'']" "pfGenerated samplePlatform = ''g-1''" "pfJwt samplePlatform = sampleJwt" "pfService samplePlatform = sampleAuth"
    by (simp_all add: sampleCall_def valuesOf_def samplePlatform_def)
  moreover have "workflowGRPCRequirement (pfFullName samplePlatform) (aznEnabled (cfgAuthorization authorizedConfig)) (gcMethod sampleCall) \<noteq> None"
    by (simp add: workflowGRPCRequirement_def authorizedConfig_def samplePlatform_def sampleCall_def rpcRequirements_def)
  ultimately show ?thesis using grpc_handler_reached [OF sample_platform_laws sample_unary]
    by (auto simp: sampleHandler_def callKeyVerified_def)
qed

section \<open>Calls of the program's own clients\<close>

text \<open>
  C39: what a client of \<open>internal/grpcclient\<close> puts into the metadata of a call, the server reads back.
  With the server's shared key as the client's, on a method that takes it, the call passes the
  interceptors and the handler sees the service account, the request identifier and the idempotency
  key of the client; the identifier is also sent back.
\<close>

theorem client_call_accepted:
  assumes "gcMetadata gc = metadataPairs [] key i (Some k)" and "requestid_Valid i" and "valid k"
    and "key \<noteq> []" and "pskKey (authPSK cfg) = key" and "pskEnabled (authPSK cfg)" and "MatchesAny (gcMethod gc) (pskGRPCMethods (authPSK cfg))"
  shows "requestIDInterceptor g (idempotencyInterceptor valid (authInterceptor jl service cfg handler)) gc s =
    handler (gc\<lparr>gcHeader := gcHeader gc @ [(''x-request-id'', i)], gcIdempotencyKey := Some k,
      gcContext := (gcContext gc)\<lparr>ctxRequestID := i, ctxPrincipal := Some (pskPrincipal jl)\<rparr>\<rparr>) s"
proof -
  have "i \<noteq> []" using assms(2) by (auto simp: requestid_Valid_def)
  then have vals: "valuesOf ''authorization'' gc = [''PSK '' @ key]" "valuesOf ''x-request-id'' gc = [i]" "valuesOf ''idempotency-key'' gc = [k]"
    using assms(1,4) by (simp_all add: valuesOf_def metadataPairs_def)
  have fold: "equalFold ''PSK'' ''psk''" by code_simp
  have "VerifyPSK (''PSK '' @ key) key"
    using assms(4) fold by (simp add: VerifyPSK_def cutSpace_def)
  with vals assms \<open>i \<noteq> []\<close> show ?thesis
    by (simp add: requestIDInterceptor_def idempotencyInterceptor_def authInterceptor_def authenticateGRPC_def incomingID_def withRequestID_def valuesOf_def)
qed

definition keyAuth :: AuthConfig where
  "keyAuth = (cfgAuth defaultConfig)\<lparr>authPSK := \<lparr>pskEnabled = True, pskKey = ''secret'', pskHTTPPaths = [], pskGRPCMethods = [''/workflow/*'']\<rparr>\<rparr>"

definition clientCall :: GrpcCall where
  "clientCall = sampleCall\<lparr>gcMetadata := metadataPairs [] ''secret'' ''r-1'' (Some ''key-0001'')\<rparr>"

theorem client_call_accepted_witness:
  "requestIDInterceptor ''g-1'' (idempotencyInterceptor (\<lambda>k. 8 \<le> length k) (authInterceptor sampleJwt sampleAuth keyAuth
     (\<lambda>gc n. (Replied (Inr (gcIdempotencyKey gc, ctxRequestID (gcContext gc))), n)))) clientCall (0 :: nat)
   = (Replied (Inr (Some ''key-0001'', ''r-1'')), 0)"
proof -
  have "MatchesAny ''/workflow/ClaimTask'' [''/workflow/*'']" by code_simp
  then have "MatchesAny (gcMethod clientCall) (pskGRPCMethods (authPSK keyAuth))"
    unfolding clientCall_def sampleCall_def keyAuth_def by simp
  from client_call_accepted [of clientCall "''secret''" "''r-1''" "''key-0001''" "\<lambda>k. 8 \<le> length k" keyAuth "''g-1''" sampleJwt sampleAuth
      "\<lambda>gc n. (Replied (Inr (gcIdempotencyKey gc, ctxRequestID (gcContext gc))), n)" "0 :: nat", OF _ sample_id _ _ _ _ this]
  show ?thesis by (simp add: clientCall_def keyAuth_def)
qed

end
