(* ===== verification/Interference.thy ===== *)
theory Interference
  imports Atomicity
begin

text \<open>
  Operations on a task do not run alone. The service reads the task and decides whether the caller
  may act on it outside of any transaction; the transaction that changes the task comes later, and
  requests of others, activities and clean-ups may run in between. Here an operation is two phases
  with any steps of the system between them, and the version in the condition of the update is
  shown to make the decision hold for the row that is changed.
\<close>

section \<open>An operation in two phases\<close>

text \<open>
  \<open>interleaved ... w w1 w2\<close>: the check of an operation ran in \<open>w\<close> and read \<open>task\<close>, others took the
  database to that of \<open>w1\<close>, and the transaction took \<open>w1\<close> to \<open>w2\<close>.
\<close>

inductive interleaved :: "deps \<Rightarrow> authz \<Rightarrow> rtdeps \<Rightarrow> Context \<Rightarrow> string \<Rightarrow> string \<Rightarrow> string \<Rightarrow> string \<Rightarrow> Task \<Rightarrow> world \<Rightarrow> world \<Rightarrow> world \<Rightarrow> bool"
  for d az rt ctx tn ap i where
  claim: "authorizedTask d az ctx tn ap i w = (Inr (actor, task), w0) \<Longrightarrow> 1 \<le> ver \<Longrightarrow> taskVersion task = ver \<Longrightarrow> steps d az rt w0 w1
    \<Longrightarrow> ClaimTask tn ap i ver actor w1 = (r, w2) \<Longrightarrow> interleaved d az rt ctx tn ap i actor task w w1 w2"
| complete: "authorizedTask d az ctx tn ap i w = (Inr (actor, task), w0) \<Longrightarrow> 1 \<le> ver \<Longrightarrow> taskVersion task = ver \<Longrightarrow> oneOf decision [DecisionApprove, DecisionReject]
    \<Longrightarrow> steps d az rt w0 w1
    \<Longrightarrow> CompleteTask d ctx task decision (TrimSpace comment) (defaultJSONObject out) actor w1 = (r, w2) \<Longrightarrow> interleaved d az rt ctx tn ap i actor task w w1 w2"
| delegate: "authorizedTask d az ctx tn ap i w = (Inr (actor, task), w0) \<Longrightarrow> 1 \<le> ver \<Longrightarrow> taskVersion task = ver \<Longrightarrow> steps d az rt w0 w1
    \<Longrightarrow> DelegateTask task (TrimSpace delegateTo) (TrimSpace reason) actor w1 = (r, w2) \<Longrightarrow> interleaved d az rt ctx tn ap i actor task w w1 w2"

text \<open>An undisturbed operation that changes the database is one with nothing in between.\<close>

lemma operation_interleaved:
  assumes "taskOperation d az ctx tn ap i ver w w'" and "wDb w' \<noteq> wDb w"
  shows "\<exists>actor task w1 w2. interleaved d az rt ctx tn ap i actor task w w1 w2 \<and> wDb w1 = wDb w \<and> wDb w2 = wDb w'"
  using assms(1) unfolding taskOperation_def
proof (elim disjE exE)
  fix r assume "Service_ClaimTask d az ctx tn ap i ver w = (r, w')"
  from claim_changed [OF this assms(2)] obtain actor task w1 where
    a: "authorizedTask d az ctx tn ap i w = (Inr (actor, task), w1)" "wDb w1 = wDb w" "1 \<le> ver" "taskVersion task = ver"
      "ClaimTask tn ap i ver actor w1 = (r, w')" by blast
  from interleaved.claim [OF a(1,3,4) steps.none a(5)] a(2) show ?thesis by (intro exI conjI) (assumption | rule refl)+
next
  fix decision comment out r assume "Service_CompleteTask d az ctx tn ap i decision comment out ver w = (r, w')"
  from complete_changed [OF this assms(2)] obtain actor task w1 r2 w2 where
    a: "authorizedTask d az ctx tn ap i w = (Inr (actor, task), w1)" "wDb w1 = wDb w" "1 \<le> ver" "taskVersion task = ver"
      "decision \<in> {DecisionApprove, DecisionReject}"
      "CompleteTask d ctx task decision (TrimSpace comment) (defaultJSONObject out) actor w1 = (r2, w2)" "wDb w2 = wDb w'"
    by blast
  have "oneOf decision [DecisionApprove, DecisionReject]" using a(5) by (simp add: oneOf_iff)
  from interleaved.complete [OF a(1,3,4) this steps.none a(6)] a(2,7) show ?thesis by (intro exI conjI)
next
  fix delegateTo reason r assume "Service_DelegateTask d az ctx tn ap i delegateTo reason ver w = (r, w')"
  from delegate_changed [OF this assms(2)] obtain actor task w1 where
    a: "authorizedTask d az ctx tn ap i w = (Inr (actor, task), w1)" "wDb w1 = wDb w" "1 \<le> ver" "taskVersion task = ver"
      "DelegateTask task (TrimSpace delegateTo) (TrimSpace reason) actor w1 = (r, w')" by blast
  from interleaved.delegate [OF a(1,3,4) steps.none a(5)] a(2) show ?thesis by (intro exI conjI) (assumption | rule refl)+
qed

section \<open>The row that was read is the row that is changed\<close>

text \<open>As long as its version is the same, a task is the same.\<close>

lemma task_unchanged:
  assumes "evolves db db'" and "keysOk db'" and "task \<in> set (dbTasks db)"
    and "r \<in> set (dbTasks db')" and "taskID r = taskID task" and "taskVersion r = taskVersion task"
  shows "r = task"
proof -
  from assms(1,3) obtain r' where r': "r' \<in> set (dbTasks db')" "taskStep task r'"
    unfolding evolves_def rowsStep_def by blast
  then have "taskID r' = taskID r" using assms(5) by (simp add: taskStep_def)
  then have "r' = r" using assms(2,4) r'(1) unfolding keysOk_def by (meson distinct_map inj_onD)
  with r'(2) assms(6) show ?thesis by (auto simp: taskStep_def)
qed

lemma task_found:
  assumes "keysOk db" and "task \<in> set (dbTasks db)" and "taskIs tn ap i task"
  shows "find (taskIs tn ap i) (dbTasks db) = Some task"
  by (rule find_unique [where key = taskID]) (use assms in \<open>auto simp: keysOk_def taskIs_def\<close>)

text \<open>What the statement of an operation did to the tasks, when it found the row that was read.\<close>

lemma one_task_updated:
  assumes "updateTasks P f db = (Inr 1, db')" and "keysOk db" and "\<And>r. r \<in> set (dbTasks db) \<Longrightarrow> P r \<Longrightarrow> r = task" and "\<And>r. P r \<Longrightarrow> taskID r = taskID task"
  shows "task \<in> set (dbTasks db) \<and> P task \<and> db' = db\<lparr>dbTasks := replaceRow task (f task) (dbTasks db)\<rparr>"
proof -
  obtain r where r: "r \<in> set (dbTasks db)" "P r" using assms(1) by (auto simp: updateTasks_def dest: filter_one)
  then have "r = task" by (rule assms(3))
  with r have task: "task \<in> set (dbTasks db)" "P task" by simp_all
  moreover have "updateWhere P f (dbTasks db) = replaceRow task (f task) (dbTasks db)"
    using assms(2) by (intro updateWhere_one [where key = taskID and P = P, OF _ task assms(4)]) (simp_all add: keysOk_def)
  ultimately show ?thesis using assms(1) by (auto simp: updateTasks_def)
qed

text \<open>A change of one task with its record in the history.\<close>

definition recordedChange :: "string \<Rightarrow> Task \<Rightarrow> database \<Rightarrow> database \<Rightarrow> bool" where
  "recordedChange actor task db db' \<longleftrightarrow> (\<exists>task' h. dbTasks db' = replaceRow task task' (dbTasks db) \<and> taskVersion task' = taskVersion task + 1
     \<and> dbHistory db' = dbHistory db @ [h] \<and> histTaskID h = taskID task \<and> histActorID h = actor
     \<and> histFromStatus h = taskStatus task \<and> histToStatus h = taskStatus task')"

lemma recorded_update:
  assumes "updateTasks P f db = (Inr 1, db1)" and "insertHistory (historyOf hid htn hap (taskID task) inst action actor (taskStatus task) (taskStatus (f task)) detail t) db1 = (Inr (), db2)"
    and "keysOk db" and "\<And>r. r \<in> set (dbTasks db) \<Longrightarrow> P r \<Longrightarrow> r = task" and "\<And>r. P r \<Longrightarrow> taskID r = taskID task"
    and "taskVersion (f task) = taskVersion task + 1" and "dbTasks db' = dbTasks db2" and "dbHistory db' = dbHistory db2"
  shows "task \<in> set (dbTasks db) \<and> P task \<and> recordedChange actor task db db'"
proof -
  note one = one_task_updated [OF assms(1,3-5)]
  have "db2 = db1\<lparr>dbHistory := dbHistory db1 @ [historyOf hid htn hap (taskID task) inst action actor (taskStatus task) (taskStatus (f task)) detail t]\<rparr>"
    using insertHistory_Inr [OF assms(2)] by (simp add: historyOf_def)
  with one assms(6-8) have "dbTasks db' = replaceRow task (f task) (dbTasks db)"
      "dbHistory db' = dbHistory db @ [historyOf hid htn hap (taskID task) inst action actor (taskStatus task) (taskStatus (f task)) detail t]" by simp_all
  with assms(6) have "recordedChange actor task db db'" unfolding recordedChange_def
    by (intro exI [of _ "f task"] exI [of _ "historyOf hid htn hap (taskID task) inst action actor (taskStatus task) (taskStatus (f task)) detail t"])
      (simp add: historyOf_def)
  with one show ?thesis by blast
qed

lemma addTxStmt_rest: "addTxStmt d ev actor db = (Inr (), db') \<Longrightarrow> dbTasks db' = dbTasks db" "addTxStmt d ev actor db = (Inr (), db') \<Longrightarrow> dbHistory db' = dbHistory db"
  by (auto dest: addTxStmt_db)

text \<open>The three transactions, on a database where every row with the identifier and the version of the task is the task.\<close>

definition onlyRow :: "database \<Rightarrow> Task \<Rightarrow> bool" where
  "onlyRow db task \<longleftrightarrow> (\<forall>r\<in>set (dbTasks db). taskID r = taskID task \<and> taskVersion r = taskVersion task \<longrightarrow> r = task)"

lemma onlyRowD: "onlyRow db task \<Longrightarrow> r \<in> set (dbTasks db) \<Longrightarrow> taskID r = taskID task \<Longrightarrow> taskVersion r = taskVersion task \<Longrightarrow> r = task"
  unfolding onlyRow_def by blast

lemma open_row:
  "onlyRow db task \<Longrightarrow> r \<in> set (dbTasks db) \<Longrightarrow> openFor task actor r \<Longrightarrow> r = task" "openFor task actor r \<Longrightarrow> taskID r = taskID task"
  "openFor task actor task \<Longrightarrow> taskStatus task \<in> set openTaskStatuses"
  by (auto simp: openFor_def oneOf_iff intro: onlyRowD)

lemma claim_on_read_row:
  assumes "ClaimTask tn ap i (taskVersion task) actor w = (r, w')" and "wDb w' \<noteq> wDb w" and "keysOk (wDb w)" and "onlyRow (wDb w) task" and "taskIs tn ap i task"
  shows "task \<in> set (dbTasks (wDb w)) \<and> taskStatus task \<in> set openTaskStatuses \<and> recordedChange actor task (wDb w) (wDb w')"
proof -
  let ?P = "\<lambda>r. taskIs tn ap i r \<and> taskVersion r = taskVersion task \<and> taskStatus r = TaskPending"
  from ClaimTask_tx [OF assms(1)] assms(2) obtain t hid db1 and claimed :: Task
    where st: "claimStmt tn ap i (taskVersion task) actor t (wDb w) = (Inr 1, db1)"
    and h: "insertHistory (historyOf hid tn ap i (taskInstanceID claimed) ''claim'' actor TaskPending TaskClaimed ''{}'' t) db1 = (Inr (), wDb w')"
    by blast
  have i: "taskID task = i" using assms(5) by (simp add: taskIs_def)
  have ids: "taskID r = taskID task" if "?P r" for r using that i by (simp add: taskIs_def)
  have P: "r = task" if "r \<in> set (dbTasks (wDb w))" "?P r" for r
    by (rule onlyRowD [OF assms(4) that(1) ids [OF that(2)]]) (use that(2) in simp)
  have "task \<in> set (dbTasks (wDb w)) \<and> ?P task \<and> db1 = (wDb w)\<lparr>dbTasks := replaceRow task (task\<lparr>taskStatus := TaskClaimed,
      taskClaimedBy := actor, taskVersion := taskVersion task + 1, taskUpdatedAt := t, taskUpdatedBy := actor\<rparr>) (dbTasks (wDb w))\<rparr>"
    by (rule one_task_updated [where P = ?P, OF st [unfolded claimStmt_def] assms(3)]) (fact P, fact ids)
  then have pending: "taskStatus task = TaskPending" by (elim conjE)
  define cl where "cl t = task\<lparr>taskStatus := TaskClaimed, taskClaimedBy := actor, taskVersion := taskVersion task + 1, taskUpdatedAt := t, taskUpdatedBy := actor\<rparr>" for t
  have st': "TaskClaimed = taskStatus (cl t)" by (simp add: cl_def)
  have h': "insertHistory (historyOf hid tn ap (taskID task) (taskInstanceID claimed) ''claim'' actor (taskStatus task) (taskStatus (cl t)) ''{}'' t) db1 = (Inr (), wDb w')"
    using h unfolding i pending st' [symmetric] .
  have open_status: "taskStatus task \<in> set openTaskStatuses" unfolding pending openTaskStatuses_def by simp
  have "task \<in> set (dbTasks (wDb w)) \<and> ?P task \<and> recordedChange actor task (wDb w) (wDb w')"
    by (rule recorded_update [where P = ?P, OF st [unfolded claimStmt_def] h' [unfolded cl_def] assms(3)]) (fact P, fact ids, simp, rule refl, rule refl)
  with open_status show ?thesis by blast
qed

lemma complete_on_read_row:
  assumes "CompleteTask d ctx task decision comment out actor w = (r, w')" and "wDb w' \<noteq> wDb w" and "keysOk (wDb w)" and "onlyRow (wDb w) task"
  shows "task \<in> set (dbTasks (wDb w)) \<and> taskStatus task \<in> set openTaskStatuses \<and> recordedChange actor task (wDb w) (wDb w')"
proof -
  define dn where "dn t = task\<lparr>taskStatus := decisionStatus decision, taskDecision := decision, taskComment := comment, taskOutputJSON := out,
    taskCompletedAt := Some t, taskVersion := taskVersion task + 1, taskUpdatedAt := t, taskUpdatedBy := actor\<rparr>" for t
  from CompleteTask_tx [OF assms(1)] assms(2) obtain t hid ev db1 db2 where
    st: "completeStmt task (decisionStatus decision) decision comment out actor t (wDb w) = (Inr 1, db1)"
    and h: "insertHistory (historyOf hid (taskTenantID task) (taskApplicationID task) (taskID task) (taskInstanceID task) ''complete'' actor
        (taskStatus task) (decisionStatus decision) (marshalStringMap [(''comment'', comment), (''decision'', decision)]) t) db1 = (Inr (), db2)"
    and a: "addTxStmt d ev actor db2 = (Inr (), wDb w')"
    by blast
  have st': "decisionStatus decision = taskStatus (dn t)" by (simp add: dn_def)
  have h': "insertHistory (historyOf hid (taskTenantID task) (taskApplicationID task) (taskID task) (taskInstanceID task) ''complete'' actor
        (taskStatus task) (taskStatus (dn t)) (marshalStringMap [(''comment'', comment), (''decision'', decision)]) t) db1 = (Inr (), db2)"
    using h by (simp only: st')
  from recorded_update [OF st [unfolded completeStmt_def] h' [unfolded dn_def] assms(3) open_row(1) [OF assms(4)] open_row(2) _ addTxStmt_rest [OF a]]
  have "task \<in> set (dbTasks (wDb w)) \<and> openFor task actor task \<and> recordedChange actor task (wDb w) (wDb w')" by simp
  then show ?thesis using open_row(3) by blast
qed

lemma delegate_on_read_row:
  assumes "DelegateTask task delegateTo reason actor w = (r, w')" and "wDb w' \<noteq> wDb w" and "keysOk (wDb w)" and "onlyRow (wDb w) task"
  shows "task \<in> set (dbTasks (wDb w)) \<and> taskStatus task \<in> set openTaskStatuses \<and> recordedChange actor task (wDb w) (wDb w')"
proof -
  define nw where "nw t = task\<lparr>taskAssigneeType := AssigneeUser, taskAssignee := delegateTo, taskClaimedBy := [], taskStatus := TaskPending,
    taskVersion := taskVersion task + 1, taskUpdatedAt := t, taskUpdatedBy := actor\<rparr>" for t
  from DelegateTask_tx [OF assms(1)] assms(2) obtain t hid db1 where st: "delegateStmt task delegateTo actor t (wDb w) = (Inr 1, db1)"
    and h: "insertHistory (historyOf hid (taskTenantID task) (taskApplicationID task) (taskID task) (taskInstanceID task) ''delegate'' actor
        (taskStatus task) TaskPending (marshalStringMap [(''delegate_to'', delegateTo), (''reason'', reason)]) t) db1 = (Inr (), wDb w')"
    by blast
  have st': "TaskPending = taskStatus (nw t)" by (simp add: nw_def)
  have h': "insertHistory (historyOf hid (taskTenantID task) (taskApplicationID task) (taskID task) (taskInstanceID task) ''delegate'' actor
        (taskStatus task) (taskStatus (nw t)) (marshalStringMap [(''delegate_to'', delegateTo), (''reason'', reason)]) t) db1 = (Inr (), wDb w')"
    using h by (simp only: st')
  from recorded_update [OF st [unfolded delegateStmt_def] h' [unfolded nw_def] assms(3) open_row(1) [OF assms(4)] open_row(2) _ refl refl]
  have "task \<in> set (dbTasks (wDb w)) \<and> openFor task actor task \<and> recordedChange actor task (wDb w) (wDb w')" by simp
  then show ?thesis using open_row(3) by blast
qed

lemma transaction_on_read_row:
  assumes "interleaved d az rt ctx tn ap i actor task w w1 w2" and "keysOk (wDb w1)" and "wDb w2 \<noteq> wDb w1" and "taskIs tn ap i task" and "onlyRow (wDb w1) task"
  shows "task \<in> set (dbTasks (wDb w1)) \<and> taskStatus task \<in> set openTaskStatuses \<and> recordedChange actor task (wDb w1) (wDb w2)"
  using assms(1)
proof cases
  case (claim w0 ver r)
  show ?thesis by (rule claim_on_read_row [OF claim(5) [folded claim(3)] assms(3,2,5,4)])
next
  case (complete w0 ver decision comment out r)
  show ?thesis by (rule complete_on_read_row [OF complete(6) assms(3,2,5)])
next
  case (delegate w0 ver delegateTo reason r)
  show ?thesis by (rule delegate_on_read_row [OF delegate(5) assms(3,2,5)])
qed

text \<open>
  C9: the decision on who may act on a task holds for the row that is changed, even though it is made
  on an earlier read outside of the transaction and others may act in between. When the transaction
  of a claim, a completion or a delegation changes the database, the task in the database at that
  moment is exactly the one that was read and checked; it is open, not claimed by someone else, and
  the caller is entitled to it. The change replaces that row by one with the next version and adds
  exactly one row to the history, with the caller and the status before and after.
\<close>

theorem stale_read_harmless:
  assumes "keysOk (wDb w)" and "interleaved d az rt ctx tn ap i actor task w w1 w2" and "wDb w2 \<noteq> wDb w1"
  shows "find (taskIs tn ap i) (dbTasks (wDb w1)) = Some task \<and> taskStatus task \<in> set openTaskStatuses
    \<and> (taskClaimedBy task = [] \<or> taskClaimedBy task = actor) \<and> actorForTenant ctx tn = Inr actor \<and> entitled az ctx tn actor task
    \<and> recordedChange actor task (wDb w1) (wDb w2)"
proof -
  obtain w0 where a: "authorizedTask d az ctx tn ap i w = (Inr (actor, task), w0)" and s: "steps d az rt w0 w1"
    using assms(2) by cases blast+
  note read = authorizedTask_Inr [OF a] find_Some_in [OF authorizedTask_Inr(1) [OF a]]
  have ev: "evolves (wDb w) (wDb w1)" using steps_evolves [OF s] read(2) by simp
  have keys: "keysOk (wDb w1)" using steps_keysOk [OF s] read(2) assms(1) by simp
  have task: "task \<in> set (dbTasks (wDb w))" "taskIs tn ap i task" using read(6) by simp_all
  have only: "onlyRow (wDb w1) task" unfolding onlyRow_def using task_unchanged [OF ev keys task(1)] by blast
  from transaction_on_read_row [OF assms(2) keys assms(3) task(2) only]
  have tx: "task \<in> set (dbTasks (wDb w1))" "taskStatus task \<in> set openTaskStatuses" "recordedChange actor task (wDb w1) (wDb w2)" by blast+
  with task_found [OF keys tx(1) task(2)] read(3-5) show ?thesis by blast
qed

theorem stale_read_harmless_witness:
  "\<exists>actor task. find (taskIs ''t1'' ''a1'' ''k1'') (dbTasks (wDb taskWorld)) = Some task \<and> entitled sampleAuthz sampleContext ''t1'' actor task
     \<and> recordedChange actor task (wDb taskWorld) (wDb claimedWorld)"
proof -
  obtain actor task w1 w2 where i: "interleaved sampleDeps sampleAuthz undefined sampleContext ''t1'' ''a1'' ''k1'' actor task taskWorld w1 w2"
    and db: "wDb w1 = wDb taskWorld" "wDb w2 = wDb claimedWorld"
    using operation_interleaved [OF claimedWorld_operation claimedWorld_changed] by blast
  have "wDb w2 \<noteq> wDb w1" using claimedWorld_changed db by simp
  from stale_read_harmless [OF taskWorld_keys i this] db show ?thesis by auto
qed

end
