(* ===== verification/Worker.thy ===== *)
theory Worker
  imports Retries
begin

text \<open>
  The Temporal worker of \<open>internal/workflowruntime/temporal.go\<close>: what it registers, and a run together
  with the database. \<open>Runtime\<close> leaves the answers to a run's commands to the engine. Here the engine
  is driven by the worker: it may answer a command with any error, whenever its attempts failed or
  timed out, but it answers with a success only after the activity, run on the database as it was
  then, returned that success. Requests, other runs, clean-ups and attempts whose result was lost may
  come between any two commands.
\<close>

section \<open>Registration\<close>

definition WorkflowName :: string where
  "WorkflowName = ''platform.workflow.execute.v1''"

text \<open>The name under which the workflow asks for an activity.\<close>

definition activityName :: "Command \<Rightarrow> string option" where
  "activityName c =
     (case c of
        CreateApprovalTaskCmd _ _ \<Rightarrow> Some ''platform.workflow.create-approval-task.v1''
      | InvokeServiceTaskCmd _ _ \<Rightarrow> Some ''platform.workflow.invoke-service-task.v1''
      | CompensateServiceTaskCmd _ _ \<Rightarrow> Some ''platform.workflow.compensate-service-task.v1''
      | EvaluateConditionCmd _ _ \<Rightarrow> Some ''platform.workflow.evaluate-condition.v1''
      | FinishInstanceCmd _ _ \<Rightarrow> Some ''platform.workflow.finish-instance.v1''
      | AwaitCmd _ _ _ \<Rightarrow> None
      | SleepCmd _ \<Rightarrow> None)"

datatype activityFunction =
    CreateApprovalTask
  | InvokeServiceTask
  | CompensateServiceTask
  | EvaluateCondition
  | FinishInstanceActivity

definition registeredActivities :: "(string, activityFunction) gomap" where
  "registeredActivities =
     [(''platform.workflow.create-approval-task.v1'', CreateApprovalTask),
      (''platform.workflow.invoke-service-task.v1'', InvokeServiceTask),
      (''platform.workflow.compensate-service-task.v1'', CompensateServiceTask),
      (''platform.workflow.evaluate-condition.v1'', EvaluateCondition),
      (''platform.workflow.finish-instance.v1'', FinishInstanceActivity)]"

section \<open>Performing a command\<close>

datatype Outcome =
    UnitOutcome "unit result"
  | ServiceOutcome "ServiceTaskResult result"
  | ConditionOutcome "bool result"

text \<open>The worker looks the activity up by its name and passes the input of the command.\<close>

definition runActivity :: "deps \<Rightarrow> rtdeps \<Rightarrow> Context \<Rightarrow> activityFunction \<Rightarrow> Command \<Rightarrow> world \<Rightarrow> (Outcome \<times> world) option" where
  "runActivity d rt ctx f c w =
     (case (f, c) of
        (CreateApprovalTask, CreateApprovalTaskCmd _ x) \<Rightarrow> Some (map_prod UnitOutcome (\<lambda>w. w) (Activities_CreateApprovalTask d rt ctx x w))
      | (InvokeServiceTask, InvokeServiceTaskCmd _ x) \<Rightarrow> Some (map_prod ServiceOutcome (\<lambda>w. w) (Activities_InvokeServiceTask rt ctx x w))
      | (CompensateServiceTask, CompensateServiceTaskCmd _ x) \<Rightarrow> Some (map_prod UnitOutcome (\<lambda>w. w) (Activities_CompensateServiceTask rt ctx x w))
      | (EvaluateCondition, EvaluateConditionCmd _ x) \<Rightarrow> Some (ConditionOutcome (Activities_EvaluateCondition rt x), w)
      | (FinishInstanceActivity, FinishInstanceCmd _ x) \<Rightarrow> Some (map_prod UnitOutcome (\<lambda>w. w) (Activities_FinishInstance d rt ctx x w))
      | _ \<Rightarrow> None)"

definition perform :: "deps \<Rightarrow> rtdeps \<Rightarrow> Context \<Rightarrow> Command \<Rightarrow> world \<Rightarrow> (Outcome \<times> world) option" where
  "perform d rt ctx c w =
     (case activityName c of
        None \<Rightarrow> None
      | Some name \<Rightarrow> (case mapGet registeredActivities name of None \<Rightarrow> None | Some f \<Rightarrow> runActivity d rt ctx f c w))"

lemma perform_simps:
  "perform d rt ctx (CreateApprovalTaskCmd opt a) w = Some (map_prod UnitOutcome (\<lambda>w. w) (Activities_CreateApprovalTask d rt ctx a w))"
  "perform d rt ctx (InvokeServiceTaskCmd opt x) w = Some (map_prod ServiceOutcome (\<lambda>w. w) (Activities_InvokeServiceTask rt ctx x w))"
  "perform d rt ctx (CompensateServiceTaskCmd opt x) w = Some (map_prod UnitOutcome (\<lambda>w. w) (Activities_CompensateServiceTask rt ctx x w))"
  "perform d rt ctx (EvaluateConditionCmd opt c) w = Some (ConditionOutcome (Activities_EvaluateCondition rt c), w)"
  "perform d rt ctx (FinishInstanceCmd opt f) w = Some (map_prod UnitOutcome (\<lambda>w. w) (Activities_FinishInstance d rt ctx f w))"
  by (simp_all add: perform_def activityName_def registeredActivities_def runActivity_def)

section \<open>A run and the database\<close>

text \<open>The engine's answer to a command, as an outcome.\<close>

definition engineAnswer :: "engine \<Rightarrow> Command list \<Rightarrow> Command \<Rightarrow> Outcome" where
  "engineAnswer e log c =
     (case c of
        InvokeServiceTaskCmd _ _ \<Rightarrow> ServiceOutcome (engService e log c)
      | EvaluateConditionCmd _ _ \<Rightarrow> ConditionOutcome (engCondition e log c)
      | _ \<Rightarrow> UnitOutcome (engUnit e log c))"

definition failure :: "Outcome \<Rightarrow> bool" where
  "failure out = (case out of UnitOutcome r \<Rightarrow> \<not> isOk r | ServiceOutcome r \<Rightarrow> \<not> isOk r | ConditionOutcome r \<Rightarrow> \<not> isOk r)"

inductive worked :: "deps \<Rightarrow> authz \<Rightarrow> rtdeps \<Rightarrow> engine \<Rightarrow> world \<Rightarrow> Command list \<Rightarrow> world \<Rightarrow> bool" for d az rt e w where
  begun: "worked d az rt e w [] w"
| others: "worked d az rt e w log w1 \<Longrightarrow> steps d az rt w1 w2 \<Longrightarrow> worked d az rt e w log w2"
| succeeded: "worked d az rt e w log w1 \<Longrightarrow> perform d rt ctx c w1 = Some (engineAnswer e log c, w2) \<Longrightarrow> worked d az rt e w (log @ [c]) w2"
| failed: "worked d az rt e w log w1 \<Longrightarrow> failure (engineAnswer e log c) \<Longrightarrow> worked d az rt e w (log @ [c]) w1"
| waited: "worked d az rt e w log w1 \<Longrightarrow> activityName c = None \<Longrightarrow> worked d az rt e w (log @ [c]) w1"

section \<open>Every command of a successful run succeeded\<close>

definition answeredOk :: "engine \<Rightarrow> Command list \<Rightarrow> bool" where
  "answeredOk e log \<longleftrightarrow> (\<forall>pre c post. log = pre @ c # post \<longrightarrow> activityName c \<noteq> None \<longrightarrow> \<not> failure (engineAnswer e pre c))"

lemma snoc_split: "log @ [c] = pre @ x # post \<longleftrightarrow> (\<exists>post'. post = post' @ [c] \<and> log = pre @ x # post') \<or> post = [] \<and> x = c \<and> pre = log"
  by (cases post rule: rev_cases) auto

lemma answeredOk_Nil: "answeredOk e []"
  by (simp add: answeredOk_def)

lemma answeredOk_snoc: "answeredOk e (log @ [c]) \<longleftrightarrow> answeredOk e log \<and> (activityName c \<noteq> None \<longrightarrow> \<not> failure (engineAnswer e log c))"
  unfolding answeredOk_def snoc_split by blast

definition okRun :: "engine \<Rightarrow> 'a wf \<Rightarrow> bool" where
  "okRun e m \<longleftrightarrow> (\<forall>s x s'. m s = (Inr x, s') \<longrightarrow> answeredOk e (runLog s) \<longrightarrow> answeredOk e (runLog s'))"

lemma okRun_basic: "okRun e (ret x)" "okRun e (fail err)" "okRun e (setLastOutput out)" "okRun e lastOutput" "okRun e (pushService y)"
  by (auto simp: okRun_def io_simps setLastOutput_def lastOutput_def pushService_def)

lemma okRun_bind: "okRun e m \<Longrightarrow> (\<And>x. okRun e (k x)) \<Longrightarrow> okRun e (bindE m k)"
  unfolding okRun_def by (metis bindE_Inr)

lemma okRun_wrap: "okRun e m \<Longrightarrow> okRun e (wrapE msg m)"
  unfolding okRun_def by (simp add: wrapE_Inr)

lemma okRun_issue:
  "okRun e (issue (engUnit e) (CreateApprovalTaskCmd opt a))" "okRun e (issue (engUnit e) (FinishInstanceCmd opt f))"
  "okRun e (issue (engUnit e) (SleepCmd n))" "okRun e (issue (engService e) (InvokeServiceTaskCmd opt x))"
  "okRun e (issue (engCondition e) (EvaluateConditionCmd opt c))" "okRun e (issue g (AwaitCmd n channel node))"
  by (auto simp: okRun_def issue_def answeredOk_snoc engineAnswer_def failure_def activityName_def)

lemma okRun_finish: "okRun e (finish e opt input st out msg)"
  unfolding finish_def by (intro okRun_wrap okRun_issue)

lemma okRun_firstMatch: "okRun e (firstMatch e opt v out es dflt)"
  by (induction e opt v out es dflt rule: firstMatch.induct) (auto intro!: okRun_basic okRun_bind okRun_wrap okRun_issue)

lemma okRun_nodeStep: "okRun e (nodeStep e input current)"
  unfolding nodeStep_def approvalStep_def serviceStep_def Let_def
  by (auto intro!: okRun_basic okRun_bind okRun_wrap okRun_issue okRun_finish split: option.splits)

lemma okRun_stepLoop: "okRun e (stepLoop k e input nodes current)"
  by (induction k arbitrary: current)
    (auto intro!: okRun_basic okRun_bind okRun_nodeStep okRun_firstMatch simp: selectNext_def split: option.splits)

lemma Execute_answeredOk: "Execute e input = (Inr result, log) \<Longrightarrow> answeredOk e log"
proof (elim Execute_Inr_loop)
  fix nodes current s
  assume "stepLoop (Suc (length nodes)) e input nodes current newRun = (Inr result, s)" and "log = runLog s"
  then show "answeredOk e log" using okRun_stepLoop [of e "Suc (length nodes)" input nodes current] answeredOk_Nil
    unfolding okRun_def by (simp del: stepLoop.simps add: newRun_def)
qed

section \<open>What a run leaves in the database\<close>

lemma steps_trans: "steps d az rt b c \<Longrightarrow> steps d az rt a b \<Longrightarrow> steps d az rt a c"
  by (induction rule: steps.induct) (auto intro: steps.more)

lemma performed_unit: "Some (map_prod f (\<lambda>w. w) p) = Some (out, w') \<Longrightarrow> \<exists>r. p = (r, w') \<and> out = f r"
  by (cases p) auto

lemma perform_steps:
  assumes "perform d rt ctx c w = Some (out, w')" and "finishTerminal c"
  shows "steps d az rt w w'"
proof (cases c)
  case (CreateApprovalTaskCmd opt x)
  from performed_unit [OF assms(1) [unfolded this perform_simps]] obtain r where "Activities_CreateApprovalTask d rt ctx x w = (r, w')" by blast
  then show ?thesis by (rule steps.more [OF steps.none step.createTask])
next
  case (InvokeServiceTaskCmd opt x)
  from performed_unit [OF assms(1) [unfolded this perform_simps]] obtain r where "Activities_InvokeServiceTask rt ctx x w = (r, w')" by blast
  then show ?thesis by (rule steps.more [OF steps.none step.invoke])
next
  case (CompensateServiceTaskCmd opt x)
  from performed_unit [OF assms(1) [unfolded this perform_simps]] obtain r where "Activities_CompensateServiceTask rt ctx x w = (r, w')" by blast
  then show ?thesis by (rule steps.more [OF steps.none step.compensateTask])
next
  case (FinishInstanceCmd opt x)
  from performed_unit [OF assms(1) [unfolded this perform_simps]] obtain r where "Activities_FinishInstance d rt ctx x w = (r, w')" by blast
  moreover have "fiStatus x \<in> set terminalStatuses" using assms(2) FinishInstanceCmd by (simp add: finishTerminal_def)
  ultimately show ?thesis by (rule steps.more [OF steps.none step.finishInst])
next
  case (EvaluateConditionCmd opt x)
  then show ?thesis using assms(1) by (simp add: perform_simps steps.none)
qed (use assms(1) in \<open>simp_all add: perform_def activityName_def\<close>)

lemma worked_steps: "worked d az rt e w log w' \<Longrightarrow> list_all finishTerminal log \<Longrightarrow> steps d az rt w w'"
  by (induction rule: worked.induct) (auto intro: steps.none steps_trans perform_steps)

text \<open>Each command that was answered without an error was performed, and what came after are steps.\<close>

lemma worked_performed:
  assumes "worked d az rt e w log w'" and "answeredOk e log" and "list_all finishTerminal log"
    and "log = pre @ c # post" and "activityName c \<noteq> None"
  shows "\<exists>ctx w1 w2. perform d rt ctx c w1 = Some (engineAnswer e pre c, w2) \<and> steps d az rt w2 w'"
  using assms
proof (induction arbitrary: post rule: worked.induct)
  case begun
  then show ?case by simp
next
  case (others log w1 w2)
  from others.IH [OF others.prems] steps_trans [OF others.hyps(2)] show ?case by blast
next
  case (succeeded log w1 ctx x w2)
  have ok: "answeredOk e log" "list_all finishTerminal log" "finishTerminal x" using succeeded.prems(1,2) by (simp_all add: answeredOk_snoc)
  from succeeded.prems(3) consider post' where "log = pre @ c # post'" | "c = x" "pre = log" unfolding snoc_split by blast
  then show ?case
  proof cases
    case 1
    from succeeded.IH [OF ok(1,2) 1 succeeded.prems(4)] steps_trans [OF perform_steps [OF succeeded.hyps(2) ok(3)]] show ?thesis by blast
  next
    case 2
    then have "perform d rt ctx c w1 = Some (engineAnswer e pre c, w2)" using succeeded.hyps(2) by simp
    then show ?thesis using steps.none by blast
  qed
next
  case (failed log w1 x)
  have ok: "answeredOk e log" "list_all finishTerminal log" using failed.prems(1,2) by (simp_all add: answeredOk_snoc)
  from failed.prems(3) consider post' where "log = pre @ c # post'" | "c = x" "pre = log" unfolding snoc_split by blast
  then show ?case
  proof cases
    case 2
    then show ?thesis using failed.prems(1,4) failed.hyps(2) by (simp add: answeredOk_snoc)
  qed (rule failed.IH [OF ok _ failed.prems(4)])
next
  case (waited log w1 x)
  have ok: "answeredOk e log" "list_all finishTerminal log" using waited.prems(1,2) by (simp_all add: answeredOk_snoc)
  from waited.prems(3) waited.prems(4) waited.hyps(2) obtain post' where "log = pre @ c # post'" unfolding snoc_split by blast
  from waited.IH [OF ok this waited.prems(4)] show ?case .
qed

lemma finished_row:
  assumes "Activities_FinishInstance d rt ctx x w = (Inr (), w')" and "fiStatus x \<noteq> InstanceFailed" and "fiStatus x \<noteq> InstanceRunning"
  shows "\<exists>inst. find (instIs (fiTenantID x) (fiApplicationID x) (fiInstanceID x)) (dbInstances (wDb w')) = Some inst \<and> instStatus inst = fiStatus x"
proof -
  obtain inst where fin: "FinishInstance d (rtSystemContext rt ctx runtimeActor) (fiTenantID x) (fiApplicationID x) (fiInstanceID x) (fiStatus x)
      (defaultJSON (fiResultJSON x)) (fiErrorMessage x) runtimeActor w = (Inr inst, w')"
    using assms(1,2) unfolding Activities_FinishInstance_def by (auto split: prod.splits sum.splits if_splits)
  from FinishInstance_tx [OF fin] show ?thesis
  proof (elim disjE exE conjE)
    fix t old inst' ev db1
    assume old: "find (instIs (fiTenantID x) (fiApplicationID x) (fiInstanceID x)) (dbInstances (wDb w)) = Some old" "instStatus old = InstanceRunning"
      and upd: "finishStmt (fiTenantID x) (fiApplicationID x) (fiInstanceID x) (fiStatus x) (defaultJSON (fiResultJSON x)) (fiErrorMessage x) runtimeActor t (wDb w) = (Inr 1, db1)"
      and out: "addTxStmt d ev runtimeActor db1 = (Inr (), wDb w')"
    have this_row: "instIs (fiTenantID x) (fiApplicationID x) (fiInstanceID x) old" using old(1) find_Some_in by fastforce
    have "\<exists>inst. find (instIs (fiTenantID x) (fiApplicationID x) (fiInstanceID x)) (dbInstances db1) = Some inst \<and> instStatus inst = fiStatus x"
      using upd old this_row by (auto simp: finishStmt_def updateInstances_def find_map_update instIs_def split: if_splits)
    moreover have "dbInstances (wDb w') = dbInstances db1" using addTxStmt_db [OF out] by auto
    ultimately show ?thesis by simp
  qed (auto simp: isOk_def)
qed

lemma ended_row_kept:
  assumes "steps d az rt w w'" and "keysOk (wDb w')" and "find (instIs tn ap i) (dbInstances (wDb w)) = Some inst" and "instStatus inst \<noteq> InstanceRunning"
  shows "find (instIs tn ap i) (dbInstances (wDb w')) = Some inst"
proof -
  from assms(3) have inst: "inst \<in> set (dbInstances (wDb w))" "instIs tn ap i inst" using find_Some_in by fastforce+
  from steps_evolves [OF assms(1)] inst(1) obtain inst' where "inst' \<in> set (dbInstances (wDb w'))" "instStep inst inst'"
    unfolding evolves_def rowsStep_def by blast
  then have "inst \<in> set (dbInstances (wDb w'))" using assms(4) by (auto simp: instStep_def)
  then show ?thesis
    by (rule find_unique [where key = instID, rotated]) (use assms(2) inst(2) in \<open>auto simp: keysOk_def instIs_def\<close>)
qed

text \<open>
  C6: a run and the database agree at the end. When a run that the worker drives, from a database with
  consistent keys as every reachable one has them, returns a result, the
  instance is recorded in the database with the status the run returned, completed or rejected, and every
  approval node for which the run asked for a task has its task, whatever requests, other runs,
  retried activities and clean-ups came in between. The run itself did to the database only what steps
  of the system do.
\<close>

theorem run_recorded:
  assumes "keysOk (wDb w)" and "Execute e input = (Inr result, log)" and "worked d az rt e w log w'"
  shows "steps d az rt w w' \<and> resStatus result \<in> {InstanceCompleted, InstanceRejected}
    \<and> (\<exists>inst. find (instIs (inTenantID input) (inApplicationID input) (inInstanceID input)) (dbInstances (wDb w')) = Some inst
        \<and> instStatus inst = resStatus result)
    \<and> (\<forall>opt x. CreateApprovalTaskCmd opt x \<in> set log \<longrightarrow>
        (\<exists>task\<in>set (dbTasks (wDb w')). taskTenantID task = atTenantID x \<and> taskApplicationID task = atApplicationID x
           \<and> taskInstanceID task = atInstanceID x \<and> taskNodeID task = nodeID (atNode x)))"
proof -
  have terminal: "list_all finishTerminal log" using Execute_terminal [of e input] assms(2) by simp
  have ok: "answeredOk e log" using assms(2) by (rule Execute_answeredOk)
  note performed = worked_performed [OF assms(3) ok terminal]
  have steps: "steps d az rt w w'" using assms(3) terminal by (rule worked_steps)
  then have keys: "keysOk (wDb w')" using steps_keysOk assms(1) by blast
  let ?fin = "FinishInstanceCmd activityOptions (finishInput input (resStatus result) (resResultJSON result) [])"
  from Execute_ends [OF assms(2)] obtain pre where st: "resStatus result \<in> {InstanceCompleted, InstanceRejected}"
    and log: "log = pre @ [?fin]" and ans: "engUnit e pre ?fin = Inr ()" unfolding endsWith_def by blast
  have "activityName ?fin \<noteq> None" by (simp add: activityName_def)
  from performed [OF log this] obtain ctx w1 w2 where p: "perform d rt ctx ?fin w1 = Some (engineAnswer e pre ?fin, w2)" and later: "steps d az rt w2 w'" by blast
  have "Activities_FinishInstance d rt ctx (finishInput input (resStatus result) (resResultJSON result) []) w1 = (Inr (), w2)"
    using performed_unit [OF p [unfolded perform_simps]] ans by (auto simp: engineAnswer_def)
  from finished_row [OF this] st obtain inst where
    "find (instIs (inTenantID input) (inApplicationID input) (inInstanceID input)) (dbInstances (wDb w2)) = Some inst" "instStatus inst = resStatus result"
    by (auto simp: finishInput_def constant_defs)
  then have row: "\<exists>inst. find (instIs (inTenantID input) (inApplicationID input) (inInstanceID input)) (dbInstances (wDb w')) = Some inst \<and> instStatus inst = resStatus result"
    using ended_row_kept [OF later keys] st by (auto simp: constant_defs)
  have "\<exists>task\<in>set (dbTasks (wDb w')). sameNode (approvalTask x 0 []) task" if "CreateApprovalTaskCmd opt x \<in> set log" for opt x
  proof -
    from split_list [OF that] obtain p1 p2 where split: "log = p1 @ CreateApprovalTaskCmd opt x # p2" by blast
    have "activityName (CreateApprovalTaskCmd opt x) \<noteq> None" by (simp add: activityName_def)
    from performed [OF split this] obtain ctx w1 w2 where p: "perform d rt ctx (CreateApprovalTaskCmd opt x) w1 = Some (engineAnswer e p1 (CreateApprovalTaskCmd opt x), w2)"
      and later: "steps d az rt w2 w'" by blast
    from performed_unit [OF p [unfolded perform_simps]] obtain r where r: "Activities_CreateApprovalTask d rt ctx x w1 = (r, w2)"
      "engineAnswer e p1 (CreateApprovalTaskCmd opt x) = UnitOutcome r" by blast
    have "isOk r" using ok r(2) unfolding split answeredOk_def by (fastforce simp: activityName_def failure_def)
    with CreateApprovalTask_split [OF r(1)] created_task obtain t i y where "y \<in> set (dbTasks (wDb w2))" "sameNode (approvalTask x t i) y" by blast
    from sameNode_later [OF steps_evolves [OF later] this] show ?thesis by (simp add: approval_node)
  qed
  with steps st row show ?thesis by (simp add: approval_node)
qed

section \<open>Witness\<close>

definition shortInput :: Input where
  "shortInput = \<lparr>inInstanceID = ''i1'', inTenantID = ''t1'', inApplicationID = ''a1'', inStarterID = ''u1'', inVariablesJSON = ''{}'',
     inNodes = [zeroNode\<lparr>nodeID := ''s'', nodeName := ''s'', nodeType := NodeStart\<rparr>, zeroNode\<lparr>nodeID := ''f'', nodeName := ''f'', nodeType := NodeEnd\<rparr>],
     inEdges = [plainEdge ''s'' ''f'']\<rparr>"

lemma short_run: "fst (Execute (sampleEngine []) shortInput) = Inr \<lparr>resStatus = InstanceCompleted, resResultJSON = ''{}''\<rparr>"
    "snd (Execute (sampleEngine []) shortInput) = [FinishInstanceCmd activityOptions (finishInput shortInput InstanceCompleted ''{}'' [])]"
  by code_simp+

lemma short_finish: "fst (Activities_FinishInstance sampleDeps sampleRt sampleContext (finishInput shortInput InstanceCompleted ''{}'' []) runningWorld) = Inr ()"
proof -
  obtain ev where ev: "build sampleDeps (rtSystemContext sampleRt sampleContext runtimeActor) s a kind tn ap p w =
     (Inr (ev s a kind tn ap p w), w\<lparr>wFresh := wFresh w + 1, wTicks := wTicks w + 1\<rparr>)" for s a kind tn ap p w
    using runtime_build by metis
  have row: "instID sampleInstance = ''i1''" by (simp add: sampleInstance_def newInstance_def)
  have st: "InstanceCompleted \<noteq> InstanceRunning" "InstanceRunning \<noteq> InstanceCompleted" by (simp_all add: constant_defs)
  show ?thesis
    by (simp add: Activities_FinishInstance_def FinishInstance_def finishInput_def shortInput_def InstanceStatusChangedEv_def bindE_def now_def wrapE_def mapErr_def inTx_def beginTx_def
        dbCall_def query_def mapNotFound_def selectOne_def affectedOne_def getInstanceTx_def ev instIs_def row st io_simps finishStmt_def updateInstances_def updateWhere_def
        sampleInstance_fields rowsAffected_def oneOf_iff terminalStatuses_def sample_addTx commitTx_def rollbackTo_def)
qed

theorem run_recorded_witness:
  "\<exists>w' inst. worked sampleDeps sampleAuthz sampleRt (sampleEngine []) runningWorld (snd (Execute (sampleEngine []) shortInput)) w'
     \<and> find (instIs ''t1'' ''a1'' ''i1'') (dbInstances (wDb w')) = Some inst \<and> instStatus inst = InstanceCompleted"
proof -
  let ?fin = "FinishInstanceCmd activityOptions (finishInput shortInput InstanceCompleted ''{}'' [])"
  obtain w' where w': "Activities_FinishInstance sampleDeps sampleRt sampleContext (finishInput shortInput InstanceCompleted ''{}'' []) runningWorld = (Inr (), w')"
    using short_finish by (metis prod.collapse)
  have "perform sampleDeps sampleRt sampleContext ?fin runningWorld = Some (engineAnswer (sampleEngine []) [] ?fin, w')"
    by (simp add: perform_simps w' engineAnswer_def sampleEngine_def)
  from worked.succeeded [OF worked.begun this] have worked: "worked sampleDeps sampleAuthz sampleRt (sampleEngine []) runningWorld [?fin] w'" by simp
  have run: "Execute (sampleEngine []) shortInput = (Inr \<lparr>resStatus = InstanceCompleted, resResultJSON = ''{}''\<rparr>, [?fin])"
    using short_run by (metis prod.collapse)
  have "keysOk (wDb runningWorld)" by (simp add: keysOk_def runningWorld_def sampleWorld_def emptyDatabase_def)
  from run_recorded [OF this run worked] have "\<exists>inst. find (instIs ''t1'' ''a1'' ''i1'') (dbInstances (wDb w')) = Some inst \<and> instStatus inst = InstanceCompleted"
    by (simp add: shortInput_def)
  then show ?thesis using worked by (auto simp: short_run(2))
qed

end
