(* ===== verification/Mime.thy ===== *)
theory Mime
  imports Access
begin

text \<open>
  \<open>mime.ParseMediaType\<close> of the standard library, as far as \<open>RequireJSON\<close> of
  \<open>internal/transport/http/middleware.go\<close> uses it: whether a header has no error and names
  \<open>application/json\<close>. Values of parameters only matter for the check on repeated names.
\<close>

section \<open>Tokens and values\<close>

definition isTSpecial :: "char \<Rightarrow> bool" where
  "isTSpecial c \<longleftrightarrow> c \<in> set ''()<>@,;:'' \<or> c = CHR 0x5C \<or> c = CHR 0x22 \<or> c \<in> set ''/[]?=''"

definition isTokenChar :: "char \<Rightarrow> bool" where
  "isTokenChar c \<longleftrightarrow> 0x20 < byte c \<and> byte c < 0x7F \<and> \<not> isTSpecial c"

definition consumeToken :: "string \<Rightarrow> string \<times> string" where
  "consumeToken v = (takeWhile isTokenChar v, dropWhile isTokenChar v)"

text \<open>The rest of a quoted value: its text and what follows the closing quote, \<open>None\<close> when it is broken.\<close>

fun quotedRest :: "string \<Rightarrow> string \<Rightarrow> (string \<times> string) option" where
  "quotedRest [] acc = None"
| "quotedRest (c # cs) acc =
     (if c = CHR 0x22 then Some (rev acc, cs)
      else if c = CHR 0x5C \<and> cs \<noteq> [] \<and> isTSpecial (hd cs) then quotedRest (tl cs) (hd cs # acc)
      else if c = CHR 0x0D \<or> c = CHR 0x0A then None
      else quotedRest cs (c # acc))"

definition consumeValue :: "string \<Rightarrow> string \<times> string" where
  "consumeValue v =
     (if v = [] then ([], [])
      else if hd v \<noteq> CHR 0x22 then consumeToken v
      else case quotedRest (tl v) [] of None \<Rightarrow> ([], v) | Some r \<Rightarrow> r)"

text \<open>A parameter: its name, empty when there is none, its value and the rest.\<close>

definition consumeMediaParam :: "string \<Rightarrow> string \<times> string \<times> string" where
  "consumeMediaParam v =
     (let rest = trimLeft v in
      if rest = [] \<or> hd rest \<noteq> CHR '';'' then ([], [], v)
      else case consumeToken (trimLeft (tl rest)) of (param, rest) \<Rightarrow>
        if param = [] then ([], [], v)
        else let rest = trimLeft rest in
          if rest = [] \<or> hd rest \<noteq> CHR ''='' then ([], [], v)
          else let rest = trimLeft (tl rest) in
            case consumeValue rest of (val, rest2) \<Rightarrow>
              if val = [] \<and> rest2 = rest then ([], [], v) else (map lowerByte param, val, rest2))"

section \<open>Every parameter shortens the text\<close>

lemma trimLeft_shorter: "length (trimLeft s) \<le> length s"
proof (induction s rule: trimLeft.induct)
  case (1 s)
  show ?case
  proof (cases "spacePrefix s = 0")
    case False
    from 1 [OF False] False show ?thesis by (subst trimLeft.simps) simp
  qed (subst trimLeft.simps, simp)
qed

lemma quotedRest_shorter: "quotedRest cs acc = Some (v, r) \<Longrightarrow> length r < length cs"
  by (induction cs acc rule: quotedRest.induct) (auto split: if_splits)

lemma consumeValue_shorter: "consumeValue v = (x, r) \<Longrightarrow> length r \<le> length v"
  by (cases v) (auto simp: consumeValue_def consumeToken_def length_dropWhile_le le_SucI split: if_splits option.splits dest!: quotedRest_shorter)

lemma consumeMediaParam_shorter:
  assumes "consumeMediaParam v = (key, val, rest)" and "key \<noteq> []"
  shows "length rest < length v"
proof -
  define a where "a = trimLeft v"
  define b where "b = dropWhile isTokenChar (trimLeft (tl a))"
  define c where "c = trimLeft b"
  from assms have ok: "a \<noteq> []" "c \<noteq> []" "consumeValue (trimLeft (tl c)) = (val, rest)"
    unfolding consumeMediaParam_def consumeToken_def a_def b_def c_def by (auto simp: Let_def split: if_splits prod.splits)
  have "length rest \<le> length (tl c)" using consumeValue_shorter [OF ok(3)] trimLeft_shorter [of "tl c"] by simp
  moreover have "length c \<le> length b" "length b \<le> length (trimLeft (tl a))" "length (trimLeft (tl a)) \<le> length (tl a)" "length a \<le> length v"
    unfolding a_def b_def c_def using trimLeft_shorter length_dropWhile_le by blast+
  ultimately show ?thesis using ok(1,2) by (cases a; cases c) auto
qed

section \<open>The header\<close>

text \<open>The loop over the parameters: whether it ends without an error.\<close>

function mediaParams :: "string \<Rightarrow> (string, string) gomap \<Rightarrow> bool" where
  "mediaParams v params =
     (let v = trimLeft v in
      if v = [] then True
      else case consumeMediaParam v of (key, val, rest) \<Rightarrow>
        if key = [] then TrimSpace rest = '';''
        else case mapGet params key of
          Some x \<Rightarrow> if x \<noteq> val then False else mediaParams rest (mapSet key val params)
        | None \<Rightarrow> mediaParams rest (mapSet key val params))"
  by pat_completeness auto
termination
  by (relation "measure (\<lambda>(v, params). length v)")
    (auto dest!: consumeMediaParam_shorter [OF sym] intro: less_le_trans [OF _ trimLeft_shorter])

text \<open>
  Whether \<open>strings.ToLower\<close> of a text is the ASCII word \<open>t\<close>: besides the letters of ASCII, U+0130 is
  lowered to \<open>i\<close> and U+212A to \<open>k\<close>.
\<close>

fun lowersTo :: "string \<Rightarrow> string \<Rightarrow> bool" where
  "lowersTo s [] \<longleftrightarrow> s = []"
| "lowersTo s (t # ts) \<longleftrightarrow>
     (if s \<noteq> [] \<and> lowerByte (hd s) = t then lowersTo (tl s) ts
      else if t = CHR ''i'' \<and> take 2 s = [CHR 0xC4, CHR 0xB0] then lowersTo (drop 2 s) ts
      else if t = CHR ''k'' \<and> take 3 s = [CHR 0xE2, CHR 0x84, CHR 0xAA] then lowersTo (drop 3 s) ts
      else False)"

definition parsesAs :: "string \<Rightarrow> string \<Rightarrow> bool" where
  "parsesAs v t \<longleftrightarrow>
     (let base = takeWhile (\<lambda>c. c \<noteq> CHR '';'') v in lowersTo (TrimSpace base) t \<and> mediaParams (drop (length base) v) [])"

lemma json_examples:
  "parsesAs ''application/json'' ''application/json''" "parsesAs ''Application/JSON; charset=utf-8'' ''application/json''"
  "parsesAs ''application/json;'' ''application/json''" "\<not> parsesAs ''text/plain'' ''application/json''"
  "\<not> parsesAs ''application/json; charset'' ''application/json''" "\<not> parsesAs ''application/json; a=1; A=2'' ''application/json''"
  by code_simp+

end
