(* ===== verification/Config_Props.thy ===== *)
theory Config_Props
  imports Config
begin

text \<open>
  What a configuration guarantees once \<open>Validate\<close> accepted it: a closed production profile and route
  patterns that cannot fail, that the defaults are accepted, and that a list setting written as text
  decodes to the list.
\<close>

section \<open>What an accepted configuration guarantees\<close>

lemmas stage_defs = validateServers_def validateExposure_def validateAuth_def validateIdempotency_def validateEngines_def
  validateOutbound_def

lemma Validate_None: "Validate visit c = None \<longleftrightarrow> validateServers c = None \<and> validateExposure visit c = None \<and> validateAuth c = None
    \<and> validateIdempotency c = None \<and> validateEngines c = None \<and> validateOutbound c = None"
  by (simp add: Validate_def)

lemma badPattern_None [simp]: "badPattern field p = None \<longleftrightarrow> restValid p"
  by (simp add: badPattern_def Match_bad)

lemma checkHTTPPaths_None [simp]:
  "checkHTTPPaths field ps = None \<longleftrightarrow> list_all (\<lambda>p. HasPrefix p ''/api/'' \<and> restValid p) ps"
  by (simp add: checkHTTPPaths_def list_all_iff)

lemma checkGRPCMethods_None [simp]:
  "checkGRPCMethods field ps = None \<longleftrightarrow> list_all (\<lambda>p. methodShape p \<and> restValid p) ps"
  by (simp add: checkGRPCMethods_def list_all_iff)

lemma policy_credentials:
  assumes "validateClientPolicy name auth retry breaker tls strict = None" and "caType auth \<noteq> []"
  shows "caToken auth \<noteq> []" and "strict \<Longrightarrow> ctEnabled tls \<and> \<not> ctAllowInsecure tls"
  using assms by (auto simp: validateClientPolicy_def)

definition HttpUpstreamSafe :: "HttpUpstream \<Rightarrow> bool" where
  "HttpUpstreamSafe up \<longleftrightarrow> caType (huAuth up) \<noteq> [] \<longrightarrow> caToken (huAuth up) \<noteq> [] \<and> ctEnabled (huTLS up) \<and> \<not> ctAllowInsecure (huTLS up)"

definition GrpcUpstreamSafe :: "GrpcUpstream \<Rightarrow> bool" where
  "GrpcUpstreamSafe up \<longleftrightarrow> caType (guAuth up) \<noteq> [] \<longrightarrow> caToken (guAuth up) \<noteq> [] \<and> ctEnabled (guTLS up) \<and> \<not> ctAllowInsecure (guTLS up)"

lemma validateHTTPUpstream_safe: "validateHTTPUpstream True name up = None \<Longrightarrow> HttpUpstreamSafe up"
  using policy_credentials [of name "huAuth up" "huRetry up" "huBreaker up" "huTLS up" True]
  by (auto simp: validateHTTPUpstream_def HttpUpstreamSafe_def)

lemma validateGRPCUpstream_safe: "validateGRPCUpstream True name up = None \<Longrightarrow> GrpcUpstreamSafe up \<and> guTarget up \<noteq> []"
  using policy_credentials [of name "guAuth up" "guRetry up" "guBreaker up" "guTLS up" True]
  by (auto simp: validateGRPCUpstream_def GrpcUpstreamSafe_def)

lemma validateOutbound_safe:
  assumes "validateOutbound c = None" and "production c"
  shows "(name, h) \<in> set (obHTTP (cfgOutbound c)) \<Longrightarrow> HttpUpstreamSafe h"
    and "(name, g) \<in> set (obGRPC (cfgOutbound c)) \<Longrightarrow> GrpcUpstreamSafe g \<and> guTarget g \<noteq> []"
proof -
  have h: "\<forall>x\<in>set (obHTTP (cfgOutbound c)). (case x of (name, up) \<Rightarrow> validateHTTPUpstream True name up) = None"
    and g: "\<forall>x\<in>set (obGRPC (cfgOutbound c)). (case x of (name, up) \<Rightarrow> validateGRPCUpstream True name up) = None"
    using assms by (simp_all add: validateOutbound_def list_all_iff)
  show "(name, h) \<in> set (obHTTP (cfgOutbound c)) \<Longrightarrow> HttpUpstreamSafe h"
    using h validateHTTPUpstream_safe by fastforce
  show "(name, g) \<in> set (obGRPC (cfgOutbound c)) \<Longrightarrow> GrpcUpstreamSafe g \<and> guTarget g \<noteq> []"
    using g validateGRPCUpstream_safe by fastforce
qed


definition productionConfig :: Config where
  "productionConfig = defaultConfig
     \<lparr>cfgApp := (cfgApp defaultConfig)\<lparr>appEnv := ''production''\<rparr>,
      cfgGRPC := (cfgGRPC defaultConfig)\<lparr>grpcReflectionEnabled := False,
        grpcTLS := \<lparr>gtlsEnabled = True, gtlsCertFile = ''tls.crt'', gtlsKeyFile = ''tls.key'', gtlsClientCAFile = []\<rparr>\<rparr>,
      cfgSwagger := \<lparr>swEnabled = True, swRequireAuth = True\<rparr>,
      cfgAuth := (cfgAuth defaultConfig)\<lparr>authJWKSURL := ''https://identity/jwks''\<rparr>,
      cfgAuthorization := \<lparr>aznEnabled = True\<rparr>,
      cfgOutbound := \<lparr>obHTTP = [], obGRPC = [(''authorization'',
        \<lparr>guTarget = ''authz:9090'', guTimeout = seconds 3, guAuth = \<lparr>caType = ''bearer'', caToken = ''t''\<rparr>,
         guRetry = \<lparr>ryMaxAttempts = 3, ryInitialBackoff = 50000000, ryMaxBackoff = seconds 1, ryMethods = []\<rparr>,
         guBreaker = \<lparr>brEnabled = False, brFailureThreshold = 0, brOpenTimeout = 0\<rparr>,
         guTLS = \<lparr>ctEnabled = True, ctAllowInsecure = False, ctServerName = [], ctCAFile = [], ctCertFile = [], ctKeyFile = []\<rparr>\<rparr>)]\<rparr>\<rparr>"

lemma simple_valid: "simplePattern p \<Longrightarrow> restValid p"
  using Match_bad [of p "[]"] Match_simple by simp

lemma default_names: "validMigrationTable ''platform''" "validMigrationTable ''workflow''"
  "HasPrefix ''/api/v1/version'' ''/api/''" "methodShape ''/grpc.health.v1.Health/*''"
  "simplePattern ''/api/v1/version''" "simplePattern ''/grpc.health.v1.Health/*''"
  by code_simp+

lemma default_fields: "cfgApp defaultConfig = fst defaultServers" "cfgHTTP defaultConfig = fst (snd defaultServers)"
  "cfgGRPC defaultConfig = fst (snd (snd defaultServers))" "cfgDatabase defaultConfig = fst defaultStores"
  "cfgRedis defaultConfig = fst (snd defaultStores)" "cfgHealth defaultConfig = fst (snd (snd defaultStores))"
  "cfgRateLimit defaultConfig = snd (snd (snd defaultStores))" "cfgObservability defaultConfig = fst defaultSecurity"
  "cfgSwagger defaultConfig = fst (snd defaultSecurity)" "cfgJWT defaultConfig = fst (snd (snd defaultSecurity))"
  "cfgAuth defaultConfig = fst (snd (snd (snd defaultSecurity)))"
  "cfgAuthorization defaultConfig = fst (snd (snd (snd (snd defaultSecurity))))"
  "cfgMigration defaultConfig = snd (snd (snd (snd (snd defaultSecurity))))" "cfgIdempotency defaultConfig = fst defaultWorkers"
  "cfgTemporal defaultConfig = fst (snd defaultWorkers)" "cfgRetention defaultConfig = fst (snd (snd defaultWorkers))"
  "cfgOutbound defaultConfig = snd (snd (snd defaultWorkers))" "cfgEventBus defaultConfig = defaultEventBus"
  by (simp_all add: defaultConfig_def case_prod_beta)

lemmas default_values = default_fields defaultServers_def defaultStores_def defaultSecurity_def defaultWorkers_def
  defaultEventBus_def default_names simple_valid hours_def minutes_def seconds_def

lemma productionConfig_stages: "validateServers productionConfig = None" "validateExposure visit productionConfig = None"
  "validateAuth productionConfig = None" "validateIdempotency productionConfig = None" "validateEngines productionConfig = None"
  "validateOutbound productionConfig = None"
  by (simp add: validateServers_def production_def productionConfig_def default_values,
      simp add: validateExposure_def production_def productionConfig_def default_values,
      simp add: validateAuth_def production_def productionConfig_def default_values,
      simp add: validateIdempotency_def production_def productionConfig_def default_values,
      simp add: validateEngines_def production_def productionConfig_def default_values,
      simp add: validateOutbound_def productionConfig_def default_values validateGRPCUpstream_def validateClientPolicy_def)

lemma productionConfig_ok: "Validate visit productionConfig = None"
  by (simp add: Validate_None productionConfig_stages)


text \<open>
  The defaults are a configuration the service starts with, whatever the order in which the
  rate limit rules are visited; the same defaults under the production profile are refused, and the
  reason reported is the missing TLS of the gRPC server.
\<close>

theorem default_config_accepted:
  "Validate visit defaultConfig = None
   \<and> Validate visit (defaultConfig\<lparr>cfgApp := (cfgApp defaultConfig)\<lparr>appEnv := ''production''\<rparr>\<rparr>)
     = Some (Opaque ''grpc tls must be enabled in production'')"
proof -
  have "Validate visit defaultConfig = None"
    by (simp add: Validate_None stage_defs default_values production_def)
  moreover have "validateServers (defaultConfig\<lparr>cfgApp := (cfgApp defaultConfig)\<lparr>appEnv := ''production''\<rparr>\<rparr>)
     = Some (Opaque ''grpc tls must be enabled in production'')"
    by (simp add: validateServers_def default_values production_def reject_def firstError.simps(2))
  ultimately show ?thesis by (simp add: Validate_def firstError.simps(2))
qed

text \<open>
  The route patterns of an accepted configuration are sound. None of the patterns that exempt a
  route from authentication, that select the shared key, or that select idempotency ever makes
  \<open>path.Match\<close> fail, so none is silently ignored; and the HTTP patterns match routes below
  \<open>/api/\<close> only, so they cannot open the profiling, metrics or documentation routes.
\<close>

theorem accepted_patterns_sound:
  assumes "Validate visit c = None"
  shows "(\<forall>p\<in>set (authSkipHTTPPaths (cfgAuth c) @ pskHTTPPaths (authPSK (cfgAuth c)) @ idmHTTPPaths (cfgIdempotency c)).
      Match p route \<noteq> None \<and> (Match p route = Some True \<longrightarrow> HasPrefix route ''/api/''))
    \<and> (\<forall>p\<in>set (authSkipGRPCMethods (cfgAuth c) @ pskGRPCMethods (authPSK (cfgAuth c)) @ idmGRPCMethods (cfgIdempotency c)).
      Match p route \<noteq> None)"
proof -
  have v: "validateAuth c = None" "validateIdempotency c = None" using assms by (simp_all add: Validate_None)
  have ok: "list_all (\<lambda>p. HasPrefix p ''/api/'' \<and> restValid p) (authSkipHTTPPaths (cfgAuth c))"
    "list_all (\<lambda>p. HasPrefix p ''/api/'' \<and> restValid p) (pskHTTPPaths (authPSK (cfgAuth c)))"
    "list_all (\<lambda>p. HasPrefix p ''/api/'' \<and> restValid p) (idmHTTPPaths (cfgIdempotency c))"
    "list_all (\<lambda>p. methodShape p \<and> restValid p) (authSkipGRPCMethods (cfgAuth c))"
    "list_all (\<lambda>p. methodShape p \<and> restValid p) (pskGRPCMethods (authPSK (cfgAuth c)))"
    "list_all (\<lambda>p. methodShape p \<and> restValid p) (idmGRPCMethods (cfgIdempotency c))"
    using v by (simp_all add: validateAuth_def validateIdempotency_def Let_def)
  have http: "HasPrefix p ''/api/'' \<and> restValid p"
    if "p \<in> set (authSkipHTTPPaths (cfgAuth c) @ pskHTTPPaths (authPSK (cfgAuth c)) @ idmHTTPPaths (cfgIdempotency c))" for p
    using that ok unfolding list_all_iff set_append by blast
  have grpc: "restValid p"
    if "p \<in> set (authSkipGRPCMethods (cfgAuth c) @ pskGRPCMethods (authPSK (cfgAuth c)) @ idmGRPCMethods (cfgIdempotency c))" for p
    using that ok unfolding list_all_iff set_append by blast
  have below: "HasPrefix route ''/api/''" if "HasPrefix p ''/api/''" "Match p route = Some True" for p
  proof -
    have "p = ''/api/'' @ drop (length ''/api/'') p"
      using that(1) append_take_drop_id [of "length ''/api/''" p] unfolding HasPrefix_def by (simp only:)
    moreover have "plainPattern ''/api/''" by code_simp
    ultimately show ?thesis using Match_prefix [of "''/api/''" "drop (length ''/api/'') p" route] that(2) by (simp only: HasPrefix_def) simp
  qed
  show ?thesis
    by (intro conjI ballI impI) (use http grpc below in \<open>auto simp: Match_bad\<close>)
qed

theorem accepted_patterns_sound_witness:
  "Match ''/api/v1/version'' ''/metrics'' \<noteq> None \<and> Match ''/grpc.health.v1.Health/*'' ''/metrics'' \<noteq> None"
proof -
  have "authSkipHTTPPaths (cfgAuth productionConfig) = [''/api/v1/version'']" "authSkipGRPCMethods (cfgAuth productionConfig) = [''/grpc.health.v1.Health/*'']"
    by (simp_all add: productionConfig_def default_values)
  then show ?thesis using accepted_patterns_sound [OF productionConfig_ok, of "''/metrics''"] by simp
qed

section \<open>Lists written as text\<close>

definition listChar :: "char \<Rightarrow> bool" where
  "listChar c \<longleftrightarrow> 33 \<le> byte c \<and> byte c < 127 \<and> c \<noteq> CHR '','' \<and> \<not> quoteMark c"

text \<open>The value as it is written in a file or in the environment.\<close>

primrec joinComma :: "string list \<Rightarrow> string" where
  "joinComma [] = []"
| "joinComma (v # vs) = (if vs = [] then v else v @ '','' @ joinComma vs)"

definition visible :: "char \<Rightarrow> bool" where
  "visible c \<longleftrightarrow> 33 \<le> byte c \<and> byte c < 127"

lemma spacePrefix_visible: "visible (hd s) \<Longrightarrow> spacePrefix s = 0"
  by (cases s rule: spacePrefix.cases) (auto simp: visible_def asciiSpace_def twoByteSpace_def threeByteSpace_def)

lemma spaceSuffix_visible: "visible (hd s) \<Longrightarrow> spaceSuffix s = 0"
  by (cases s rule: spaceSuffix.cases) (auto simp: visible_def asciiSpace_def twoByteSpace_def threeByteSpace_def)

lemma TrimSpace_visible: "s \<noteq> [] \<Longrightarrow> visible (hd s) \<Longrightarrow> visible (last s) \<Longrightarrow> TrimSpace s = s"
  by (simp add: TrimSpace_def trimLeft_id spacePrefix_visible trimRightRev_id spaceSuffix_visible hd_rev)

lemma splitComma_plain: "list_all listChar v \<Longrightarrow> splitComma v = [v]"
  by (induction v) (auto simp: listChar_def)

lemma splitComma_head: "list_all listChar v \<Longrightarrow> splitComma (v @ '','' @ s) = v # splitComma s"
  by (induction v) (auto simp: listChar_def)

lemma splitComma_join: "vs \<noteq> [] \<Longrightarrow> list_all (list_all listChar) vs \<Longrightarrow> splitComma (joinComma vs) = vs"
  by (induction vs) (auto simp: splitComma_plain splitComma_head [simplified])

lemma joinComma_ends:
  "vs \<noteq> [] \<Longrightarrow> list_all (\<lambda>v. v \<noteq> [] \<and> list_all listChar v) vs \<Longrightarrow> joinComma vs \<noteq> [] \<and> visible (hd (joinComma vs)) \<and> visible (last (joinComma vs))"
  by (induction vs) (auto simp: listChar_def visible_def list_all_iff hd_append)

lemma trimQuotes_plain: "list_all listChar v \<Longrightarrow> trimQuotes v = v"
proof -
  assume v: "list_all listChar v"
  have drop: "list_all listChar u \<Longrightarrow> dropWhile quoteMark u = u" for u by (cases u) (auto simp: listChar_def)
  have "list_all listChar (rev v)" using v by simp
  then show ?thesis by (simp add: trimQuotes_def drop [OF v] drop)
qed

text \<open>
  A list setting survives being written as text. For any non-empty list of non-empty values of
  printable ASCII bytes without commas and quotes, the text with brackets and commas decodes to that
  list again, whatever white space the environment left around it.
\<close>

theorem string_list_roundtrip:
  assumes "vs \<noteq> []" and "list_all (\<lambda>v. v \<noteq> [] \<and> list_all listChar v) vs" and "TrimSpace text = ''['' @ joinComma vs @ '']''"
  shows "stringToStringSlice text = vs"
proof -
  have ends: "joinComma vs \<noteq> []" "visible (hd (joinComma vs))" "visible (last (joinComma vs))" using joinComma_ends [OF assms(1,2)] by simp_all
  have chars: "list_all (list_all listChar) vs" using assms(2) by (simp add: list_all_iff)
  have "stringToStringSlice text = map (\<lambda>v. trimQuotes (TrimSpace v)) (splitComma (joinComma vs))"
    using ends by (simp add: stringToStringSlice_def assms(3) HasPrefix_def butlast_append TrimSpace_visible Let_def)
  also have "\<dots> = map (\<lambda>v. trimQuotes (TrimSpace v)) vs" using splitComma_join [OF assms(1) chars] by simp
  also have "\<dots> = vs"
  proof (rule map_idI)
    fix v assume "v \<in> set vs"
    then have v: "v \<noteq> []" "list_all listChar v" using assms(2) by (auto simp: list_all_iff)
    then have "visible (hd v)" "visible (last v)" by (auto simp: list_all_iff listChar_def visible_def)
    then show "trimQuotes (TrimSpace v) = v" using v by (simp add: TrimSpace_visible trimQuotes_plain)
  qed
  finally show ?thesis .
qed

theorem string_list_roundtrip_witness: "stringToStringSlice ''  [/api/v1/*,/api/v2/x] '' = [''/api/v1/*'', ''/api/v2/x'']"
proof -
  have "TrimSpace ''  [/api/v1/*,/api/v2/x] '' = ''['' @ joinComma [''/api/v1/*'', ''/api/v2/x''] @ '']''" by code_simp
  moreover have "list_all (\<lambda>v. v \<noteq> [] \<and> list_all listChar v) [''/api/v1/*'', ''/api/v2/x'']" by code_simp
  ultimately show ?thesis using string_list_roundtrip [of "[''/api/v1/*'', ''/api/v2/x'']" "''  [/api/v1/*,/api/v2/x] ''"] by simp
qed

end
