(* ===== verification/Server.thy ===== *)
theory Server
  imports Transports Mime Config_Props
begin

text \<open>
  The HTTP server of \<open>internal/transport/http/server.go\<close>: its routes, the middleware every request
  passes and what guards each part of it, with the rest of \<open>middleware.go\<close>: recovery from panics,
  metrics, the request deadline, the body limit and the media type check. The router of gin is a
  parameter in that a request carries the route it was matched to, empty when there is none. What
  runs behind the guards, the idempotent execution included, is a parameter too.

  Not modelled: log lines and traces, redirects of the router, listening and stopping.
\<close>

section \<open>Handlers\<close>

text \<open>
  What became of a request: an answer with the headers of the response, nothing written, or a panic;
  the last two with the headers set so far. A handler that panics is taken to have written nothing.
\<close>

datatype 'b written =
    Written int "'b Response option" "(string, string) gomap"
  | Unwritten "(string, string) gomap"
  | Crashed "(string, string) gomap"

type_synonym ('b, 's) httpHandler = "HttpRequest \<Rightarrow> 's \<Rightarrow> 'b written \<times> 's"

definition runFlow :: "'b flow \<Rightarrow> ('b, 's) httpHandler \<Rightarrow> 's \<Rightarrow> 'b written \<times> 's" where
  "runFlow f handler s = (case f of Next req \<Rightarrow> handler req s | Abort st body out \<Rightarrow> (Written st body out, s))"

section \<open>Middleware around a handler\<close>

definition Recovery :: "('b, 's) httpHandler \<Rightarrow> ('b, 's) httpHandler" where
  "Recovery next req s =
     (case next req s of
        (Crashed out, s') \<Rightarrow> (Written 500 (Some \<lparr>rsCode = CodeInternal, rsMessage = ''internal server error'', rsBody = None, rsRequestID = requestID req\<rparr>) out, s')
      | r \<Rightarrow> r)"

text \<open>\<open>HTTPMetrics\<close>: the counted requests, by method, route and status. A panic passes it uncounted.\<close>

type_synonym httpObservation = "string \<times> string \<times> int"

definition HTTPMetrics :: "bool \<Rightarrow> ('b, 's) httpHandler \<Rightarrow> ('b, 's \<times> httpObservation list) httpHandler" where
  "HTTPMetrics enabled next req st =
     (case next req (fst st) of
        (Crashed out, s') \<Rightarrow> (Crashed out, s', snd st)
      | (r, s') \<Rightarrow>
          (r, s', if \<not> enabled then snd st
             else let route = (if hrRoute req = [] then ''unmatched'' else hrRoute req);
                      code = (case r of Written c _ _ \<Rightarrow> c | _ \<Rightarrow> 200) in
               snd st @ [(hrMethod req, route, code)]))"

text \<open>\<open>Timeout\<close>; \<open>expired\<close> says whether the deadline has passed when the handler returns.\<close>

definition Timeout :: "bool \<Rightarrow> ('b, 's) httpHandler \<Rightarrow> ('b, 's) httpHandler" where
  "Timeout expired next req s =
     (case next req s of
        (Unwritten out, s') \<Rightarrow>
          if expired then (case failWith (req\<lparr>hrOut := out\<rparr>) apperror_RequestTimeout of Abort st body out' \<Rightarrow> Written st body out' | Next _ \<Rightarrow> Unwritten out, s')
          else (Unwritten out, s')
      | r \<Rightarrow> r)"

text \<open>\<open>MaxBody\<close>: reading more than the limit fails.\<close>

definition MaxBody :: "int \<Rightarrow> HttpRequest \<Rightarrow> 'b flow" where
  "MaxBody limit req = Next (req\<lparr>hrBody := bindR (hrBody req) (\<lambda>body. if limit < int (length body) then Inl (Opaque ''http: request body too large'') else Inr body)\<rparr>)"

definition RequireJSON :: "HttpRequest \<Rightarrow> 'b flow" where
  "RequireJSON req =
     (if hrMethod req = ''POST'' \<and> hrContentLength req \<noteq> 0 \<and> \<not> parsesAs (hrHeader req ''Content-Type'') ''application/json''
      then abortJSON req 415 CodeInvalidArgument ''content type must be application/json''
      else Next req)"

section \<open>Routes\<close>

datatype area =
    HealthArea
  | MetricsArea
  | PprofArea
  | SwaggerArea
  | ApiArea

definition pprofRoutes :: "(string \<times> string) list" where
  "pprofRoutes = map (\<lambda>(verb, p). (verb, ''/debug/pprof'' @ p))
     ([(''GET'', ''/''), (''GET'', ''/cmdline''), (''GET'', ''/profile''), (''POST'', ''/symbol''), (''GET'', ''/symbol''), (''GET'', ''/trace'')]
      @ map (\<lambda>profile. (''GET'', ''/'' @ profile)) [''allocs'', ''block'', ''goroutine'', ''heap'', ''mutex'', ''threadcreate''])"

definition serverRoutes :: "Config \<Rightarrow> ((string \<times> string) \<times> area) list" where
  "serverRoutes cfg =
     concat (map (\<lambda>verb. [((verb, ''/live''), HealthArea), ((verb, ''/ready''), HealthArea)]) [''GET'', ''POST''])
     @ (if obsMetricsEnabled (cfgObservability cfg) then [((''GET'', ''/metrics''), MetricsArea)] else [])
     @ (if obsPprofEnabled (cfgObservability cfg) then map (\<lambda>r. (r, PprofArea)) pprofRoutes else [])
     @ (if swEnabled (cfgSwagger cfg) then [((''GET'', ''/swagger/*any''), SwaggerArea)] else [])
     @ map (\<lambda>r. ((''POST'', r), ApiArea)) apiRoutes"

text \<open>What the server takes from outside.\<close>

record httpEnv =
  heJwt :: jwtlib
  heService :: AuthService
  heAuthorizer :: authorizer
  heLimiter :: Limiter
  heValidKey :: "string \<Rightarrow> bool"
  heGenerated :: string
  heMaxAge :: string
  heExpired :: bool

definition areaGuard :: "httpEnv \<Rightarrow> Config \<Rightarrow> area \<Rightarrow> HttpRequest \<Rightarrow> 'b flow" where
  "areaGuard env cfg a req =
     (case a of
        HealthArea \<Rightarrow> Next req
      | MetricsArea \<Rightarrow> Next req
      | PprofArea \<Rightarrow> pprofAuth (obsPprofToken (cfgObservability cfg)) req
      | SwaggerArea \<Rightarrow> if swRequireAuth (cfgSwagger cfg) then JWT (heJwt env) (heService env) req else Next req
      | ApiArea \<Rightarrow> apiChain (heJwt env) (heService env) (heAuthorizer env) (heLimiter env) cfg req)"

text \<open>\<open>fallback\<close> is the answer of gin when no route matches.\<close>

definition dispatch :: "httpEnv \<Rightarrow> Config \<Rightarrow> (HttpRequest \<Rightarrow> 'b written) \<Rightarrow> (area \<Rightarrow> ('b, 's) httpHandler) \<Rightarrow> ('b, 's) httpHandler" where
  "dispatch env cfg fallback handlers req s =
     (case mapGet (serverRoutes cfg) (hrMethod req, hrRoute req) of
        None \<Rightarrow> (fallback req, s)
      | Some a \<Rightarrow> runFlow (areaGuard env cfg a req) (handlers a) s)"

definition serveHTTP :: "httpEnv \<Rightarrow> Config \<Rightarrow> (HttpRequest \<Rightarrow> 'b written) \<Rightarrow> (area \<Rightarrow> ('b, 's) httpHandler) \<Rightarrow> ('b, 's \<times> httpObservation list) httpHandler" where
  "serveHTTP env cfg fallback handlers req =
     runFlow (RequestID (heGenerated env) req) (\<lambda>req.
     runFlow (IdempotencyKey (heValidKey env) req) (\<lambda>req.
     runFlow (Middleware.Environment (rnActiveProfile (cfgRuntime cfg)) req)
     (Recovery (HTTPMetrics (obsMetricsEnabled (cfgObservability cfg)) (\<lambda>req.
     runFlow (SecurityHeaders req) (\<lambda>req.
     runFlow (CORS (httpCORS (cfgHTTP cfg)) (heMaxAge env) req) (\<lambda>req.
     runFlow (MaxBody (httpMaxBodyBytes (cfgHTTP cfg)) req)
     (Timeout (heExpired env) (\<lambda>req.
     runFlow (RequireJSON req) (dispatch env cfg fallback handlers))))))))))"

section \<open>What passes\<close>

text \<open>The parts of a request that the common middleware leaves as they are.\<close>

definition carried :: "HttpRequest \<Rightarrow> HttpRequest \<Rightarrow> bool" where
  "carried a b \<longleftrightarrow> hrMethod b = hrMethod a \<and> hrRoute b = hrRoute a \<and> hrHeader b = hrHeader a \<and> hrContentLength b = hrContentLength a
     \<and> hrContext b = hrContext a"

lemma carried_basic [simp]: "carried a a" "carried a (setHeader n v b) = carried a b" "hrBody (setHeader n v b) = hrBody b"
  by (simp_all add: carried_def setHeader_def)

lemma carried_trans: "carried a b \<Longrightarrow> carried b c \<Longrightarrow> carried a c"
  by (simp add: carried_def)

lemma RequestID_Next:
  "RequestID g req = (Next req' :: 'b flow) \<Longrightarrow> carried (req\<lparr>hrContext := (hrContext req)\<lparr>ctxRequestID := requestID req'\<rparr>\<rparr>) req'"
  by (auto simp: RequestID_def Let_def carried_def setHeader_def requestID_def)

lemma IdempotencyKey_Next: "IdempotencyKey valid req = (Next req' :: 'b flow) \<Longrightarrow> carried req req' \<and> requestID req' = requestID req"
  by (auto simp: IdempotencyKey_def Let_def carried_def setHeader_def requestID_def split: if_splits)

lemma Environment_Next: "Middleware.Environment p req = (Next req' :: 'b flow) \<Longrightarrow> carried req req' \<and> requestID req' = requestID req"
  by (auto simp: Middleware.Environment_def carried_def requestID_def)

lemma SecurityHeaders_Next: "SecurityHeaders req = (Next req' :: 'b flow) \<Longrightarrow> carried req req' \<and> requestID req' = requestID req"
  by (auto simp: SecurityHeaders_def Let_def carried_def setHeader_def requestID_def)

lemma CORS_Next: "CORS cfg age req = (Next req' :: 'b flow) \<Longrightarrow> carried req req' \<and> requestID req' = requestID req"
  by (auto simp: CORS_def Let_def carried_def setHeader_def requestID_def abortJSON_def split: if_splits)

lemma MaxBody_Next:
  "MaxBody limit req = (Next req' :: 'b flow) \<Longrightarrow> carried req req' \<and> requestID req' = requestID req \<and> (\<forall>body. hrBody req' = Inr body \<longrightarrow> int (length body) \<le> limit)"
  by (auto simp: MaxBody_def carried_def requestID_def bindR_Inr_iff split: if_splits)

lemma RequireJSON_Next:
  "RequireJSON req = (Next req' :: 'b flow) \<Longrightarrow> req' = req
     \<and> (hrMethod req = ''POST'' \<and> hrContentLength req \<noteq> 0 \<longrightarrow> parsesAs (hrHeader req ''Content-Type'') ''application/json'')"
  by (auto simp: RequireJSON_def abortJSON_def split: if_splits)

text \<open>What a guard demands of the request it passes on.\<close>

definition guarded :: "httpEnv \<Rightarrow> Config \<Rightarrow> area \<Rightarrow> HttpRequest \<Rightarrow> HttpRequest \<Rightarrow> bool" where
  "guarded env cfg a req req' \<longleftrightarrow>
     (a = PprofArea \<longrightarrow> (\<exists>scheme. cutSpace (hrHeader req ''Authorization'') = (scheme, obsPprofToken (cfgObservability cfg), True)))
     \<and> (a = SwaggerArea \<and> swRequireAuth (cfgSwagger cfg) \<longrightarrow> (\<exists>identity. tokenVerified (heJwt env) (heService env) req identity))
     \<and> (a = ApiArea \<longrightarrow>
          (hrContext req' = hrContext req \<and> MatchesAny (hrRoute req) (authSkipHTTPPaths (cfgAuth cfg))
           \<or> keyVerified (cfgAuth cfg) req \<and> ctxPrincipal (hrContext req') = Some (pskPrincipal (heJwt env))
           \<or> (\<exists>identity. tokenVerified (heJwt env) (heService env) req identity \<and> ctxPrincipal (hrContext req') = Some identity))
        \<and> (aznEnabled (cfgAuthorization cfg) \<longrightarrow> (\<forall>rq. workflowHTTPRequirement (hrRoute req) = Some rq
             \<longrightarrow> enfDecide (heAuthorizer env) (hrContext req') (hrCredential req') rq = Inr ())))"

lemma Authentication_body: "Authentication jl service cfg req = (Next req' :: 'b flow) \<Longrightarrow> hrBody req' = hrBody req"
  by (auto simp: Authentication_def JWT_def split: if_splits prod.splits sum.splits)

lemma sameRequest_body: "sameRequest a b \<Longrightarrow> hrBody a = hrBody b"
  unfolding sameRequest_def by (cases a, cases b) simp

lemma apiChain_body: "apiChain jl service authz limiter cfg req = (Next req' :: 'b flow) \<Longrightarrow> hrBody req' = hrBody req"
  by (auto simp: apiChain_def dest!: RateLimit_Next Authentication_body Authorization_Next sameRequest_body)

lemma areaGuard_Next:
  assumes "areaGuard env cfg a req = (Next req' :: 'b flow)"
  shows "guarded env cfg a req req' \<and> hrBody req' = hrBody req"
proof (cases a)
  case ApiArea
  then show ?thesis using assms apiChain_Next [of "heJwt env" "heService env" "heAuthorizer env" "heLimiter env" cfg req req'] apiChain_body
    by (simp add: areaGuard_def guarded_def) blast
next
  case SwaggerArea
  then show ?thesis using assms JWT_Next [of "heJwt env" "heService env" req req']
    by (auto simp: areaGuard_def guarded_def JWT_def split: if_splits prod.splits sum.splits)
next
  case PprofArea
  then show ?thesis using assms by (auto simp: areaGuard_def guarded_def pprofAuth_def split: if_splits prod.splits)
qed (use assms in \<open>simp_all add: areaGuard_def guarded_def\<close>)

text \<open>
  A chain in front of the handlers, as a function of them and of the state, answers a request itself or
  runs one of the handlers and passes its answer on; only an unwritten answer may be replaced.
\<close>

definition answersItself :: "((area \<Rightarrow> ('b, 's) httpHandler) \<Rightarrow> 's \<Rightarrow> 'b written \<times> 's) \<Rightarrow> bool" where
  "answersItself chain \<longleftrightarrow> (\<exists>x. \<forall>H s. chain H s = (x, s))"

definition passesOn :: "('b written \<Rightarrow> 'b written) \<Rightarrow> bool" where
  "passesOn g \<longleftrightarrow> (\<forall>c body out. g (Written c body out) = Written c body out) \<and> (\<forall>out. g (Crashed out) = Crashed out)"

definition runsHandler :: "((area \<Rightarrow> ('b, 's) httpHandler) \<Rightarrow> 's \<Rightarrow> 'b written \<times> 's) \<Rightarrow> area \<Rightarrow> HttpRequest \<Rightarrow> bool" where
  "runsHandler chain a req \<longleftrightarrow> (\<exists>g. passesOn g \<and> (\<forall>H s. chain H s = (g (fst (H a req s)), snd (H a req s))))"

lemma runFlow_simps [simp]: "runFlow (Next req) h = h req" "runFlow (Abort st body out) h = Pair (Written st body out)"
  by (simp_all add: runFlow_def fun_eq_iff)

lemma abort_answers [simp]: "answersItself (\<lambda>H. Pair x)"
  by (simp add: answersItself_def)

lemma dispatch_cases:
  fixes env :: httpEnv and fallback :: "HttpRequest \<Rightarrow> 'b written"
  obtains "answersItself (\<lambda>H :: area \<Rightarrow> ('b, 's) httpHandler. dispatch env cfg fallback H req)"
  | a req' where "mapGet (serverRoutes cfg) (hrMethod req, hrRoute req) = Some a" "guarded env cfg a req req'" "hrBody req' = hrBody req"
      "runsHandler (\<lambda>H :: area \<Rightarrow> ('b, 's) httpHandler. dispatch env cfg fallback H req) a req'"
proof (cases "mapGet (serverRoutes cfg) (hrMethod req, hrRoute req)")
  case None
  then show ?thesis using that(1) by (simp add: answersItself_def dispatch_def)
next
  case (Some a)
  show ?thesis
  proof (cases "areaGuard env cfg a req :: 'b flow")
    case (Next req')
    with Some have "runsHandler (\<lambda>H :: area \<Rightarrow> ('b, 's) httpHandler. dispatch env cfg fallback H req) a req'"
      unfolding runsHandler_def by (intro exI [of _ "\<lambda>x. x"]) (simp add: passesOn_def dispatch_def)
    then show ?thesis using that(2) Some areaGuard_Next [OF Next] by blast
  next
    case (Abort st body out)
    with Some show ?thesis using that(1) by (simp add: answersItself_def dispatch_def)
  qed
qed

lemma Timeout_eq: "\<exists>g. passesOn g \<and> (\<forall>h s. Timeout e h req s = (g (fst (h req s)), snd (h req s)))"
proof (intro exI conjI allI)
  let ?g = "\<lambda>x. case x of Unwritten out \<Rightarrow> if e then (case failWith (req\<lparr>hrOut := out\<rparr>) apperror_RequestTimeout of Abort st body out' \<Rightarrow> Written st body out' | Next _ \<Rightarrow> Unwritten out) else Unwritten out | r \<Rightarrow> r"
  show "passesOn ?g" by (simp add: passesOn_def)
  show "Timeout e h req s = (?g (fst (h req s)), snd (h req s))" for h s
    by (simp add: Timeout_def split: prod.splits written.splits)
qed

lemma timed_chain:
  fixes chain :: "(area \<Rightarrow> ('b, 's) httpHandler) \<Rightarrow> 's \<Rightarrow> 'b written \<times> 's"
  assumes "chain = (\<lambda>H. h H req)"
  shows "answersItself chain \<Longrightarrow> answersItself (\<lambda>H. Timeout e (h H) req)"
    and "runsHandler chain a req' \<Longrightarrow> runsHandler (\<lambda>H. Timeout e (h H) req) a req'"
proof -
  obtain g :: "'b written \<Rightarrow> 'b written" where g: "passesOn g" "\<And>(h :: ('b, 's) httpHandler) s. Timeout e h req s = (g (fst (h req s)), snd (h req s))"
    using Timeout_eq by metis
  show "answersItself chain \<Longrightarrow> answersItself (\<lambda>H. Timeout e (h H) req)"
    using assms by (auto simp: answersItself_def g(2))
  assume "runsHandler chain a req'"
  then obtain k where "passesOn k" "\<And>H s. h H req s = (k (fst (H a req' s)), snd (H a req' s))"
    unfolding runsHandler_def assms by blast
  with g show "runsHandler (\<lambda>H. Timeout e (h H) req) a req'"
    unfolding runsHandler_def by (intro exI [of _ "\<lambda>x. g (k x)"]) (simp add: passesOn_def)
qed

text \<open>The middleware inside of the metrics, up to the handler.\<close>

definition innerChain :: "httpEnv \<Rightarrow> Config \<Rightarrow> (HttpRequest \<Rightarrow> 'b written) \<Rightarrow> (area \<Rightarrow> ('b, 's) httpHandler) \<Rightarrow> ('b, 's) httpHandler" where
  "innerChain env cfg fallback handlers req = runFlow (SecurityHeaders req) (\<lambda>req. runFlow (CORS (httpCORS (cfgHTTP cfg)) (heMaxAge env) req) (\<lambda>req.
     runFlow (MaxBody (httpMaxBodyBytes (cfgHTTP cfg)) req) (Timeout (heExpired env) (\<lambda>req. runFlow (RequireJSON req) (dispatch env cfg fallback handlers)))))"

definition admitted :: "httpEnv \<Rightarrow> Config \<Rightarrow> HttpRequest \<Rightarrow> area \<Rightarrow> HttpRequest \<Rightarrow> bool" where
  "admitted env cfg mid a req' \<longleftrightarrow> mapGet (serverRoutes cfg) (hrMethod mid, hrRoute mid) = Some a \<and> guarded env cfg a mid req'
     \<and> (\<forall>body. hrBody req' = Inr body \<longrightarrow> int (length body) \<le> httpMaxBodyBytes (cfgHTTP cfg))
     \<and> (hrMethod mid = ''POST'' \<and> hrContentLength mid \<noteq> 0 \<longrightarrow> parsesAs (hrHeader mid ''Content-Type'') ''application/json'')"

lemma json_chain:
  assumes "MaxBody (httpMaxBodyBytes (cfgHTTP cfg)) r2 = (Next r3 :: 'b flow)"
  shows "answersItself (\<lambda>H :: area \<Rightarrow> ('b, 's) httpHandler. runFlow (RequireJSON r3) (dispatch env cfg fallback H))
    \<or> (\<exists>a req'. admitted env cfg r3 a req' \<and> runsHandler (\<lambda>H :: area \<Rightarrow> ('b, 's) httpHandler. runFlow (RequireJSON r3) (dispatch env cfg fallback H)) a req')"
proof (cases "RequireJSON r3 :: 'b flow")
  case (Next r4)
  note typed = RequireJSON_Next [OF Next] and limit = MaxBody_Next [OF assms]
  show ?thesis using typed limit Next
    by (cases rule: dispatch_cases [of env cfg fallback r4, where 's = 's]) (auto simp: admitted_def)
qed simp

lemma innerChain_cases:
  fixes fallback :: "HttpRequest \<Rightarrow> 'b written"
  obtains "answersItself (\<lambda>H :: area \<Rightarrow> ('b, 's) httpHandler. innerChain env cfg fallback H req)"
  | mid a req' where "carried req mid" "requestID mid = requestID req" "admitted env cfg mid a req'"
      "runsHandler (\<lambda>H :: area \<Rightarrow> ('b, 's) httpHandler. innerChain env cfg fallback H req) a req'"
proof -
  let ?c = "\<lambda>H :: area \<Rightarrow> ('b, 's) httpHandler. innerChain env cfg fallback H req"
  have "answersItself ?c \<or> (\<exists>mid a req'. carried req mid \<and> requestID mid = requestID req \<and> admitted env cfg mid a req' \<and> runsHandler ?c a req')"
  proof (cases "SecurityHeaders req :: 'b flow")
    case n1: (Next r1)
    show ?thesis
    proof (cases "CORS (httpCORS (cfgHTTP cfg)) (heMaxAge env) r1 :: 'b flow")
      case n2: (Next r2)
      show ?thesis
      proof (cases "MaxBody (httpMaxBodyBytes (cfgHTTP cfg)) r2 :: 'b flow")
        case n3: (Next r3)
        have c: "?c = (\<lambda>H. Timeout (heExpired env) (\<lambda>req. runFlow (RequireJSON req) (dispatch env cfg fallback H)) r3)"
          by (simp add: innerChain_def n1 n2 n3 fun_eq_iff)
        have "carried req r3" "requestID r3 = requestID req"
          using SecurityHeaders_Next [OF n1] CORS_Next [OF n2] MaxBody_Next [OF n3] carried_trans by auto
        then show ?thesis
          using json_chain [OF n3, of env fallback, where 's = 's]
            timed_chain [where h = "\<lambda>H req. runFlow (RequireJSON req) (dispatch env cfg fallback H)" and req = r3, OF refl] unfolding c by blast
      qed (simp add: innerChain_def n1 n2)
    qed (simp add: innerChain_def n1)
  qed (simp add: innerChain_def)
  then show ?thesis using that by blast
qed

lemma accepted_exposure:
  assumes "Validate visit cfg = None" and "mapGet (serverRoutes cfg) key = Some a"
  shows "(a = PprofArea \<longrightarrow> 32 \<le> length (obsPprofToken (cfgObservability cfg)))
    \<and> (production cfg \<longrightarrow> (a = SwaggerArea \<longrightarrow> swRequireAuth (cfgSwagger cfg)) \<and> aznEnabled (cfgAuthorization cfg))"
proof -
  from assms(2) have "(key, a) \<in> set (serverRoutes cfg)" by (simp add: mapGet_def map_of_SomeD)
  then have on: "a = PprofArea \<Longrightarrow> obsPprofEnabled (cfgObservability cfg)" "a = SwaggerArea \<Longrightarrow> swEnabled (cfgSwagger cfg)"
    by (auto simp: serverRoutes_def split: if_splits)
  have v: "validateExposure visit cfg = None" "validateAuth cfg = None" using assms(1) by (simp_all add: Validate_None)
  have "obsPprofEnabled (cfgObservability cfg) \<longrightarrow> 32 \<le> length (obsPprofToken (cfgObservability cfg))"
      "production cfg \<and> swEnabled (cfgSwagger cfg) \<longrightarrow> swRequireAuth (cfgSwagger cfg)"
    using v(1) by (auto simp: validateExposure_def Let_def)
  moreover have "production cfg \<longrightarrow> aznEnabled (cfgAuthorization cfg)" using v(2) by (auto simp: validateAuth_def Let_def)
  ultimately show ?thesis using on by blast
qed

text \<open>The middleware outside of the recovery.\<close>

lemma outer_cases:
  fixes handler :: "'k \<Rightarrow> ('b, 's) httpHandler" and g req valid p
  defines "chain \<equiv> \<lambda>H. runFlow (RequestID g req) (\<lambda>req. runFlow (IdempotencyKey valid req) (\<lambda>req. runFlow (Middleware.Environment p req) (handler H)))"
  obtains (answered) st body out where "\<And>H s. chain H s = (Written st body out, s)"
  | (passed) req' where "carried (req\<lparr>hrContext := (hrContext req)\<lparr>ctxRequestID := requestID req'\<rparr>\<rparr>) req'" "\<And>H s. chain H s = handler H req' s"
proof (cases "RequestID g req :: 'b flow")
  case n1: (Next r1)
  show ?thesis
  proof (cases "IdempotencyKey valid r1 :: 'b flow")
    case n2: (Next r2)
    show ?thesis
    proof (cases "Middleware.Environment p r2 :: 'b flow")
      case n3: (Next r3)
      have "carried (req\<lparr>hrContext := (hrContext req)\<lparr>ctxRequestID := requestID r3\<rparr>\<rparr>) r3"
        using RequestID_Next [OF n1] IdempotencyKey_Next [OF n2] Environment_Next [OF n3] carried_trans by metis
      with n1 n2 n3 show ?thesis by (intro passed) (simp_all add: chain_def)
    qed (use n1 n2 answered in \<open>simp add: chain_def\<close>)
  qed (use n1 answered in \<open>simp add: chain_def\<close>)
qed (use answered in \<open>simp add: chain_def\<close>)

text \<open>The recovery around the metrics: the answer, and the list of counted requests.\<close>

definition recoveredAs :: "string \<Rightarrow> 'b written \<Rightarrow> 'b written" where
  "recoveredAs rid x = (case x of
     Crashed out \<Rightarrow> Written 500 (Some \<lparr>rsCode = CodeInternal, rsMessage = ''internal server error'', rsBody = None, rsRequestID = rid\<rparr>) out
   | r \<Rightarrow> r)"

lemma recovery_eq:
  "\<exists>count. \<forall>h s obs. Recovery (HTTPMetrics m h) req (s, obs) = (recoveredAs (requestID req) (fst (h req s)), snd (h req s), count (fst (h req s)) obs)"
proof (intro exI allI)
  let ?count = "\<lambda>x obs. case x of Crashed out \<Rightarrow> obs | _ \<Rightarrow> if \<not> m then obs else
    obs @ [(hrMethod req, if hrRoute req = [] then ''unmatched'' else hrRoute req, case x of Written c _ _ \<Rightarrow> c | _ \<Rightarrow> 200)]"
  show "Recovery (HTTPMetrics m h) req (s, obs) = (recoveredAs (requestID req) (fst (h req s)), snd (h req s), ?count (fst (h req s)) obs)" for h s obs
    by (cases "h req s"; cases "fst (h req s)") (simp_all add: Recovery_def HTTPMetrics_def recoveredAs_def)
qed

lemma recoveredAs_answer: "recoveredAs rid x \<noteq> Crashed out"
  "passesOn g \<Longrightarrow> x = Written c body o' \<Longrightarrow> recoveredAs rid (g x) = x"
  "passesOn g \<Longrightarrow> x = Crashed out \<Longrightarrow> recoveredAs rid (g x)
     = Written 500 (Some \<lparr>rsCode = CodeInternal, rsMessage = ''internal server error'', rsBody = None, rsRequestID = rid\<rparr>) out"
  by (auto simp: recoveredAs_def passesOn_def split: written.splits)

lemma serveHTTP_eq:
  "serveHTTP env cfg fallback handlers req = runFlow (RequestID (heGenerated env) req) (\<lambda>req. runFlow (IdempotencyKey (heValidKey env) req) (\<lambda>req.
     runFlow (Middleware.Environment (rnActiveProfile (cfgRuntime cfg)) req)
     (Recovery (HTTPMetrics (obsMetricsEnabled (cfgObservability cfg)) (innerChain env cfg fallback handlers)))))"
  by (simp add: serveHTTP_def innerChain_def [abs_def])

lemma serveHTTP_cases:
  fixes fallback :: "HttpRequest \<Rightarrow> 'b written"
  obtains (answered) st body out where "\<And>(H :: area \<Rightarrow> ('b, 's) httpHandler) s. serveHTTP env cfg fallback H req s = (Written st body out, s)"
  | (passed) req' where "carried (req\<lparr>hrContext := (hrContext req)\<lparr>ctxRequestID := requestID req'\<rparr>\<rparr>) req'"
      "\<And>(H :: area \<Rightarrow> ('b, 's) httpHandler) s. serveHTTP env cfg fallback H req s
        = Recovery (HTTPMetrics (obsMetricsEnabled (cfgObservability cfg)) (innerChain env cfg fallback H)) req' s"
  unfolding serveHTTP_eq
  by (rule outer_cases [of "heGenerated env" req "heValidKey env" "rnActiveProfile (cfgRuntime cfg)"
      "\<lambda>H :: area \<Rightarrow> ('b, 's) httpHandler. Recovery (HTTPMetrics (obsMetricsEnabled (cfgObservability cfg)) (innerChain env cfg fallback H))"]) blast+

text \<open>
  C16: what the HTTP server exposes under an accepted configuration. Every request is answered. Either
  the server answers it itself, whatever the handlers would do, and nothing changes; or the handler of
  a registered route ran on it, and its answer is sent, a panic being answered with status 500, the
  internal error code and the request identifier. Then the body is within the limit and, when the
  request has one, of JSON type. Behind \<open>/debug/pprof\<close> the request presented the configured token of at
  least 32 bytes; in the documentation, which requires it in production, a verified token; in the API it
  was identified and permitted as its route demands, and in production permissions are always enforced.
\<close>

theorem http_surface:
  fixes handlers :: "area \<Rightarrow> ('b, 's) httpHandler"
  assumes "Validate visit cfg = None" and "serveHTTP env cfg fallback handlers req (s, obs) = (r, s', obs')"
  shows "(\<forall>out. r \<noteq> Crashed out)
   \<and> (s' = s \<and> (\<forall>handlers'. serveHTTP env cfg fallback handlers' req (s, obs) = (r, s, obs'))
    \<or> (\<exists>mid a req' x. handlers a req' s = (x, s') \<and> (\<forall>c body out. x = Written c body out \<longrightarrow> r = x)
      \<and> (\<forall>out. x = Crashed out \<longrightarrow> r = Written 500 (Some \<lparr>rsCode = CodeInternal, rsMessage = ''internal server error'', rsBody = None,
            rsRequestID = requestID mid\<rparr>) out)
      \<and> carried (req\<lparr>hrContext := (hrContext req)\<lparr>ctxRequestID := requestID mid\<rparr>\<rparr>) mid
      \<and> mapGet (serverRoutes cfg) (hrMethod req, hrRoute req) = Some a \<and> guarded env cfg a mid req'
      \<and> (\<forall>body. hrBody req' = Inr body \<longrightarrow> int (length body) \<le> httpMaxBodyBytes (cfgHTTP cfg))
      \<and> (hrMethod req = ''POST'' \<and> hrContentLength req \<noteq> 0 \<longrightarrow> parsesAs (hrHeader req ''Content-Type'') ''application/json'')
      \<and> (a = PprofArea \<longrightarrow> 32 \<le> length (obsPprofToken (cfgObservability cfg)))
      \<and> (production cfg \<longrightarrow> (a = SwaggerArea \<longrightarrow> swRequireAuth (cfgSwagger cfg)) \<and> aznEnabled (cfgAuthorization cfg))))"
proof (cases rule: serveHTTP_cases [of env cfg fallback req, where 's = 's])
  case (answered st body out)
  then show ?thesis using assms(2) by auto
next
  case (passed r3)
  obtain count where count: "\<And>H. serveHTTP env cfg fallback H req (s, obs) = (recoveredAs (requestID r3) (fst (innerChain env cfg fallback H r3 s)),
      snd (innerChain env cfg fallback H r3 s), count (fst (innerChain env cfg fallback H r3 s)) obs)"
    using recovery_eq [of "obsMetricsEnabled (cfgObservability cfg)" r3] passed(2) by metis
  have r: "\<forall>out. r \<noteq> Crashed out" using count [of handlers] assms(2) recoveredAs_answer(1) by (metis prod.inject)
  show ?thesis
  proof (cases rule: innerChain_cases [of env cfg fallback r3, where 's = 's])
    case 1
    then obtain x where "\<And>H. innerChain env cfg fallback H r3 s = (x, s)" unfolding answersItself_def by blast
    then show ?thesis using r count assms(2) by simp
  next
    case (2 mid a req')
    then obtain g where g: "passesOn g" "innerChain env cfg fallback handlers r3 s = (g (fst (handlers a req' s)), snd (handlers a req' s))"
      unfolding runsHandler_def by blast
    with count [of handlers] assms(2) 2(2) have out: "r = recoveredAs (requestID mid) (g (fst (handlers a req' s)))" "s' = snd (handlers a req' s)" by simp_all
    have c: "carried (req\<lparr>hrContext := (hrContext req)\<lparr>ctxRequestID := requestID mid\<rparr>\<rparr>) mid"
      using passed(1) 2(1,2) unfolding carried_def by simp
    then have same: "hrMethod mid = hrMethod req" "hrRoute mid = hrRoute req" "hrContentLength mid = hrContentLength req" "hrHeader mid = hrHeader req"
      by (simp_all add: carried_def)
    note adm = 2(3) [unfolded admitted_def same]
    show ?thesis
      by (intro conjI r disjI2 exI [of _ mid] exI [of _ a] exI [of _ req'] exI [of _ "fst (handlers a req' s)"] allI impI c)
        (use out adm accepted_exposure [OF assms(1), of _ a] recoveredAs_answer(2,3) [OF g(1)] in auto)
  qed
qed

definition sampleHttpEnv :: httpEnv where
  "sampleHttpEnv = \<lparr>heJwt = sampleJwt, heService = sampleAuth, heAuthorizer = sampleAuthorizer, heLimiter = noLimiter, heValidKey = (\<lambda>k. True),
     heGenerated = ''g-1'', heMaxAge = ''600'', heExpired = False\<rparr>"

definition servedRequest :: HttpRequest where
  "servedRequest = (sampleRequest ''/api/v1/workflow/tasks/claim'')
     \<lparr>hrHeader := (\<lambda>n. if n = ''Authorization'' then ''Bearer u1'' else if n = ''Content-Type'' then ''application/json'' else [])\<rparr>"

definition crashingHandlers :: "area \<Rightarrow> (unit, nat) httpHandler" where
  "crashingHandlers a req n = (Crashed (hrOut req), n + 1)"

lemma claim_route: "mapGet (serverRoutes productionConfig) (''POST'', ''/api/v1/workflow/tasks/claim'') = Some ApiArea"
  by (simp add: serverRoutes_def productionConfig_def default_values apiRoutes_def)

lemma claim_settings: "corsEnabled (httpCORS (cfgHTTP productionConfig)) = False" "httpMaxBodyBytes (cfgHTTP productionConfig) = 1048576"
    "pskEnabled (authPSK (cfgAuth productionConfig)) = False" "authSkipHTTPPaths (cfgAuth productionConfig) = [''/api/v1/version'']"
    "aznEnabled (cfgAuthorization productionConfig)"
  by (simp_all add: productionConfig_def default_values)

lemma claim_type: "parsesAs ''application/json'' ''application/json''" "\<not> requestid_Valid []"
  by (simp_all add: json_examples requestid_Valid_def)

lemma claim_requirement: "workflowHTTPRequirement ''/api/v1/workflow/tasks/claim'' = Some (need ''workflow.task'' ''claim'')"
  by code_simp

lemma claim_served: "fst (snd (serveHTTP sampleHttpEnv productionConfig (\<lambda>req. Written 404 None []) crashingHandlers servedRequest (0, []))) = 1"
  by (simp add: serveHTTP_def runFlow_def RequestID_def IdempotencyKey_def Middleware.Environment_def Recovery_def HTTPMetrics_def SecurityHeaders_def
      CORS_def MaxBody_def Timeout_def RequireJSON_def dispatch_def areaGuard_def sampleHttpEnv_def servedRequest_def sampleRequest_def setHeader_def Let_def
      claim_settings claim_type claim_route apiChain_def RateLimit_def noLimiter_def Authentication_def Match_plain [OF plain_version] JWT_def sample_header
      Auth_Verify_def sampleAuth_def Authorization_def sampleAuthorizer_def crashingHandlers_def claim_requirement del: equalFold.simps)

theorem http_surface_witness:
  "\<exists>mid a req' out. a = ApiArea \<and> guarded sampleHttpEnv productionConfig a mid req' \<and> crashingHandlers a req' 0 = (Crashed out, 1)
     \<and> fst (serveHTTP sampleHttpEnv productionConfig (\<lambda>req. Written 404 None []) crashingHandlers servedRequest (0, []))
       = Written 500 (Some \<lparr>rsCode = CodeInternal, rsMessage = ''internal server error'', rsBody = None, rsRequestID = requestID mid\<rparr>) out
     \<and> aznEnabled (cfgAuthorization productionConfig)"
proof -
  obtain r s' obs' where served: "serveHTTP sampleHttpEnv productionConfig (\<lambda>req. Written 404 None []) crashingHandlers servedRequest (0, []) = (r, s', obs')"
    by (metis prod.collapse)
  have "s' = 1" using claim_served served by simp
  moreover have "hrMethod servedRequest = ''POST''" "hrRoute servedRequest = ''/api/v1/workflow/tasks/claim''"
    by (simp_all add: servedRequest_def sampleRequest_def)
  ultimately show ?thesis using http_surface [OF productionConfig_ok served] claim_settings(5) claim_route served
    by (auto simp: crashingHandlers_def)
qed

end
