(* ===== verification/Loading.thy ===== *)
theory Loading
  imports Config_Props Access
begin

text \<open>
  Loading the configuration: \<open>LoadWithProfile\<close> of \<open>internal/config/config.go\<close>. The library
  \<open>viper\<close>, which reads the files and the environment, is a parameter, with its state as a type of its
  own; so is the file system, of which the code asks whether a file exists.
\<close>

section \<open>The library\<close>

record 'v viper =
  vpNew :: "string \<Rightarrow> 'v"
  vpBindEnv :: "'v \<Rightarrow> string \<Rightarrow> string list \<Rightarrow> 'v result"
  vpSetDefaults :: "'v \<Rightarrow> Config \<Rightarrow> 'v"
  vpReadInConfig :: "'v \<Rightarrow> 'v result"
  vpNotFound :: "goerr \<Rightarrow> bool"
  vpGetString :: "'v \<Rightarrow> string \<Rightarrow> string"
  vpSetConfigFile :: "'v \<Rightarrow> string \<Rightarrow> 'v"
  vpMergeInConfig :: "'v \<Rightarrow> 'v result"
  vpSet :: "'v \<Rightarrow> string \<Rightarrow> string \<Rightarrow> 'v"
  vpUnmarshal :: "'v \<Rightarrow> Config result"

datatype stat = Exists | NotExist | StatError goerr

text \<open>
  \<open>strings.ToLower\<close> as far as a profile needs it: the letters of ASCII and the two letters beyond it
  whose lower case is in ASCII, U+0130 and U+212A. Any other letter is left as it is; its lower case
  is no more a character of a profile than it is.
\<close>

fun ToLower :: "string \<Rightarrow> string" where
  "ToLower [] = []"
| "ToLower (c # s) =
     (if c = CHR 0xC4 \<and> take 1 s = [CHR 0xB0] then CHR ''i'' # ToLower (drop 1 s)
      else if c = CHR 0xE2 \<and> take 2 s = [CHR 0x84, CHR 0xAA] then CHR ''k'' # ToLower (drop 2 s)
      else lowerByte c # ToLower s)"

section \<open>Loading\<close>

text \<open>\<open>if err != nil { return fmt.Errorf("...: %w", err) }\<close>.\<close>

definition wrapText :: "string \<Rightarrow> 'a result \<Rightarrow> 'a result" where
  "wrapText text r = (case r of Inl e \<Rightarrow> Inl (Wrapf text e []) | Inr x \<Rightarrow> Inr x)"

lemma wrapText_Inr [simp]: "wrapText text r = Inr x \<longleftrightarrow> r = Inr x" "wrapText text (Inr x) = Inr x"
  by (auto simp: wrapText_def split: sum.splits)

definition boundEnv :: "(string \<times> string list \<times> string) list" where
  "boundEnv =
     [(''app.env'', [''APP_ENV'', ''APP_APP_ENV''], ''bind environment profile: ''),
      (''outbound.grpc.authorization.target'', [''APP_OUTBOUND_GRPC_AUTHORIZATION_TARGET''], ''bind authorization target: ''),
      (''outbound.grpc.application.target'', [''APP_OUTBOUND_GRPC_APPLICATION_TARGET''], ''bind application target: ''),
      (''outbound.grpc.application.auth.type'', [''APP_OUTBOUND_GRPC_APPLICATION_AUTH_TYPE''], ''bind application auth type: ''),
      (''outbound.grpc.application.auth.token'', [''APP_OUTBOUND_GRPC_APPLICATION_AUTH_TOKEN''], ''bind application auth token: ''),
      (''outbound.grpc.application.tls.allow_insecure'', [''APP_OUTBOUND_GRPC_APPLICATION_TLS_ALLOW_INSECURE''], ''bind application allow insecure: '')]"

fun bindEnvs :: "'v viper \<Rightarrow> 'v \<Rightarrow> (string \<times> string list \<times> string) list \<Rightarrow> 'v result" where
  "bindEnvs vp v [] = Inr v"
| "bindEnvs vp v ((key, names, text) # rest) =
     bindR (wrapText text (vpBindEnv vp v key names)) (\<lambda>v'. bindEnvs vp v' rest)"

text \<open>The files: the main one, which may be missing only when none is named, and that of the profile.\<close>

definition readMain :: "'v viper \<Rightarrow> string \<Rightarrow> 'v \<Rightarrow> 'v result" where
  "readMain vp path v =
     (case vpReadInConfig vp v of
        Inr v' \<Rightarrow> Inr v'
      | Inl e \<Rightarrow> if path \<noteq> [] \<or> \<not> vpNotFound vp e then Inl (Wrapf ''read config: '' e []) else Inr v)"

definition activeProfile :: "'v viper \<Rightarrow> string \<Rightarrow> 'v \<Rightarrow> string" where
  "activeProfile vp explicitProfile v =
     (let profile = ToLower (TrimSpace explicitProfile) in
      if profile = [] then ToLower (TrimSpace (vpGetString vp v ''app.env'')) else profile)"

definition mergeProfile :: "'v viper \<Rightarrow> (string \<Rightarrow> stat) \<Rightarrow> string \<Rightarrow> string \<Rightarrow> 'v \<Rightarrow> ('v \<times> string list) result" where
  "mergeProfile vp osStat path profile v =
     (let profilePath = profileConfigPath path profile in
      if profilePath = path then Inr (v, [path])
      else case osStat profilePath of
          Exists \<Rightarrow>
            bindR (wrapText (''merge profile config '' @ goQuote profilePath @ '': '') (vpMergeInConfig vp (vpSetConfigFile vp v profilePath)))
              (\<lambda>v'. Inr (v', [path, profilePath]))
        | NotExist \<Rightarrow> Inr (v, [path])
        | StatError e \<Rightarrow> Inl (Wrapf (''inspect profile config '' @ goQuote profilePath @ '': '') e []))"

text \<open>What happens to the decoded structure.\<close>

definition finishConfig :: "string list \<Rightarrow> string \<Rightarrow> string list \<Rightarrow> Config \<Rightarrow> Config result" where
  "finishConfig visit profile loadedFiles decoded =
     (let cfg = decoded\<lparr>cfgMigration := (cfgMigration decoded)\<lparr>mgSchema := dbcSchema (cfgDatabase decoded), mgDatabaseName := dbcName (cfgDatabase decoded)\<rparr>\<rparr> in
      case Validate visit cfg of
        Some e \<Rightarrow> Inl e
      | None \<Rightarrow> Inr (cfg\<lparr>cfgRuntime := \<lparr>rnActiveProfile = profile, rnConfigFiles = loadedFiles\<rparr>\<rparr>))"

definition LoadWithProfile :: "'v viper \<Rightarrow> (string \<Rightarrow> stat) \<Rightarrow> string list \<Rightarrow> string \<Rightarrow> string \<Rightarrow> Config result" where
  "LoadWithProfile vp osStat visit path explicitProfile =
     bindR (bindEnvs vp (vpNew vp path) boundEnv) (\<lambda>v.
     bindR (readMain vp path (vpSetDefaults vp v defaultConfig)) (\<lambda>v.
     let profile = activeProfile vp explicitProfile v in
     if \<not> validProfile profile then Inl (Opaque (''invalid environment profile '' @ goQuote profile))
     else bindR (mergeProfile vp osStat path profile v) (\<lambda>(v, loadedFiles).
       bindR (wrapText ''decode config: '' (vpUnmarshal vp (vpSet vp v ''app.env'' profile))) (finishConfig visit profile loadedFiles))))"

definition Load :: "'v viper \<Rightarrow> (string \<Rightarrow> stat) \<Rightarrow> string list \<Rightarrow> string \<Rightarrow> Config result" where
  "Load vp osStat visit path = LoadWithProfile vp osStat visit path []"

section \<open>What is loaded\<close>

text \<open>The directory part of a path.\<close>

definition dirPart :: "string \<Rightarrow> string" where
  "dirPart path = rev (dropWhile (\<lambda>c. c \<noteq> CHR ''/'') (rev path))"

lemma validProfile_chars: "validProfile s \<Longrightarrow> c \<in> set s \<Longrightarrow> c \<noteq> CHR ''/''"
  by (auto simp: validProfile_def list_all_iff char_class_defs split: list.splits)

lemma dirPart_append: "CHR ''/'' \<notin> set s \<Longrightarrow> dirPart (p @ s) = dirPart p"
proof -
  assume "CHR ''/'' \<notin> set s"
  then have "dropWhile (\<lambda>c. c \<noteq> CHR ''/'') (rev s @ rev p) = dropWhile (\<lambda>c. c \<noteq> CHR ''/'') (rev p)"
    by (intro dropWhile_append2) auto
  then show ?thesis by (simp add: dirPart_def)
qed

lemma Ext_suffix: "(\<exists>p. path = p @ Ext path) \<and> CHR ''/'' \<notin> set (Ext path)"
proof -
  define t where "t = takeWhile (\<lambda>c. c \<noteq> CHR ''/'' \<and> c \<noteq> CHR ''.'') (rev path)"
  define u where "u = drop (length t) (rev path)"
  have ext: "Ext path = (case u of [] \<Rightarrow> [] | c # cs \<Rightarrow> if c = CHR ''.'' then c # rev t else [])"
    unfolding Ext_def t_def u_def Let_def ..
  have t: "CHR ''/'' \<notin> set t" unfolding t_def by (auto dest: set_takeWhileD)
  have "t @ u = rev path" unfolding t_def u_def by (simp only: dropWhile_eq_drop [symmetric] takeWhile_dropWhile_id)
  then have "rev (t @ u) = path" by simp
  then have split: "path = rev u @ rev t" by (simp only: rev_append)
  show ?thesis
  proof (cases u)
    case (Cons c cs)
    then have "path = rev cs @ c # rev t" using split by (simp only: rev.simps append_assoc append_Cons append_Nil)
    then show ?thesis using t unfolding ext Cons by (cases "c = CHR ''.''") (simp_all del: append_assoc)
  qed (simp add: ext)
qed

lemma profileConfigPath_dir: "validProfile profile \<Longrightarrow> dirPart (profileConfigPath path profile) = dirPart path"
proof -
  assume v: "validProfile profile"
  obtain p where p: "path = p @ Ext path" and ext: "CHR ''/'' \<notin> set (Ext path)" using Ext_suffix by blast
  have "length path - length (Ext path) = length p" using arg_cong [OF p, of length] by simp
  then have base: "take (length path - length (Ext path)) path = p" using p by (metis append_eq_conv_conj)
  have "CHR ''/'' \<notin> set (''-'' @ profile @ Ext path)" using validProfile_chars [OF v] ext by auto
  then have "dirPart (profileConfigPath path profile) = dirPart p" unfolding profileConfigPath_def base by (rule dirPart_append)
  also have "\<dots> = dirPart (p @ Ext path)" using dirPart_append [OF ext] by simp
  finally show ?thesis using p by simp
qed

text \<open>The validation does not read the part that is filled in afterwards.\<close>

lemma runtime_fields:
  "cfgApp (c\<lparr>cfgRuntime := r\<rparr>) = cfgApp c"
  "cfgHTTP (c\<lparr>cfgRuntime := r\<rparr>) = cfgHTTP c"
  "cfgGRPC (c\<lparr>cfgRuntime := r\<rparr>) = cfgGRPC c"
  "cfgDatabase (c\<lparr>cfgRuntime := r\<rparr>) = cfgDatabase c"
  "cfgRedis (c\<lparr>cfgRuntime := r\<rparr>) = cfgRedis c"
  "cfgHealth (c\<lparr>cfgRuntime := r\<rparr>) = cfgHealth c"
  "cfgRateLimit (c\<lparr>cfgRuntime := r\<rparr>) = cfgRateLimit c"
  "cfgObservability (c\<lparr>cfgRuntime := r\<rparr>) = cfgObservability c"
  "cfgSwagger (c\<lparr>cfgRuntime := r\<rparr>) = cfgSwagger c"
  "cfgJWT (c\<lparr>cfgRuntime := r\<rparr>) = cfgJWT c"
  "cfgAuth (c\<lparr>cfgRuntime := r\<rparr>) = cfgAuth c"
  "cfgAuthorization (c\<lparr>cfgRuntime := r\<rparr>) = cfgAuthorization c"
  "cfgMigration (c\<lparr>cfgRuntime := r\<rparr>) = cfgMigration c"
  "cfgIdempotency (c\<lparr>cfgRuntime := r\<rparr>) = cfgIdempotency c"
  "cfgOutbound (c\<lparr>cfgRuntime := r\<rparr>) = cfgOutbound c"
  "cfgEventBus (c\<lparr>cfgRuntime := r\<rparr>) = cfgEventBus c"
  "cfgTemporal (c\<lparr>cfgRuntime := r\<rparr>) = cfgTemporal c"
  "cfgRetention (c\<lparr>cfgRuntime := r\<rparr>) = cfgRetention c"
  by simp_all

lemma Validate_runtime [simp]: "Validate visit (c\<lparr>cfgRuntime := r\<rparr>) = Validate visit c"
  by (simp only: Validate_def stage_defs production_def runtime_fields)

lemma finishConfig_Inr:
  "finishConfig visit profile files decoded = Inr cfg \<Longrightarrow>
    Validate visit cfg = None \<and> cfgRuntime cfg = \<lparr>rnActiveProfile = profile, rnConfigFiles = files\<rparr> \<and> cfgApp cfg = cfgApp decoded
    \<and> mgSchema (cfgMigration cfg) = dbcSchema (cfgDatabase cfg) \<and> mgDatabaseName (cfgMigration cfg) = dbcName (cfgDatabase cfg)"
  by (auto simp: finishConfig_def Let_def split: option.splits)

lemma mergeProfile_Inr:
  "mergeProfile vp osStat path profile v = Inr (v', files) \<Longrightarrow>
    files = [path] \<or> files = [path, profileConfigPath path profile] \<and> osStat (profileConfigPath path profile) = Exists"
  by (auto simp: mergeProfile_def Let_def bindR_Inr_iff split: if_splits stat.splits)

lemma accepted_names:
  "Validate visit cfg = None \<Longrightarrow> validMigrationTable (dbcName (cfgDatabase cfg)) \<and> (dbcSchema (cfgDatabase cfg) = [] \<or> validMigrationTable (dbcSchema (cfgDatabase cfg)))"
  by (auto simp: Validate_None validateServers_def Let_def)

lemma loaded_parts:
  assumes "LoadWithProfile vp osStat visit path explicitProfile = Inr cfg"
  obtains v w files decoded profile where "profile = activeProfile vp explicitProfile v" "validProfile profile"
    "mergeProfile vp osStat path profile v = Inr (w, files)" "vpUnmarshal vp (vpSet vp w ''app.env'' profile) = Inr decoded"
    "finishConfig visit profile files decoded = Inr cfg"
  using assms by (auto simp: LoadWithProfile_def Let_def bindR_Inr_iff split: if_splits)

text \<open>
  C25: what a loaded configuration is. It passed validation, including with its migration settings,
  which address the database and the schema of the service by names of lower case letters, digits and
  underscores. Its active profile is a valid name, is the explicit one, without white space and in
  lower case, whenever one is given, and is the environment that the validation saw, so that the
  checks for production cannot be missed by writing it otherwise. The files read are the named one
  and at most one more, which exists and is in the same directory.
  The library is taken to let a value that was set win over files and environment.
\<close>

theorem loaded_config:
  assumes "LoadWithProfile vp osStat visit path explicitProfile = Inr cfg"
    and set_wins: "\<And>v text decoded. vpUnmarshal vp (vpSet vp v ''app.env'' text) = Inr decoded \<Longrightarrow> appEnv (cfgApp decoded) = text"
  shows "Validate visit cfg = None
    \<and> validProfile (rnActiveProfile (cfgRuntime cfg))
    \<and> (ToLower (TrimSpace explicitProfile) \<noteq> [] \<longrightarrow> rnActiveProfile (cfgRuntime cfg) = ToLower (TrimSpace explicitProfile))
    \<and> (production cfg \<longleftrightarrow> rnActiveProfile (cfgRuntime cfg) = ''production'')
    \<and> mgSchema (cfgMigration cfg) = dbcSchema (cfgDatabase cfg) \<and> (mgSchema (cfgMigration cfg) = [] \<or> validMigrationTable (mgSchema (cfgMigration cfg)))
    \<and> mgDatabaseName (cfgMigration cfg) = dbcName (cfgDatabase cfg) \<and> validMigrationTable (mgDatabaseName (cfgMigration cfg))
    \<and> (rnConfigFiles (cfgRuntime cfg) = [path]
       \<or> (\<exists>file. rnConfigFiles (cfgRuntime cfg) = [path, file] \<and> osStat file = Exists \<and> dirPart file = dirPart path))"
proof -
  obtain v w files decoded profile where p: "profile = activeProfile vp explicitProfile v" "validProfile profile"
      and m: "mergeProfile vp osStat path profile v = Inr (w, files)" and u: "vpUnmarshal vp (vpSet vp w ''app.env'' profile) = Inr decoded"
      and f: "finishConfig visit profile files decoded = Inr cfg"
    using loaded_parts [OF assms(1)] .
  note fin = finishConfig_Inr [OF f]
  have "ToLower (TrimSpace explicitProfile) \<noteq> [] \<longrightarrow> profile = ToLower (TrimSpace explicitProfile)" using p(1) by (simp add: activeProfile_def Let_def)
  moreover have "production cfg \<longleftrightarrow> profile = ''production''" using fin set_wins [OF u] by (simp add: production_def)
  moreover have "files = [path] \<or> (\<exists>file. files = [path, file] \<and> osStat file = Exists \<and> dirPart file = dirPart path)"
    using mergeProfile_Inr [OF m] profileConfigPath_dir [OF p(2)] by blast
  ultimately show ?thesis using fin p(2) accepted_names [of visit cfg] by simp
qed

text \<open>A library that knows the defaults only, and what was set over them.\<close>

definition plainViper :: "Config viper" where
  "plainViper = \<lparr>vpNew = (\<lambda>path. defaultConfig), vpBindEnv = (\<lambda>v key names. Inr v), vpSetDefaults = (\<lambda>v defaults. defaults),
     vpReadInConfig = Inr, vpNotFound = (\<lambda>e. True), vpGetString = (\<lambda>v key. appEnv (cfgApp v)), vpSetConfigFile = (\<lambda>v file. v),
     vpMergeInConfig = Inr, vpSet = (\<lambda>v key text. v\<lparr>cfgApp := (cfgApp v)\<lparr>appEnv := text\<rparr>\<rparr>), vpUnmarshal = Inr\<rparr>"

theorem loaded_config_witness:
  "\<exists>cfg. LoadWithProfile plainViper (\<lambda>file. Exists) [] ''config/config.yaml'' '' TEST '' = Inr cfg
     \<and> rnActiveProfile (cfgRuntime cfg) = ''test'' \<and> validMigrationTable (mgDatabaseName (cfgMigration cfg))"
proof -
  have lower: "ToLower (TrimSpace '' TEST '') = ''test''" "validProfile ''test''" by code_simp+
  let ?decoded = "defaultConfig\<lparr>cfgApp := (cfgApp defaultConfig)\<lparr>appEnv := ''test''\<rparr>, cfgMigration := (cfgMigration defaultConfig)\<lparr>mgSchema := dbcSchema (cfgDatabase defaultConfig), mgDatabaseName := dbcName (cfgDatabase defaultConfig)\<rparr>\<rparr>"
  have "Validate [] ?decoded = None" by (simp add: Validate_None stage_defs default_values production_def)
  then have "\<exists>cfg. LoadWithProfile plainViper (\<lambda>file. Exists) [] ''config/config.yaml'' '' TEST '' = Inr cfg"
    by (simp add: LoadWithProfile_def plainViper_def boundEnv_def readMain_def activeProfile_def lower mergeProfile_def finishConfig_def Let_def)
  then obtain cfg where cfg: "LoadWithProfile plainViper (\<lambda>file. Exists) [] ''config/config.yaml'' '' TEST '' = Inr cfg" ..
  have sets: "appEnv (cfgApp decoded) = p" if "vpUnmarshal plainViper (vpSet plainViper v ''app.env'' p) = Inr decoded" for v p decoded
    using that by (auto simp: plainViper_def)
  have "rnActiveProfile (cfgRuntime cfg) = ''test'' \<and> validMigrationTable (mgDatabaseName (cfgMigration cfg))"
    using loaded_config [OF cfg] sets lower(1) by fastforce
  then show ?thesis using cfg by blast
qed

end
