(* ===== verification/Database.thy ===== *)
theory Database
  imports Loading
begin

text \<open>
  The database connection, \<open>internal/database/database.go\<close> and \<open>transaction.go\<close>. The drivers are
  parameters: parsing and printing their connection strings, opening and pinging, and the calls on a
  transaction, each of which may depend on the calls before it and is recorded with its outcome.
\<close>

section \<open>Calls\<close>

datatype driverCall =
    OpenDB string
  | BeginTx
  | ExecTx string "string list"
  | CommitTx
  | RollbackTx
  | CloseDB
  | NewMigrator string string
  | Steps int
  | MigrateDown
  | MigrateUp
  | CloseMigrator

type_synonym calls = "(driverCall \<times> bool) list"

text \<open>A call whose error ends the function with a wrapped one, and one whose error is ignored.\<close>

definition attempt :: "(calls \<Rightarrow> driverCall \<Rightarrow> goerr option) \<Rightarrow> driverCall \<Rightarrow> string \<Rightarrow> (calls \<Rightarrow> goerr option \<times> calls) \<Rightarrow> calls \<Rightarrow> goerr option \<times> calls" where
  "attempt db c text k tr =
     (case db tr c of
        Some e \<Rightarrow> (Some (Wrapf text e []), tr @ [(c, False)])
      | None \<Rightarrow> k (tr @ [(c, True)]))"

definition ignored :: "(calls \<Rightarrow> driverCall \<Rightarrow> goerr option) \<Rightarrow> driverCall \<Rightarrow> calls \<Rightarrow> calls" where
  "ignored db c tr = tr @ [(c, db tr c = None)]"

section \<open>Transactions\<close>

text \<open>\<open>Transactor.Within\<close>; \<open>available\<close> is that the transactor has a database.\<close>

definition Within :: "(calls \<Rightarrow> driverCall \<Rightarrow> goerr option) \<Rightarrow> bool \<Rightarrow> (calls \<Rightarrow> goerr option \<times> calls) \<Rightarrow> calls \<Rightarrow> goerr option \<times> calls" where
  "Within db available fn tr =
     (if \<not> available then (Some (Opaque ''begin transaction: database is disabled''), tr)
      else attempt db BeginTx ''begin transaction: '' (\<lambda>tr.
        case fn tr of
          (Some e, tr) \<Rightarrow>
            (case db tr RollbackTx of
               Some rollbackErr \<Rightarrow> (Some (Wrapf (''rollback transaction after '' @ errorText e @ '': '') rollbackErr []), tr @ [(RollbackTx, False)])
             | None \<Rightarrow> (Some e, tr @ [(RollbackTx, True)]))
        | (None, tr) \<Rightarrow> attempt db CommitTx ''commit transaction: '' (\<lambda>tr. (None, tr)) tr) tr)"

section \<open>Opening\<close>

text \<open>
  What the code sets of the configuration of a driver, and the pool. The server holds what it leaves as
  parsed: host, port, credentials and the like.
\<close>

record PgxConfig =
  pgxServer :: string
  pgxDatabase :: string
  pgxRuntimeParams :: "(string, string) gomap"

record MysqlDSN =
  mdServer :: string
  mdDBName :: string
  mdParseTime :: bool
  mdLoc :: string

datatype connector =
    Pgx PgxConfig
  | Mysql string

record pool =
  poolConnector :: connector
  poolMaxOpen :: int
  poolMaxIdle :: int
  poolMaxLifetime :: duration
  poolMaxIdleTime :: duration

record drivers =
  drParseConfig :: "string \<Rightarrow> PgxConfig result"
  drParseDSN :: "string \<Rightarrow> MysqlDSN result"
  drFormatDSN :: "MysqlDSN \<Rightarrow> string"
  drLocation :: "string \<Rightarrow> unit result"
  drOpen :: "string \<Rightarrow> string \<Rightarrow> unit result"
  drPing :: "pool \<Rightarrow> duration \<Rightarrow> unit result"

definition driverName :: "string \<Rightarrow> string result" where
  "driverName dbType =
     (if dbType = ''mysql'' then Inr ''mysql''
      else if dbType = ''postgres'' \<or> dbType = ''kingbase'' then Inr ''pgx''
      else Inl (Opaque (''unsupported database type '' @ goQuote dbType)))"

definition timezone :: string where
  "timezone = ''Asia/Shanghai''"

definition connect :: "drivers \<Rightarrow> DatabaseConfig \<Rightarrow> string \<Rightarrow> connector result" where
  "connect dr cfg driver =
     (if driver = ''pgx'' then
        bindR (wrapText ''parse database dsn: '' (drParseConfig dr (dbcDSN cfg))) (\<lambda>c.
        let c = (if dbcName cfg \<noteq> [] then c\<lparr>pgxDatabase := dbcName cfg\<rparr> else c);
            c = (if dbcSchema cfg \<noteq> [] then c\<lparr>pgxRuntimeParams := mapSet ''search_path'' (dbcSchema cfg) (pgxRuntimeParams c)\<rparr> else c) in
        Inr (Pgx (c\<lparr>pgxRuntimeParams := mapSet ''timezone'' timezone (pgxRuntimeParams c)\<rparr>)))
      else
        bindR (wrapText ''parse database dsn: '' (drParseDSN dr (dbcDSN cfg))) (\<lambda>c.
        let c = (if dbcName cfg \<noteq> [] then c\<lparr>mdDBName := dbcName cfg\<rparr> else c) in
        bindR (wrapText ''load database timezone: '' (drLocation dr timezone)) (\<lambda>_.
        let dsn = drFormatDSN dr (c\<lparr>mdParseTime := True, mdLoc := timezone\<rparr>) in
        bindR (wrapText ''open database: '' (drOpen dr driver dsn)) (\<lambda>_. Inr (Mysql dsn)))))"

text \<open>
  What a constructor does with a resource that has to be released: open it, close it again, or hand
  its closing to the container for when the program stops.
\<close>

datatype resource = DatabasePool | RedisClient

datatype lifetime =
    Opened resource
  | Closed resource
  | StopHook resource

text \<open>The default case of the switch is not reached: there are two driver names.\<close>

definition Open :: "drivers \<Rightarrow> DatabaseConfig \<Rightarrow> pool result \<times> lifetime list" where
  "Open dr cfg =
     (case bindR (driverName (dbcType cfg)) (connect dr cfg) of
        Inl e \<Rightarrow> (Inl e, [])
      | Inr c \<Rightarrow>
          let p = \<lparr>poolConnector = c, poolMaxOpen = dbcMaxOpenConns cfg, poolMaxIdle = dbcMaxIdleConns cfg,
                   poolMaxLifetime = dbcConnMaxLifetime cfg, poolMaxIdleTime = dbcConnMaxIdleTime cfg\<rparr> in
          case drPing dr p (dbcPingTimeout cfg) of
            Inl e \<Rightarrow> (Inl (Wrapf ''ping database: '' e []), [Opened DatabasePool, Closed DatabasePool])
          | Inr _ \<Rightarrow> (Inr p, [Opened DatabasePool]))"

section \<open>What they do\<close>

text \<open>
  A function run within a transaction: it succeeds only when the function did and the commit did; a
  function that failed is followed by a rollback, and its error is the one returned unless the rollback
  failed too.
\<close>

lemma Within_outcome:
  assumes "Within db available fn tr = (r, tr')"
  shows "r = None \<and> available \<and> (\<exists>tr1. fn (tr @ [(BeginTx, True)]) = (None, tr1) \<and> tr' = tr1 @ [(CommitTx, True)])
    \<or> r \<noteq> None \<and> (tr' = tr \<or> tr' = tr @ [(BeginTx, False)]
       \<or> (\<exists>tr1. fn (tr @ [(BeginTx, True)]) = (None, tr1) \<and> tr' = tr1 @ [(CommitTx, False)])
       \<or> (\<exists>e tr1. fn (tr @ [(BeginTx, True)]) = (Some e, tr1) \<and> (r = Some e \<and> tr' = tr1 @ [(RollbackTx, True)] \<or> tr' = tr1 @ [(RollbackTx, False)])))"
  using assms by (auto simp: Within_def attempt_def split: if_splits option.splits prod.splits)

text \<open>
  Where an opened pool leads: to the server of the configured address, with its other settings, and there
  to the database and, for PostgreSQL, the schema.
\<close>

definition leadsTo :: "drivers \<Rightarrow> string \<Rightarrow> connector \<Rightarrow> string \<Rightarrow> string \<Rightarrow> bool" where
  "leadsTo dr address conn name schema =
     (case conn of
        Pgx c \<Rightarrow> (\<exists>parsed. drParseConfig dr address = Inr parsed \<and> pgxServer c = pgxServer parsed \<and> pgxDatabase c = name
          \<and> (schema \<noteq> [] \<longrightarrow> mapGet (pgxRuntimeParams c) ''search_path'' = Some schema)
          \<and> (\<forall>k. k \<noteq> ''search_path'' \<and> k \<noteq> ''timezone'' \<longrightarrow> mapGet (pgxRuntimeParams c) k = mapGet (pgxRuntimeParams parsed) k))
      | Mysql dsn \<Rightarrow> (\<exists>parsed c. drParseDSN dr address = Inr parsed \<and> dsn = drFormatDSN dr c \<and> mdServer c = mdServer parsed
          \<and> mdDBName c = name \<and> mdParseTime c))"

lemma mysql_leadsTo: "\<exists>d. drFormatDSN dr (c\<lparr>mdDBName := n, mdParseTime := True, mdLoc := l\<rparr>) = drFormatDSN dr d \<and> mdServer d = mdServer c \<and> mdDBName d = n \<and> mdParseTime d"
  by (intro exI [of _ "c\<lparr>mdDBName := n, mdParseTime := True, mdLoc := l\<rparr>"]) simp

lemma connect_leadsTo:
  "connect dr cfg driver = Inr c \<Longrightarrow> dbcName cfg \<noteq> [] \<Longrightarrow> leadsTo dr (dbcDSN cfg) c (dbcName cfg) (dbcSchema cfg)"
  by (auto simp: connect_def leadsTo_def bindR_Inr_iff Let_def mapGet_mapSet mysql_leadsTo split: if_splits)

lemma Open_leadsTo: "fst (Open dr cfg) = Inr p \<Longrightarrow> dbcName cfg \<noteq> [] \<Longrightarrow> leadsTo dr (dbcDSN cfg) (poolConnector p) (dbcName cfg) (dbcSchema cfg)"
  by (auto simp: Open_def Let_def bindR_Inr_iff intro: connect_leadsTo split: sum.splits)

lemma accepted_type_opens:
  "Validate visit cfg = None \<Longrightarrow> dbcEnabled (cfgDatabase cfg) \<Longrightarrow> isOk (driverName (dbcType (cfgDatabase cfg)))"
  by (auto simp: Validate_None validateServers_def Let_def isDBType_def driverName_def)

end
