(* ===== verification/Migration.thy ===== *)
theory Migration
  imports Database
begin

text \<open>
  Schema migration: \<open>internal/migration/migration.go\<close>, the command \<open>cmd/migrate/main.go\<close> and the
  migration at the start of the service in \<open>internal/app/app.go\<close>. The database driver and
  \<open>golang-migrate\<close> are parameters: what a call returns may depend on the calls before it, and every
  call is recorded with its outcome. Parsing and printing URLs other than those of MySQL is a
  parameter as well; the code reads and sets the path and the query of a parsed URL.
\<close>

section \<open>Outside\<close>

text \<open>A parsed URL: the text before the path, the path and the values of the query.\<close>

record URL =
  urlAuthority :: string
  urlPath :: string
  urlQuery :: "(string, string list) gomap"

record migrationEnv =
  meAbs :: "string \<Rightarrow> string result"
  meFileURL :: "string \<Rightarrow> string"
  meParse :: "string \<Rightarrow> URL result"
  meString :: "URL \<Rightarrow> string"
  meCall :: "calls \<Rightarrow> driverCall \<Rightarrow> goerr option"
  meCloseErrors :: "calls \<Rightarrow> goerr option \<times> goerr option"
  meNoChange :: "goerr \<Rightarrow> bool"

section \<open>The address of the database\<close>

text \<open>\<open>url.QueryEscape\<close>.\<close>

definition upperHex :: "nat \<Rightarrow> char" where
  "upperHex n = (if n < 10 then char_of (48 + n) else char_of (55 + n))"

definition QueryEscape :: "string \<Rightarrow> string" where
  "QueryEscape s = concat (map (\<lambda>c.
     if isLower c \<or> isUpper c \<or> isDigit c \<or> c \<in> {CHR ''-'', CHR ''_'', CHR ''.'', CHR ''~''} then [c]
     else if c = CHR '' '' then ''+''
     else [CHR ''%'', upperHex (byte c div 16), upperHex (byte c mod 16)]) s)"

definition mysqlURL :: "string \<Rightarrow> bool" where
  "mysqlURL databaseURL \<longleftrightarrow> HasPrefix databaseURL ''mysql://''"

definition mysqlOptions :: "string \<Rightarrow> string \<Rightarrow> string \<Rightarrow> string result" where
  "mysqlOptions databaseURL databaseName table =
     (let head = takeWhile (\<lambda>c. c \<noteq> CHR ''?'') databaseURL; query = drop (length head) databaseURL in
      bindR (if databaseName = [] then Inr databaseURL
             else if CHR ''/'' \<notin> set head then Inl (Opaque ''mysql migration URL is missing database path'')
             else Inr (dirPart head @ databaseName @ query))
        (\<lambda>url. if table = [] then Inr url
           else Inr (url @ (if CHR ''?'' \<in> set url then ''&'' else ''?'') @ ''x-migrations-table='' @ QueryEscape table)))"

definition withMigrationOptions :: "migrationEnv \<Rightarrow> string \<Rightarrow> string \<Rightarrow> string \<Rightarrow> string \<Rightarrow> string result" where
  "withMigrationOptions env databaseURL databaseName table schema =
     (if databaseName = [] \<and> table = [] \<and> schema = [] then Inr databaseURL
      else if mysqlURL databaseURL then mysqlOptions databaseURL databaseName table
      else bindR (wrapText ''parse migration database URL: '' (meParse env databaseURL)) (\<lambda>parsed.
        let query = urlQuery parsed;
            query = (if table \<noteq> [] then mapSet ''x-migrations-table'' [table] query else query);
            query = (if schema \<noteq> [] then mapSet ''search_path'' [schema] query else query);
            path = (if databaseName \<noteq> [] then ''/'' @ databaseName else urlPath parsed) in
        Inr (meString env (parsed\<lparr>urlPath := path, urlQuery := query\<rparr>))))"

section \<open>The schema\<close>

definition lockStatement :: string where
  "lockStatement = ''SELECT pg_advisory_xact_lock(hashtext($1))''"

definition createStatement :: "string \<Rightarrow> string" where
  "createStatement schema = ''CREATE SCHEMA IF NOT EXISTS '' @ [CHR 0x22] @ schema @ [CHR 0x22]"

definition createSchema :: "migrationEnv \<Rightarrow> string \<Rightarrow> calls \<Rightarrow> goerr option \<times> calls" where
  "createSchema env schema =
     attempt (meCall env) BeginTx ''begin schema creation: '' (\<lambda>tr.
       case attempt (meCall env) (ExecTx lockStatement [''workflow-service:schema:'' @ schema]) ''lock schema creation: ''
           (attempt (meCall env) (ExecTx (createStatement schema) []) ''execute schema creation: ''
           (attempt (meCall env) CommitTx ''commit schema creation: '' (\<lambda>tr. (None, tr)))) tr of
         (None, tr) \<Rightarrow> (None, tr)
       | (Some e, tr) \<Rightarrow> (Some e, ignored (meCall env) RollbackTx tr))"

definition ensureSchema :: "migrationEnv \<Rightarrow> MigrationConfig \<Rightarrow> string \<Rightarrow> calls \<Rightarrow> goerr option \<times> calls" where
  "ensureSchema env cfg databaseURL tr =
     (if \<not> mgCreateSchema cfg \<or> mgSchema cfg = [] \<or> mysqlURL (mgDatabaseURL cfg) then (None, tr)
      else if \<not> validMigrationTable (mgSchema cfg) then (Some (Opaque ''invalid migration schema''), tr)
      else case wrapText ''parse database URL for schema creation: '' (meParse env databaseURL) of
          Inl e \<Rightarrow> (Some e, tr)
        | Inr parsed \<Rightarrow>
            attempt (meCall env) (OpenDB (meString env (parsed\<lparr>urlQuery := AList.delete ''x-migrations-table'' (urlQuery parsed)\<rparr>))) ''open database to create schema: '' (\<lambda>tr.
              case createSchema env (mgSchema cfg) tr of
                (None, tr) \<Rightarrow> (None, ignored (meCall env) CloseDB tr)
              | (Some e, tr) \<Rightarrow> (Some (Wrapf (''create migration schema '' @ goQuote (mgSchema cfg) @ '': '') e []), ignored (meCall env) CloseDB tr)) tr)"

section \<open>Running\<close>

text \<open>\<open>errors.Join\<close>; the parts of a joined error are not looked into by its callers.\<close>

definition errorsJoin :: "goerr option \<Rightarrow> goerr \<Rightarrow> goerr option" where
  "errorsJoin a b = Some (case a of None \<Rightarrow> b | Some e \<Rightarrow> Opaque (errorText e @ [CHR 0x0A] @ errorText b))"

definition closeMigrator :: "migrationEnv \<Rightarrow> goerr option \<times> calls \<Rightarrow> goerr option \<times> calls" where
  "closeMigrator env r =
     (case r of (runErr, tr) \<Rightarrow>
      case meCloseErrors env tr of (sourceErr, databaseErr) \<Rightarrow>
      let runErr = (case sourceErr of None \<Rightarrow> runErr | Some e \<Rightarrow> errorsJoin runErr (Wrapf ''close migration source: '' e []));
          runErr = (case databaseErr of None \<Rightarrow> runErr | Some e \<Rightarrow> errorsJoin runErr (Wrapf ''close migration database: '' e [])) in
      (runErr, tr @ [(CloseMigrator, sourceErr = None \<and> databaseErr = None)]))"

definition chosenStep :: "string \<Rightarrow> int \<Rightarrow> driverCall" where
  "chosenStep direction steps = (if steps \<noteq> 0 then Steps steps else if direction = ''down'' then MigrateDown else MigrateUp)"

definition migrateStep :: "migrationEnv \<Rightarrow> driverCall \<Rightarrow> calls \<Rightarrow> goerr option \<times> calls" where
  "migrateStep env c tr =
     (case meCall env tr c of
        None \<Rightarrow> (None, tr @ [(c, True)])
      | Some e \<Rightarrow> if meNoChange env e then (None, tr @ [(c, True)]) else (Some (Wrapf ''run migration: '' e []), tr @ [(c, False)]))"

definition Run :: "migrationEnv \<Rightarrow> MigrationConfig \<Rightarrow> string \<Rightarrow> int \<Rightarrow> goerr option \<times> calls" where
  "Run env cfg direction steps =
     (if mgDatabaseURL cfg = [] then (Some (Opaque ''migration.database_url is required''), [])
      else case wrapText ''resolve migration path: '' (meAbs env (mgPath cfg)) of
          Inl e \<Rightarrow> (Some e, [])
        | Inr absPath \<Rightarrow>
            (case withMigrationOptions env (mgDatabaseURL cfg) (mgDatabaseName cfg) (mgTable cfg) (mgSchema cfg) of
               Inl e \<Rightarrow> (Some e, [])
             | Inr databaseURL \<Rightarrow>
                 (case ensureSchema env cfg databaseURL [] of
                    (Some e, tr) \<Rightarrow> (Some e, tr)
                  | (None, tr) \<Rightarrow>
                      attempt (meCall env) (NewMigrator (meFileURL env absPath) databaseURL) ''create migrator: ''
                        (\<lambda>tr. closeMigrator env (migrateStep env (chosenStep direction steps) tr)) tr)))"

definition runStartupMigration :: "migrationEnv \<Rightarrow> Config \<Rightarrow> goerr option \<times> calls" where
  "runStartupMigration env cfg =
     (if \<not> mgAutoUp (cfgMigration cfg) then (None, [])
      else case Run env (cfgMigration cfg) ''up'' 0 of
          (Some e, tr) \<Rightarrow> (Some (Wrapf ''startup database migration: '' e []), tr)
        | (None, tr) \<Rightarrow> (None, tr))"

text \<open>The command: its exit code, its message and the calls; the flags are arguments.\<close>

definition migrate_main :: "migrationEnv \<Rightarrow> (string \<Rightarrow> string \<Rightarrow> Config result) \<Rightarrow> string \<Rightarrow> string \<Rightarrow> string \<Rightarrow> int \<Rightarrow> int \<times> string \<times> calls" where
  "migrate_main env load configPath profile direction steps =
     (if direction \<noteq> ''up'' \<and> direction \<noteq> ''down'' then (2, ''direction must be up or down'', [])
      else case (case load configPath profile of Inl e \<Rightarrow> (Some e, []) | Inr cfg \<Rightarrow> Run env (cfgMigration cfg) direction steps) of
          (Some e, tr) \<Rightarrow> (1, ''migration failed: '' @ errorText e, tr)
        | (None, tr) \<Rightarrow> (0, [], tr))"

section \<open>What a run does\<close>

text \<open>The calls of a schema creation, complete and broken off.\<close>

definition lockCall :: "string \<Rightarrow> driverCall" where
  "lockCall schema = ExecTx lockStatement [''workflow-service:schema:'' @ schema]"

definition createCall :: "string \<Rightarrow> driverCall" where
  "createCall schema = ExecTx (createStatement schema) []"

definition creation :: "string \<Rightarrow> calls" where
  "creation schema = [(BeginTx, True), (lockCall schema, True), (createCall schema, True), (CommitTx, True)]"

definition brokenOff :: "string \<Rightarrow> calls \<Rightarrow> bool" where
  "brokenOff schema us \<longleftrightarrow> us = [(BeginTx, False)]
     \<or> (\<exists>b. us = [(BeginTx, True), (lockCall schema, False), (RollbackTx, b)]
          \<or> us = [(BeginTx, True), (lockCall schema, True), (createCall schema, False), (RollbackTx, b)]
          \<or> us = [(BeginTx, True), (lockCall schema, True), (createCall schema, True), (CommitTx, False), (RollbackTx, b)])"

lemma createSchema_calls:
  assumes "createSchema env schema tr = (r, tr')"
  shows "r = None \<and> tr' = tr @ creation schema \<or> r \<noteq> None \<and> (\<exists>us. brokenOff schema us \<and> tr' = tr @ us)"
  using assms unfolding createSchema_def lockCall_def [symmetric] createCall_def [symmetric]
  by (simp add: attempt_def ignored_def creation_def brokenOff_def split: option.splits) auto

text \<open>Whether the code creates the schema first.\<close>

definition schemaFirst :: "MigrationConfig \<Rightarrow> bool" where
  "schemaFirst cfg \<longleftrightarrow> mgCreateSchema cfg \<and> mgSchema cfg \<noteq> [] \<and> \<not> mysqlURL (mgDatabaseURL cfg)"

lemma ensureSchema_calls:
  assumes "ensureSchema env cfg url [] = (r, tr)"
  shows "tr = [] \<and> (r = None \<longrightarrow> \<not> schemaFirst cfg)
    \<or> validMigrationTable (mgSchema cfg) \<and> (\<exists>u. tr = [(OpenDB u, False)] \<and> r \<noteq> None
       \<or> (\<exists>us b. tr = (OpenDB u, True) # us @ [(CloseDB, b)] \<and> (r = None \<and> us = creation (mgSchema cfg) \<or> r \<noteq> None \<and> brokenOff (mgSchema cfg) us)))"
proof (cases "schemaFirst cfg \<and> validMigrationTable (mgSchema cfg)")
  case True
  then show ?thesis using assms
    by (auto simp: ensureSchema_def schemaFirst_def attempt_def ignored_def dest: createSchema_calls split: sum.splits option.splits prod.splits)
next
  case False
  then show ?thesis using assms by (auto simp: ensureSchema_def schemaFirst_def split: if_splits)
qed

text \<open>The calls of a run: those for the schema, then those of the migrator.\<close>

definition schemaCalls :: "string \<Rightarrow> calls \<Rightarrow> bool" where
  "schemaCalls schema pre \<longleftrightarrow> pre = [] \<or> validMigrationTable schema \<and> (\<exists>u. pre = [(OpenDB u, False)]
     \<or> (\<exists>us b. pre = (OpenDB u, True) # us @ [(CloseDB, b)] \<and> (us = creation schema \<or> brokenOff schema us)))"

definition migratorCalls :: "string \<Rightarrow> string \<Rightarrow> driverCall \<Rightarrow> bool \<Rightarrow> calls \<Rightarrow> bool" where
  "migratorCalls source url c succeeded post \<longleftrightarrow> post = [(NewMigrator source url, False)] \<and> \<not> succeeded
     \<or> (\<exists>ok b. post = [(NewMigrator source url, True), (c, ok), (CloseMigrator, b)] \<and> (succeeded \<longrightarrow> ok \<and> b))"

lemma closeMigrator_calls: "closeMigrator env (r, tr) = (r', tr') \<Longrightarrow> \<exists>b. tr' = tr @ [(CloseMigrator, b)] \<and> (r' = None \<longrightarrow> b \<and> r = None)"
proof -
  assume run: "closeMigrator env (r, tr) = (r', tr')"
  obtain se de where errs: "meCloseErrors env tr = (se, de)" by fastforce
  have "tr' = tr @ [(CloseMigrator, se = None \<and> de = None)]" using run errs by (simp add: closeMigrator_def Let_def)
  moreover have "r' = None \<longrightarrow> se = None \<and> de = None \<and> r = None"
    using run errs by (cases se; cases de) (auto simp: closeMigrator_def errorsJoin_def Let_def)
  ultimately show ?thesis by (intro exI [of _ "se = None \<and> de = None"]) simp
qed

lemma migrateStep_calls: "migrateStep env c tr = (r, tr') \<Longrightarrow> \<exists>ok. tr' = tr @ [(c, ok)] \<and> (r = None \<longrightarrow> ok)"
  by (auto simp: migrateStep_def split: option.splits if_splits)

lemma migrator_calls:
  assumes "attempt (meCall env) (NewMigrator source url) text (\<lambda>tr. closeMigrator env (migrateStep env c tr)) pre = (r, tr)"
  shows "\<exists>post. tr = pre @ post \<and> migratorCalls source url c (r = None) post"
proof (cases "meCall env pre (NewMigrator source url)")
  case None
  obtain r1 tr1 where m: "migrateStep env c (pre @ [(NewMigrator source url, True)]) = (r1, tr1)" by fastforce
  then obtain ok where ok: "tr1 = pre @ [(NewMigrator source url, True), (c, ok)]" "r1 = None \<longrightarrow> ok" using migrateStep_calls by fastforce
  have "closeMigrator env (r1, tr1) = (r, tr)" using assms None m by (simp add: attempt_def)
  then obtain b where "tr = tr1 @ [(CloseMigrator, b)]" "r = None \<longrightarrow> b \<and> r1 = None" using closeMigrator_calls by blast
  with ok show ?thesis by (intro exI [of _ "[(NewMigrator source url, True), (c, ok), (CloseMigrator, b)]"]) (simp add: migratorCalls_def)
qed (use assms in \<open>auto simp: attempt_def migratorCalls_def\<close>)

lemma ensureSchema_schemaCalls:
  assumes "ensureSchema env cfg url [] = (r, pre)"
  shows "schemaCalls (mgSchema cfg) pre" "r = None \<Longrightarrow> schemaFirst cfg \<Longrightarrow> (CommitTx, True) \<in> set pre"
  using ensureSchema_calls [OF assms] unfolding schemaCalls_def by (blast, auto simp: creation_def)

lemma Run_calls:
  assumes "Run env cfg direction steps = (r, tr)"
  obtains (unfinished) "schemaCalls (mgSchema cfg) tr" "r \<noteq> None"
  | (reached) pre post source url where "tr = pre @ post" "schemaCalls (mgSchema cfg) pre" "schemaFirst cfg \<longrightarrow> (CommitTx, True) \<in> set pre"
      "withMigrationOptions env (mgDatabaseURL cfg) (mgDatabaseName cfg) (mgTable cfg) (mgSchema cfg) = Inr url"
      "migratorCalls source url (chosenStep direction steps) (r = None) post"
proof -
  have early: thesis if "tr = []" "r \<noteq> None" using that by (intro unfinished) (simp_all add: schemaCalls_def)
  show thesis
  proof (cases "mgDatabaseURL cfg = []")
    case url: False
    show thesis
    proof (cases "wrapText ''resolve migration path: '' (meAbs env (mgPath cfg))")
      case source: (Inr source)
      show thesis
      proof (cases "withMigrationOptions env (mgDatabaseURL cfg) (mgDatabaseName cfg) (mgTable cfg) (mgSchema cfg)")
        case options: (Inr address)
        obtain e pre where schema: "ensureSchema env cfg address [] = (e, pre)" by fastforce
        show thesis
        proof (cases e)
          case None
          then have "attempt (meCall env) (NewMigrator (meFileURL env source) address) ''create migrator: ''
              (\<lambda>tr. closeMigrator env (migrateStep env (chosenStep direction steps) tr)) pre = (r, tr)"
            using assms schema url source options by (simp add: Run_def)
          from migrator_calls [OF this] obtain post where "tr = pre @ post" "migratorCalls (meFileURL env source) address (chosenStep direction steps) (r = None) post" by blast
          then show thesis using ensureSchema_schemaCalls [OF schema] None options by (intro reached [of pre post address "meFileURL env source"]) simp_all
        next
          case (Some err)
          then have "tr = pre \<and> r = Some err" using assms schema url source options by (auto simp: Run_def)
          then show thesis using ensureSchema_schemaCalls(1) [OF schema] by (intro unfinished) simp_all
        qed
      qed (use assms url source early in \<open>force simp: Run_def\<close>)
    qed (use assms url early in \<open>force simp: Run_def\<close>)
  qed (use assms early in \<open>force simp: Run_def\<close>)
qed

lemma validMigrationTable_plain: "validMigrationTable s \<Longrightarrow> CHR 0x22 \<notin> set s"
  by (auto simp: validMigrationTable_def list_all_iff char_class_defs split: list.splits)

definition safeStatement :: "string \<Rightarrow> driverCall \<Rightarrow> bool" where
  "safeStatement schema c = (case c of ExecTx q args \<Rightarrow> c \<in> {lockCall schema, createCall schema} \<and> CHR 0x22 \<notin> set schema | _ \<Rightarrow> True)"

definition migrates :: "driverCall \<Rightarrow> bool" where
  "migrates c = (case c of Steps n \<Rightarrow> True | MigrateDown \<Rightarrow> True | MigrateUp \<Rightarrow> True | _ \<Rightarrow> False)"

text \<open>What was opened or begun is ended.\<close>

definition ended :: "calls \<Rightarrow> bool" where
  "ended tr \<longleftrightarrow> ((\<exists>u. (OpenDB u, True) \<in> set tr) \<longrightarrow> CloseDB \<in> fst ` set tr)
     \<and> ((BeginTx, True) \<in> set tr \<longrightarrow> (CommitTx, True) \<in> set tr \<or> RollbackTx \<in> fst ` set tr)
     \<and> ((\<exists>source u. (NewMigrator source u, True) \<in> set tr) \<longrightarrow> CloseMigrator \<in> fst ` set tr)"

lemma ended_append: "ended a \<Longrightarrow> ended b \<Longrightarrow> ended (a @ b)"
  unfolding ended_def set_append image_Un Un_iff by blast

lemma schemaCalls_facts:
  assumes "schemaCalls schema pre"
  shows "ended pre" and "(c, ok) \<in> set pre \<Longrightarrow> safeStatement schema c \<and> \<not> migrates c"
proof -
  consider "pre = []" | u where "pre = [(OpenDB u, False)]"
    | u us b where "CHR 0x22 \<notin> set schema" "pre = (OpenDB u, True) # us @ [(CloseDB, b)]" "us = creation schema \<or> brokenOff schema us"
    using assms validMigrationTable_plain unfolding schemaCalls_def by blast
  then have "ended pre \<and> (\<forall>(c, ok) \<in> set pre. safeStatement schema c \<and> \<not> migrates c)"
  proof cases
    case 3
    from 3(3) show ?thesis unfolding brokenOff_def creation_def 3(2)
      by (elim disjE exE) (simp_all add: 3(1) ended_def safeStatement_def migrates_def lockCall_def createCall_def)
  qed (simp_all add: ended_def safeStatement_def migrates_def)
  then show "ended pre" "(c, ok) \<in> set pre \<Longrightarrow> safeStatement schema c \<and> \<not> migrates c" by auto
qed

lemma migratorCalls_facts:
  assumes "migratorCalls source url (chosenStep direction steps) succeeded post"
  shows "ended post" and "(c, ok) \<in> set post \<Longrightarrow> safeStatement schema c \<and> (migrates c \<longrightarrow> c = chosenStep direction steps)"
    and "succeeded \<Longrightarrow> (NewMigrator source url, True) \<in> set post \<and> (chosenStep direction steps, True) \<in> set post \<and> (CloseMigrator, True) \<in> set post"
proof -
  have "chosenStep direction steps \<in> {Steps steps, MigrateDown, MigrateUp}" by (simp add: chosenStep_def)
  then have step: "safeStatement schema (chosenStep direction steps)" "chosenStep direction steps \<noteq> BeginTx"
      "chosenStep direction steps \<noteq> OpenDB u" "chosenStep direction steps \<noteq> NewMigrator a u" for u a
    by (auto simp: safeStatement_def)
  show "ended post" using assms step unfolding migratorCalls_def by (elim disjE exE conjE) (auto simp: ended_def dest: sym)
  show "(c, ok) \<in> set post \<Longrightarrow> safeStatement schema c \<and> (migrates c \<longrightarrow> c = chosenStep direction steps)"
    using assms step unfolding migratorCalls_def by (elim disjE exE conjE) (auto simp: safeStatement_def migrates_def)
  show "succeeded \<Longrightarrow> (NewMigrator source url, True) \<in> set post \<and> (chosenStep direction steps, True) \<in> set post \<and> (CloseMigrator, True) \<in> set post"
    using assms unfolding migratorCalls_def by (elim disjE exE conjE) auto
qed

text \<open>
  C23: a run of the migrations, on every path. The statements it sends are the advisory lock and the
  creation of the configured schema, whose name then has no quote and so cannot leave its quotes. The
  migrator takes at most one step, which is the number of steps when that is not zero, all the way down
  for the direction \<open>down\<close>, and all the way up otherwise; when the schema is to be created, only after
  that was committed. What was opened or begun is ended: the connection closed,
  the transaction committed or rolled back, the migrator closed. Success is reported only when the step
  succeeded and the migrator closed without error.
\<close>

theorem migration_run:
  assumes "Run env cfg direction steps = (r, tr)"
  shows "(\<forall>c ok. (c, ok) \<in> set tr \<longrightarrow> safeStatement (mgSchema cfg) c)
    \<and> (\<forall>c ok. (c, ok) \<in> set tr \<and> migrates c \<longrightarrow>
        (steps \<noteq> 0 \<longrightarrow> c = Steps steps) \<and> (steps = 0 \<and> direction = ''down'' \<longrightarrow> c = MigrateDown) \<and> (steps = 0 \<and> direction \<noteq> ''down'' \<longrightarrow> c = MigrateUp)
        \<and> (schemaFirst cfg \<longrightarrow> (CommitTx, True) \<in> set tr))
    \<and> ended tr
    \<and> (r = None \<longrightarrow> (\<exists>c. migrates c \<and> (c, True) \<in> set tr) \<and> (CloseMigrator, True) \<in> set tr)"
proof -
  have run: "(\<forall>c ok. (c, ok) \<in> set tr \<longrightarrow> safeStatement (mgSchema cfg) c)
    \<and> (\<forall>c ok. (c, ok) \<in> set tr \<and> migrates c \<longrightarrow> c = chosenStep direction steps \<and> (schemaFirst cfg \<longrightarrow> (CommitTx, True) \<in> set tr)) \<and> ended tr
    \<and> (r = None \<longrightarrow> (chosenStep direction steps, True) \<in> set tr \<and> (CloseMigrator, True) \<in> set tr)"
    using assms
  proof (cases rule: Run_calls)
    case unfinished
    then show ?thesis using schemaCalls_facts [OF unfinished(1)] by blast
  next
    case (reached pre post source url)
    note facts = schemaCalls_facts [OF reached(2)] migratorCalls_facts [OF reached(5)]
    show ?thesis using facts reached(3) ended_append unfolding reached(1) set_append Un_iff by blast
  qed
  have step: "migrates (chosenStep direction steps)" "steps \<noteq> 0 \<Longrightarrow> chosenStep direction steps = Steps steps"
      "steps = 0 \<and> direction = ''down'' \<Longrightarrow> chosenStep direction steps = MigrateDown"
      "steps = 0 \<and> direction \<noteq> ''down'' \<Longrightarrow> chosenStep direction steps = MigrateUp"
    by (simp_all add: chosenStep_def migrates_def)
  show ?thesis
    by (intro conjI allI impI) (use run step in \<open>blast+\<close>)
qed

text \<open>A database and a migrator for which everything succeeds, with one parsed URL.\<close>

definition sampleMigrationEnv :: migrationEnv where
  "sampleMigrationEnv = \<lparr>meAbs = Inr, meFileURL = (\<lambda>path. ''file://'' @ path),
     meParse = (\<lambda>url. Inr \<lparr>urlAuthority = ''postgres://db'', urlPath = ''/platform'', urlQuery = [(''sslmode'', [''disable''])]\<rparr>),
     meString = (\<lambda>u. urlAuthority u @ urlPath u), meCall = (\<lambda>tr c. None), meCloseErrors = (\<lambda>tr. (None, None)), meNoChange = (\<lambda>e. False)\<rparr>"

definition sampleMigration :: MigrationConfig where
  "sampleMigration = \<lparr>mgAutoUp = True, mgCreateSchema = True, mgPath = ''migrations/postgres'', mgDatabaseURL = ''postgres://db/x'',
     mgTable = ''workflow_schema_migrations'', mgSchema = ''workflow'', mgDatabaseName = ''platform''\<rparr>"

lemma sample_names: "validMigrationTable ''workflow''" "validMigrationTable ''workflow_schema_migrations''" "\<not> mysqlURL ''postgres://db/x''"
  by code_simp+

lemma sample_run: "fst (Run sampleMigrationEnv sampleMigration direction 0) = None"
  by (simp add: Run_def withMigrationOptions_def ensureSchema_def createSchema_def attempt_def ignored_def migrateStep_def closeMigrator_def
      sampleMigration_def sampleMigrationEnv_def sample_names)

theorem migration_run_witness:
  "(MigrateDown, True) \<in> set (snd (Run sampleMigrationEnv sampleMigration ''down'' 0)) \<and> (CommitTx, True) \<in> set (snd (Run sampleMigrationEnv sampleMigration ''down'' 0))
   \<and> ended (snd (Run sampleMigrationEnv sampleMigration ''down'' 0))"
proof -
  obtain r tr where run: "Run sampleMigrationEnv sampleMigration ''down'' 0 = (r, tr)" by fastforce
  have "r = None" using sample_run run by (metis fst_conv)
  moreover have "schemaFirst sampleMigration" by (simp add: schemaFirst_def sampleMigration_def sample_names)
  ultimately have "(\<exists>c. migrates c \<and> (c, True) \<in> set tr) \<and> (\<forall>c ok. (c, ok) \<in> set tr \<and> migrates c \<longrightarrow> c = MigrateDown \<and> (CommitTx, True) \<in> set tr) \<and> ended tr"
    using migration_run [OF run] by blast
  then show ?thesis using run by (metis snd_conv)
qed

section \<open>The database of the migration and of the service\<close>

lemma QueryEscape_table: "validMigrationTable s \<Longrightarrow> QueryEscape s = s"
proof -
  assume "validMigrationTable s"
  then have "\<forall>c\<in>set s. isLower c \<or> isDigit c \<or> c = CHR ''_''" by (auto simp: validMigrationTable_def list_all_iff split: list.splits)
  then show ?thesis unfolding QueryEscape_def by (induction s) auto
qed

text \<open>
  Whether \<open>url\<close> is the address \<open>base\<close> with the database, the schema and the migration table in
  place and everything else kept.
\<close>

definition addresses :: "migrationEnv \<Rightarrow> string \<Rightarrow> string \<Rightarrow> string \<Rightarrow> string \<Rightarrow> string \<Rightarrow> bool" where
  "addresses env base url name schema table \<longleftrightarrow>
     (if mysqlURL base
      then \<exists>server old query. base = server @ ''/'' @ old @ query \<and> CHR ''/'' \<notin> set old \<and> CHR ''?'' \<notin> set (server @ old) \<and> (query = [] \<or> hd query = CHR ''?'')
        \<and> url = server @ ''/'' @ name @ query @ (if query = [] then ''?'' else ''&'') @ ''x-migrations-table='' @ table
      else \<exists>parsed u. meParse env base = Inr parsed \<and> url = meString env u \<and> urlAuthority u = urlAuthority parsed \<and> urlPath u = ''/'' @ name
        \<and> mapGet (urlQuery u) ''x-migrations-table'' = Some [table] \<and> (schema \<noteq> [] \<longrightarrow> mapGet (urlQuery u) ''search_path'' = Some [schema])
        \<and> (\<forall>k. k \<noteq> ''x-migrations-table'' \<and> k \<noteq> ''search_path'' \<longrightarrow> mapGet (urlQuery u) k = mapGet (urlQuery parsed) k))"

lemma dirPart_split: "CHR ''/'' \<in> set s \<Longrightarrow> \<exists>server old. s = server @ ''/'' @ old \<and> CHR ''/'' \<notin> set old \<and> dirPart s = server @ ''/''"
proof -
  assume "CHR ''/'' \<in> set s"
  then obtain server old where s: "s = server @ CHR ''/'' # old" "CHR ''/'' \<notin> set old" using split_list_last by metis
  have "dirPart s = dirPart (server @ ''/'')" using dirPart_append [OF s(2), of "server @ ''/''"] s(1) by simp
  then have "dirPart s = server @ ''/''" by (simp add: dirPart_def)
  with s show ?thesis by auto
qed

lemma withMigrationOptions_addresses:
  assumes "withMigrationOptions env base name table schema = Inr url" and "name \<noteq> []" and "validMigrationTable table" and "CHR ''?'' \<notin> set name"
  shows "addresses env base url name schema table"
proof (cases "mysqlURL base")
  case True
  have table: "table \<noteq> []" using assms(3) by (auto simp: validMigrationTable_def)
  define head query where parts: "head = takeWhile (\<lambda>c. c \<noteq> CHR ''?'') base" "query = drop (length head) base"
  have base: "base = head @ query" unfolding parts by (simp only: dropWhile_eq_drop [symmetric] takeWhile_dropWhile_id)
  have head: "CHR ''?'' \<notin> set head" unfolding parts by (auto dest: set_takeWhileD)
  have query: "query = [] \<or> hd query = CHR ''?''" unfolding parts dropWhile_eq_drop [symmetric] using hd_dropWhile by blast
  have opts: "mysqlOptions base name table = Inr url" using assms(1,2) True by (simp add: withMigrationOptions_def)
  then have slash: "CHR ''/'' \<in> set head" using assms(2) by (auto simp: mysqlOptions_def Let_def parts bindR_Inr_iff split: if_splits)
  have url: "url = dirPart head @ name @ query @ (if CHR ''?'' \<in> set (dirPart head @ name @ query) then ''&'' else ''?'') @ ''x-migrations-table='' @ table"
    using opts assms(2) table slash by (simp add: mysqlOptions_def Let_def parts QueryEscape_table [OF assms(3)])
  obtain server old where so: "head = server @ ''/'' @ old" "CHR ''/'' \<notin> set old" "dirPart head = server @ ''/''" using dirPart_split [OF slash] by blast
  have "CHR ''?'' \<in> set (dirPart head @ name @ query) \<longleftrightarrow> query \<noteq> []" using query head so assms(4) by (cases query) auto
  then show ?thesis unfolding addresses_def using True base so head query url
    by (intro if_P [THEN iffD2] exI [of _ server] exI [of _ old] exI [of _ query]) auto
next
  case False
  have table: "table \<noteq> []" using assms(3) by (auto simp: validMigrationTable_def)
  define set_query where "set_query q = (let q = mapSet ''x-migrations-table'' [table] q in if schema \<noteq> [] then mapSet ''search_path'' [schema] q else q)" for q
  obtain parsed where parsed: "meParse env base = Inr parsed" "url = meString env (parsed\<lparr>urlPath := ''/'' @ name, urlQuery := set_query (urlQuery parsed)\<rparr>)"
    using assms(1,2) table False by (auto simp: withMigrationOptions_def bindR_Inr_iff Let_def set_query_def)
  then show ?thesis unfolding addresses_def if_not_P [OF False]
    by (intro exI [of _ parsed] exI [of _ "parsed\<lparr>urlPath := ''/'' @ name, urlQuery := set_query (urlQuery parsed)\<rparr>"])
      (simp add: set_query_def Let_def mapGet_mapSet)
qed

lemma validMigrationTable_chars: "validMigrationTable s \<Longrightarrow> CHR ''?'' \<notin> set s \<and> s \<noteq> []"
  by (auto simp: validMigrationTable_def list_all_iff char_class_defs split: list.splits)

lemma Run_success:
  assumes "Run env cfg direction steps = (None, tr)"
  obtains source url where "withMigrationOptions env (mgDatabaseURL cfg) (mgDatabaseName cfg) (mgTable cfg) (mgSchema cfg) = Inr url"
    "(NewMigrator source url, True) \<in> set tr" "(chosenStep direction steps, True) \<in> set tr"
  using assms
proof (cases rule: Run_calls)
  case (reached pre post source url)
  then show thesis using migratorCalls_facts(3) [OF reached(5)] that [of url source] by simp
qed simp


definition migratedConfig :: Config where
  "migratedConfig = defaultConfig\<lparr>cfgDatabase := (cfgDatabase defaultConfig)\<lparr>dbcEnabled := True, dbcDSN := ''dsn''\<rparr>, cfgMigration := sampleMigration,
     cfgOutbound := \<lparr>obHTTP = [], obGRPC = [(''application'', snd (hd (obGRPC (cfgOutbound productionConfig))))]\<rparr>\<rparr>"

definition migratedViper :: "Config viper" where
  "migratedViper = plainViper\<lparr>vpSetDefaults := (\<lambda>v defaults. migratedConfig)\<rparr>"

definition sampleDrivers :: drivers where
  "sampleDrivers = \<lparr>drParseConfig = (\<lambda>dsn. Inr \<lparr>pgxServer = ''db:5432'', pgxDatabase = ''postgres'', pgxRuntimeParams = []\<rparr>), drParseDSN = (\<lambda>dsn. Inl (Opaque ''no dsn'')),
     drFormatDSN = mdDBName, drLocation = (\<lambda>z. Inr ()), drOpen = (\<lambda>d dsn. Inr ()), drPing = (\<lambda>p t. Inr ())\<rparr>"

lemma migrated_loaded:
  "\<exists>cfg. LoadWithProfile migratedViper (\<lambda>file. NotExist) [] ''config.yaml'' [] = Inr cfg \<and> cfgDatabase cfg = cfgDatabase migratedConfig \<and> cfgMigration cfg = sampleMigration"
proof -
  have lower: "ToLower (TrimSpace ''development'') = ''development''" "validProfile ''development''" by code_simp+
  have same: "appEnv (cfgApp migratedConfig) = ''development''" "(cfgApp migratedConfig)\<lparr>appEnv := ''development''\<rparr> = cfgApp migratedConfig"
      "(cfgMigration migratedConfig)\<lparr>mgSchema := dbcSchema (cfgDatabase migratedConfig), mgDatabaseName := dbcName (cfgDatabase migratedConfig)\<rparr> = cfgMigration migratedConfig"
    by (simp_all add: migratedConfig_def default_values sampleMigration_def)
  have "Validate [] migratedConfig = None"
    by (simp add: Validate_None stage_defs default_values production_def migratedConfig_def sampleMigration_def sample_names isDBType_def
        productionConfig_def validateGRPCUpstream_def validateClientPolicy_def)
  then show ?thesis
    by (simp add: LoadWithProfile_def migratedViper_def plainViper_def boundEnv_def readMain_def activeProfile_def lower mergeProfile_def finishConfig_def Let_def same)
      (simp add: migratedConfig_def)
qed


end
