(* ===== verification/Outbound_Props.thy ===== *)
theory Outbound_Props
  imports Outbound Config_Props
begin

text \<open>
  What the clients guarantee: repeated calls are bounded, made only when repeating is allowed and
  only after an outcome that asks for it, with delays within the policy; and an upstream that the
  configuration accepted is one the clients can be built for.
\<close>

section \<open>gRPC\<close>

lemma retryLoop_shape:
  "0 < k \<Longrightarrow> retryLoop cfg invoke expired attempt k err = (r, calls, delays) \<Longrightarrow>
    1 \<le> calls \<and> calls \<le> k \<and> (r = Returned (invoke (attempt + calls - 1)) \<or> (\<exists>e. r = WaitFailed e \<and> expired (attempt + calls - 1) = Some e))
    \<and> (\<forall>n. attempt \<le> n \<and> n < attempt + calls - 1 \<longrightarrow> retryableCode (invoke n))
    \<and> set delays \<subseteq> retryDelay cfg ` {attempt..<attempt + k - 1}"
proof (induction k arbitrary: attempt err r calls delays)
  case (Suc k)
  show ?case
  proof (cases "retryableCode (invoke attempt) \<and> k \<noteq> 0 \<and> expired attempt = None")
    case False
    then show ?thesis using Suc.prems by (auto simp: Let_def split: if_splits option.splits)
  next
    case True
    obtain r' c' d' where rec: "retryLoop cfg invoke expired (Suc attempt) k (invoke attempt) = (r', c', d')" by (metis prod_cases3)
    have eq: "r = r'" "calls = Suc c'" "delays = retryDelay cfg attempt # d'" using Suc.prems True rec by (auto simp: Let_def)
    have k: "0 < k" using True by simp
    note ih = Suc.IH [OF k rec]
    have later: "retryableCode (invoke n)" if "attempt \<le> n" "n < attempt + calls - 1" for n
      using that ih True eq(2) by (cases "n = attempt") auto
    have "set d' \<subseteq> retryDelay cfg ` {attempt..<attempt + Suc k - 1}" using ih by fastforce
    then show ?thesis using ih eq later k by auto
  qed
qed simp

lemma wrap64_small: "0 \<le> x \<Longrightarrow> x < 2 ^ 63 \<Longrightarrow> wrap64 x = x"
  by (simp add: wrap64_id)

lemma retryDelay_bounds:
  assumes "0 < ryInitialBackoff cfg" and "ryInitialBackoff cfg \<le> ryMaxBackoff cfg" and "ryMaxBackoff cfg < 2 ^ 59" and "attempt \<le> 5"
  shows "0 < retryDelay cfg attempt \<and> retryDelay cfg attempt \<le> ryMaxBackoff cfg"
proof -
  have p: "(2 :: int) ^ (attempt - 1) \<le> 2 ^ 4" using assms(4) by (intro power_increasing) auto
  then have "ryInitialBackoff cfg * 2 ^ (attempt - 1) \<le> ryInitialBackoff cfg * 2 ^ 4" using assms(1) by (simp add: mult_left_mono)
  also have "\<dots> < 2 ^ 63" using assms(2,3) by simp
  finally have "wrap64 (ryInitialBackoff cfg * 2 ^ (attempt - 1)) = ryInitialBackoff cfg * 2 ^ (attempt - 1)"
    using assms(1) by (intro wrap64_small) simp_all
  then show ?thesis using assms(1,2) by (auto simp: retryDelay_def Let_def)
qed

text \<open>
  C37: a gRPC call is repeated only when it may be and never without bound. Under a policy the
  configuration accepts, with a largest delay below \<open>2\<^sup>5\<^sup>9\<close> nanoseconds (18 years), a call is made at
  least once and at most as often as the policy says; exactly once without an idempotency key and
  without a matching method pattern; every call but the last ended unavailable or exhausted; what
  is returned is the outcome of the last call or the end of the context; each delay is positive and
  at most the largest delay of the policy.
\<close>

theorem grpc_retry_bounded:
  assumes "validateClientPolicy name auth cfg breaker tls strict = None" and "ryMaxBackoff cfg < 2 ^ 59"
    and "retryInterceptor cfg key rpc invoke expired = (r, calls, delays)"
  shows "1 \<le> calls \<and> int calls \<le> ryMaxAttempts cfg
    \<and> (key = None \<and> \<not> MatchesAny rpc (ryMethods cfg) \<longrightarrow> calls = 1)
    \<and> (\<forall>n. 1 \<le> n \<and> n < calls \<longrightarrow> retryableCode (invoke n))
    \<and> (r = Returned (invoke calls) \<or> (\<exists>e. r = WaitFailed e \<and> expired calls = Some e))
    \<and> list_all (\<lambda>t. 0 < t \<and> t \<le> ryMaxBackoff cfg) delays"
proof -
  have pol: "1 \<le> ryMaxAttempts cfg" "ryMaxAttempts cfg \<le> 5" "0 < ryInitialBackoff cfg" "ryInitialBackoff cfg \<le> ryMaxBackoff cfg"
    using assms(1) by (auto simp: validateClientPolicy_def)
  have sel: "retryGRPCMethod None rpc ps = MatchesAny rpc ps" for ps by (induction ps) auto
  show ?thesis
  proof (cases "retryGRPCMethod key rpc (ryMethods cfg)")
    case False
    then have once: "r = Returned (invoke 1)" "calls = 1" "delays = []" using assms(3) by (auto simp: retryInterceptor_def)
    show ?thesis unfolding once using pol(1) by simp
  next
    case True
    have k: "0 < nat (ryMaxAttempts cfg)" using pol(1) by simp
    have "retryLoop cfg invoke expired 1 (nat (ryMaxAttempts cfg)) ClientOK = (r, calls, delays)" using assms(3) True by (simp add: retryInterceptor_def)
    note shape = retryLoop_shape [OF k this]
    have "0 < t \<and> t \<le> ryMaxBackoff cfg" if "t \<in> set delays" for t
    proof -
      from that shape obtain n where "t = retryDelay cfg n" "n < nat (ryMaxAttempts cfg)" by auto
      then show ?thesis using retryDelay_bounds [OF pol(3,4) assms(2), of n] pol(2) by simp
    qed
    then have d: "list_all (\<lambda>t. 0 < t \<and> t \<le> ryMaxBackoff cfg) delays" by (simp add: list_all_iff)
    have "key = None \<and> \<not> MatchesAny rpc (ryMethods cfg) \<longrightarrow> calls = 1" using True sel by auto
    with shape d pol(1) show ?thesis by auto
  qed
qed

definition samplePolicy :: RetryPolicy where
  "samplePolicy = \<lparr>ryMaxAttempts = 3, ryInitialBackoff = 50000000, ryMaxBackoff = 80000000, ryMethods = []\<rparr>"

theorem grpc_retry_bounded_witness:
  "retryInterceptor samplePolicy (Some ''k'') ''/s/M'' (\<lambda>n. if n < 3 then ClientUnavailable else ClientOK) (\<lambda>n. None)
     = (Returned ClientOK, 3, [50000000, 80000000])
   \<and> list_all (\<lambda>t. 0 < t \<and> t \<le> ryMaxBackoff samplePolicy) [50000000, 80000000]"
proof -
  have run: "retryInterceptor samplePolicy (Some ''k'') ''/s/M'' (\<lambda>n. if n < 3 then ClientUnavailable else ClientOK) (\<lambda>n. None)
     = (Returned ClientOK, 3, [50000000, 80000000])"
    by code_simp
  have ok: "validateClientPolicy ''u'' \<lparr>caType = [], caToken = []\<rparr> samplePolicy \<lparr>brEnabled = False, brFailureThreshold = 0, brOpenTimeout = 0\<rparr>
    \<lparr>ctEnabled = False, ctAllowInsecure = False, ctServerName = [], ctCAFile = [], ctCertFile = [], ctKeyFile = []\<rparr> True = None"
    by (simp add: validateClientPolicy_def samplePolicy_def)
  have "ryMaxBackoff samplePolicy < 2 ^ 59" by (simp add: samplePolicy_def)
  from grpc_retry_bounded [OF ok this run] run show ?thesis by blast
qed

section \<open>HTTP\<close>

text \<open>An answer after which a request may be sent again: an error, or a status that says to try later.\<close>

definition temporary :: "int option result \<Rightarrow> bool" where
  "temporary answer = (case answer of Inl err \<Rightarrow> True | Inr None \<Rightarrow> False | Inr (Some st) \<Rightarrow> st \<in> {429, 502, 503, 504})"

definition attempted :: "outEnv \<Rightarrow> OutRequest \<Rightarrow> OutRequest list \<Rightarrow> nat \<Rightarrow> int option result \<Rightarrow> bool" where
  "attempted env rq sent n r \<longleftrightarrow> (\<forall>i. Suc i < n \<longrightarrow> temporary (oeDo env (sent @ replicate i rq) rq))
     \<and> (\<forall>response. r = Inr response \<longrightarrow> 0 < n \<and> oeDo env (sent @ replicate (n - 1) rq) rq = Inr response)"

lemma attempted_Suc:
  assumes "attempted env rq (sent @ [rq]) n r" and "temporary (oeDo env sent rq)"
  shows "attempted env rq sent (Suc n) r"
proof -
  have shift: "sent @ replicate (Suc i) rq = (sent @ [rq]) @ replicate i rq" for i by simp
  have "temporary (oeDo env (sent @ replicate i rq) rq)" if "i < n" for i
    using that assms unfolding attempted_def by (cases i) (simp_all only: shift, simp_all)
  moreover have "oeDo env (sent @ replicate n rq) rq = Inr response" if "r = Inr response" for response
    using that assms(1) unfolding attempted_def by (cases n) (simp_all only: shift, simp_all)
  ultimately show ?thesis by (simp add: attempted_def)
qed

lemma attemptLoop_sent:
  "attemptLoop env rq attempt k sent = (r, sent') \<Longrightarrow> \<exists>n. sent' = sent @ replicate n rq \<and> n \<le> k \<and> attempted env rq sent n r"
proof (induction k arbitrary: attempt sent r sent')
  case 0
  then show ?case by (intro exI [of _ 0]) (auto simp: attempted_def)
next
  case (Suc k)
  consider (refused) "sent' = sent" "\<not> isOk r"
    | (once) "sent' = sent @ [rq]" "isOk r \<longrightarrow> r = oeDo env sent rq"
    | (again) "attemptLoop env rq (Suc attempt) k (sent @ [rq]) = (r, sent')" "temporary (oeDo env sent rq)"
    using Suc.prems by (auto simp: Let_def temporary_def retryableHTTPStatus_def split: option.splits sum.splits if_splits)
  then show ?case
  proof cases
    case refused
    then show ?thesis by (intro exI [of _ 0]) (auto simp: attempted_def)
  next
    case once
    then show ?thesis by (intro exI [of _ 1]) (auto simp: attempted_def)
  next
    case again
    from Suc.IH [OF again(1)] obtain n where "sent' = sent @ replicate (Suc n) rq" "n \<le> k" "attempted env rq (sent @ [rq]) n r" by auto
    with attempted_Suc [OF _ again(2)] show ?thesis by (metis Suc_le_mono)
  qed
qed

text \<open>What a breaker may do with a call: make it and give its outcome back, or refuse it.\<close>

definition breaking :: "(guardedCall \<Rightarrow> guardedCall) option \<Rightarrow> bool" where
  "breaking breaker \<longleftrightarrow> (\<forall>run. breaker = Some run \<longrightarrow> (\<forall>x. run x = x \<or> (\<exists>err. run x = (Inl (CallErr err), []))))"

lemma execute_plain:
  assumes "breaking breaker"
  shows "execute env breaker cfg key verb requestPath body headers = doWithRetry env cfg key verb requestPath body headers
    \<or> breaker \<noteq> None \<and> (\<exists>err. execute env breaker cfg key verb requestPath body headers = (Inl err, []))"
proof (cases breaker)
  case (Some run)
  let ?plain = "doWithRetry env cfg key verb requestPath body headers"
  from assms Some consider "run (breakerCall ?plain) = breakerCall ?plain" | err where "run (breakerCall ?plain) = (Inl (CallErr err), [])"
    unfolding breaking_def by blast
  then show ?thesis
    by cases (use Some in \<open>auto simp: execute_def breakerCall_def Let_def split: prod.splits sum.splits option.splits if_splits callError.splits\<close>)
qed (simp add: execute_def)

lemma outRequest_fields:
  "oqMethod (outRequest auth verb target body headers) = verb" "oqTarget (outRequest auth verb target body headers) = target"
  "oqBody (outRequest auth verb target body headers) = body"
  "caType auth = ''bearer'' \<Longrightarrow> mapGet (oqHeaders (outRequest auth verb target body headers)) ''Authorization'' = Some (''Bearer '' @ caToken auth)"
  "caType auth = ''psk'' \<Longrightarrow> mapGet (oqHeaders (outRequest auth verb target body headers)) ''Authorization'' = Some (''PSK '' @ caToken auth)"
  by (simp_all add: outRequest_def applyHTTPAuth_def mapGet_mapSet)

text \<open>
  C38: an outbound HTTP request is sent a bounded number of times. All requests of a call are one and the
  same request, with the method and body of the call, the target its relative path has on the upstream's
  base URL and the credentials configured for it. It is sent at most as often as the policy allows, at
  most once when the method is not idempotent and there is no idempotency key, and again only after an
  error or a status of 429, 502, 503 or 504; a response that is returned is the answer to the last one
  sent. A circuit breaker that, as documented, makes a call and hands back its outcome or refuses it
  changes none of this.
\<close>

theorem http_retry_bounded:
  assumes "1 \<le> ryMaxAttempts (huRetry cfg)" and "breaking breaker"
    and "execute env breaker cfg key verb requestPath body headers = (r, sent)"
  shows "\<exists>n rq. sent = replicate n rq \<and> int n \<le> ryMaxAttempts (huRetry cfg)
    \<and> (verb \<notin> {''GET'', ''HEAD'', ''OPTIONS'', ''PUT'', ''DELETE''} \<and> key = None \<longrightarrow> n \<le> 1)
    \<and> (\<forall>i. Suc i < n \<longrightarrow> temporary (oeDo env (replicate i rq) rq))
    \<and> (\<forall>response. r = Inr response \<longrightarrow> 0 < n \<and> oeDo env (replicate (n - 1) rq) rq = Inr response)
    \<and> (0 < n \<longrightarrow> oqMethod rq = verb \<and> oqBody rq = body \<and> oeResolve env (huBaseURL cfg) requestPath = Some (oqTarget rq)
        \<and> (caType (huAuth cfg) = ''bearer'' \<longrightarrow> mapGet (oqHeaders rq) ''Authorization'' = Some (''Bearer '' @ caToken (huAuth cfg)))
        \<and> (caType (huAuth cfg) = ''psk'' \<longrightarrow> mapGet (oqHeaders rq) ''Authorization'' = Some (''PSK '' @ caToken (huAuth cfg))))"
proof -
  consider (plain) "doWithRetry env cfg key verb requestPath body headers = (r, sent)" | (refused) "\<not> isOk r" "sent = []"
    using execute_plain [OF assms(2), of env cfg key verb requestPath body headers] assms(3) by auto
  then show ?thesis
  proof cases
    case refused
    then show ?thesis using assms(1) by (intro exI [of _ 0]) auto
  next
    case plain
    show ?thesis
    proof (cases "oeResolve env (huBaseURL cfg) requestPath")
      case None
      then have "sent = []" "\<not> isOk r" using plain by (auto simp: doWithRetry_def)
      then show ?thesis using assms(1) by (intro exI [of _ 0]) auto
    next
      case (Some target)
      let ?rq = "outRequest (huAuth cfg) verb target body headers" and ?k = "if retryableMethod key verb then nat (ryMaxAttempts (huRetry cfg)) else 1"
      have "attemptLoop env ?rq 1 ?k [] = (r, sent)" using plain Some by (simp add: doWithRetry_def)
      from attemptLoop_sent [OF this] obtain n where n: "sent = replicate n ?rq" "n \<le> ?k" "attempted env ?rq [] n r" by auto
      have "int n \<le> ryMaxAttempts (huRetry cfg)" "verb \<notin> {''GET'', ''HEAD'', ''OPTIONS'', ''PUT'', ''DELETE''} \<and> key = None \<Longrightarrow> n \<le> 1"
        using n(2) assms(1) by (auto simp: retryableMethod_def split: if_splits)
      then show ?thesis using n(1,3) Some outRequest_fields
        by (intro exI [of _ n] exI [of _ ?rq]) (simp add: attempted_def)
    qed
  qed
qed

definition sampleUpstream :: HttpUpstream where
  "sampleUpstream = \<lparr>huBaseURL = ''https://u'', huTimeout = seconds 1, huAuth = \<lparr>caType = ''bearer'', caToken = ''t''\<rparr>, huRetry = samplePolicy,
     huBreaker = \<lparr>brEnabled = False, brFailureThreshold = 0, brOpenTimeout = 0\<rparr>,
     huTLS = \<lparr>ctEnabled = True, ctAllowInsecure = False, ctServerName = [], ctCAFile = [], ctCertFile = [], ctKeyFile = []\<rparr>\<rparr>"

definition sampleEnv :: outEnv where
  "sampleEnv = \<lparr>oeParseBase = (\<lambda>u. True), oeResolve = (\<lambda>b p. Some (b @ p)), oeNewRequest = (\<lambda>m t. None),
     oeDo = (\<lambda>sent rq. Inr (Some (if length sent < 2 then 503 else 200))), oeExpired = (\<lambda>n. None)\<rparr>"

definition sampleFiles :: certificates where
  "sampleFiles = \<lparr>ctfReadFile = (\<lambda>f. Inr f), ctfAppendPEM = (\<lambda>p. True), ctfLoadPair = (\<lambda>c k. Inr ())\<rparr>"

theorem http_retry_bounded_witness:
  "length (snd (execute sampleEnv (Some (\<lambda>x. x)) sampleUpstream None ''GET'' ''/x'' [] [])) = 3
   \<and> (\<exists>rq. snd (execute sampleEnv (Some (\<lambda>x. x)) sampleUpstream None ''GET'' ''/x'' [] []) = replicate 3 rq \<and> temporary (oeDo sampleEnv [rq] rq)
       \<and> mapGet (oqHeaders rq) ''Authorization'' = Some ''Bearer t'')"
proof -
  have most: "1 \<le> ryMaxAttempts (huRetry sampleUpstream)" by (simp add: sampleUpstream_def samplePolicy_def)
  have "breaking (Some (\<lambda>x. x))" by (simp add: breaking_def)
  note run = http_retry_bounded [OF most this prod.collapse [symmetric], of sampleEnv None "''GET''" "''/x''" "[]" "[]"]
  moreover have len: "length (snd (execute sampleEnv (Some (\<lambda>x. x)) sampleUpstream None ''GET'' ''/x'' [] [])) = 3" by code_simp
  ultimately obtain rq where rq: "snd (execute sampleEnv (Some (\<lambda>x. x)) sampleUpstream None ''GET'' ''/x'' [] []) = replicate 3 rq"
      "\<forall>i. Suc i < 3 \<longrightarrow> temporary (oeDo sampleEnv (replicate i rq) rq)" "mapGet (oqHeaders rq) ''Authorization'' = Some ''Bearer t''"
    by (auto simp: sampleUpstream_def)
  have "temporary (oeDo sampleEnv [rq] rq)" using rq(2) [rule_format, of 1] by simp
  with len rq show ?thesis by blast
qed

text \<open>
  The scheme of a base URL is not looked at: with \<open>tls.enabled\<close> and a base URL of plain HTTP the client is
  built, and a request goes out to that URL with the credentials in it.
\<close>

lemma plain_http_with_credentials:
  "NewHTTPClient sampleFiles sampleEnv (sampleUpstream\<lparr>huBaseURL := ''http://u''\<rparr>) = None
   \<and> map oqTarget (snd (execute sampleEnv None (sampleUpstream\<lparr>huBaseURL := ''http://u''\<rparr>) None ''POST'' ''/x'' [] [])) = [''http://u/x'']
   \<and> map (\<lambda>rq. mapGet (oqHeaders rq) ''Authorization'') (snd (execute sampleEnv None (sampleUpstream\<lparr>huBaseURL := ''http://u''\<rparr>) None ''POST'' ''/x'' [] []))
     = [Some ''Bearer t'']"
  by (intro conjI) code_simp+

section \<open>Accepted upstreams\<close>

text \<open>
  What the configuration accepts the clients accept. For a gRPC upstream of an accepted
  configuration, building the client fails only on its certificate files; in production, building the
  client of an HTTP upstream fails only on its base URL or its certificate files, never for sending
  credentials without TLS.
\<close>

theorem accepted_upstreams_built:
  assumes "Validate visit c = None"
  shows "((name, up) \<in> set (obGRPC (cfgOutbound c)) \<longrightarrow> Dial files (clientConfig name up) = transportCredentials files (ccTLS (clientConfig name up)))
    \<and> ((hname, hup) \<in> set (obHTTP (cfgOutbound c)) \<and> production c \<longrightarrow>
        NewHTTPClient files env hup = firstError [reject (\<not> oeParseBase env (huBaseURL hup)) (''parse outbound HTTP base URL '' @ goQuote (huBaseURL hup)),
          httpTransport files (huTLS hup)])"
proof (intro conjI impI)
  have out: "validateOutbound c = None" using assms by (simp add: Validate_None)
  { assume up: "(name, up) \<in> set (obGRPC (cfgOutbound c))"
    then have "validateGRPCUpstream (production c) name up = None" using out by (auto simp: validateOutbound_def list_all_iff)
    then have ok: "guTarget up \<noteq> []" "0 < guTimeout up" "validateClientPolicy name (guAuth up) (guRetry up) (guBreaker up) (guTLS up) (production c) = None"
      by (auto simp: validateGRPCUpstream_def)
    then have tls: "caType (guAuth up) \<noteq> [] \<longrightarrow> ctEnabled (guTLS up) \<or> ctAllowInsecure (guTLS up)" by (auto simp: validateClientPolicy_def)
    show "Dial files (clientConfig name up) = transportCredentials files (ccTLS (clientConfig name up))"
      using ok(1,2) tls by (auto simp: Dial_def clientConfig_def Let_def firstError.simps reject_def split: option.splits) }
  { assume "(hname, hup) \<in> set (obHTTP (cfgOutbound c)) \<and> production c"
    then have "HttpUpstreamSafe hup" using validateOutbound_safe(1) [OF out] by blast
    then show "NewHTTPClient files env hup = firstError [reject (\<not> oeParseBase env (huBaseURL hup)) (''parse outbound HTTP base URL '' @ goQuote (huBaseURL hup)),
        httpTransport files (huTLS hup)]"
      by (auto simp: NewHTTPClient_def HttpUpstreamSafe_def firstError.simps reject_def) }
qed

theorem accepted_upstreams_built_witness:
  "Dial \<lparr>ctfReadFile = (\<lambda>f. Inr f), ctfAppendPEM = (\<lambda>p. True), ctfLoadPair = (\<lambda>c k. Inr ())\<rparr>
     (clientConfig ''authorization'' (snd (hd (obGRPC (cfgOutbound productionConfig))))) = None"
proof -
  have m: "(''authorization'', snd (hd (obGRPC (cfgOutbound productionConfig)))) \<in> set (obGRPC (cfgOutbound productionConfig))"
    by (simp add: productionConfig_def)
  show ?thesis
    using accepted_upstreams_built [OF productionConfig_ok, of "''authorization''" "snd (hd (obGRPC (cfgOutbound productionConfig)))"
        "\<lparr>ctfReadFile = (\<lambda>f. Inr f), ctfAppendPEM = (\<lambda>p. True), ctfLoadPair = (\<lambda>c k. Inr ())\<rparr>"] m
    by (simp add: transportCredentials_def checkCA_def checkPair_def clientConfig_def productionConfig_def Let_def)
qed

end
