(* ===== verification/Wiring.thy ===== *)
theory Wiring
  imports Outbound_Props Retention
begin

text \<open>
  How the program is put together: the constructors of \<open>internal/app/workflow.go\<close>, the start of the
  event runtime in \<open>workflow_eventbus.go\<close>, the Temporal client of \<open>workflowruntime/temporal.go\<close> and
  the constructors they call. A component stands for whether it is there; a nil pointer and an error
  are different results. Connecting to other systems and the constructors of the platform library
  are parameters. The container builds the components in an order of its own, which decides which of
  several errors is reported and not whether there is one.

  Not modelled: the loops the event runtime starts, which only call the platform library, and stopping.
\<close>

section \<open>Constructors\<close>

text \<open>What connecting and the constructors of other packages return.\<close>

record resources =
  rsDatabase :: "unit result"
  rsOutboxStore :: "unit result"
  rsEventBus :: "unit result"
  rsInvoker :: "unit result"
  rsDial :: "unit result"
  rsDispatcher :: "unit result"
  rsOutboxCleaner :: "unit result"

definition present :: "unit result \<Rightarrow> bool result" where
  "present r = bindR r (\<lambda>_. Inr True)"

definition newDatabase :: "resources \<Rightarrow> Config \<Rightarrow> bool result" where
  "newDatabase res cfg = (if \<not> dbcEnabled (cfgDatabase cfg) then Inr False else present (rsDatabase res))"

definition eventbus_New :: "resources \<Rightarrow> Config \<Rightarrow> bool result" where
  "eventbus_New res cfg = (if \<not> ebEnabled (cfgEventBus cfg) then Inr False else present (rsEventBus res))"

definition newWorkflowOutboxStore :: "resources \<Rightarrow> bool \<Rightarrow> bool result" where
  "newWorkflowOutboxStore res db = (if \<not> db then Inr False else present (rsOutboxStore res))"

definition NewRepository :: "bool \<Rightarrow> bool \<Rightarrow> bool \<Rightarrow> bool result" where
  "NewRepository db outbox events =
     (if \<not> db \<or> \<not> outbox \<or> \<not> events
      then Inl (Opaque ''workflow database, transactional outbox, and event factory are required'') else Inr True)"

text \<open>
  A pointer passed as an interface value is never a nil interface, even when the pointer is nil: the
  check of \<open>NewRepository\<close> on the store, of \<open>NewService\<close> on the store and the resolver and of
  \<open>NewActivities\<close> on both arguments sees a value.
\<close>

definition newWorkflowRepository :: "bool \<Rightarrow> bool result" where
  "newWorkflowRepository db = (if \<not> db then Inr False else NewRepository db True True)"

definition newDynamicGRPCInvoker :: "resources \<Rightarrow> Config \<Rightarrow> bool result" where
  "newDynamicGRPCInvoker res cfg = (if \<not> tpEnabled (cfgTemporal cfg) then Inr False else present (rsInvoker res))"

definition NewActivities :: "bool \<Rightarrow> bool \<Rightarrow> bool result" where
  "NewActivities store invoker =
     (if \<not> store \<or> \<not> invoker then Inl (Opaque ''workflow runtime store and dynamic gRPC invoker are required'') else Inr True)"

definition newWorkflowActivities :: "Config \<Rightarrow> bool result" where
  "newWorkflowActivities cfg = (if \<not> tpEnabled (cfgTemporal cfg) then Inr False else NewActivities True True)"

definition workflowauth_New :: "bool \<Rightarrow> bool result" where
  "workflowauth_New client = (if \<not> client then Inl (Opaque ''authorization client is required'') else Inr True)"

definition newWorkflowAssignmentResolver :: "bool \<Rightarrow> Registry \<Rightarrow> bool result" where
  "newWorkflowAssignmentResolver repository registry =
     (if \<not> repository then Inr False
      else if Registry_GRPC registry ''authorization'' = None
      then Inl (Opaque ''workflow service requires outbound.grpc.authorization'')
      else workflowauth_New True)"

definition newApplicationVerifier :: "bool \<Rightarrow> Registry \<Rightarrow> bool result" where
  "newApplicationVerifier repository registry =
     (if \<not> repository then Inr False
      else if Registry_GRPC registry ''application'' = None
      then Inl (Opaque ''workflow service requires outbound.grpc.application'')
      else Inr True)"

definition NewService :: "bool \<Rightarrow> bool \<Rightarrow> bool \<Rightarrow> bool result" where
  "NewService store assignments applications =
     (if \<not> store \<or> \<not> assignments \<or> \<not> applications
      then Inl (Opaque ''workflow store, assignment resolver, and application verifier are required'') else Inr True)"

definition newWorkflowService :: "bool \<Rightarrow> bool \<Rightarrow> bool result" where
  "newWorkflowService repository applications = (if \<not> repository then Inr False else NewService True True applications)"

section \<open>The Temporal client\<close>

definition temporalTLS :: "certificates \<Rightarrow> ClientTls \<Rightarrow> goerr option" where
  "temporalTLS files cfg =
     (if \<not> ctEnabled cfg then None
      else firstError
        [if ctCAFile cfg = [] then None
         else (case ctfReadFile files (ctCAFile cfg) of
           Inl err \<Rightarrow> Some (Wrapf ''read Temporal CA: '' err [])
         | Inr pem \<Rightarrow> reject (\<not> ctfAppendPEM files pem) ''temporal CA file contains no certificates''),
         if ctCertFile cfg = [] then None
         else (case ctfLoadPair files (ctCertFile cfg) (ctKeyFile cfg) of
           Inl err \<Rightarrow> Some (Wrapf ''load Temporal client certificate: '' err [])
         | Inr _ \<Rightarrow> None)])"

text \<open>\<open>NewRuntime\<close>: whether the runtime it returns has a client.\<close>

definition NewRuntime :: "certificates \<Rightarrow> resources \<Rightarrow> Config \<Rightarrow> bool result" where
  "NewRuntime files res cfg =
     (if \<not> tpEnabled (cfgTemporal cfg) then Inr False
      else case temporalTLS files (tpTLS (cfgTemporal cfg)) of
        Some err \<Rightarrow> Inl err
      | None \<Rightarrow> (case rsDial res of Inl err \<Rightarrow> Inl (Wrapf ''connect Temporal: '' err []) | Inr _ \<Rightarrow> Inr True))"

definition NewCommandHandler :: "bool \<Rightarrow> string \<Rightarrow> bool result" where
  "NewCommandHandler client taskQueue =
     (if \<not> client \<or> taskQueue = [] then Inl (Opaque ''enabled Temporal runtime and task queue are required'') else Inr True)"

section \<open>Starting\<close>

text \<open>\<open>workflowEventRuntime.start\<close>: the loops it starts.\<close>

datatype eventLoop =
    DispatchLoop
  | CleanupLoop
  | ConsumeLoop

definition eventRuntime_start :: "resources \<Rightarrow> Config \<Rightarrow> bool \<Rightarrow> bool \<Rightarrow> bool \<Rightarrow> eventLoop list result" where
  "eventRuntime_start res cfg store bus client =
     (if \<not> ebEnabled (cfgEventBus cfg) then Inr []
      else if \<not> store \<or> \<not> bus then Inl (Opaque ''enabled workflow event bus requires database outbox and JetStream'')
      else bindR (rsDispatcher res) (\<lambda>_. bindR (rsOutboxCleaner res) (\<lambda>_.
        if tpEnabled (cfgTemporal cfg)
        then bindR (NewCommandHandler client (tpTaskQueue (cfgTemporal cfg))) (\<lambda>_. Inr [DispatchLoop, CleanupLoop, ConsumeLoop])
        else Inr [DispatchLoop, CleanupLoop])))"

text \<open>What the workflow module has put together.\<close>

record wired =
  wdService :: bool
  wdActivities :: bool
  wdLoops :: "eventLoop list"
  wdCleaner :: RetentionCleaner

definition startWorkflow :: "certificates \<Rightarrow> resources \<Rightarrow> Config \<Rightarrow> Registry \<Rightarrow> wired result" where
  "startWorkflow files res cfg registry =
     bindR (newDatabase res cfg) (\<lambda>db.
     bindR (eventbus_New res cfg) (\<lambda>bus.
     bindR (newWorkflowOutboxStore res db) (\<lambda>store.
     bindR (newWorkflowRepository db) (\<lambda>repository.
     bindR (newWorkflowAssignmentResolver repository registry) (\<lambda>resolver.
     bindR (newApplicationVerifier repository registry) (\<lambda>applications.
     bindR (newWorkflowService repository applications) (\<lambda>service.
     bindR (newDynamicGRPCInvoker res cfg) (\<lambda>invoker.
     bindR (newWorkflowActivities cfg) (\<lambda>activities.
     bindR (NewRuntime files res cfg) (\<lambda>client.
     bindR (eventRuntime_start res cfg store bus client) (\<lambda>loops.
       Inr \<lparr>wdService = service, wdActivities = activities, wdLoops = loops,
            wdCleaner = newRetentionCleaner (rtTaskHistory (cfgRetention cfg)) (rtCleanupInterval (cfgRetention cfg))
              (rtCleanupBatchSize (cfgRetention cfg)) (dbcEnabled (cfgDatabase cfg))\<rparr>)))))))))))"

section \<open>The registry holds every upstream\<close>

lemma mapGet_mapSet_distinct:
  assumes "name \<notin> set (map fst rest)"
  shows "grpcClients files rest m = Inr m' \<Longrightarrow> mapGet m' name = mapGet m name"
  using assms by (induction files rest m rule: grpcClients.induct) (auto split: option.splits simp: mapGet_mapSet)

lemma grpcClients_all:
  assumes "distinct (map fst ups)" and "grpcClients files ups m = Inr m'"
  shows "mapGet ups name = Some up \<Longrightarrow> mapGet m' name = Some (clientConfig name up)"
    and "mapGet ups name = None \<Longrightarrow> mapGet m' name = mapGet m name"
  using assms
  by (induction files ups m rule: grpcClients.induct) (auto split: option.splits if_splits simp: mapGet_mapSet mapGet_mapSet_distinct)

lemma registry_holds:
  assumes "distinct (map fst (obGRPC (cfgOutbound c)))" and "NewRegistry files env c = Inr registry"
  shows "Registry_GRPC registry name = None \<longleftrightarrow> mapGet (obGRPC (cfgOutbound c)) name = None"
proof -
  obtain m where "grpcClients files (obGRPC (cfgOutbound c)) [] = Inr m" "rgGRPC registry = m"
    using assms(2) by (auto simp: NewRegistry_def bindR_Inr_iff)
  then show ?thesis using grpcClients_all [OF assms(1), of files "[]" m name] by (cases "mapGet (obGRPC (cfgOutbound c)) name") (auto simp: Registry_GRPC_def)
qed

section \<open>Which accepted configurations start\<close>

text \<open>Every other system is there.\<close>

definition available :: "resources \<Rightarrow> bool" where
  "available res \<longleftrightarrow> list_all isOk [rsDatabase res, rsOutboxStore res, rsEventBus res, rsInvoker res, rsDial res, rsDispatcher res, rsOutboxCleaner res]"

text \<open>What an accepted configuration guarantees of the settings the constructors read.\<close>

lemma accepted_settings:
  assumes "Validate visit c = None"
  shows "dbcEnabled (cfgDatabase c) \<Longrightarrow> mapGet (obGRPC (cfgOutbound c)) ''application'' \<noteq> None"
    and "production c \<Longrightarrow> mapGet (obGRPC (cfgOutbound c)) ''authorization'' \<noteq> None"
    and "tpEnabled (cfgTemporal c) \<Longrightarrow> dbcEnabled (cfgDatabase c) \<and> ebEnabled (cfgEventBus c) \<and> tpTaskQueue (cfgTemporal c) \<noteq> []"
    and "0 < rtTaskHistory (cfgRetention c) \<and> 0 < rtCleanupInterval (cfgRetention c) \<and> 0 < rtCleanupBatchSize (cfgRetention c)"
  using assms by (auto simp: Validate_None validateAuth_def validateEngines_def Let_def)

lemmas constructor_defs = newDatabase_def eventbus_New_def newWorkflowOutboxStore_def newWorkflowRepository_def NewRepository_def
  newWorkflowAssignmentResolver_def workflowauth_New_def newApplicationVerifier_def newWorkflowService_def NewService_def newDynamicGRPCInvoker_def
  newWorkflowActivities_def NewActivities_def NewRuntime_def NewCommandHandler_def present_def

text \<open>
  C40: which accepted configurations the workflow module starts with, once every other system can be
  reached and the certificate files can be read: exactly those that name an authorization service
  when there is a database, and have a database when there is an event bus. In production the first
  always holds. When it starts, the service is there if there is a database, the activities and the
  consumer of commands if Temporal is enabled, the outbox is dispatched if there is an event bus, and
  the cleaner of the task history runs with the configured settings.
\<close>

theorem accepted_config_starts:
  assumes "Validate visit c = None" and "distinct (map fst (obGRPC (cfgOutbound c)))" and "NewRegistry files env c = Inr registry"
    and "available res" and "temporalTLS files (tpTLS (cfgTemporal c)) = None"
  shows "isOk (startWorkflow files res c registry) =
      ((dbcEnabled (cfgDatabase c) \<longrightarrow> production c \<or> mapGet (obGRPC (cfgOutbound c)) ''authorization'' \<noteq> None)
       \<and> (ebEnabled (cfgEventBus c) \<longrightarrow> dbcEnabled (cfgDatabase c)))
    \<and> (\<forall>w. startWorkflow files res c registry = Inr w \<longrightarrow> wdService w = dbcEnabled (cfgDatabase c) \<and> wdActivities w = tpEnabled (cfgTemporal c)
        \<and> (DispatchLoop \<in> set (wdLoops w) \<longleftrightarrow> ebEnabled (cfgEventBus c)) \<and> (ConsumeLoop \<in> set (wdLoops w) \<longleftrightarrow> tpEnabled (cfgTemporal c))
        \<and> wdCleaner w = \<lparr>rcRetention = rtTaskHistory (cfgRetention c), rcInterval = rtCleanupInterval (cfgRetention c),
            rcBatchSize = rtCleanupBatchSize (cfgRetention c), rcEnabled = dbcEnabled (cfgDatabase c)\<rparr>)"
proof -
  have up: "rsDatabase res = Inr ()" "rsOutboxStore res = Inr ()" "rsEventBus res = Inr ()" "rsInvoker res = Inr ()" "rsDial res = Inr ()"
      "rsDispatcher res = Inr ()" "rsOutboxCleaner res = Inr ()"
    using assms(4) by (simp_all add: available_def isOk_iff)
  note accepted = accepted_settings [OF assms(1)] registry_holds [OF assms(2,3)]
  show ?thesis
    using accepted(1-3) accepted(4) unfolding startWorkflow_def constructor_defs eventRuntime_start_def newRetentionCleaner_def up assms(5) accepted(5)
    by (cases "dbcEnabled (cfgDatabase c)"; cases "ebEnabled (cfgEventBus c)"; cases "tpEnabled (cfgTemporal c)"; cases "production c";
        cases "mapGet (obGRPC (cfgOutbound c)) ''authorization''") (simp_all add: isOk_iff)
qed

definition sampleResources :: resources where
  "sampleResources = \<lparr>rsDatabase = Inr (), rsOutboxStore = Inr (), rsEventBus = Inr (), rsInvoker = Inr (), rsDial = Inr (), rsDispatcher = Inr (), rsOutboxCleaner = Inr ()\<rparr>"

text \<open>The defaults with an event bus, and the defaults with a database and its application service.\<close>

definition busConfig :: Config where
  "busConfig = defaultConfig\<lparr>cfgEventBus := (cfgEventBus defaultConfig)\<lparr>ebEnabled := True\<rparr>\<rparr>"

definition storeConfig :: Config where
  "storeConfig = defaultConfig\<lparr>cfgDatabase := (cfgDatabase defaultConfig)\<lparr>dbcEnabled := True, dbcDSN := ''postgres://db''\<rparr>,
     cfgOutbound := \<lparr>obHTTP = [], obGRPC = [(''application'', snd (hd (obGRPC (cfgOutbound productionConfig))))]\<rparr>\<rparr>"

lemma busConfig_ok: "Validate visit busConfig = None"
  by (simp add: Validate_None stage_defs default_values production_def busConfig_def eventBusIncomplete_def)

lemma storeConfig_ok: "Validate visit storeConfig = None"
  by (simp add: Validate_None stage_defs default_values production_def storeConfig_def productionConfig_def validateGRPCUpstream_def validateClientPolicy_def isDBType_def)

lemma sample_registry: "isOk (NewRegistry sampleFiles sampleEnv storeConfig)" "isOk (NewRegistry sampleFiles sampleEnv busConfig)"
    "isOk (NewRegistry sampleFiles sampleEnv productionConfig)"
  by (simp_all add: NewRegistry_def storeConfig_def busConfig_def productionConfig_def default_values sampleFiles_def Dial_def clientConfig_def
      transportCredentials_def checkCA_def checkPair_def isOk_def firstError.simps reject_def)

theorem accepted_config_starts_witness:
  "\<exists>registry. NewRegistry sampleFiles sampleEnv productionConfig = Inr registry \<and> isOk (startWorkflow sampleFiles sampleResources productionConfig registry)"
proof -
  obtain registry where registry: "NewRegistry sampleFiles sampleEnv productionConfig = Inr registry"
    using sample_registry(3) by (auto simp: isOk_iff)
  have settings: "distinct (map fst (obGRPC (cfgOutbound productionConfig)))" "available sampleResources"
      "temporalTLS sampleFiles (tpTLS (cfgTemporal productionConfig)) = None" "\<not> dbcEnabled (cfgDatabase productionConfig)" "\<not> ebEnabled (cfgEventBus productionConfig)"
    by (simp_all add: productionConfig_def default_values available_def sampleResources_def isOk_def temporalTLS_def)
  show ?thesis using accepted_config_starts [OF productionConfig_ok settings(1) registry settings(2,3)] registry settings(4,5) by blast
qed

section \<open>Accepted and refused\<close>

text \<open>
  Two accepted configurations the program does not start with: a database without an authorization
  service outside of production, and an event bus without a database.
\<close>

lemma accepted_without_authorization:
  assumes "NewRegistry sampleFiles sampleEnv storeConfig = Inr registry"
  shows "Validate visit storeConfig = None \<and> startWorkflow sampleFiles sampleResources storeConfig registry
    = Inl (Opaque ''workflow service requires outbound.grpc.authorization'')"
proof -
  have "Registry_GRPC registry ''authorization'' = None"
    using registry_holds [OF _ assms, of "''authorization''"] by (simp add: storeConfig_def)
  then have "startWorkflow sampleFiles sampleResources storeConfig registry = Inl (Opaque ''workflow service requires outbound.grpc.authorization'')"
    by (simp add: startWorkflow_def constructor_defs sampleResources_def storeConfig_def default_values)
  then show ?thesis using storeConfig_ok by blast
qed

lemma accepted_without_database:
  "Validate visit busConfig = None \<and> startWorkflow sampleFiles sampleResources busConfig registry
    = Inl (Opaque ''enabled workflow event bus requires database outbox and JetStream'')"
proof
  show "Validate visit busConfig = None" by (rule busConfig_ok)
  show "startWorkflow sampleFiles sampleResources busConfig registry = Inl (Opaque ''enabled workflow event bus requires database outbox and JetStream'')"
    by (simp add: startWorkflow_def constructor_defs eventRuntime_start_def sampleResources_def busConfig_def default_values)
qed

text \<open>An HTTP upstream with credentials that is accepted outside of production and cannot be built.\<close>

lemma accepted_insecure_upstream:
  "validateHTTPUpstream False ''u'' (sampleUpstream\<lparr>huTLS := (huTLS sampleUpstream)\<lparr>ctEnabled := False, ctAllowInsecure := True\<rparr>\<rparr>) = None
   \<and> NewHTTPClient sampleFiles sampleEnv (sampleUpstream\<lparr>huTLS := (huTLS sampleUpstream)\<lparr>ctEnabled := False, ctAllowInsecure := True\<rparr>\<rparr>) \<noteq> None"
  by (simp add: validateHTTPUpstream_def validateClientPolicy_def NewHTTPClient_def sampleUpstream_def samplePolicy_def firstError.simps(2) reject_def seconds_def)

end
