(* ===== verification/Stores.thy ===== *)
theory Stores
  imports Migration Wiring
begin

text \<open>
  Redis and the stores of the program: \<open>internal/cache/redis.go\<close> and the constructors of
  \<open>internal/app/app.go\<close>, with the order in which the container runs them. The Redis client and the
  locks of \<open>redsync\<close> are parameters, with the state they share as a type of its own.

  The service itself takes no lock; the locks are offered to later code.
\<close>

section \<open>Locks\<close>

record Mutex =
  mxName :: string
  mxExpiry :: duration
  mxTries :: "int option"
  mxRetryDelay :: "duration option"

text \<open>\<open>rdContext\<close> is the error of the context after waiting, \<open>rdContention\<close> whether an error is one of \<open>ErrFailed\<close> and \<open>ErrTaken\<close>.\<close>

record 's redsync =
  rdTryLock :: "Mutex \<Rightarrow> 's \<Rightarrow> goerr option \<times> 's"
  rdLock :: "Mutex \<Rightarrow> 's \<Rightarrow> goerr option \<times> 's"
  rdContext :: "'s \<Rightarrow> goerr option"
  rdContention :: "goerr \<Rightarrow> bool"
  rdExtend :: "Mutex \<Rightarrow> 's \<Rightarrow> bool result \<times> 's"
  rdUnlock :: "Mutex \<Rightarrow> 's \<Rightarrow> bool result \<times> 's"

definition newMutex :: "string \<Rightarrow> duration \<Rightarrow> Mutex \<Rightarrow> Mutex result" where
  "newMutex key ttl options =
     (if key = [] then Inl (Opaque ''lock key must not be empty'')
      else if ttl \<le> 0 then Inl (Opaque ''lock ttl must be positive'')
      else Inr (options\<lparr>mxName := ''lock:'' @ key, mxExpiry := ttl\<rparr>))"

definition noOptions :: Mutex where
  "noOptions = \<lparr>mxName = [], mxExpiry = 0, mxTries = None, mxRetryDelay = None\<rparr>"

text \<open>\<open>None\<close> is a lock that somebody else holds.\<close>

definition TryLock :: "'s redsync \<Rightarrow> string \<Rightarrow> duration \<Rightarrow> 's \<Rightarrow> Mutex option result \<times> 's" where
  "TryLock rd key ttl s =
     (case newMutex key ttl (noOptions\<lparr>mxTries := Some 1\<rparr>) of
        Inl e \<Rightarrow> (Inl e, s)
      | Inr m \<Rightarrow>
          (case rdTryLock rd m s of
             (None, s') \<Rightarrow> (Inr (Some m), s')
           | (Some e, s') \<Rightarrow>
               if rdContention rd e then (Inr None, s')
               else (Inl (Wrapf (''try redis lock '' @ goQuote key @ '': '') e []), s')))"

definition Lock :: "'s redsync \<Rightarrow> string \<Rightarrow> duration \<Rightarrow> duration \<Rightarrow> 's \<Rightarrow> Mutex result \<times> 's" where
  "Lock rd key ttl delay s =
     (if delay \<le> 0 then (Inl (Opaque ''lock retry delay must be positive''), s)
      else case newMutex key ttl (noOptions\<lparr>mxRetryDelay := Some delay\<rparr>) of
          Inl e \<Rightarrow> (Inl e, s)
        | Inr m \<Rightarrow>
            (case rdLock rd m s of
               (None, s') \<Rightarrow> (Inr m, s')
             | (Some e, s') \<Rightarrow>
                 (case rdContext rd s' of
                    Some ctxErr \<Rightarrow> (Inl (Wrapf (''wait for redis lock '' @ goQuote key @ '': '') ctxErr []), s')
                  | None \<Rightarrow> (Inl (Wrapf (''acquire redis lock '' @ goQuote key @ '': '') e []), s'))))"

text \<open>\<open>Extend\<close> and \<open>Unlock\<close> differ in the operation and in the text.\<close>

definition owned :: "string \<Rightarrow> Mutex \<Rightarrow> bool result \<times> 's \<Rightarrow> goerr option \<times> 's" where
  "owned text m r =
     (case r of
        (Inl e, s') \<Rightarrow> (Some (Wrapf (text @ '' redis lock '' @ goQuote (mxName m) @ '': '') e []), s')
      | (Inr ok, s') \<Rightarrow>
          (if ok then None else Some (Opaque (text @ '' redis lock '' @ goQuote (mxName m) @ '': lock is no longer owned'')), s'))"

definition Extend :: "'s redsync \<Rightarrow> Mutex \<Rightarrow> 's \<Rightarrow> goerr option \<times> 's" where
  "Extend rd m s = owned ''extend'' m (rdExtend rd m s)"

definition Unlock :: "'s redsync \<Rightarrow> Mutex \<Rightarrow> 's \<Rightarrow> goerr option \<times> 's" where
  "Unlock rd m s = owned ''release'' m (rdUnlock rd m s)"

text \<open>Arguments that are refused never reach Redis, and different keys are different locks.\<close>

lemma TryLock_refused: "key = [] \<or> ttl \<le> 0 \<Longrightarrow> \<exists>e. TryLock rd key ttl s = (Inl e, s)"
  by (auto simp: TryLock_def newMutex_def)

lemma Lock_refused: "key = [] \<or> ttl \<le> 0 \<or> delay \<le> 0 \<Longrightarrow> \<exists>e. Lock rd key ttl delay s = (Inl e, s)"
  by (auto simp: Lock_def newMutex_def)

lemma newMutex_name: "newMutex key ttl o1 = Inr m \<Longrightarrow> newMutex key' ttl' o2 = Inr m' \<Longrightarrow> mxName m = mxName m' \<longleftrightarrow> key = key'"
  by (auto simp: newMutex_def split: if_splits)

section \<open>Constructors\<close>

record redisServer =
  rvPing :: "RedisConfig \<Rightarrow> unit result"
  rvInstrument :: "RedisConfig \<Rightarrow> unit result"

text \<open>\<open>cache.Open\<close>; a client stands for the settings it was made from.\<close>

definition cache_Open :: "redisServer \<Rightarrow> RedisConfig \<Rightarrow> RedisConfig result \<times> lifetime list" where
  "cache_Open rv cfg =
     (case rvPing rv cfg of
        Inl e \<Rightarrow> (Inl (Wrapf ''ping redis: '' e []), [Opened RedisClient, Closed RedisClient])
      | Inr _ \<Rightarrow> (Inr cfg, [Opened RedisClient]))"

definition newRedis :: "redisServer \<Rightarrow> Config \<Rightarrow> RedisConfig option result \<times> lifetime list" where
  "newRedis rv cfg =
     (if \<not> redisEnabled (cfgRedis cfg) then (Inr None, [])
      else case cache_Open rv (cfgRedis cfg) of
          (Inl e, tr) \<Rightarrow> (Inl e, tr)
        | (Inr client, tr) \<Rightarrow>
            (case if obsTracingEnabled (cfgObservability cfg) then rvInstrument rv client else Inr () of
               Inl e \<Rightarrow> (Inl (Wrapf ''instrument redis tracing: '' e []), tr @ [Closed RedisClient])
             | Inr _ \<Rightarrow> (Inr (Some client), tr @ [StopHook RedisClient])))"

definition newLocker :: "'s redsync \<Rightarrow> RedisConfig option \<Rightarrow> 's redsync option" where
  "newLocker rd client = (case client of None \<Rightarrow> None | Some _ \<Rightarrow> Some rd)"

definition app_newDatabase :: "drivers \<Rightarrow> Config \<Rightarrow> pool option result \<times> lifetime list" where
  "app_newDatabase dr cfg =
     (if \<not> dbcEnabled (cfgDatabase cfg) then (Inr None, [])
      else case Open dr (cfgDatabase cfg) of
          (Inl e, tr) \<Rightarrow> (Inl e, tr)
        | (Inr db, tr) \<Rightarrow> (Inr (Some db), tr @ [StopHook DatabasePool]))"

text \<open>
  The container runs the functions it was asked to invoke in the order of the modules, and builds for
  each what it needs: the migration needs no connection, the modules of the database and the cache
  build one each. An error ends the start.
\<close>

definition startStores :: "migrationEnv \<Rightarrow> drivers \<Rightarrow> redisServer \<Rightarrow> Config \<Rightarrow> (pool option \<times> RedisConfig option) result \<times> calls \<times> lifetime list" where
  "startStores env dr rv cfg =
     (case runStartupMigration env cfg of
        (Some e, tr) \<Rightarrow> (Inl e, tr, [])
      | (None, tr) \<Rightarrow>
          (case app_newDatabase dr cfg of
             (Inl e, ev) \<Rightarrow> (Inl e, tr, ev)
           | (Inr db, ev) \<Rightarrow>
               (case newRedis rv cfg of
                  (Inl e, ev') \<Rightarrow> (Inl e, tr, ev @ ev')
                | (Inr client, ev') \<Rightarrow> (Inr (db, client), tr, ev @ ev'))))"

section \<open>Starting\<close>

definition released :: "lifetime list \<Rightarrow> bool" where
  "released ev \<longleftrightarrow> (\<forall>x. Opened x \<in> set ev \<longrightarrow> Closed x \<in> set ev \<or> StopHook x \<in> set ev)"

lemma released_append: "released a \<Longrightarrow> released b \<Longrightarrow> released (a @ b)"
  by (auto simp: released_def)

lemma app_newDatabase_facts:
  assumes "app_newDatabase dr cfg = (r, ev)"
  shows "released ev" and "r = Inr db \<Longrightarrow> (db = None \<longleftrightarrow> \<not> dbcEnabled (cfgDatabase cfg)) \<and> (\<forall>x. Closed x \<notin> set ev)"
    and "r = Inr (Some p) \<Longrightarrow> fst (Open dr (cfgDatabase cfg)) = Inr p"
  using assms by (auto simp: app_newDatabase_def Open_def Let_def released_def split: if_splits sum.splits prod.splits)

lemma newRedis_facts:
  assumes "newRedis rv cfg = (r, ev)"
  shows "released ev" and "r = Inr client \<Longrightarrow> (client = None \<longleftrightarrow> \<not> redisEnabled (cfgRedis cfg)) \<and> (\<forall>x. Closed x \<notin> set ev)"
  using assms by (auto simp: newRedis_def cache_Open_def released_def split: if_splits sum.splits prod.splits)

text \<open>The constructor without the details, as the rest of the wiring uses it, is the abstraction of this one.\<close>

lemma newDatabase_refines:
  assumes "rsDatabase res = bindR (fst (Open dr (cfgDatabase cfg))) (\<lambda>_. Inr ())"
  shows "newDatabase res cfg = bindR (fst (app_newDatabase dr cfg)) (\<lambda>db. Inr (db \<noteq> None))"
  using assms by (auto simp: newDatabase_def app_newDatabase_def present_def split: sum.splits prod.splits)

text \<open>
  Starting the stores. Nothing is opened unless the migration at start-up succeeded. Whatever a
  constructor opened is closed again or handed to the container for closing, also when a later step
  fails. A start that succeeds has a connection to the database exactly when it is enabled, leading to
  the configured database and schema, and one to Redis exactly when that is, and has closed neither.
\<close>

theorem stores_started:
  assumes "startStores env dr rv cfg = (r, tr, ev)"
  shows "(ev \<noteq> [] \<longrightarrow> runStartupMigration env cfg = (None, tr)) \<and> released ev
    \<and> (\<forall>db client. r = Inr (db, client) \<longrightarrow>
        (db = None \<longleftrightarrow> \<not> dbcEnabled (cfgDatabase cfg)) \<and> (client = None \<longleftrightarrow> \<not> redisEnabled (cfgRedis cfg)) \<and> (\<forall>x. Closed x \<notin> set ev)
        \<and> (\<forall>p. db = Some p \<and> dbcName (cfgDatabase cfg) \<noteq> [] \<longrightarrow> leadsTo dr (dbcDSN (cfgDatabase cfg)) (poolConnector p) (dbcName (cfgDatabase cfg)) (dbcSchema (cfgDatabase cfg))))"
proof (cases "fst (runStartupMigration env cfg)")
  case None
  obtain rd evd where d: "app_newDatabase dr cfg = (rd, evd)" by fastforce
  obtain rc evc where c: "newRedis rv cfg = (rc, evc)" by fastforce
  have m: "runStartupMigration env cfg = (None, tr)" using assms None d c
    by (cases "runStartupMigration env cfg") (auto simp: startStores_def split: sum.splits)
  have parts: "ev = evd \<or> ev = evd @ evc" using assms None d c by (auto simp: startStores_def split: sum.splits prod.splits)
  then have "released ev" using app_newDatabase_facts(1) [OF d] newRedis_facts(1) [OF c] released_append by blast
  moreover have "(db = None \<longleftrightarrow> \<not> dbcEnabled (cfgDatabase cfg)) \<and> (client = None \<longleftrightarrow> \<not> redisEnabled (cfgRedis cfg)) \<and> (\<forall>x. Closed x \<notin> set ev)
      \<and> (\<forall>p. db = Some p \<and> dbcName (cfgDatabase cfg) \<noteq> [] \<longrightarrow> leadsTo dr (dbcDSN (cfgDatabase cfg)) (poolConnector p) (dbcName (cfgDatabase cfg)) (dbcSchema (cfgDatabase cfg)))"
    if "r = Inr (db, client)" for db client
  proof -
    have ok: "rd = Inr db" "rc = Inr client" using assms None d c that by (auto simp: startStores_def split: sum.splits prod.splits)
    show ?thesis using app_newDatabase_facts(2) [OF d ok(1)] newRedis_facts(2) [OF c ok(2)] parts app_newDatabase_facts(3) [OF d] ok(1) Open_leadsTo
      by fastforce
  qed
  ultimately show ?thesis using m by simp
next
  case (Some e)
  then have "ev = [] \<and> r = Inl e" using assms by (cases "runStartupMigration env cfg") (simp add: startStores_def)
  then show ?thesis by (simp add: released_def)
qed

definition sampleRedis :: redisServer where
  "sampleRedis = \<lparr>rvPing = (\<lambda>cfg. Inr ()), rvInstrument = (\<lambda>cfg. Inr ())\<rparr>"

theorem stores_started_witness:
  "\<exists>p. fst (startStores sampleMigrationEnv sampleDrivers sampleRedis migratedConfig) = Inr (Some p, None)
     \<and> leadsTo sampleDrivers ''dsn'' (poolConnector p) ''platform'' ''workflow''"
proof -
  obtain r tr ev where start: "startStores sampleMigrationEnv sampleDrivers sampleRedis migratedConfig = (r, tr, ev)" by (metis prod.collapse)
  have settings: "cfgMigration migratedConfig = sampleMigration" "dbcEnabled (cfgDatabase migratedConfig)" "dbcType (cfgDatabase migratedConfig) = ''postgres''"
      "dbcDSN (cfgDatabase migratedConfig) = ''dsn''" "dbcName (cfgDatabase migratedConfig) = ''platform''" "dbcSchema (cfgDatabase migratedConfig) = ''workflow''" "\<not> redisEnabled (cfgRedis migratedConfig)"
    by (simp_all add: migratedConfig_def default_values)
  have "\<exists>tr. runStartupMigration sampleMigrationEnv migratedConfig = (None, tr)"
    using sample_run [of "''up''"] by (cases "Run sampleMigrationEnv sampleMigration ''up'' 0") (simp add: runStartupMigration_def settings sampleMigration_def)
  then obtain p where r: "r = Inr (Some p, None)"
    using start by (auto simp: startStores_def app_newDatabase_def newRedis_def settings Open_def driverName_def connect_def sampleDrivers_def Let_def)
  then show ?thesis using stores_started [OF start] start settings by simp
qed

end
