(* ===== verification/Spec2Isabelle.thy ===== *)
theory Spec2Isabelle
  imports Guarantees Readback Idempotency Health Interceptors Interference Worker Server Stores
begin

text \<open>
  A verification development for \<open>workflow-service\<close>, a Go service that stores approval workflow
  definitions, validates and publishes them, starts instances, runs them on a durable execution
  engine and lets people act on the resulting tasks.

  \<^bold>\<open>The parts of the program and how they interact.\<close> A request enters over HTTP
  (\<open>internal/transport/http\<close>) or gRPC (\<open>internal/transport/grpc\<close>). The middleware or the interceptors
  identify the caller, ask for permission and apply rate limits and idempotency; the handler decodes
  the request and calls the service (\<open>internal/workflow/service.go\<close>). The service checks the caller
  against the tenant and, for tasks, against the assignment (\<open>internal/workflowauth\<close>), validates
  definitions (\<open>graph.go\<close>) and calls the repository (\<open>repository.go\<close>), which changes the tables and
  enqueues an event (\<open>internal/workflowevent\<close>) in the same transaction. Events reach the command
  handler (\<open>internal/workflowruntime/commands.go\<close>), which starts, cancels or signals a run on the
  engine. A run is the interpreter of \<open>workflow.go\<close>; it issues activities (\<open>activities.go\<close>) that
  create tasks, call other services through the outbound clients (\<open>internal/grpcclient\<close>,
  \<open>internal/outbound\<close>) and record the end of the instance. A cleaner (\<open>cleanup.go\<close>) deletes old task
  history. \<open>internal/config\<close> holds the settings; \<open>internal/app\<close> migrates the schema
  (\<open>internal/migration\<close>), opens the stores (\<open>internal/database\<close>, \<open>internal/cache\<close>) and puts everything
  together.

  \<^bold>\<open>Foundations.\<close>
  \<^item> \<open>Prelude\<close>: errors as values (a Go error with \<open>%w\<close> wrapping and \<open>errors.Is\<close>), results, Go maps as
    association lists, 64-bit wrap-around, tables updated by a condition.
  \<^item> \<open>Go_Strings\<close>, \<open>Go_Json\<close>, \<open>Path_Match\<close>, \<open>Mime\<close>: what the code uses of \<open>strings\<close>, \<open>strconv\<close>, \<open>regexp\<close>,
    \<open>encoding/json\<close>, \<open>path\<close> and \<open>mime\<close>, on byte strings, with UTF-8 where the library decodes it. \<open>Codec\<close>
    proves that the JSON of nodes and edges decodes to what was encoded.
  \<^item> \<open>World\<close>: the state. A \<open>world\<close> is the database as the running operation sees it, whether its
    transaction has committed, the clock, the source of identifiers, the fault each database call may
    meet and the number of remote calls made, which selects their answers. An operation of the program
    is a function from worlds to a result and a world; \<open>bindE\<close>, \<open>wrapE\<close>, \<open>guardE\<close> and \<open>inTx\<close> are the
    early return, the wrapped error, the guard and the transaction with its deferred rollback.

  \<^bold>\<open>Components.\<close> Definitions carry the names of the functions they translate; a record field has a
  prefix for its type. Where two packages use a name, the definition has the package's or the type's
  name first.
  \<^item> \<open>Model\<close> (\<open>model.go\<close>): the structs as records, constants, sentinel errors.
  \<^item> \<open>Graph\<close> (\<open>graph.go\<close>), \<open>Traversal\<close>, \<open>Graph_Spec\<close>, \<open>Graph_Props\<close>: validation of definitions; the
    declarative specification and the proof that the code decides exactly it.
  \<^item> \<open>Protocol\<close>, \<open>Events\<close> (\<open>workflowevent/factory.go\<close>): protobuf messages and events.
  \<^item> \<open>Sql\<close>, \<open>Repository\<close> (\<open>repository.go\<close> and the constraints of the migrations): statements as functions
    on tables, operations as transactions of them. \<open>Store_Order\<close>, \<open>Transactions\<close>, \<open>Store_Relations\<close>,
    \<open>Publishing\<close>: the interface \<open>store_order\<close>, a relation every statement respects, with its
    interpretations for keys, references, publication, statuses and the evolution of rows.
  \<^item> \<open>Assignments\<close> (\<open>workflowauth/resolver.go\<close>), \<open>Service\<close> (\<open>service.go\<close>), \<open>Service_Order\<close>: the operations
    of the service, and that a relation respected by the store is respected by the service.
  \<^item> \<open>Runtime\<close> (\<open>workflow.go\<close>), \<open>Runtime_Props\<close>, \<open>Activities\<close>, \<open>Commands\<close>, \<open>Retention\<close>: the interpreter
    as a function of the engine's answers that logs the commands it issues, the activities, the
    command handler and the cleaner. \<open>Worker\<close> (\<open>temporal.go\<close>): the registered activities, and a run
    whose commands the worker performs on the database.
  \<^item> \<open>Http\<close>, \<open>Grpc\<close>: the handlers of both transports, their messages and errors. \<open>Access\<close>, \<open>Middleware\<close>,
    \<open>Interceptors\<close>: tokens, shared keys, permissions, and what runs before a handler. \<open>Server\<close>
    (\<open>server.go\<close> and the rest of \<open>middleware.go\<close>): the routes and everything around a request.
  \<^item> \<open>Config\<close>, \<open>Loading\<close>, \<open>Outbound\<close>, \<open>Health\<close>, \<open>Wiring\<close>: settings, their validation and loading, the
    clients of other services and their registry, readiness, and the constructors of the program.
  \<^item> \<open>Database\<close>, \<open>Migration\<close>, \<open>Stores\<close>: opening the database and transactions on it, the migration of the
    schema with its command, Redis and its locks, and the order in which they start. A call to a driver
    is recorded with its outcome.

  \<^bold>\<open>What is shown.\<close>
  \<^item> Graphs: the validation accepts exactly the well-formed acyclic graphs; accepted graphs are
    connected (\<open>Graph_Props\<close>).
  \<^item> Runs: a run of an accepted definition never fails for the shape of its graph, asks for the conditions
    of edges in the order of priority and takes the first that matches, and on failure compensates the completed service tasks in reverse
    (\<open>Runtime_Props\<close>). A run that returns a result has recorded it, with a task for every approval it
    asked for, whatever ran in between (\<open>Worker\<close>).
  \<^item> Storage: \<open>System\<close> is the step relation of all requests, activities and clean-ups. In every
    reachable state keys, references, published revisions and statuses are consistent, rows only
    evolve in the intended ways, and one tenant's requests leave the rows of others alone
    (\<open>Guarantees\<close>). Completing a task and starting an instance are atomic (\<open>Atomicity\<close>), a task version
    is used once and only by an entitled caller (\<open>Operations\<close>), and a check that others overtake does
    no harm (\<open>Interference\<close>); retried activities have one effect
    (\<open>Retries\<close>), listings are complete (\<open>Listing\<close>), a created definition is read back (\<open>Readback\<close>).
  \<^item> Across components: a started instance reaches the engine with the published graph, and a completed
    task the run that waits for its signal, and no other node (\<open>Commands\<close>, \<open>Lifecycle\<close>).
  \<^item> Transports: who reaches a handler, that both transports require the same permissions, identify the
    same callers but for an empty bearer credential, have the same effects and how each answers an error,
    where they differ on cancelled and expired contexts (\<open>Transports\<close>, \<open>Interceptors\<close>), what the HTTP
    server exposes under an accepted configuration and how it answers a panic (\<open>Server\<close>), and that a
    repeated idempotent request is answered from the stored result while that is kept (\<open>Idempotency\<close>).
  \<^item> Settings: what a loaded configuration is (\<open>Loading\<close>), what an accepted production configuration
    excludes (\<open>Config_Props\<close>), that retries are bounded and what is sent
    again (\<open>Outbound_Props\<close>) and which accepted
    configurations start (\<open>Wiring\<close>).
  \<^item> Start: a migration run takes the step it was asked for, sends no statement that a schema name could
    break and ends what it began; the migration and the service use the same database name and schema, each
    on the server of its own setting (\<open>Migration\<close>); and nothing is opened before the migration or left open
    (\<open>Stores\<close>).

  \<^bold>\<open>Bounds and fuel.\<close> The JSON parser of \<open>Go_Json\<close> runs on fuel, twice the length of its input and two, which is
  shown to be enough: more fuel changes nothing. No other operation runs on fuel of the model's own. The interpreter counts down the
  bound \<open>len(nodes) + 1\<close> of the source; \<open>kahn\<close> and the loop over role pages are total by measures;
  \<open>clean\<close> is a partial function, shown to return. Retry loops count down the configured attempts.
  Versions, offsets and durations are integers with \<open>wrap64\<close> where the source computes in 64 bits and
  a result is used; revisions and page numbers are 32-bit words.

  \<^bold>\<open>Parameters.\<close> The engine, NATS, the outbox library, JWT and JWKS, the authorization and application
  services, Redis, the idempotency manager, circuit breakers, certificate files, viper, the database
  drivers, golang-migrate, the router of gin and the network are arguments of the definitions. What is assumed of them is written as a hypothesis of the theorem,
  with a witness that it can hold. SQL is modelled by its meaning on lists of rows; a transaction
  reads its own writes and is atomic.

  \<^bold>\<open>Not modelled.\<close> \<open>docs/docs.go\<close> is generated. Logging, metrics beyond the counted requests, tracing and
  build information have no effect on the rest. Of \<open>internal/app\<close> the container itself and the loops that
  only call the outbox library are left out, of the servers listening and stopping, of the Temporal
  worker its scheduling. A statement of SQL acts on the committed tables and those of its own
  transaction: transactions are interleaved as a whole, and with the checks that precede them in
  \<open>Interference\<close>; isolation anomalies of the database are out of scope.

  \<^bold>\<open>Where the model is coarser than the program.\<close>
  \<^item> Identifiers, tenants and keys are compared byte by byte, as PostgreSQL does; the MySQL migrations use the
    collation \<open>utf8mb4_unicode_ci\<close>, under which texts that differ in case are equal. The constraints of the
    tables are those of the PostgreSQL migrations; the MySQL ones have no \<open>CHECK\<close> on a status.
  \<^item> A \<open>COMMIT\<close> that reports an error did nothing. A server may also have committed when the connection
    breaks; then the caller is told of a failure of what took place.
  \<^item> A request is one step of \<open>System\<close>. \<open>Interference\<close> splits the task operations at the read before their
    transaction; the check of \<open>PublishDefinition\<close> before its transaction is not split.
  \<^item> Versions are unbounded integers, and \<open>json.Marshal\<close> of nodes and edges, whose types it always encodes, has
    no error branch. The loop over role pages ends with an error of the model's own when its 32-bit counter
    would wrap around, which a statement about it excludes.
  \<^item> The text of an error of the engine's library is its message; the library appends its type and whether it
    is retried. An error of starting the worker, and answers that gin has partly written before a panic or a
    broken connection, are left out.
\<close>

section \<open>Where the code departs from its messages\<close>

text \<open>The text \<open>null\<close> passes as a JSON object.\<close>

lemma null_accepted_as_object: "validJSONObject ''null'' = Inr ()"
  by code_simp

text \<open>Cancelling an instance leaves all tasks as they are.\<close>

lemma cancelled_instance_keeps_tasks:
  assumes "CancelInstance d ctx tn ap x ver reason actor w = (r, w')"
  shows "dbTasks (wDb w') = dbTasks (wDb w)"
  using CancelInstance_tx [OF assms] by (auto simp: cancelStmt_def updateInstances_def dest: addTxStmt_db)

end
